(* ===== verification/Prelude.thy ===== *)
theory Prelude
  imports Main "HOL-Library.Word" "HOL-Library.Sublist"
begin

text \<open>
  Shared vocabulary of the development: Go error values, the outcome of a Go call
  (normal return, error return, panic, process crash), the state-and-outcome combinators
  every component is written with, their laws, and the theorem collections the component
  proofs draw on.
\<close>

section \<open>Theorem collections\<close>

text \<open>
  \<open>go_run\<close> collects the equations that execute the combinators on a given world;
  \<open>issues_intro\<close> collects the rules saying which requests a piece of code can send;
  \<open>go_consts\<close> collects the definitions of the source's string constants;
  \<open>calm_intro\<close> collects the rules saying which code never panics.
\<close>

named_theorems go_run
named_theorems issues_intro
named_theorems go_consts
named_theorems calm_intro

section \<open>Errors\<close>

text \<open>
  \<open>error\<close> values the code creates or inspects.  API machinery status errors carry the
  reason that \<open>errors.IsNotFound\<close> and \<open>errors.IsAlreadyExists\<close> look at; the two
  package-level error variables of \<open>px.go\<close>, which are compared by identity, are
  constructors of their own.
\<close>

datatype status_reason = NotFound | AlreadyExists | BadRequest | OtherReason string

datatype goerror =
    ErrorString string
  | StatusError status_reason string
  | ErrTimedOut string
  | ErrUsingInternalEtcd
  | ErrNoPXDaemonset

fun errorText :: "goerror \<Rightarrow> string" where
  "errorText (ErrorString s) = s"
| "errorText (StatusError r s) = s"
| "errorText (ErrTimedOut s) =
     ''timed out performing task.'' @ (if s = [] then [] else '', Error was: '' @ s)"
| "errorText ErrUsingInternalEtcd = ''cluster is using internal etcd''"
| "errorText ErrNoPXDaemonset =
     ''Portworx daemonset not found on the cluster. Ensure you have '' @
     ''Portworx specs applied in the cluster before issuing this operation.''"

fun IsNotFound :: "goerror \<Rightarrow> bool" where
  "IsNotFound (StatusError r s) = (r = NotFound)"
| "IsNotFound e = False"

fun IsAlreadyExists :: "goerror \<Rightarrow> bool" where
  "IsAlreadyExists (StatusError r s) = (r = AlreadyExists)"
| "IsAlreadyExists e = False"

section \<open>Outcomes and the combinators\<close>

text \<open>
  A call ends in one of four ways.  \<open>Panic\<close> unwinds the calling goroutine, so deferred
  calls run; \<open>Crash\<close> is a panic in another goroutine, which ends the process without
  running the deferred calls of the main goroutine.
\<close>

datatype 'a outcome = Ok 'a | Err goerror | Panic string | Crash string

type_synonym ('w, 'a) go = "'w \<Rightarrow> 'a outcome \<times> 'w"

definition returnE :: "'a \<Rightarrow> ('w, 'a) go" where
  "returnE a w = (Ok a, w)"

definition raiseE :: "goerror \<Rightarrow> ('w, 'a) go" where
  "raiseE e w = (Err e, w)"

definition panicE :: "string \<Rightarrow> ('w, 'a) go" where
  "panicE p w = (Panic p, w)"

text \<open>
  \<open>bindE m f\<close> is \<^verbatim>\<open>x, err := m(); if err != nil { return err }; f(x)\<close>.
\<close>

definition bindE :: "('w, 'a) go \<Rightarrow> ('a \<Rightarrow> ('w, 'b) go) \<Rightarrow> ('w, 'b) go" where
  "bindE m f w =
     (case m w of
        (Ok a, w') \<Rightarrow> f a w'
      | (Err e, w') \<Rightarrow> (Err e, w')
      | (Panic p, w') \<Rightarrow> (Panic p, w')
      | (Crash p, w') \<Rightarrow> (Crash p, w'))"

text \<open>\<open>tryE m\<close> is \<^verbatim>\<open>x, err := m()\<close> where the code goes on to inspect \<open>err\<close>.\<close>

definition tryE :: "('w, 'a) go \<Rightarrow> ('w, goerror + 'a) go" where
  "tryE m w =
     (case m w of
        (Ok a, w') \<Rightarrow> (Ok (Inr a), w')
      | (Err e, w') \<Rightarrow> (Ok (Inl e), w')
      | (Panic p, w') \<Rightarrow> (Panic p, w')
      | (Crash p, w') \<Rightarrow> (Crash p, w'))"

text \<open>
  \<open>deferE d m\<close> is \<^verbatim>\<open>defer d(); return m()\<close>: the deferred call runs after a return,
  an error return and a panic, but not after a crash of the process; its own result is
  dropped (the deferred functions of the source return nothing).
\<close>

definition deferE :: "('w, unit) go \<Rightarrow> ('w, 'a) go \<Rightarrow> ('w, 'a) go" where
  "deferE d m w =
     (case m w of
        (Crash p, w') \<Rightarrow> (Crash p, w')
      | (r, w') \<Rightarrow>
          (case d w' of
             (Panic p, w'') \<Rightarrow> (Panic p, w'')
           | (Crash p, w'') \<Rightarrow> (Crash p, w'')
           | (_, w'') \<Rightarrow> (r, w'')))"

text \<open>\<open>for _, x := range xs { if err := f(x); err != nil { return err } }\<close>\<close>

fun forE :: "('a \<Rightarrow> ('w, unit) go) \<Rightarrow> 'a list \<Rightarrow> ('w, unit) go" where
  "forE f [] = returnE ()"
| "forE f (x # xs) = bindE (f x) (\<lambda>_. forE f xs)"

text \<open>A loop that appends what each iteration yields to one result slice.\<close>

fun collectE :: "('a \<Rightarrow> ('w, 'b list) go) \<Rightarrow> 'a list \<Rightarrow> ('w, 'b list) go" where
  "collectE f [] = returnE []"
| "collectE f (x # xs) =
     bindE (f x) (\<lambda>ys. bindE (collectE f xs) (\<lambda>zs. returnE (ys @ zs)))"

text \<open>A loop that stops at the first iteration whose test is true.\<close>

fun anyE :: "('a \<Rightarrow> ('w, bool) go) \<Rightarrow> 'a list \<Rightarrow> ('w, bool) go" where
  "anyE f [] = returnE False"
| "anyE f (x # xs) = bindE (f x) (\<lambda>b. if b then returnE True else anyE f xs)"

section \<open>Laws of the combinators\<close>

lemma returnE_run [go_run]: "returnE a w = (Ok a, w)"
  by (simp add: returnE_def)

lemma raiseE_run [go_run]: "raiseE e w = (Err e, w)"
  by (simp add: raiseE_def)

lemma panicE_run [go_run]: "panicE p w = (Panic p, w)"
  by (simp add: panicE_def)

lemma bindE_returnE [simp]: "bindE (returnE a) f = f a"
  by (rule ext) (simp add: bindE_def returnE_def)

lemma bindE_raiseE [simp]: "bindE (raiseE e) f = raiseE e"
  by (rule ext) (simp add: bindE_def raiseE_def)

lemma bindE_assoc: "bindE (bindE m f) g = bindE m (\<lambda>x. bindE (f x) g)"
  by (rule ext) (simp add: bindE_def split: prod.split outcome.split)

lemma bindE_Ok_iff:
  "bindE m f w = (Ok b, w'') \<longleftrightarrow> (\<exists>a w'. m w = (Ok a, w') \<and> f a w' = (Ok b, w''))"
  by (auto simp: bindE_def split: prod.splits outcome.splits)

lemma tryE_Ok_iff:
  "tryE m w = (Ok r, w') \<longleftrightarrow>
     (\<exists>a. r = Inr a \<and> m w = (Ok a, w')) \<or> (\<exists>e. r = Inl e \<and> m w = (Err e, w'))"
  by (auto simp: tryE_def split: prod.splits outcome.splits)

lemma forE_append: "forE f (xs @ ys) = bindE (forE f xs) (\<lambda>_. forE f ys)"
  by (induction xs) (simp_all add: bindE_assoc)

lemma forE_Ok_all:
  "forE f xs w = (Ok (), w') \<Longrightarrow> x \<in> set xs \<Longrightarrow> \<exists>v v'. f x v = (Ok (), v')"
  by (induction xs arbitrary: w) (auto simp: bindE_Ok_iff)

section \<open>Code that never panics\<close>

definition calm :: "('w, 'a) go \<Rightarrow> bool" where
  "calm m \<longleftrightarrow> (\<forall>w p. fst (m w) \<noteq> Panic p \<and> fst (m w) \<noteq> Crash p)"

lemma calmD: "calm m \<Longrightarrow> m w = (r, w') \<Longrightarrow> r \<noteq> Panic p \<and> r \<noteq> Crash p"
  unfolding calm_def by (metis fst_conv)

lemma calm_basic [calm_intro]: "calm (returnE a)" "calm (raiseE e)"
  by (simp_all add: calm_def returnE_def raiseE_def)

lemma calm_bindE [calm_intro]: "calm m \<Longrightarrow> (\<And>a. calm (f a)) \<Longrightarrow> calm (bindE m f)"
  unfolding calm_def bindE_def by (auto split: prod.split outcome.split) (metis fst_conv)+

lemma calm_tryE [calm_intro]: "calm m \<Longrightarrow> calm (tryE m)"
  unfolding calm_def tryE_def by (auto split: prod.split outcome.split) (metis fst_conv)+

lemma calm_if [calm_intro]: "calm m \<Longrightarrow> calm n \<Longrightarrow> calm (if b then m else n)"
  by simp

lemma calm_option [calm_intro]:
  "calm m \<Longrightarrow> (\<And>a. calm (f a)) \<Longrightarrow> calm (case x of None \<Rightarrow> m | Some a \<Rightarrow> f a)"
  by (cases x) auto

lemma calm_sum [calm_intro]:
  "(\<And>a. calm (g a)) \<Longrightarrow> (\<And>a. calm (f a)) \<Longrightarrow> calm (case x of Inl a \<Rightarrow> g a | Inr a \<Rightarrow> f a)"
  by (cases x) auto

lemma calm_Let [calm_intro]: "(\<And>y. calm (f y)) \<Longrightarrow> calm (let y = x in f y)"
  by simp

lemma calm_loops [calm_intro]:
  "(\<And>x. calm (g x)) \<Longrightarrow> calm (forE g xs)" "(\<And>x. calm (h x)) \<Longrightarrow> calm (collectE h xs)"
  "(\<And>x. calm (k x)) \<Longrightarrow> calm (anyE k xs)"
  by (induction xs) (simp_all add: calm_intro)

section \<open>Reading off the result of a run\<close>

text \<open>Executable tests on the result of a run, used to evaluate examples.\<close>

definition okAnd :: "('a \<Rightarrow> 'w \<Rightarrow> bool) \<Rightarrow> 'a outcome \<times> 'w \<Rightarrow> bool" where
  "okAnd P r = (case r of (Ok a, w) \<Rightarrow> P a w | _ \<Rightarrow> False)"

definition consAnd :: "('a \<Rightarrow> 'a list \<Rightarrow> bool) \<Rightarrow> 'a list \<Rightarrow> bool" where
  "consAnd P xs = (case xs of x # ys \<Rightarrow> P x ys | [] \<Rightarrow> False)"

lemma okAnd_iff: "okAnd P r \<longleftrightarrow> (\<exists>a w. r = (Ok a, w) \<and> P a w)"
  by (cases r; cases "fst r") (auto simp: okAnd_def)

lemma consAnd_iff: "consAnd P xs \<longleftrightarrow> (\<exists>x ys. xs = x # ys \<and> P x ys)"
  by (cases xs) (auto simp: consAnd_def)

end
