(* ===== verification/GoStrings.thy ===== *)
theory GoStrings
  imports Prelude
begin

text \<open>
  The string functions of the Go standard library the source uses, on byte strings:
  \<open>strings\<close> (HasPrefix, Contains, Split, Replace, ToLower), \<open>strconv.Atoi\<close> with
  \<open>fmt.Sprintf("%d")\<close>, \<open>regexp\<close> for the two patterns of \<open>px.go\<close>, and
  \<open>encoding/csv\<close> as \<open>splitCSV\<close> configures it.  On top of them the pure helpers of
  \<open>px.go\<close>: \<open>parsePXVersion\<close>, \<open>splitCSV\<close> and the name manglings of the delete path.
\<close>

section \<open>Package strings\<close>

fun HasPrefix :: "string \<Rightarrow> string \<Rightarrow> bool" where
  "HasPrefix s [] = True"
| "HasPrefix [] (p # ps) = False"
| "HasPrefix (c # s) (p # ps) = (c = p \<and> HasPrefix s ps)"

fun Contains :: "string \<Rightarrow> string \<Rightarrow> bool" where
  "Contains [] p = (p = [])"
| "Contains (c # s) p = (HasPrefix (c # s) p \<or> Contains s p)"

text \<open>\<open>strings.Split\<close> with a one-byte separator.\<close>

fun Split :: "string \<Rightarrow> char \<Rightarrow> string list" where
  "Split [] sep = [[]]"
| "Split (c # s) sep =
     (if c = sep then [] # Split s sep
      else (case Split s sep of [] \<Rightarrow> [[c]] | f # fs \<Rightarrow> (c # f) # fs))"

fun Join :: "string list \<Rightarrow> char \<Rightarrow> string" where
  "Join [] sep = []"
| "Join [s] sep = s"
| "Join (s # t # ts) sep = s @ sep # Join (t # ts) sep"

text \<open>\<open>strings.Replace(s, old, new, -1)\<close> with one-byte \<open>old\<close> and \<open>new\<close>.\<close>

definition ReplaceAll :: "string \<Rightarrow> char \<Rightarrow> char \<Rightarrow> string" where
  "ReplaceAll s old new = map (\<lambda>c. if c = old then new else c) s"

definition isUpper :: "char \<Rightarrow> bool" where
  "isUpper c \<longleftrightarrow> (65::nat) \<le> of_char c \<and> (of_char c :: nat) \<le> 90"

definition isLower :: "char \<Rightarrow> bool" where
  "isLower c \<longleftrightarrow> (97::nat) \<le> of_char c \<and> (of_char c :: nat) \<le> 122"

definition isDigit :: "char \<Rightarrow> bool" where
  "isDigit c \<longleftrightarrow> (48::nat) \<le> of_char c \<and> (of_char c :: nat) \<le> 57"

text \<open>\<open>strings.ToLower\<close> on an ASCII string (its only use is after the non-ASCII bytes are gone).\<close>

definition ToLower :: "string \<Rightarrow> string" where
  "ToLower s = map (\<lambda>c. if isUpper c then char_of ((of_char c :: nat) + 32) else c) s"

section \<open>Decimal numbers\<close>

definition digitChar :: "nat \<Rightarrow> char" where
  "digitChar d = char_of (48 + d)"

fun natString :: "nat \<Rightarrow> string" where
  "natString n = (if n < 10 then [digitChar n] else natString (n div 10) @ [digitChar (n mod 10)])"

declare natString.simps [simp del]

text \<open>\<open>fmt.Sprintf("%d", i)\<close>\<close>

definition intString :: "int \<Rightarrow> string" where
  "intString i = (if i < 0 then CHR ''-'' # natString (nat (- i)) else natString (nat i))"

definition digitVal :: "char \<Rightarrow> nat" where
  "digitVal c = of_char c - 48"

definition digitsVal :: "string \<Rightarrow> nat" where
  "digitsVal s = foldl (\<lambda>a c. 10 * a + digitVal c) 0 s"

definition digitsOnly :: "string \<Rightarrow> bool" where
  "digitsOnly s \<longleftrightarrow> s \<noteq> [] \<and> list_all isDigit s"

text \<open>
  \<open>strconv.Atoi\<close> on a 64-bit platform: an optional sign, at least one decimal digit,
  nothing else, and a value that fits in an \<open>int\<close>.
\<close>

definition inInt64 :: "int \<Rightarrow> bool" where
  "inInt64 i \<longleftrightarrow> - (2 ^ 63) \<le> i \<and> i < 2 ^ 63"

definition Atoi :: "string \<Rightarrow> int option" where
  "Atoi s =
     (let (neg, ds) = (case s of [] \<Rightarrow> (False, [])
                       | c # cs \<Rightarrow> if c = CHR ''-'' then (True, cs)
                                    else if c = CHR ''+'' then (False, cs) else (False, s));
          v = (if neg then - int (digitsVal ds) else int (digitsVal ds))
      in if digitsOnly ds \<and> inInt64 v then Some v else None)"

section \<open>The two regular expressions of px.go\<close>

text \<open>
  \<open>configMapNameRegex.ReplaceAllString(s, "")\<close> with the pattern \<^verbatim>\<open>[^a-zA-Z0-9]+\<close>:
  every byte that is not an ASCII letter or digit is removed.
\<close>

definition stripNonAlnum :: "string \<Rightarrow> string" where
  "stripNonAlnum s = filter (\<lambda>c. isUpper c \<or> isLower c \<or> isDigit c) s"

definition strippedClusterName :: "string \<Rightarrow> string" where
  "strippedClusterName clusterName = ToLower (stripNonAlnum clusterName)"

definition clusterWideSecret :: "string \<Rightarrow> string" where
  "clusterWideSecret clusterName =
     ReplaceAll (clusterName @ ''_px_secret'') (CHR ''_'') (CHR ''-'')"

text \<open>
  \<open>pxVersionRegex\<close> is \<^verbatim>\<open>^(\d+\.\d+\.\d+).*\<close>; the submatch is the longest prefix of three
  digit groups separated by dots.
\<close>

definition parsePXVersion :: "string \<Rightarrow> goerror + string" where
  "parsePXVersion version =
     (let a = takeWhile isDigit version; r1 = dropWhile isDigit version in
      case r1 of
        (c1 # s1) \<Rightarrow>
          (let b = takeWhile isDigit s1; r2 = dropWhile isDigit s1 in
           case r2 of
             (c2 # s2) \<Rightarrow>
               (let c = takeWhile isDigit s2 in
                if a \<noteq> [] \<and> c1 = CHR ''.'' \<and> b \<noteq> [] \<and> c2 = CHR ''.'' \<and> c \<noteq> []
                then Inr (a @ ''.'' @ b @ ''.'' @ c)
                else Inl (ErrorString (''failed to get PX version from '' @ version)))
           | [] \<Rightarrow> Inl (ErrorString (''failed to get PX version from '' @ version)))
      | [] \<Rightarrow> Inl (ErrorString (''failed to get PX version from '' @ version)))"

section \<open>Package encoding/csv as splitCSV uses it\<close>

text \<open>
  The reader runs with \<open>Comma = ','\<close>, \<open>TrimLeadingSpace = true\<close>, no comment rune, strict
  quotes and \<open>FieldsPerRecord = 0\<close>.  \<open>unicode.IsSpace\<close> is decided on the UTF-8 bytes.
\<close>

definition charCode :: "char \<Rightarrow> nat" where
  "charCode c = of_char c"

definition isAsciiSpace :: "char \<Rightarrow> bool" where
  "isAsciiSpace c \<longleftrightarrow> charCode c = 32 \<or> 9 \<le> charCode c \<and> charCode c \<le> 13"

text \<open>The multi-byte white space of Unicode: U+0085, U+00A0, U+1680, U+2000 to U+200A, U+2028,
  U+2029, U+202F, U+205F and U+3000.\<close>

definition isSpace2 :: "char \<Rightarrow> char \<Rightarrow> bool" where
  "isSpace2 a b \<longleftrightarrow> charCode a = 194 \<and> (charCode b = 133 \<or> charCode b = 160)"

definition isSpace3 :: "char \<Rightarrow> char \<Rightarrow> char \<Rightarrow> bool" where
  "isSpace3 a b c \<longleftrightarrow>
     charCode a = 225 \<and> charCode b = 154 \<and> charCode c = 128
   \<or> charCode a = 226 \<and> charCode b = 128 \<and>
       (128 \<le> charCode c \<and> charCode c \<le> 138 \<or> charCode c = 168 \<or> charCode c = 169 \<or> charCode c = 175)
   \<or> charCode a = 226 \<and> charCode b = 129 \<and> charCode c = 159
   \<or> charCode a = 227 \<and> charCode b = 128 \<and> charCode c = 128"

fun TrimLeftSpace :: "string \<Rightarrow> string" where
  "TrimLeftSpace [] = []"
| "TrimLeftSpace [a] = (if isAsciiSpace a then [] else [a])"
| "TrimLeftSpace [a, b] =
     (if isAsciiSpace a then TrimLeftSpace [b] else if isSpace2 a b then [] else [a, b])"
| "TrimLeftSpace (a # b # c # s) =
     (if isAsciiSpace a then TrimLeftSpace (b # c # s)
      else if isSpace2 a b then TrimLeftSpace (c # s)
      else if isSpace3 a b c then TrimLeftSpace s
      else a # b # c # s)"

text \<open>The input cut into lines, each with its newline; carriage returns as \<open>readLine\<close> treats them.\<close>

fun rawLines :: "string \<Rightarrow> string list" where
  "rawLines [] = []"
| "rawLines (c # s) =
     (if c = CHR 0x0A then [c] # rawLines s
      else (case rawLines s of [] \<Rightarrow> [[c]] | l # ls \<Rightarrow> (c # l) # ls))"

definition normLine :: "string \<Rightarrow> string" where
  "normLine l =
     (if l \<noteq> [] \<and> last l = CHR 0x0D then butlast l
      else if 2 \<le> length l \<and> last l = CHR 0x0A \<and> last (butlast l) = CHR 0x0D
      then butlast (butlast l) @ [CHR 0x0A] else l)"

definition csvLines :: "string \<Rightarrow> string list" where
  "csvLines s = map normLine (rawLines s)"

definition emptyLine :: "string \<Rightarrow> bool" where
  "emptyLine l \<longleftrightarrow> l = [] \<or> l = [CHR 0x0A]"

definition dropNL :: "string \<Rightarrow> string" where
  "dropNL l = (if l \<noteq> [] \<and> last l = CHR 0x0A then butlast l else l)"

definition csvQuote :: char where
  "csvQuote = CHR 0x22"

definition csvComma :: char where
  "csvComma = CHR '',''"

abbreviation untilChar :: "char \<Rightarrow> string \<Rightarrow> string" where
  "untilChar c \<equiv> takeWhile (\<lambda>x. x \<noteq> c)"

abbreviation fromChar :: "char \<Rightarrow> string \<Rightarrow> string" where
  "fromChar c \<equiv> dropWhile (\<lambda>x. x \<noteq> c)"

text \<open>
  \<open>csvRecord None line rest acc\<close> is the reader at the start of a field, \<open>csvRecord (Some buf)\<close>
  inside a quoted field whose bytes so far are \<open>buf\<close>; \<open>rest\<close> are the lines not yet read.
\<close>

function csvRecord ::
  "string option \<Rightarrow> string \<Rightarrow> string list \<Rightarrow> string list \<Rightarrow> goerror + (string list \<times> string list)" where
  "csvRecord None line rest acc =
     (let l = TrimLeftSpace line in
      if l \<noteq> [] \<and> hd l = csvQuote then csvRecord (Some []) (tl l) rest acc
      else let field = untilChar csvComma l; more = fromChar csvComma l in
        if more = [] then
          (if csvQuote \<in> set (dropNL field) then Inl (ErrorString ''bare \" in non-quoted-field'')
           else Inr (acc @ [dropNL field], rest))
        else if csvQuote \<in> set field then Inl (ErrorString ''bare \" in non-quoted-field'')
        else csvRecord None (tl more) rest (acc @ [field]))"
| "csvRecord (Some buf) line rest acc =
     (let before = untilChar csvQuote line; more = fromChar csvQuote line in
      if more \<noteq> [] then
        (let after = tl more in
         if after \<noteq> [] \<and> hd after = csvQuote
         then csvRecord (Some (buf @ before @ [csvQuote])) (tl after) rest acc
         else if after \<noteq> [] \<and> hd after = csvComma
         then csvRecord None (tl after) rest (acc @ [buf @ before])
         else if emptyLine after then Inr (acc @ [buf @ before], rest)
         else Inl (ErrorString ''extraneous or missing \" in quoted-field''))
      else if line \<noteq> [] then
        (case rest of
           [] \<Rightarrow> csvRecord (Some (buf @ line)) [] [] acc
         | l # ls \<Rightarrow> csvRecord (Some (buf @ line)) l ls acc)
      else Inl (ErrorString ''extraneous or missing \" in quoted-field''))"
  by pat_completeness auto

lemma TrimLeftSpace_length: "length (TrimLeftSpace s) \<le> length s"
  by (induction s rule: TrimLeftSpace.induct) auto

lemma nonempty_shrinks: "l \<noteq> [] \<Longrightarrow> length l \<le> n \<Longrightarrow> length l - Suc m < n"
  by (cases l) auto

lemma fromChar_shrinks: "c \<in> set l \<Longrightarrow> length l \<le> n \<Longrightarrow> length (fromChar c l) - Suc m < n"
  by (rule nonempty_shrinks) (auto intro: le_trans [OF length_dropWhile_le])

termination csvRecord
  by (relation "measure (\<lambda>(q, line, rest, acc). length line + sum_list (map length rest))")
    (auto intro: nonempty_shrinks fromChar_shrinks TrimLeftSpace_length)

declare csvRecord.simps [simp del]

lemma csvRecord_rest: "csvRecord q line rest acc = Inr (fs, rest') \<Longrightarrow> length rest' \<le> length rest"
proof (induction q line rest acc rule: csvRecord.induct)
  case (1 line rest acc)
  then show ?case
    by (simp add: csvRecord.simps(1) [of line] Let_def split: if_splits)
next
  case (2 buf line rest acc)
  then show ?case
    by (simp add: csvRecord.simps(2) [of buf line] Let_def le_SucI split: if_splits list.splits)
qed

text \<open>\<open>ReadAll\<close>: empty lines are skipped and every record must have as many fields as the first.\<close>

function csvReadAll :: "string list \<Rightarrow> nat option \<Rightarrow> string list list \<Rightarrow> goerror + string list list" where
  "csvReadAll [] n records = Inr records"
| "csvReadAll (l # ls) n records =
     (if emptyLine l then csvReadAll ls n records
      else case csvRecord None l ls [] of
        Inl e \<Rightarrow> Inl e
      | Inr (fs, rest) \<Rightarrow>
          (if n \<noteq> None \<and> n \<noteq> Some (length fs) then Inl (ErrorString ''wrong number of fields'')
           else csvReadAll rest (Some (length fs)) (records @ [fs])))"
  by pat_completeness auto

termination csvReadAll
  by (relation "measure (\<lambda>(ls, n, r). length ls)") (auto dest: csvRecord_rest)

definition splitCSV :: "string \<Rightarrow> goerror + string list" where
  "splitCSV s =
     (case csvReadAll (csvLines s) None [] of
        Inl e \<Rightarrow> Inl e
      | Inr [] \<Rightarrow> Inr []
      | Inr [r] \<Rightarrow> Inr r
      | Inr _ \<Rightarrow> Inl (ErrorString ''Multiline CSV not supported''))"

section \<open>Facts about the string functions\<close>

lemma HasPrefix_prefix: "HasPrefix s p = prefix p s"
  by (induction s p rule: HasPrefix.induct) (auto simp: Cons_prefix_Cons)

lemma Split_nonempty [simp]: "Split s c \<noteq> []"
  by (induction s) (auto split: list.splits)

lemma Join_Cons: "xs \<noteq> [] \<Longrightarrow> Join (x # xs) c = x @ c # Join xs c"
  by (cases xs) auto

lemma Join_Split: "Join (Split s c) c = s"
proof (induction s)
  case (Cons a s)
  obtain f fs where sp: "Split s c = f # fs"
    by (cases "Split s c") auto
  with Cons.IH show ?case
    by (cases fs) auto
qed simp

lemma Split_no_sep: "c \<notin> set s \<Longrightarrow> Split s c = [s]"
  by (induction s) auto

lemma Split_append: "c \<notin> set s \<Longrightarrow> Split (s @ c # t) c = s # Split t c"
  by (induction s) auto

lemma Split_Join: "xs \<noteq> [] \<Longrightarrow> \<forall>x\<in>set xs. c \<notin> set x \<Longrightarrow> Split (Join xs c) c = xs"
proof (induction xs)
  case (Cons x xs)
  show ?case
    by (cases "xs = []") (use Cons in \<open>auto simp: Join_Cons Split_append Split_no_sep\<close>)
qed simp

lemma Split_pieces: "x \<in> set (Split s c) \<Longrightarrow> c \<notin> set x"
  by (induction s arbitrary: x) (auto split: list.splits if_splits)

subsection \<open>Printing and parsing decimals\<close>

lemma of_char_digitChar: "d < 10 \<Longrightarrow> (of_char (digitChar d) :: nat) = 48 + d"
  by (simp add: digitChar_def)

lemma digitVal_digitChar: "d < 10 \<Longrightarrow> digitVal (digitChar d) = d"
  by (simp add: digitVal_def of_char_digitChar)

lemma isDigit_digitChar: "d < 10 \<Longrightarrow> isDigit (digitChar d)"
  by (simp add: isDigit_def of_char_digitChar)

lemma digitsVal_snoc: "digitsVal (s @ [c]) = 10 * digitsVal s + digitVal c"
  by (simp add: digitsVal_def)

lemma natString_digits: "digitsOnly (natString n) \<and> digitsVal (natString n) = n"
proof (induction n rule: natString.induct)
  case (1 n)
  show ?case
  proof (cases "n < 10")
    case True
    then show ?thesis
      by (simp add: natString.simps [of n] digitsOnly_def digitsVal_def digitVal_digitChar
          isDigit_digitChar)
  next
    case False
    with "1.IH" show ?thesis
      by (simp add: natString.simps [of n] digitsOnly_def digitsVal_snoc digitVal_digitChar
          isDigit_digitChar)
  qed
qed

lemma natString_head: "\<exists>c cs. natString n = c # cs \<and> isDigit c"
  using natString_digits [of n] by (cases "natString n") (auto simp: digitsOnly_def)

lemma sign_not_digit [simp]: "\<not> isDigit (CHR ''-'')" "\<not> isDigit (CHR ''+'')"
  by (simp_all add: isDigit_def)

lemma Atoi_digits:
  "digitsOnly s \<Longrightarrow> inInt64 (int (digitsVal s)) \<Longrightarrow> Atoi s = Some (int (digitsVal s))"
  by (cases s) (auto simp: Atoi_def digitsOnly_def Let_def)

lemma Atoi_neg_digits:
  "digitsOnly s \<Longrightarrow> inInt64 (- int (digitsVal s)) \<Longrightarrow>
     Atoi (CHR ''-'' # s) = Some (- int (digitsVal s))"
  by (simp add: Atoi_def)

lemma Atoi_intString: "inInt64 i \<Longrightarrow> Atoi (intString i) = Some i"
  using Atoi_digits [of "natString (nat i)"] Atoi_neg_digits [of "natString (nat (- i))"]
  by (simp add: intString_def natString_digits)

lemma Atoi_bounded: "Atoi s = Some i \<Longrightarrow> inInt64 i"
  by (auto simp: Atoi_def Let_def split: if_splits prod.splits)

lemma intString_nonempty [simp]: "intString i \<noteq> []"
  using natString_head [of "nat i"] by (auto simp: intString_def)

subsection \<open>The regular expressions\<close>

lemma takeWhile_digits_append:
  "list_all isDigit a \<Longrightarrow> rest = [] \<or> \<not> isDigit (hd rest) \<Longrightarrow>
     takeWhile isDigit (a @ rest) = a \<and> dropWhile isDigit (a @ rest) = rest"
  by (induction a) (auto simp: list_all_iff, (cases rest; simp)+)

lemma list_all_takeWhile: "list_all P (takeWhile P s)"
  by (simp add: list_all_iff) (metis set_takeWhileD)

lemma dropWhile_digits_hd: "dropWhile isDigit s = [] \<or> \<not> isDigit (hd (dropWhile isDigit s))"
  using hd_dropWhile [of isDigit s] by blast

lemma dot_not_digit [simp]: "\<not> isDigit (CHR ''.'')"
  by (simp add: isDigit_def)

lemma parsePXVersion_complete:
  assumes "digitsOnly a" "digitsOnly b" "digitsOnly c" "rest = [] \<or> \<not> isDigit (hd rest)"
  shows "parsePXVersion (a @ ''.'' @ b @ ''.'' @ c @ rest) = Inr (a @ ''.'' @ b @ ''.'' @ c)"
  using assms takeWhile_digits_append [of a "''.'' @ b @ ''.'' @ c @ rest"]
    takeWhile_digits_append [of b "''.'' @ c @ rest"] takeWhile_digits_append [of c rest]
  by (simp add: parsePXVersion_def digitsOnly_def)

lemma parsePXVersion_sound:
  assumes "parsePXVersion v = Inr r"
  obtains a b c rest where "v = a @ ''.'' @ b @ ''.'' @ c @ rest" "r = a @ ''.'' @ b @ ''.'' @ c"
    "digitsOnly a" "digitsOnly b" "digitsOnly c" "rest = [] \<or> \<not> isDigit (hd rest)"
proof -
  define a r1 where "a = takeWhile isDigit v" and "r1 = dropWhile isDigit v"
  define b r2 where "b = takeWhile isDigit (tl r1)" and "r2 = dropWhile isDigit (tl r1)"
  define c rest where "c = takeWhile isDigit (tl r2)" and "rest = dropWhile isDigit (tl r2)"
  note defs = a_def r1_def b_def r2_def c_def rest_def
  from assms have *: "r1 \<noteq> [] \<and> hd r1 = CHR ''.'' \<and> r2 \<noteq> [] \<and> hd r2 = CHR ''.'' \<and>
      a \<noteq> [] \<and> b \<noteq> [] \<and> c \<noteq> [] \<and> r = a @ ''.'' @ b @ ''.'' @ c"
    by (auto simp: parsePXVersion_def Let_def defs simp del: dropWhile_eq_Nil_conv
        split: list.splits if_splits)
  have "v = a @ r1" "tl r1 = b @ r2" "tl r2 = c @ rest"
    by (simp_all add: defs)
  with * have "v = a @ ''.'' @ b @ ''.'' @ c @ rest"
    by (cases r1; cases r2) auto
  moreover have "digitsOnly a" "digitsOnly b" "digitsOnly c"
    using * by (simp_all add: digitsOnly_def defs list_all_takeWhile)
  moreover have "rest = [] \<or> \<not> isDigit (hd rest)"
    unfolding rest_def by (rule dropWhile_digits_hd)
  ultimately show thesis
    using * that by blast
qed

lemma alnum_lower: "isLower c \<or> isDigit c \<Longrightarrow> \<not> isUpper c"
  by (auto simp: isLower_def isDigit_def isUpper_def)

lemma isLower_lowered: "isUpper c \<Longrightarrow> isLower (char_of ((of_char c :: nat) + 32))"
  by (simp add: isUpper_def isLower_def)

lemma strippedClusterName_chars:
  "c \<in> set (strippedClusterName s) \<Longrightarrow> isLower c \<or> isDigit c"
  by (auto simp: strippedClusterName_def ToLower_def stripNonAlnum_def isLower_lowered)

lemma strippedClusterName_fixed:
  "\<forall>c\<in>set s. isLower c \<or> isDigit c \<Longrightarrow> strippedClusterName s = s"
  by (auto simp: strippedClusterName_def ToLower_def stripNonAlnum_def alnum_lower
      filter_id_conv intro: map_idI)

subsection \<open>Comma-separated endpoint lists\<close>

definition plainField :: "string \<Rightarrow> bool" where
  "plainField f \<longleftrightarrow> csvQuote \<notin> set f \<and> csvComma \<notin> set f \<and> CHR 0x0A \<notin> set f \<and> CHR 0x0D \<notin> set f \<and>
     TrimLeftSpace f = f"

lemma comma_code [simp]: "charCode csvComma = 44" "csvComma \<noteq> csvQuote"
    "csvComma \<noteq> CHR 0x0A" "csvComma \<noteq> CHR 0x0D"
  by (simp_all add: csvComma_def csvQuote_def charCode_def)

lemma comma_no_space [simp]: "\<not> isAsciiSpace csvComma" "\<not> isSpace2 a csvComma" "\<not> isSpace2 csvComma b"
    "\<not> isSpace3 csvComma b c" "\<not> isSpace3 a csvComma c" "\<not> isSpace3 a b csvComma"
  by (simp_all add: isAsciiSpace_def isSpace2_def isSpace3_def)

lemma TrimLeftSpace_shorter: "TrimLeftSpace s \<noteq> a # b # s" "TrimLeftSpace s \<noteq> a # s"
    "TrimLeftSpace s \<noteq> a # b # c # s"
  using TrimLeftSpace_length [of s] by (metis impossible_Cons length_Cons le_SucI)+

lemma TrimLeftSpace_comma_first: "TrimLeftSpace (csvComma # r) = csvComma # r"
  by (cases r; cases "tl r") auto

lemma TrimLeftSpace_field:
  assumes "TrimLeftSpace f = f"
  shows "TrimLeftSpace (f @ csvComma # r) = f @ csvComma # r"
proof (cases f rule: TrimLeftSpace.cases)
  case (4 a b c s)
  with assms show ?thesis
    using TrimLeftSpace_shorter(2) [of "b # c # s" a] TrimLeftSpace_shorter(1) [of "c # s" a b]
      TrimLeftSpace_shorter(3) [of s a b c]
    by (auto split: if_splits)
next
  case (3 a b)
  with assms TrimLeftSpace_shorter(2) [of "[b]" a] show ?thesis
    by (auto split: if_splits)
next
  case (2 a)
  with assms show ?thesis
    by (cases r) (auto split: if_splits)
qed (simp_all add: TrimLeftSpace_comma_first)

lemma untilChar_append: "c \<notin> set f \<Longrightarrow> untilChar c (f @ c # r) = f \<and> fromChar c (f @ c # r) = c # r"
  by (induction f) auto

lemma untilChar_none: "c \<notin> set f \<Longrightarrow> untilChar c f = f \<and> fromChar c f = []"
  by (induction f) auto

lemma plainField_hd: "plainField f \<Longrightarrow> f \<noteq> [] \<Longrightarrow> hd f \<noteq> csvQuote"
  by (cases f) (auto simp: plainField_def)

lemma dropNL_plain: "CHR 0x0A \<notin> set f \<Longrightarrow> dropNL f = f"
  by (metis dropNL_def last_in_set)

lemma hd_append_comma_noquote: "plainField f \<Longrightarrow> hd (f @ csvComma # r) \<noteq> csvQuote"
  by (cases f) (auto simp: plainField_def)

lemma csvRecord_plain:
  "fs \<noteq> [] \<Longrightarrow> \<forall>f\<in>set fs. plainField f \<Longrightarrow> csvRecord None (Join fs csvComma) [] acc = Inr (acc @ fs, [])"
proof (induction fs arbitrary: acc)
  case (Cons f fs)
  then have f: "plainField f" "TrimLeftSpace f = f" "csvComma \<notin> set f" "csvQuote \<notin> set f"
      "CHR 0x0A \<notin> set f"
    by (auto simp: plainField_def)
  show ?case
  proof (cases "fs = []")
    case True
    with f plainField_hd [of f] show ?thesis
      by (auto simp: csvRecord.simps(1) [of f] Let_def dropNL_plain untilChar_none
          simp del: dropWhile_eq_Nil_conv)
  next
    case False
    then have "csvRecord None (Join fs csvComma) [] (acc @ [f]) = Inr (acc @ f # fs, [])"
      using Cons by simp
    with f False show ?thesis
      by (simp add: Join_Cons csvRecord.simps(1) [of "f @ csvComma # Join fs csvComma"]
          hd_append_comma_noquote TrimLeftSpace_field untilChar_append Let_def
          del: dropWhile_eq_Nil_conv hd_append)
  qed
qed simp

lemma rawLines_single: "s \<noteq> [] \<Longrightarrow> CHR 0x0A \<notin> set s \<Longrightarrow> rawLines s = [s]"
proof (induction s)
  case (Cons a s)
  then show ?case
    by (cases "s = []") auto
qed simp

lemma normLine_plain: "CHR 0x0A \<notin> set s \<Longrightarrow> CHR 0x0D \<notin> set s \<Longrightarrow> normLine s = s"
  by (cases s rule: rev_cases) (auto simp: normLine_def)

lemma set_Join: "set (Join xs c) \<subseteq> insert c (\<Union>x\<in>set xs. set x)"
  by (induction xs c rule: Join.induct) auto

lemma splitCSV_Join:
  assumes "\<forall>f\<in>set fs. plainField f" and ne: "Join fs csvComma \<noteq> []"
  shows "splitCSV (Join fs csvComma) = Inr fs"
proof -
  from ne have fs: "fs \<noteq> []" by auto
  have "c \<notin> set (Join fs csvComma)" if "c = CHR 0x0A \<or> c = CHR 0x0D" for c
    using set_Join [of fs csvComma] that assms(1) by (auto simp: plainField_def csvComma_def)
  then have nl: "CHR 0x0A \<notin> set (Join fs csvComma)" and cr: "CHR 0x0D \<notin> set (Join fs csvComma)"
    by blast+
  then have lines: "csvLines (Join fs csvComma) = [Join fs csvComma]"
    using ne by (simp add: csvLines_def rawLines_single normLine_plain)
  have "\<not> emptyLine (Join fs csvComma)"
    using ne nl by (auto simp: emptyLine_def)
  with csvRecord_plain [OF fs assms(1), of "[]"] show ?thesis
    by (simp add: splitCSV_def lines)
qed

end
