(* ===== verification/GoFlags.thy ===== *)
theory GoFlags
  imports GoStrings
begin

text \<open>
  Go's \<open>flag\<close> package as the command line uses it: the parse loop over the arguments, and the values
  of string, boolean and integer flags.
\<close>

section \<open>Integers\<close>

text \<open>\<open>strconv.ParseUint(s, 0, 64)\<close>: the base from the prefix, underscores between digits.\<close>

definition lowerChar :: "char \<Rightarrow> char" where
  "lowerChar c = (if isUpper c then char_of ((of_char c :: nat) + 32) else c)"

definition digitOf :: "char \<Rightarrow> nat option" where
  "digitOf c =
     (if isDigit c then Some (digitVal c)
      else if isLower (lowerChar c) then Some (of_char (lowerChar c) - 87) else None)"

text \<open>The loop over the digits; underscores are skipped and checked afterwards.\<close>

fun baseDigits :: "nat \<Rightarrow> string \<Rightarrow> nat \<Rightarrow> nat option" where
  "baseDigits b [] n = Some n"
| "baseDigits b (c # cs) n =
     (if c = CHR ''_'' then baseDigits b cs n
      else case digitOf c of
         None \<Rightarrow> None
       | Some d \<Rightarrow> if b \<le> d then None else baseDigits b cs (b * n + d))"

definition basePrefix :: "string \<Rightarrow> nat \<times> string" where
  "basePrefix s =
     (case s of
        z # rest \<Rightarrow>
          if z \<noteq> CHR ''0'' then (10, s)
          else (case rest of
             p # q # t \<Rightarrow>
               if lowerChar p = CHR ''b'' then (2, q # t)
               else if lowerChar p = CHR ''o'' then (8, q # t)
               else if lowerChar p = CHR ''x'' then (16, q # t)
               else (8, rest)
           | _ \<Rightarrow> (8, rest))
      | [] \<Rightarrow> (10, []))"

text \<open>\<open>underscoreOK\<close>: what was seen last is a digit or a prefix, an underscore, or neither.\<close>

datatype seen = SeenDigit | SeenUnderscore | SeenStart | SeenOther

fun underscores :: "bool \<Rightarrow> string \<Rightarrow> seen \<Rightarrow> bool" where
  "underscores hex [] i = (i \<noteq> SeenUnderscore)"
| "underscores hex (c # cs) i =
     (if isDigit c \<or> hex \<and> lowerChar c \<in> set ''abcdef'' then underscores hex cs SeenDigit
      else if c = CHR ''_'' then i = SeenDigit \<and> underscores hex cs SeenUnderscore
      else i \<noteq> SeenUnderscore \<and> underscores hex cs SeenOther)"

definition underscoreOK :: "string \<Rightarrow> bool" where
  "underscoreOK s =
     (case s of
        z # p # t \<Rightarrow>
          if z = CHR ''0'' \<and> lowerChar p \<in> set ''box'' then underscores (lowerChar p = CHR ''x'') t SeenDigit
          else underscores False s SeenStart
      | _ \<Rightarrow> underscores False s SeenStart)"

definition ParseUint :: "string \<Rightarrow> nat option" where
  "ParseUint s =
     (if s = [] then None
      else case basePrefix s of (b, ds) \<Rightarrow>
        (case baseDigits b ds 0 of
           None \<Rightarrow> None
         | Some n \<Rightarrow> if CHR ''_'' \<in> set ds \<and> \<not> underscoreOK s then None else Some n))"

definition ParseInt :: "string \<Rightarrow> int option" where
  "ParseInt s =
     (let (neg, ds) = (case s of [] \<Rightarrow> (False, [])
                       | c # cs \<Rightarrow> if c = CHR ''-'' then (True, cs)
                                    else if c = CHR ''+'' then (False, cs) else (False, s))
      in case ParseUint ds of
           None \<Rightarrow> None
         | Some n \<Rightarrow> let v = (if neg then - int n else int n) in if inInt64 v then Some v else None)"

definition ParseBool :: "string \<Rightarrow> bool option" where
  "ParseBool s =
     (if s \<in> set [''1'', ''t'', ''T'', ''TRUE'', ''true'', ''True''] then Some True
      else if s \<in> set [''0'', ''f'', ''F'', ''FALSE'', ''false'', ''False''] then Some False
      else None)"

section \<open>The flag set\<close>

text \<open>
  A flag sets a value in the record of all flag variables, or refuses the text; \<open>None\<close> is the error
  of \<open>Value.Set\<close>.
\<close>

datatype 'f flag = StringFlag "string \<Rightarrow> 'f \<Rightarrow> 'f" | BoolFlag "bool \<Rightarrow> 'f \<Rightarrow> 'f" | IntFlag "int \<Rightarrow> 'f \<Rightarrow> 'f"

fun setFlag :: "'f flag \<Rightarrow> string \<Rightarrow> 'f \<Rightarrow> 'f option" where
  "setFlag (StringFlag f) v st = Some (f v st)"
| "setFlag (BoolFlag f) v st = map_option (\<lambda>b. f b st) (ParseBool v)"
| "setFlag (IntFlag f) v st = map_option (\<lambda>i. f i st) (ParseInt v)"

fun isBoolFlag :: "'f flag \<Rightarrow> bool" where
  "isBoolFlag (BoolFlag f) = True"
| "isBoolFlag fl = False"

datatype 'f parsed = Parsed 'f | Help | BadUsage

text \<open>The name and, after an equals sign that is not the first character, the value.\<close>

definition splitValue :: "string \<Rightarrow> string \<times> string option" where
  "splitValue s =
     (let i = takeWhile (\<lambda>c. c \<noteq> CHR ''='') s in
      (i, if i = s then None else Some (drop (Suc (length i)) s)))"

text \<open>
  \<open>parseOne\<close> in a loop.  Parsing stops at the first argument that is not a flag and after \<open>--\<close>;
  a boolean flag takes no argument of its own.
\<close>

text \<open>The text of an argument after one or two dashes; None: not a flag, parsing stops.\<close>

definition flagText :: "string \<Rightarrow> string option" where
  "flagText s =
     (case s of
        d # c # cs \<Rightarrow>
          if d \<noteq> CHR ''-'' then None
          else if c = CHR ''-'' then (if cs = [] then None else Some cs)
          else Some (c # cs)
      | _ \<Rightarrow> None)"

definition badName :: "string \<Rightarrow> bool" where
  "badName s = (s = [] \<or> hd s = CHR ''-'' \<or> hd s = CHR ''='')"

fun parseFlags :: "(string \<rightharpoonup> 'f flag) \<Rightarrow> string list \<Rightarrow> 'f \<Rightarrow> 'f parsed" where
  "parseFlags flags [] st = Parsed st"
| "parseFlags flags (s # args) st =
     (case flagText s of
        None \<Rightarrow> Parsed st
      | Some text \<Rightarrow>
          if badName text then BadUsage
          else case splitValue text of (name, value) \<Rightarrow>
            (case flags name of
               None \<Rightarrow> if name = ''help'' \<or> name = ''h'' then Help else BadUsage
             | Some fl \<Rightarrow>
                 (case value of
                    Some v \<Rightarrow> (case setFlag fl v st of None \<Rightarrow> BadUsage | Some st' \<Rightarrow> parseFlags flags args st')
                  | None \<Rightarrow>
                      if isBoolFlag fl
                      then (case setFlag fl ''true'' st of None \<Rightarrow> BadUsage | Some st' \<Rightarrow> parseFlags flags args st')
                      else (case args of
                         [] \<Rightarrow> BadUsage
                       | v # args' \<Rightarrow>
                           (case setFlag fl v st of None \<Rightarrow> BadUsage | Some st' \<Rightarrow> parseFlags flags args' st')))))"

section \<open>Reading back rendered flags\<close>

lemma splitValue_eq: "CHR ''='' \<notin> set name \<Longrightarrow> splitValue (name @ CHR ''='' # v) = (name, Some v)"
  using untilChar_append [of "CHR ''=''" name v] by (simp add: splitValue_def Let_def)

text \<open>The form \<open>-name=value\<close>.\<close>

definition renderFlag :: "string \<Rightarrow> string \<Rightarrow> string" where
  "renderFlag name v = CHR ''-'' # name @ CHR ''='' # v"

lemma parseFlags_render:
  assumes "flags name = Some fl" and "name \<noteq> []" and "hd name \<noteq> CHR ''-''" and "CHR ''='' \<notin> set name"
  shows "parseFlags flags (renderFlag name v # args) st =
    (case setFlag fl v st of None \<Rightarrow> BadUsage | Some st' \<Rightarrow> parseFlags flags args st')"
proof -
  from assms(2) obtain c cs where name: "name = c # cs" by (cases name) auto
  then have "flagText (renderFlag name v) = Some (name @ CHR ''='' # v)" "\<not> badName (name @ CHR ''='' # v)"
    using assms(3,4) by (auto simp: flagText_def badName_def renderFlag_def)
  with assms(1,4) show ?thesis by (simp add: splitValue_eq)
qed

lemma ParseBool_words [simp]: "ParseBool ''true'' = Some True" "ParseBool ''false'' = Some False"
  by (simp_all add: ParseBool_def)

lemma underscore_not_digit: "isDigit c \<Longrightarrow> c \<noteq> CHR ''_''"
  by (auto simp: isDigit_def)

lemma baseDigits_10:
  "list_all isDigit s \<Longrightarrow> baseDigits 10 s n = Some (foldl (\<lambda>a c. 10 * a + digitVal c) n s)"
proof (induction s arbitrary: n)
  case (Cons c cs)
  then have "isDigit c" by simp
  then have "digitVal c < 10" "c \<noteq> CHR ''_''" "digitOf c = Some (digitVal c)"
    by (auto simp: isDigit_def digitVal_def digitOf_def)
  with Cons show ?case by simp
qed simp

lemma digitChar_zero: "d < 10 \<Longrightarrow> digitChar d = CHR ''0'' \<Longrightarrow> d = 0"
  by (drule arg_cong [where f = "of_char :: char \<Rightarrow> nat"]) (simp add: of_char_digitChar)

lemma natString_no_zero: "0 < n \<Longrightarrow> hd (natString n) \<noteq> CHR ''0''"
proof (induction n rule: natString.induct)
  case (1 n)
  show ?case
  proof (cases "n < 10")
    case True
    with 1 digitChar_zero [of n] show ?thesis by (auto simp: natString.simps [of n])
  next
    case False
    obtain c cs where "natString (n div 10) = c # cs" using natString_head by blast
    with False 1 show ?thesis by (simp add: natString.simps [of n])
  qed
qed

lemma ParseUint_natString: "ParseUint (natString n) = Some n"
proof (cases "n = 0")
  case True
  have "ParseUint (natString 0) = Some 0" by code_simp
  with True show ?thesis by simp
next
  case False
  let ?s = "natString n"
  have ds: "list_all isDigit ?s" "?s \<noteq> []" "digitsVal ?s = n"
    using natString_digits [of n] by (simp_all add: digitsOnly_def)
  then obtain c cs where s: "?s = c # cs" by (cases ?s) auto
  have "c \<noteq> CHR ''0''" using natString_no_zero [of n] False s by simp
  then have "basePrefix ?s = (10, ?s)" by (simp add: s basePrefix_def)
  moreover have "baseDigits 10 ?s 0 = Some n" using baseDigits_10 [OF ds(1)] ds(3) by (simp add: digitsVal_def)
  moreover have "CHR ''_'' \<notin> set ?s" using ds(1) underscore_not_digit by (auto simp: list_all_iff)
  ultimately show ?thesis using ds(2) by (simp add: ParseUint_def)
qed

lemma ParseInt_intString: "inInt64 i \<Longrightarrow> ParseInt (intString i) = Some i"
proof -
  assume i: "inInt64 i"
  obtain c cs where s: "natString (nat i) = c # cs" "isDigit c" using natString_head by blast
  then have "c \<noteq> CHR ''-''" "c \<noteq> CHR ''+''" by auto
  with i s ParseUint_natString [of "nat i"] ParseUint_natString [of "nat (- i)"] show ?thesis
    by (auto simp: ParseInt_def intString_def)
qed

end
