(* ===== verification/KubeTypes.thy ===== *)
theory KubeTypes
  imports GoStrings
begin

text \<open>
  The Kubernetes and Portworx API objects the program reads and writes, with the fields its
  code mentions.  A Go pointer or map that may be nil is an \<open>option\<close>; \<open>int32\<close> and
  \<open>int64\<close> fields are words.  Of nodes, namespaces, config maps, service accounts, cluster role
  bindings and webhook configurations the program uses only the metadata.
\<close>

type_synonym int32 = "32 word"
type_synonym int64 = "64 word"
type_synonym strmap = "string \<rightharpoonup> string"

section \<open>Metadata and pods\<close>

record ObjectMeta =
  Name :: string
  Namespace :: string
  UID :: string
  Labels :: "strmap option"
  Annotations :: "strmap option"

definition metaNamed :: "string \<Rightarrow> string \<Rightarrow> strmap option \<Rightarrow> ObjectMeta" where
  "metaNamed ns name labels =
     \<lparr>Name = name, Namespace = ns, UID = [], Labels = labels, Annotations = None\<rparr>"

record SecretKeySelector =
  selName :: string
  selKey :: string

record EnvVarSource =
  SecretKeyRef :: "SecretKeySelector option"

record EnvVar =
  envName :: string
  envValue :: string
  envValueFrom :: "EnvVarSource option"

record HostPathVolumeSource =
  hostPath :: string
  hostPathType :: "string option"

record Volume =
  volName :: string
  volHostPath :: "HostPathVolumeSource option"
  volPortworxVolume :: "string option"
  volPersistentVolumeClaim :: "string option"

record VolumeMount =
  mountName :: string
  mountPath :: string
  mountReadOnly :: bool

datatype IntOrString = IntVal int32 | StrVal string

text \<open>\<open>IntOrString.IntVal\<close> read without looking at the type: zero for a string.\<close>

fun intVal :: "IntOrString \<Rightarrow> int32" where
  "intVal (IntVal i) = i"
| "intVal (StrVal s) = 0"

datatype ProbeHandler = ExecAction "string list" | HTTPGetAction string string IntOrString

record Probe =
  probeInitialDelaySeconds :: int32
  probePeriodSeconds :: int32
  probeHandler :: ProbeHandler

record Container =
  cName :: string
  cImage :: string
  cImagePullPolicy :: string
  cArgs :: "string list"
  cEnv :: "EnvVar list"
  cPrivileged :: "bool option"
  cReadinessProbe :: "Probe option"
  cVolumeMounts :: "VolumeMount list"

text \<open>\<open>*v1.Affinity\<close> is only handed from one object to another: its contents are opaque.\<close>

datatype affinity = Affinity string

record PodSpec =
  HostPID :: bool
  HostNetwork :: bool
  podAffinity :: "affinity option"
  Containers :: "Container list"
  RestartPolicy :: string
  ServiceAccountName :: string
  Volumes :: "Volume list"

section \<open>Workloads\<close>

record DaemonSetStatus =
  ObservedGeneration :: int64
  DesiredNumberScheduled :: int32
  UpdatedNumberScheduled :: int32
  NumberUnavailable :: int32
  NumberReady :: int32

record DaemonSet =
  dsMeta :: ObjectMeta
  dsMatchLabels :: "strmap option"
  dsTemplateLabels :: "strmap option"
  dsPodSpec :: PodSpec
  dsStatus :: DaemonSetStatus

record PVC =
  pvcMeta :: ObjectMeta
  pvcStorageClassName :: "string option"
  pvcVolumeName :: string

record Deployment =
  depMeta :: ObjectMeta
  depReplicas :: "int32 option"
  depVolumes :: "Volume list"

record StatefulSet =
  ssMeta :: ObjectMeta
  ssReplicas :: "int32 option"
  ssVolumeClaimTemplates :: "PVC list"

record OwnerReference =
  ownerUID :: string
  ownerController :: "bool option"

record ContainerStatus =
  csRunning :: bool
  csTerminatedOK :: bool
  csReady :: bool

record Pod =
  podMeta :: ObjectMeta
  podOwnerReferences :: "OwnerReference list"
  podVolumes :: "Volume list"
  podPhase :: string
  podInitRunning :: "bool list"
  podContainerStatuses :: "ContainerStatus list"

section \<open>Storage, services and access control\<close>

record PV =
  pvMeta :: ObjectMeta
  pvPortworxVolume :: "string option"

record StorageClass =
  scMeta :: ObjectMeta
  scProvisioner :: string
  scParameters :: "strmap option"

record ServicePort =
  portName :: string
  portProtocol :: string
  portPort :: int32
  portTargetPort :: IntOrString

record Service =
  svcMeta :: ObjectMeta
  svcClusterIP :: string
  svcSelector :: "strmap option"
  svcType :: string
  svcPorts :: "ServicePort list"

record Secret =
  secretMeta :: ObjectMeta
  secretData :: strmap

record PolicyRule =
  APIGroups :: "string list"
  Resources :: "string list"
  ResourceNames :: "string list"
  Verbs :: "string list"

record Role =
  roleMeta :: ObjectMeta
  roleRules :: "PolicyRule list"

record Subject =
  subjectKind :: string
  subjectName :: string
  subjectNamespace :: string

record RoleRef =
  refKind :: string
  refName :: string
  refAPIGroup :: string

record RoleBinding =
  rbMeta :: ObjectMeta
  rbSubjects :: "Subject list"
  rbRoleRef :: RoleRef

record CRDCondition =
  condType :: string
  condStatus :: string
  condReason :: string

record CustomResourceDefinition =
  crdMeta :: ObjectMeta
  crdGroup :: string
  crdVersion :: string
  crdScope :: string
  crdSingular :: string
  crdPlural :: string
  crdKind :: string
  crdConditions :: "CRDCondition list"

section \<open>All objects\<close>

datatype kind =
    DaemonSetKind | DeploymentKind | StatefulSetKind | PodKind | PVCKind | PVKind
  | StorageClassKind | ServiceKind | NodeKind | NamespaceKind | ConfigMapKind | SecretKind
  | ServiceAccountKind | RoleKind | RoleBindingKind | ClusterRoleKind | ClusterRoleBindingKind
  | MutatingWebhookConfigurationKind | CustomResourceDefinitionKind

datatype kobject =
    KDaemonSet DaemonSet | KDeployment Deployment | KStatefulSet StatefulSet | KPod Pod
  | KPVC PVC | KPV PV | KStorageClass StorageClass | KService Service | KSecret Secret
  | KRole Role | KRoleBinding RoleBinding | KClusterRole Role
  | KCRD CustomResourceDefinition | KNode ObjectMeta | KNamespace ObjectMeta
  | KConfigMap ObjectMeta | KServiceAccount ObjectMeta | KClusterRoleBinding ObjectMeta
  | KMutatingWebhookConfiguration ObjectMeta

fun kindOf :: "kobject \<Rightarrow> kind" where
  "kindOf (KDaemonSet x) = DaemonSetKind"
| "kindOf (KDeployment x) = DeploymentKind"
| "kindOf (KStatefulSet x) = StatefulSetKind"
| "kindOf (KPod x) = PodKind"
| "kindOf (KPVC x) = PVCKind"
| "kindOf (KPV x) = PVKind"
| "kindOf (KStorageClass x) = StorageClassKind"
| "kindOf (KService x) = ServiceKind"
| "kindOf (KSecret x) = SecretKind"
| "kindOf (KRole x) = RoleKind"
| "kindOf (KRoleBinding x) = RoleBindingKind"
| "kindOf (KClusterRole x) = ClusterRoleKind"
| "kindOf (KCRD x) = CustomResourceDefinitionKind"
| "kindOf (KNode m) = NodeKind"
| "kindOf (KNamespace m) = NamespaceKind"
| "kindOf (KConfigMap m) = ConfigMapKind"
| "kindOf (KServiceAccount m) = ServiceAccountKind"
| "kindOf (KClusterRoleBinding m) = ClusterRoleBindingKind"
| "kindOf (KMutatingWebhookConfiguration m) = MutatingWebhookConfigurationKind"

fun metaOf :: "kobject \<Rightarrow> ObjectMeta" where
  "metaOf (KDaemonSet x) = dsMeta x"
| "metaOf (KDeployment x) = depMeta x"
| "metaOf (KStatefulSet x) = ssMeta x"
| "metaOf (KPod x) = podMeta x"
| "metaOf (KPVC x) = pvcMeta x"
| "metaOf (KPV x) = pvMeta x"
| "metaOf (KStorageClass x) = scMeta x"
| "metaOf (KService x) = svcMeta x"
| "metaOf (KSecret x) = secretMeta x"
| "metaOf (KRole x) = roleMeta x"
| "metaOf (KRoleBinding x) = rbMeta x"
| "metaOf (KClusterRole x) = roleMeta x"
| "metaOf (KCRD x) = crdMeta x"
| "metaOf (KNode m) = m"
| "metaOf (KNamespace m) = m"
| "metaOf (KConfigMap m) = m"
| "metaOf (KServiceAccount m) = m"
| "metaOf (KClusterRoleBinding m) = m"
| "metaOf (KMutatingWebhookConfiguration m) = m"

section \<open>The Portworx driver's view of volumes and nodes\<close>

datatype AttachState = ATTACH_STATE_EXTERNAL | ATTACH_STATE_INTERNAL | ATTACH_STATE_INTERNAL_SWITCH

record OsdVolume =
  volLocatorName :: string
  AttachedState :: AttachState

record OsdNode =
  osdNodeId :: string
  NodeLabels :: strmap

end
