(* ===== verification/World.thy ===== *)
theory World
  imports KubeTypes
begin

text \<open>
  The world outside the process, and the process's few mutable cells.  The Kubernetes API
  server, the Portworx REST service and the key-value store are services: they enter the model
  as the parameter \<open>env\<close>, a handler of requests over a state \<open>'s\<close> nothing is assumed about.
  Every request the program sends is logged in \<open>reqs\<close>, so that what the program does can be
  stated for every behaviour of the services.
\<close>

section \<open>Requests and replies\<close>

text \<open>
  Verbs on Kubernetes objects name the kind, the namespace and the name.  The service patch
  carries the port list its JSON text denotes.  A reply that is not of the requested type is
  what a client reports as a decoding error.
\<close>

datatype request =
    ReqGet kind string string
  | ReqList kind string string
  | ReqCreate kobject
  | ReqUpdate kobject
  | ReqDelete kind string string
  | ReqPatchPorts string string "ServicePort list"
  | ReqNewDriverClient string
  | ReqNewClusterClient string
  | ReqInspect "string list"
  | ReqEnumerate
  | ReqKvdbVersion string string strmap
  | ReqKvdbNew string string "string list" strmap
  | ReqKvdbDeleteTree string
  | ReqKubeConfig string
  | ReqNewForConfig
  | ReqGetenv string

datatype reply =
    RObj kobject
  | RList "kobject list"
  | RVolumes "OsdVolume list"
  | RNodes "OsdNode list"
  | RString string
  | RDone
  | RErr goerror

section \<open>Environment and world\<close>

text \<open>
  \<open>handle\<close> answers a request, changes the state of the services and takes some time
  (nanoseconds); \<open>idle d\<close> is what happens to them while the program sleeps for \<open>d\<close>: the
  sleep may overrun by the time it returns.
\<close>

record 's env =
  handle :: "request \<Rightarrow> 's \<Rightarrow> reply \<times> 's \<times> nat"
  idle :: "int \<Rightarrow> 's \<Rightarrow> 's \<times> nat"
  debugLevel :: bool

datatype platformType = platformTypeDefault | platformTypePKS

text \<open>
  \<open>platform\<close> is the field of that name of the \<open>pxClusterOps\<close> instance and \<open>cores\<close> the
  package variable of \<open>px.go\<close>: the only two variables that outlive a call.
\<close>

record 's world =
  srv :: 's
  clock :: int
  reqs :: "request list"
  platform :: platformType
  cores :: string

definition call :: "'s env \<Rightarrow> request \<Rightarrow> ('s world, reply) go" where
  "call env q w =
     (case handle env q (srv w) of
        (r, s, d) \<Rightarrow>
          (Ok r, w\<lparr>srv := s, clock := clock w + int d, reqs := reqs w @ [q]\<rparr>))"

definition setPlatform :: "platformType \<Rightarrow> ('s world, unit) go" where
  "setPlatform p w = (Ok (), w\<lparr>platform := p\<rparr>)"

definition getPlatform :: "('s world, platformType) go" where
  "getPlatform w = (Ok (platform w), w)"

definition setCores :: "string \<Rightarrow> ('s world, unit) go" where
  "setCores c w = (Ok (), w\<lparr>cores := c\<rparr>)"

definition getCores :: "('s world, string) go" where
  "getCores w = (Ok (cores w), w)"

definition decodeError :: goerror where
  "decodeError = ErrorString ''unexpected response''"

definition callObj :: "'s env \<Rightarrow> request \<Rightarrow> (kobject \<Rightarrow> 'a option) \<Rightarrow> ('s world, 'a) go" where
  "callObj env q dec =
     bindE (call env q) (\<lambda>r. case r of
        RErr e \<Rightarrow> raiseE e
      | RObj ob \<Rightarrow> (case dec ob of Some x \<Rightarrow> returnE x | None \<Rightarrow> raiseE decodeError)
      | _ \<Rightarrow> raiseE decodeError)"

definition callList :: "'s env \<Rightarrow> request \<Rightarrow> (kobject \<Rightarrow> 'a option) \<Rightarrow> ('s world, 'a list) go" where
  "callList env q dec =
     bindE (call env q) (\<lambda>r. case r of
        RErr e \<Rightarrow> raiseE e
      | RList obs \<Rightarrow> (case those (map dec obs) of Some xs \<Rightarrow> returnE xs | None \<Rightarrow> raiseE decodeError)
      | _ \<Rightarrow> raiseE decodeError)"

definition callDone :: "'s env \<Rightarrow> request \<Rightarrow> ('s world, unit) go" where
  "callDone env q = bindE (call env q) (\<lambda>r. case r of RErr e \<Rightarrow> raiseE e | _ \<Rightarrow> returnE ())"

definition callString :: "'s env \<Rightarrow> request \<Rightarrow> ('s world, string) go" where
  "callString env q =
     bindE (call env q) (\<lambda>r. case r of
        RErr e \<Rightarrow> raiseE e | RString s \<Rightarrow> returnE s | _ \<Rightarrow> raiseE decodeError)"

section \<open>Decoding objects\<close>

definition asDaemonSet :: "kobject \<Rightarrow> DaemonSet option" where
  "asDaemonSet ob = (case ob of KDaemonSet x \<Rightarrow> Some x | _ \<Rightarrow> None)"
definition asDeployment :: "kobject \<Rightarrow> Deployment option" where
  "asDeployment ob = (case ob of KDeployment x \<Rightarrow> Some x | _ \<Rightarrow> None)"
definition asStatefulSet :: "kobject \<Rightarrow> StatefulSet option" where
  "asStatefulSet ob = (case ob of KStatefulSet x \<Rightarrow> Some x | _ \<Rightarrow> None)"
definition asPod :: "kobject \<Rightarrow> Pod option" where
  "asPod ob = (case ob of KPod x \<Rightarrow> Some x | _ \<Rightarrow> None)"
definition asPVC :: "kobject \<Rightarrow> PVC option" where
  "asPVC ob = (case ob of KPVC x \<Rightarrow> Some x | _ \<Rightarrow> None)"
definition asPV :: "kobject \<Rightarrow> PV option" where
  "asPV ob = (case ob of KPV x \<Rightarrow> Some x | _ \<Rightarrow> None)"
definition asStorageClass :: "kobject \<Rightarrow> StorageClass option" where
  "asStorageClass ob = (case ob of KStorageClass x \<Rightarrow> Some x | _ \<Rightarrow> None)"
definition asService :: "kobject \<Rightarrow> Service option" where
  "asService ob = (case ob of KService x \<Rightarrow> Some x | _ \<Rightarrow> None)"
definition asSecret :: "kobject \<Rightarrow> Secret option" where
  "asSecret ob = (case ob of KSecret x \<Rightarrow> Some x | _ \<Rightarrow> None)"
definition asCRD :: "kobject \<Rightarrow> CustomResourceDefinition option" where
  "asCRD ob = (case ob of KCRD x \<Rightarrow> Some x | _ \<Rightarrow> None)"
definition asMeta :: "kind \<Rightarrow> kobject \<Rightarrow> ObjectMeta option" where
  "asMeta k ob = (if kindOf ob = k then Some (metaOf ob) else None)"

lemmas decoders = asDaemonSet_def asDeployment_def asStatefulSet_def asPod_def asPVC_def asPV_def
  asStorageClass_def asService_def asSecret_def asCRD_def asMeta_def

lemma decode_Some:
  "asDaemonSet ob = Some x0 \<longleftrightarrow> ob = KDaemonSet x0"
  "asDeployment ob = Some x1 \<longleftrightarrow> ob = KDeployment x1"
  "asStatefulSet ob = Some x2 \<longleftrightarrow> ob = KStatefulSet x2"
  "asPod ob = Some x3 \<longleftrightarrow> ob = KPod x3"
  "asPVC ob = Some x4 \<longleftrightarrow> ob = KPVC x4"
  "asPV ob = Some x5 \<longleftrightarrow> ob = KPV x5"
  "asStorageClass ob = Some x6 \<longleftrightarrow> ob = KStorageClass x6"
  "asService ob = Some x7 \<longleftrightarrow> ob = KService x7"
  "asSecret ob = Some x8 \<longleftrightarrow> ob = KSecret x8"
  "asCRD ob = Some x9 \<longleftrightarrow> ob = KCRD x9"
  by (auto simp: decoders split: kobject.split_asm)

definition objAnd :: "(kobject \<Rightarrow> 'a option) \<Rightarrow> ('a \<Rightarrow> bool) \<Rightarrow> reply \<Rightarrow> bool" where
  "objAnd dec P r = (case r of RObj ob \<Rightarrow> (case dec ob of Some x \<Rightarrow> P x | None \<Rightarrow> False) | _ \<Rightarrow> False)"

lemma objAnd_iff: "objAnd dec P r \<longleftrightarrow> (\<exists>ob x. r = RObj ob \<and> dec ob = Some x \<and> P x)"
  by (cases r) (auto simp: objAnd_def split: option.splits)

section \<open>Which requests change anything\<close>

text \<open>Requests that change the state of a service.\<close>

fun isMutation :: "request \<Rightarrow> bool" where
  "isMutation (ReqCreate x) = True"
| "isMutation (ReqUpdate x) = True"
| "isMutation (ReqDelete k ns n) = True"
| "isMutation (ReqPatchPorts ns n ps) = True"
| "isMutation (ReqKvdbDeleteTree t) = True"
| "isMutation _ = False"

abbreviation isRead :: "request \<Rightarrow> bool" where
  "isRead q \<equiv> \<not> isMutation q"

section \<open>The requests a piece of code sends\<close>

text \<open>
  \<open>issues P m\<close>: whatever the services answer, running \<open>m\<close> only appends to the log, and only
  requests that satisfy \<open>P\<close>.  The rules follow the combinators, so a component's rule is
  proved by unfolding its definition and applying the collection.
\<close>

definition issuesOn ::
  "('w \<Rightarrow> request list) \<Rightarrow> (request \<Rightarrow> bool) \<Rightarrow> ('w, 'a) go \<Rightarrow> bool" where
  "issuesOn rq P m \<longleftrightarrow> (\<forall>w. \<exists>l. rq (snd (m w)) = rq w @ l \<and> list_all P l)"

abbreviation issues :: "(request \<Rightarrow> bool) \<Rightarrow> ('s world, 'a) go \<Rightarrow> bool" where
  "issues \<equiv> issuesOn reqs"

definition trace :: "('s world, 'a) go \<Rightarrow> 's world \<Rightarrow> request list" where
  "trace m w = drop (length (reqs w)) (reqs (snd (m w)))"

lemma issuesI: "(\<And>w. \<exists>l. rq (snd (m w)) = rq w @ l \<and> list_all P l) \<Longrightarrow> issuesOn rq P m"
  by (simp add: issuesOn_def)

lemma issues_mono: "issuesOn rq P m \<Longrightarrow> (\<And>q. P q \<Longrightarrow> Q q) \<Longrightarrow> issuesOn rq Q m"
  unfolding issuesOn_def list_all_iff by blast

lemma issues_trace: "issues P m \<Longrightarrow> list_all P (trace m w)"
  unfolding issuesOn_def trace_def by (metis append_eq_conv_conj)

lemma issues_reqs: "issues P m \<Longrightarrow> reqs (snd (m w)) = reqs w @ trace m w"
  unfolding issuesOn_def trace_def by (metis append_eq_conv_conj)

lemma issues_returnE [issues_intro]: "issuesOn rq P (returnE a)"
  by (simp add: issuesOn_def returnE_def)

lemma issues_raiseE [issues_intro]: "issuesOn rq P (raiseE e)"
  by (simp add: issuesOn_def raiseE_def)

lemma issues_panicE [issues_intro]: "issuesOn rq P (panicE p)"
  by (simp add: issuesOn_def panicE_def)

lemma issues_cells [issues_intro]:
  "issues P (setPlatform p)" "issues P getPlatform" "issues P (setCores c)" "issues P getCores"
  by (simp_all add: issuesOn_def setPlatform_def getPlatform_def setCores_def getCores_def)

lemma issues_call: "P q \<Longrightarrow> issues P (call env q)"
  by (simp add: issuesOn_def call_def split: prod.splits)

lemma issues_bindE [issues_intro]:
  assumes "issuesOn rq P m" and "\<And>a. issuesOn rq P (f a)"
  shows "issuesOn rq P (bindE m f)"
proof (rule issuesI)
  fix w
  obtain r w' where m: "m w = (r, w')" by (cases "m w")
  with assms(1) obtain l where l: "rq w' = rq w @ l" "list_all P l"
    unfolding issuesOn_def by (metis snd_conv)
  show "\<exists>l. rq (snd (bindE m f w)) = rq w @ l \<and> list_all P l"
  proof (cases r)
    case (Ok a)
    from assms(2) [of a] obtain k where "rq (snd (f a w')) = rq w' @ k" "list_all P k"
      unfolding issuesOn_def by blast
    with l m Ok show ?thesis by (auto simp: bindE_def)
  qed (use l m in \<open>auto simp: bindE_def\<close>)
qed

lemma issues_tryE [issues_intro]: "issuesOn rq P m \<Longrightarrow> issuesOn rq P (tryE m)"
  unfolding issuesOn_def tryE_def
  by (rule allI, drule_tac x=w in spec) (auto split: prod.splits outcome.splits)

lemma issues_deferE [issues_intro]:
  assumes "issuesOn rq P d" and "issuesOn rq P m"
  shows "issuesOn rq P (deferE d m)"
proof (rule issuesI)
  fix w
  obtain r w' where m: "m w = (r, w')" by (cases "m w")
  obtain x w'' where d: "d w' = (x, w'')" by (cases "d w'")
  from assms m d obtain l k where "rq w' = rq w @ l" "list_all P l"
      "rq w'' = rq w' @ k" "list_all P k"
    unfolding issuesOn_def by (metis snd_conv)
  with m d show "\<exists>l. rq (snd (deferE d m w)) = rq w @ l \<and> list_all P l"
    by (cases r; cases x) (auto simp: deferE_def)
qed

lemma issues_forE [issues_intro]: "(\<And>x. issuesOn rq P (f x)) \<Longrightarrow> issuesOn rq P (forE f xs)"
  by (induction xs) (auto intro: issues_intro)

lemma issues_collectE [issues_intro]: "(\<And>x. issuesOn rq P (f x)) \<Longrightarrow> issuesOn rq P (collectE f xs)"
  by (induction xs) (auto intro: issues_intro)

lemma issues_if [issues_intro]:
  "(b \<Longrightarrow> issuesOn rq P m) \<Longrightarrow> (\<not> b \<Longrightarrow> issuesOn rq P n) \<Longrightarrow> issuesOn rq P (if b then m else n)"
  by simp

lemma issues_anyE [issues_intro]: "(\<And>x. issuesOn rq P (f x)) \<Longrightarrow> issuesOn rq P (anyE f xs)"
  by (induction xs) (auto intro: issues_intro)

lemma issues_option [issues_intro]:
  "(x = None \<Longrightarrow> issuesOn rq P m) \<Longrightarrow> (\<And>a. x = Some a \<Longrightarrow> issuesOn rq P (f a)) \<Longrightarrow>
     issuesOn rq P (case x of None \<Rightarrow> m | Some a \<Rightarrow> f a)"
  by (cases x) auto

lemma issues_sum [issues_intro]:
  "(\<And>a. x = Inl a \<Longrightarrow> issuesOn rq P (g a)) \<Longrightarrow> (\<And>a. x = Inr a \<Longrightarrow> issuesOn rq P (f a)) \<Longrightarrow>
     issuesOn rq P (case x of Inl a \<Rightarrow> g a | Inr a \<Rightarrow> f a)"
  by (cases x) auto

lemma issues_list [issues_intro]:
  "(x = [] \<Longrightarrow> issuesOn rq P m) \<Longrightarrow> (\<And>a as. x = a # as \<Longrightarrow> issuesOn rq P (f a as)) \<Longrightarrow>
     issuesOn rq P (case x of [] \<Rightarrow> m | a # as \<Rightarrow> f a as)"
  by (cases x) auto

lemma issues_prod [issues_intro]:
  "(\<And>a b. x = (a, b) \<Longrightarrow> issuesOn rq P (f a b)) \<Longrightarrow> issuesOn rq P (case x of (a, b) \<Rightarrow> f a b)"
  by (cases x) auto

lemma issues_Let [issues_intro]: "issuesOn rq P (f x) \<Longrightarrow> issuesOn rq P (let y = x in f y)"
  by simp

lemma issues_callObj [issues_intro]: "P q \<Longrightarrow> issues P (callObj env q dec)"
  unfolding callObj_def
  by (intro issues_bindE issues_call) (auto intro: issues_intro split: reply.split)

lemma issues_callList [issues_intro]: "P q \<Longrightarrow> issues P (callList env q dec)"
  unfolding callList_def
  by (intro issues_bindE issues_call) (auto intro: issues_intro split: reply.split)

lemma issues_callDone [issues_intro]: "P q \<Longrightarrow> issues P (callDone env q)"
  unfolding callDone_def
  by (intro issues_bindE issues_call) (auto intro: issues_intro split: reply.split)

lemma issues_callString [issues_intro]: "P q \<Longrightarrow> issues P (callString env q)"
  unfolding callString_def
  by (intro issues_bindE issues_call) (auto intro: issues_intro split: reply.split)

section \<open>Requests never panic\<close>

lemma calm_call [calm_intro]: "calm (call env q)"
  by (simp add: calm_def call_def split: prod.splits)

lemma calm_calls [calm_intro]:
  "calm (callObj env q dec)" "calm (callList env q dec)" "calm (callDone env q)" "calm (callString env q)"
  unfolding callObj_def callList_def callDone_def callString_def
  by (auto intro!: calm_intro split: reply.split)

end
