(* ===== verification/Retry.thy ===== *)
theory Retry
  imports World
begin

text \<open>
  \<open>task.DoRetryWithTimeout\<close> of the vendored \<open>sched-ops\<close> package: a task is run again and again,
  with a pause between the runs, until it succeeds, fails for good, or the deadline passes.
\<close>

section \<open>Durations\<close>

text \<open>Nanoseconds, as in \<open>time.Duration\<close>.\<close>

definition Second :: int where "Second = 1000000000"
definition Minute :: int where "Minute = 60 * Second"

definition defaultRetryInterval :: int where "defaultRetryInterval = 10 * Second"

lemmas durations = Second_def Minute_def defaultRetryInterval_def

section \<open>The retry loop\<close>

text \<open>
  What a task \<^verbatim>\<open>func() (interface{}, bool, error)\<close> returns: no error, an error with
  \<open>retry = false\<close>, an error with \<open>retry = true\<close>; or it panics, which, in the goroutine the
  loop runs in, ends the process.  \<open>'l\<close> are the caller's variables the task's closure writes.
\<close>

datatype attempt = Done | GiveUp goerror | TryAgain goerror | TaskPanic string

type_synonym ('l, 's) task = "'l \<Rightarrow> 's world \<Rightarrow> attempt \<times> 'l \<times> 's world"

text \<open>
  \<open>time.Sleep(d)\<close>: the clock advances by at least \<open>d\<close>; two readings of the clock in different
  iterations differ by at least one nanosecond more, and never go back.
\<close>

definition sleep :: "'s env \<Rightarrow> int \<Rightarrow> int \<Rightarrow> 's world \<Rightarrow> 's world" where
  "sleep env since d w =
     (case idle env d (srv w) of
        (s, extra) \<Rightarrow> w\<lparr>srv := s, clock := max since (clock w) + max 0 d + int extra + 1\<rparr>)"

lemma sleep_clock_ge: "since + d < clock (sleep env since d w)"
proof -
  obtain s x where "idle env d (srv w) = (s, x)" by (cases "idle env d (srv w)")
  then show ?thesis by (simp add: sleep_def max_def)
qed

lemma sleep_clock: "since < clock (sleep env since d w)"
proof -
  obtain s x where "idle env d (srv w) = (s, x)" by (cases "idle env d (srv w)")
  then show ?thesis by (simp add: sleep_def max_def)
qed

lemma sleep_cells [simp]:
  "platform (sleep env since d w) = platform w" "cores (sleep env since d w) = cores w"
  by (simp_all add: sleep_def split: prod.splits)

lemma sleep_reqs [simp]: "reqs (sleep env since d w) = reqs w"
  by (simp add: sleep_def split: prod.splits)

function retryLoop ::
  "'s env \<Rightarrow> ('l, 's) task \<Rightarrow> int \<Rightarrow> int \<Rightarrow> 'l \<Rightarrow> 's world \<Rightarrow> (unit outcome \<times> 'l \<times> 's world)" where
  "retryLoop env t deadline pause l w =
     (if deadline \<le> clock w then (Err (ErrTimedOut ''context deadline exceeded''), l, w)
      else case t l w of
        (Done, l', w') \<Rightarrow> (Ok (), l', w')
      | (GiveUp e, l', w') \<Rightarrow> (Err e, l', w')
      | (TaskPanic p, l', w') \<Rightarrow> (Crash p, l', w')
      | (TryAgain e, l', w') \<Rightarrow> retryLoop env t deadline pause l' (sleep env (clock w) pause w'))"
  by pat_completeness auto

termination retryLoop
proof (relation "measure (\<lambda>(env, t, deadline, pause, l, w). nat (deadline - clock w))")
  fix env :: "'s env" and t :: "('l, 's) task" and deadline :: int and pause :: int
    and l l' :: 'l and w w' :: "'s world" and a b e
  assume "\<not> deadline \<le> clock w"
  then show "((env, t, deadline, pause, l', sleep env (clock w) pause w'),
      (env, t, deadline, pause, l, w)) \<in> measure (\<lambda>(env, t, deadline, pause, l, w). nat (deadline - clock w))"
    using sleep_clock [of "clock w" env pause w'] by simp
qed simp

declare retryLoop.simps [simp del]

text \<open>The loop for evaluation: what follows an attempt is decided by matching on its result.\<close>

fun retryStep ::
  "'s env \<Rightarrow> ('l, 's) task \<Rightarrow> int \<Rightarrow> int \<Rightarrow> int \<Rightarrow> attempt \<times> 'l \<times> 's world \<Rightarrow>
     (unit outcome \<times> 'l \<times> 's world)" where
  "retryStep env t deadline pause since (Done, l', w') = (Ok (), l', w')"
| "retryStep env t deadline pause since (GiveUp e, l', w') = (Err e, l', w')"
| "retryStep env t deadline pause since (TaskPanic p, l', w') = (Crash p, l', w')"
| "retryStep env t deadline pause since (TryAgain e, l', w') =
     retryLoop env t deadline pause l' (sleep env since pause w')"

lemma retryLoop_code [code]:
  "retryLoop env t deadline pause l w =
     (if deadline \<le> clock w then (Err (ErrTimedOut ''context deadline exceeded''), l, w)
      else retryStep env t deadline pause (clock w) (t l w))"
  by (simp add: retryLoop.simps [of env t] split: prod.split attempt.split)

definition DoRetryWithTimeout ::
  "'s env \<Rightarrow> ('l, 's) task \<Rightarrow> int \<Rightarrow> int \<Rightarrow> 'l \<Rightarrow> ('s world, 'l) go" where
  "DoRetryWithTimeout env t timeout timeBeforeRetry l w =
     (case retryLoop env t (clock w + timeout) timeBeforeRetry l w of
        (Ok _, l', w') \<Rightarrow> (Ok l', w')
      | (Err e, l', w') \<Rightarrow> (Err e, w')
      | (Panic p, l', w') \<Rightarrow> (Panic p, w')
      | (Crash p, l', w') \<Rightarrow> (Crash p, w'))"

text \<open>
  Tasks are written with the combinators, over the caller's variables and the world;
  \<open>asTask\<close> turns such a piece of code into a task.  The result \<open>Inl e\<close> is
  \<^verbatim>\<open>return nil, false, e\<close>, \<open>Inr ()\<close> is \<^verbatim>\<open>return nil, false, nil\<close>, and an error
  outcome is \<^verbatim>\<open>return nil, true, err\<close>.  \<open>onWorld\<close> runs a call that does not touch the
  caller's variables; \<open>plainTask\<close> is a task that has none.
\<close>

definition asTask :: "('l \<times> 's world, goerror + unit) go \<Rightarrow> ('l, 's) task" where
  "asTask f l w =
     (case f (l, w) of
        (Ok (Inr _), l', w') \<Rightarrow> (Done, l', w')
      | (Ok (Inl e), l', w') \<Rightarrow> (GiveUp e, l', w')
      | (Err e, l', w') \<Rightarrow> (TryAgain e, l', w')
      | (Panic p, l', w') \<Rightarrow> (TaskPanic p, l', w')
      | (Crash p, l', w') \<Rightarrow> (TaskPanic p, l', w'))"

definition onWorld :: "('w, 'a) go \<Rightarrow> ('l \<times> 'w, 'a) go" where
  "onWorld m lw = (case m (snd lw) of (r, w') \<Rightarrow> (r, fst lw, w'))"

definition modifyVars :: "('l \<Rightarrow> 'l) \<Rightarrow> ('l \<times> 'w, unit) go" where
  "modifyVars f lw = (Ok (), f (fst lw), snd lw)"

abbreviation plainTask :: "('s world, goerror + unit) go \<Rightarrow> (unit, 's) task" where
  "plainTask f \<equiv> asTask (onWorld f)"

abbreviation retryPlain ::
  "'s env \<Rightarrow> ('s world, goerror + unit) go \<Rightarrow> int \<Rightarrow> int \<Rightarrow> ('s world, unit) go" where
  "retryPlain env f timeout pause \<equiv> DoRetryWithTimeout env (plainTask f) timeout pause ()"

section \<open>Facts about the loop\<close>

lemma retry_timeout_nonpos:
  "timeout \<le> 0 \<Longrightarrow>
     DoRetryWithTimeout env t timeout d l w = (Err (ErrTimedOut ''context deadline exceeded''), w)"
  by (simp add: DoRetryWithTimeout_def retryLoop.simps)

lemma retry_first_done:
  "0 < timeout \<Longrightarrow> t l w = (Done, l', w') \<Longrightarrow> DoRetryWithTimeout env t timeout d l w = (Ok l', w')"
  by (simp add: DoRetryWithTimeout_def retryLoop.simps)

lemma retry_first_panic:
  "0 < timeout \<Longrightarrow> t l w = (TaskPanic p, l', w') \<Longrightarrow>
     DoRetryWithTimeout env t timeout d l w = (Crash p, w')"
  by (simp add: DoRetryWithTimeout_def retryLoop.simps)

lemma retryPlain_first_done:
  "0 < timeout \<Longrightarrow> f w = (Ok (Inr ()), w') \<Longrightarrow> retryPlain env f timeout d w = (Ok (), w')"
  by (rule retry_first_done) (simp_all add: asTask_def onWorld_def)

lemma retryPlain_first_giveup:
  "0 < timeout \<Longrightarrow> f w = (Ok (Inl e), w') \<Longrightarrow> retryPlain env f timeout d w = (Err e, w')"
  by (simp add: DoRetryWithTimeout_def retryLoop.simps asTask_def onWorld_def)

lemma retryPlain_first_panic:
  "0 < timeout \<Longrightarrow> f w = (Panic p, w') \<Longrightarrow> retryPlain env f timeout d w = (Crash p, w')"
  by (rule retry_first_panic) (simp_all add: asTask_def onWorld_def)

text \<open>The loop itself never ends in a panic that would unwind its caller.\<close>

lemma retryLoop_no_panic:
  "retryLoop env t deadline pause l w = (r, l', w') \<Longrightarrow> r \<noteq> Panic p"
proof (induction "nat (deadline - clock w)" arbitrary: l w rule: less_induct)
  case less
  obtain a l1 w1 where t: "t l w = (a, l1, w1)" by (cases "t l w") auto
  have dec: "nat (deadline - clock (sleep env (clock w) pause w1)) < nat (deadline - clock w)"
    if "\<not> deadline \<le> clock w"
    using sleep_clock [of "clock w" env pause w1] that by simp
  show ?case
    using less.prems less.hyps [OF dec] t
    by (cases a) (auto simp: retryLoop.simps [of env t deadline pause l w] split: if_splits)
qed

lemma retryLoop_no_crash:
  "(\<And>l w p. fst (t l w) \<noteq> TaskPanic p) \<Longrightarrow> retryLoop env t deadline pause l w = (r, l', w') \<Longrightarrow> r \<noteq> Crash p"
proof (induction "nat (deadline - clock w)" arbitrary: l w rule: less_induct)
  case less
  obtain a l1 w1 where t: "t l w = (a, l1, w1)" by (cases "t l w") auto
  have dec: "nat (deadline - clock (sleep env (clock w) pause w1)) < nat (deadline - clock w)"
    if "\<not> deadline \<le> clock w"
    using sleep_clock [of "clock w" env pause w1] that by simp
  have "a \<noteq> TaskPanic q" for q using less.prems(1) [of l w q] t by simp
  then show ?case
    using less.prems less.hyps [OF dec] t
    by (cases a) (auto simp: retryLoop.simps [of env t deadline pause l w] split: if_splits)
qed

lemma calm_retry [calm_intro]: "calm f \<Longrightarrow> calm (retryPlain env f timeout pause)"
proof -
  assume f: "calm f"
  have task: "fst (plainTask f l w) \<noteq> TaskPanic p" for l and w :: "'a world" and p
    using f by (cases "f w"; cases "fst (f w)")
      (auto simp: asTask_def onWorld_def calm_def split: sum.splits dest: spec [of _ w])
  show ?thesis
    unfolding calm_def
  proof (intro allI)
    fix w :: "'a world" and p
    obtain r l' w' where run: "retryLoop env (plainTask f) (clock w + timeout) pause () w = (r, l', w')"
      by (metis surj_pair)
    from retryLoop_no_panic [OF run] retryLoop_no_crash [OF task run] run
    show "fst (retryPlain env f timeout pause w) \<noteq> Panic p \<and> fst (retryPlain env f timeout pause w) \<noteq> Crash p"
      by (cases r) (auto simp: DoRetryWithTimeout_def)
  qed
qed

text \<open>
  The contract between the loop and a task: what the task and the sleeps keep, the loop keeps,
  however it ends; what the task establishes when it succeeds holds when the loop returns
  without error; and an error other than the timeout is one the task gave up with.
\<close>

locale retry_task =
  fixes env :: "'s env" and t :: "('l, 's) task"
    and Inv :: "'l \<Rightarrow> 's world \<Rightarrow> bool" and Post :: "'l \<Rightarrow> 's world \<Rightarrow> bool"
  assumes task_keeps: "Inv l w \<Longrightarrow> t l w = (a, l', w') \<Longrightarrow> Inv l' w'"
    and sleep_keeps: "Inv l w \<Longrightarrow> Inv l (sleep env since d w)"
    and task_post: "Inv l w \<Longrightarrow> t l w = (Done, l', w') \<Longrightarrow> Post l' w'"
begin

lemma loop_rule:
  "Inv l w \<Longrightarrow> retryLoop env t deadline pause l w = (r, l', w') \<Longrightarrow>
     Inv l' w' \<and> (\<forall>u. r = Ok u \<longrightarrow> Post l' w')"
proof (induction "nat (deadline - clock w)" arbitrary: l w rule: less_induct)
  case less
  show ?case
  proof (cases "deadline \<le> clock w")
    case True
    with less.prems show ?thesis by (auto simp: retryLoop.simps)
  next
    case False
    obtain a l1 w1 where t: "t l w = (a, l1, w1)" by (cases "t l w") auto
    let ?w2 = "sleep env (clock w) pause w1"
    have keep: "Inv l1 w1" using task_keeps less.prems(1) t .
    show ?thesis
    proof (cases a)
      case (TryAgain e)
      have "nat (deadline - clock ?w2) < nat (deadline - clock w)"
        using sleep_clock [of "clock w" env pause w1] False by simp
      moreover have "Inv l1 ?w2" using sleep_keeps keep .
      ultimately show ?thesis
        using less.hyps less.prems(2) False t TryAgain
        by (simp add: retryLoop.simps [of env t deadline pause l w])
    qed (use less.prems False t keep task_post in
        \<open>auto simp: retryLoop.simps [of env t deadline pause l w]\<close>)
  qed
qed

lemma retry_keeps:
  "Inv l w \<Longrightarrow> DoRetryWithTimeout env t timeout pause l w = (r, w') \<Longrightarrow> \<exists>l'. Inv l' w'"
  using loop_rule [of l w "clock w + timeout" pause]
  by (auto simp: DoRetryWithTimeout_def split: prod.splits outcome.splits)

lemma retry_post:
  "Inv l w \<Longrightarrow> DoRetryWithTimeout env t timeout pause l w = (Ok l', w') \<Longrightarrow> Post l' w'"
  using loop_rule [of l w "clock w + timeout" pause]
  by (auto simp: DoRetryWithTimeout_def split: prod.splits outcome.splits)

end

section \<open>Requests of retried code\<close>

abbreviation issuesL :: "(request \<Rightarrow> bool) \<Rightarrow> ('l \<times> 's world, 'a) go \<Rightarrow> bool" where
  "issuesL \<equiv> issuesOn (\<lambda>lw. reqs (snd lw))"

lemma issuesL_onWorld [issues_intro]: "issues P m \<Longrightarrow> issuesL P (onWorld m)"
  unfolding issuesOn_def onWorld_def by (metis (no_types, lifting) prod.case_eq_if snd_conv)

lemma issuesL_modifyVars [issues_intro]: "issuesL P (modifyVars f)"
  by (simp add: issuesOn_def modifyVars_def)

lemma logged_retry_task:
  assumes "issuesL P f"
  shows "retry_task env (asTask f) (\<lambda>l w. \<exists>k. reqs w = rs @ k \<and> list_all P k) (\<lambda>l w. True)"
proof
  fix l w a l' w'
  assume w: "\<exists>k. reqs w = rs @ k \<and> list_all P k" and run: "asTask f l w = (a, l', w')"
  have "w' = snd (snd (f (l, w)))"
    using run by (auto simp: asTask_def split: prod.splits outcome.splits sum.splits)
  with assms obtain k where "reqs w' = reqs w @ k" "list_all P k"
    unfolding issuesOn_def by (metis snd_conv)
  with w show "\<exists>k. reqs w' = rs @ k \<and> list_all P k" by auto
qed simp_all

lemma issues_DoRetry [issues_intro]:
  assumes "issuesL P f"
  shows "issues P (DoRetryWithTimeout env (asTask f) timeout pause l)"
proof (rule issuesI)
  fix w :: "'b world"
  obtain r w' where run: "DoRetryWithTimeout env (asTask f) timeout pause l w = (r, w')"
    by (cases "DoRetryWithTimeout env (asTask f) timeout pause l w")
  have "\<exists>k. reqs w' = reqs w @ k \<and> list_all P k"
    using retry_task.retry_keeps [OF logged_retry_task [OF assms, of env "reqs w"] _ run] by simp
  with run show "\<exists>k. reqs (snd (DoRetryWithTimeout env (asTask f) timeout pause l w)) = reqs w @ k \<and>
      list_all P k"
    by simp
qed

section \<open>How often a task runs\<close>

text \<open>A task that also counts its runs.\<close>

definition counted :: "('l, 's) task \<Rightarrow> (nat \<times> 'l, 's) task" where
  "counted t nl w = (case t (snd nl) w of (a, l', w') \<Rightarrow> (a, (Suc (fst nl), l'), w'))"

lemma counted_runs:
  "retryLoop env (counted t) deadline pause (n, l) w = (r, (m, l'), w') \<Longrightarrow>
     n \<le> m \<and> (n < m \<longrightarrow> int (m - n - 1) * pause < deadline - clock w)"
proof (induction "nat (deadline - clock w)" arbitrary: n l w rule: less_induct)
  case less
  show ?case
  proof (cases "deadline \<le> clock w")
    case True
    with less.prems show ?thesis by (auto simp: retryLoop.simps)
  next
    case False
    obtain a l1 w1 where t: "t l w = (a, l1, w1)" by (cases "t l w") auto
    let ?w2 = "sleep env (clock w) pause w1"
    have clock: "clock w + pause < clock ?w2" by (rule sleep_clock_ge)
    show ?thesis
    proof (cases a)
      case (TryAgain e)
      have dec: "nat (deadline - clock ?w2) < nat (deadline - clock w)"
        using sleep_clock [of "clock w" env pause w1] False by simp
      have "retryLoop env (counted t) deadline pause (Suc n, l1) ?w2 = (r, (m, l'), w')"
        using less.prems False t TryAgain
        by (simp add: retryLoop.simps [of env "counted t" deadline pause "(n, l)" w] counted_def)
      from less.hyps [OF dec this] have rest: "Suc n \<le> m"
        "Suc n < m \<longrightarrow> int (m - Suc n - 1) * pause < deadline - clock ?w2" by auto
      show ?thesis
      proof (cases "Suc n = m")
        case True
        then show ?thesis using False by auto
      next
        case False
        with rest have "m - n - 1 = Suc (m - Suc n - 1)" by auto
        then have "int (m - n - 1) * pause = int (m - Suc n - 1) * pause + pause"
          by (simp add: algebra_simps)
        with rest False clock show ?thesis by auto
      qed
    qed (use less.prems False t in
        \<open>auto simp: retryLoop.simps [of env "counted t" deadline pause "(n, l)" w] counted_def\<close>)
  qed
qed

end
