(* ===== verification/SchedOps.thy ===== *)
theory SchedOps
  imports Retry
begin

text \<open>
  The operations of the vendored \<open>sched-ops\<close> package that are more than one request to the API
  server: storage-class lookups, the applications and claims that use a storage class, pod
  readiness and the wait for a ready daemon set.  One-line wrappers are the requests themselves.
  Text of \<open>ErrAppNotReady\<close> is kept up to the counters and the pod overview it ends in.
\<close>

section \<open>Constants\<close>

definition BetaStorageClassAnnotation :: string where [go_consts]:
  "BetaStorageClassAnnotation = ''volume.beta.kubernetes.io/storage-class''"

definition pvcStorageProvisionerKey :: string where [go_consts]:
  "pvcStorageProvisionerKey = ''volume.beta.kubernetes.io/storage-provisioner''"

definition NamespaceDefault :: string where [go_consts]:
  "NamespaceDefault = ''default''"

text \<open>Reading a possibly nil Go map: absent keys and a nil map give the empty string.\<close>

definition lookupStr :: "strmap option \<Rightarrow> string \<Rightarrow> string" where
  "lookupStr m k = (case m of None \<Rightarrow> [] | Some f \<Rightarrow> (case f k of None \<Rightarrow> [] | Some v \<Rightarrow> v))"

section \<open>Claims and storage classes\<close>

definition pvcStorageClass :: "PVC \<Rightarrow> string" where
  "pvcStorageClass pvc =
     (case pvcStorageClassName pvc of
        Some n \<Rightarrow> if n \<noteq> [] then n
                  else lookupStr (Annotations (pvcMeta pvc)) BetaStorageClassAnnotation
      | None \<Rightarrow> lookupStr (Annotations (pvcMeta pvc)) BetaStorageClassAnnotation)"

definition noStorageClass :: "string \<Rightarrow> goerror" where
  "noStorageClass name = ErrorString (''PVC: '' @ name @ '' does not have a storage class'')"

definition GetStorageClassForPVC :: "'s env \<Rightarrow> PVC \<Rightarrow> ('s world, StorageClass) go" where
  "GetStorageClassForPVC env pvc =
     (let scName = pvcStorageClass pvc in
      if scName = [] then raiseE (noStorageClass (Name (pvcMeta pvc)))
      else callObj env (ReqGet StorageClassKind [] scName) asStorageClass)"

definition GetPersistentVolumeClaim :: "'s env \<Rightarrow> string \<Rightarrow> string \<Rightarrow> ('s world, PVC) go" where
  "GetPersistentVolumeClaim env pvcName namespace =
     callObj env (ReqGet PVCKind namespace pvcName) asPVC"

definition GetPersistentVolume :: "'s env \<Rightarrow> string \<Rightarrow> ('s world, PV) go" where
  "GetPersistentVolume env pvName = callObj env (ReqGet PVKind [] pvName) asPV"

definition GetVolumeForPersistentVolumeClaim :: "'s env \<Rightarrow> PVC \<Rightarrow> ('s world, string) go" where
  "GetVolumeForPersistentVolumeClaim env pvc =
     bindE (GetPersistentVolumeClaim env (Name (pvcMeta pvc)) (Namespace (pvcMeta pvc)))
       (\<lambda>result. returnE (pvcVolumeName result))"

definition GetStorageProvisionerForPVC :: "'s env \<Rightarrow> PVC \<Rightarrow> ('s world, string) go" where
  "GetStorageProvisionerForPVC env pvc =
     (case Option.bind (Annotations (pvcMeta pvc)) (\<lambda>m. m pvcStorageProvisionerKey) of
        Some provisionerName \<Rightarrow> returnE provisionerName
      | None \<Rightarrow> bindE (GetStorageClassForPVC env pvc) (\<lambda>sc. returnE (scProvisioner sc)))"

text \<open>\<^verbatim>\<open>sc, err := ...; err == nil && sc.Name == scName\<close>\<close>

definition isClass :: "'s env \<Rightarrow> string \<Rightarrow> PVC \<Rightarrow> ('s world, bool) go" where
  "isClass env scName pvc =
     bindE (tryE (GetStorageClassForPVC env pvc)) (\<lambda>r. returnE (case r of
        Inl e \<Rightarrow> False | Inr sc \<Rightarrow> Name (scMeta sc) = scName))"

definition GetPVCsUsingStorageClass :: "'s env \<Rightarrow> string \<Rightarrow> ('s world, PVC list) go" where
  "GetPVCsUsingStorageClass env scName =
     bindE (callList env (ReqList PVCKind [] []) asPVC)
       (collectE (\<lambda>pvc. bindE (isClass env scName pvc) (\<lambda>b. returnE (if b then [pvc] else []))))"

definition GetStorageClassParams :: "'s env \<Rightarrow> StorageClass \<Rightarrow> ('s world, strmap option) go" where
  "GetStorageClassParams env sc =
     bindE (callObj env (ReqGet StorageClassKind [] (Name (scMeta sc))) asStorageClass)
       (\<lambda>sc'. returnE (scParameters sc'))"

section \<open>Applications that use a storage class\<close>

text \<open>One volume of a deployment: is it a claim of the given class?  A bad claim is skipped.\<close>

definition volumeUsesClass ::
  "'s env \<Rightarrow> string \<Rightarrow> string \<Rightarrow> Volume \<Rightarrow> ('s world, bool) go" where
  "volumeUsesClass env namespace scName v =
     (case volPersistentVolumeClaim v of
        None \<Rightarrow> returnE False
      | Some pvcName \<Rightarrow>
          bindE (tryE (GetPersistentVolumeClaim env pvcName namespace)) (\<lambda>r. case r of
             Inl e \<Rightarrow> returnE False
           | Inr pvc \<Rightarrow> isClass env scName pvc))"

definition GetDeploymentsUsingStorageClass :: "'s env \<Rightarrow> string \<Rightarrow> ('s world, Deployment list) go" where
  "GetDeploymentsUsingStorageClass env scName =
     bindE (callList env (ReqList DeploymentKind [] []) asDeployment)
       (collectE (\<lambda>dep.
          bindE (anyE (volumeUsesClass env (Namespace (depMeta dep)) scName) (depVolumes dep))
            (\<lambda>b. returnE (if b then [dep] else []))))"

definition GetStatefulSetsUsingStorageClass ::
  "'s env \<Rightarrow> string \<Rightarrow> ('s world, StatefulSet list) go" where
  "GetStatefulSetsUsingStorageClass env scName =
     bindE (callList env (ReqList StatefulSetKind [] []) asStatefulSet)
       (collectE (\<lambda>ss.
          bindE (anyE (isClass env scName) (ssVolumeClaimTemplates ss))
            (\<lambda>b. returnE (if b then [ss] else []))))"

section \<open>Pods\<close>

definition IsPodBeingManaged :: "Pod \<Rightarrow> bool" where
  "IsPodBeingManaged pod = list_ex (\<lambda>ow. ownerController ow = Some True) (podOwnerReferences pod)"

definition IsPodReady :: "Pod \<Rightarrow> bool" where
  "IsPodReady pod \<longleftrightarrow>
     (podPhase pod = ''Running'' \<or> podPhase pod = ''Succeeded'') \<and>
     \<not> list_ex (\<lambda>running. running) (podInitRunning pod) \<and>
     list_all (\<lambda>c. csTerminatedOK c \<or> csRunning c \<and> csReady c) (podContainerStatuses pod)"

text \<open>A pod with the owner listed twice is counted twice, as in the source.\<close>

definition GetPodsByOwner :: "'s env \<Rightarrow> string \<Rightarrow> string \<Rightarrow> ('s world, Pod list) go" where
  "GetPodsByOwner env uid namespace =
     bindE (callList env (ReqList PodKind namespace []) asPod) (\<lambda>pods.
       let result = concat (map (\<lambda>p. map (\<lambda>_. p)
             (filter (\<lambda>ow. ownerUID ow = uid) (podOwnerReferences p))) pods) in
       if result = [] then raiseE (ErrorString ''Pod(s) not found'') else returnE result)"

section \<open>Daemon sets\<close>

definition GetDaemonSet :: "'s env \<Rightarrow> string \<Rightarrow> string \<Rightarrow> ('s world, DaemonSet) go" where
  "GetDaemonSet env name namespace =
     callObj env (ReqGet DaemonSetKind (if namespace = [] then NamespaceDefault else namespace) name)
       asDaemonSet"

definition errAppNotReady :: "string \<Rightarrow> string \<Rightarrow> goerror" where
  "errAppNotReady name cause = ErrorString (''app '' @ name @ '' is not ready yet. Cause: '' @ cause)"

text \<open>The comparison of the status counters and the pods, in the order of the source.\<close>

definition daemonSetVerdict :: "string \<Rightarrow> DaemonSet \<Rightarrow> Pod list \<Rightarrow> goerror option" where
  "daemonSetVerdict name ds pods =
     (let st = dsStatus ds; readyCount = (of_nat (length (filter IsPodReady pods)) :: int32) in
      if DesiredNumberScheduled st \<noteq> UpdatedNumberScheduled st
        then Some (errAppNotReady name ''Not all pods are updated.'')
      else if 0 < sint (NumberUnavailable st)
        then Some (errAppNotReady name ''pods are not available.'')
      else if DesiredNumberScheduled st \<noteq> NumberReady st
        then Some (errAppNotReady name ''Expected ready: Actual ready:'')
      else if readyCount = DesiredNumberScheduled st then None
      else Some (errAppNotReady (Name (dsMeta ds)) ''Pod(s): not yet ready''))"

definition validateDaemonSetTask ::
  "'s env \<Rightarrow> string \<Rightarrow> string \<Rightarrow> ('s world, goerror + unit) go" where
  "validateDaemonSetTask env name namespace =
     bindE (GetDaemonSet env name namespace) (\<lambda>ds.
     if ObservedGeneration (dsStatus ds) = 0
       then raiseE (errAppNotReady name
              ''Observed generation is still 0. Check back status after some time'')
     else bindE (tryE (GetPodsByOwner env (UID (dsMeta ds)) (Namespace (dsMeta ds)))) (\<lambda>r. case r of
       Inl e \<Rightarrow> raiseE (errAppNotReady (Name (dsMeta ds))
                  (''Failed to get pods for daemonset. Err: '' @ errorText e))
     | Inr pods \<Rightarrow>
         if pods = [] then raiseE (errAppNotReady (Name (dsMeta ds)) ''DaemonSet has 0 pods'')
         else (case daemonSetVerdict name ds pods of
                 Some e \<Rightarrow> raiseE e
               | None \<Rightarrow> returnE (Inr ()))))"

definition ValidateDaemonSet :: "'s env \<Rightarrow> string \<Rightarrow> string \<Rightarrow> int \<Rightarrow> ('s world, unit) go" where
  "ValidateDaemonSet env name namespace timeout =
     retryPlain env (validateDaemonSetTask env name namespace) timeout (15 * Second)"

section \<open>Services\<close>

definition GetService :: "'s env \<Rightarrow> string \<Rightarrow> string \<Rightarrow> ('s world, Service) go" where
  "GetService env svcName svcNS =
     (if svcName = [] then raiseE (ErrorString ''cannot return service obj without service name'')
      else callObj env (ReqGet ServiceKind svcNS svcName) asService)"

definition PatchService ::
  "'s env \<Rightarrow> string \<Rightarrow> string \<Rightarrow> ServicePort list \<Rightarrow> ('s world, Service) go" where
  "PatchService env name namespace ports =
     bindE (GetService env name namespace) (\<lambda>current.
       callObj env (ReqPatchPorts (Namespace (svcMeta current)) (Name (svcMeta current)) ports)
         asService)"

section \<open>Which requests these operations send\<close>

lemma issues_reads [issues_intro]:
  assumes "\<And>k ns n. P (ReqGet k ns n)"
  shows "issues P (GetStorageClassForPVC env pvc)"
    and "issues P (GetPersistentVolumeClaim env n ns)"
    and "issues P (GetPersistentVolume env n)"
    and "issues P (GetVolumeForPersistentVolumeClaim env pvc)"
    and "issues P (GetStorageProvisionerForPVC env pvc)"
    and "issues P (isClass env sc pvc)"
    and "issues P (GetStorageClassParams env cls)"
    and "issues P (volumeUsesClass env ns sc v)"
    and "issues P (GetDaemonSet env n ns)"
    and "issues P (GetService env n ns)"
  unfolding GetStorageClassForPVC_def GetPersistentVolumeClaim_def GetPersistentVolume_def
    GetVolumeForPersistentVolumeClaim_def GetStorageProvisionerForPVC_def isClass_def
    GetStorageClassParams_def volumeUsesClass_def GetDaemonSet_def GetService_def
  by (intro issues_intro assms)+

lemma issues_lists [issues_intro]:
  assumes "\<And>k ns n. P (ReqGet k ns n)" and "\<And>k ns sel. P (ReqList k ns sel)"
  shows "issues P (GetPVCsUsingStorageClass env sc)"
    and "issues P (GetDeploymentsUsingStorageClass env sc)"
    and "issues P (GetStatefulSetsUsingStorageClass env sc)"
    and "issues P (GetPodsByOwner env uid ns)"
    and "issues P (ValidateDaemonSet env n ns timeout)"
  unfolding GetPVCsUsingStorageClass_def GetDeploymentsUsingStorageClass_def
    GetStatefulSetsUsingStorageClass_def GetPodsByOwner_def ValidateDaemonSet_def
    validateDaemonSetTask_def
  by (intro issues_intro assms)+

section \<open>They never panic\<close>

lemma calm_SchedOps [calm_intro]:
  "calm (GetStorageClassForPVC env pvc)" "calm (GetPersistentVolumeClaim env n ns)"
  "calm (GetPersistentVolume env n)" "calm (GetVolumeForPersistentVolumeClaim env pvc)"
  "calm (GetStorageProvisionerForPVC env pvc)" "calm (isClass env sc pvc)"
  "calm (GetStorageClassParams env cls)" "calm (volumeUsesClass env ns sc v)" "calm (GetDaemonSet env n ns)"
  "calm (GetService env n ns)" "calm (GetPVCsUsingStorageClass env sc)"
  "calm (GetDeploymentsUsingStorageClass env sc)" "calm (GetStatefulSetsUsingStorageClass env sc)"
  "calm (GetPodsByOwner env uid ns)" "calm (ValidateDaemonSet env n ns timeout)"
  "calm (PatchService env n ns ports)"
  unfolding GetStorageClassForPVC_def GetPersistentVolumeClaim_def GetPersistentVolume_def
    GetVolumeForPersistentVolumeClaim_def GetStorageProvisionerForPVC_def isClass_def
    GetStorageClassParams_def volumeUsesClass_def GetDaemonSet_def GetService_def
    GetPVCsUsingStorageClass_def GetDeploymentsUsingStorageClass_def
    GetStatefulSetsUsingStorageClass_def GetPodsByOwner_def ValidateDaemonSet_def
    validateDaemonSetTask_def PatchService_def
  by (intro calm_intro)+

end
