(* ===== verification/K8sUtils.thy ===== *)
theory K8sUtils
  imports SchedOps
begin

text \<open>
  \<open>pkg/k8sutils/k8sutils.go\<close>: the applications on shared Portworx volumes, scaling them to zero
  and restoring them, and the pods that use Portworx volumes.
\<close>

section \<open>Constants\<close>

definition replicaMemoryKey :: string where [go_consts]:
  "replicaMemoryKey = ''px/replicas-before-scale-down''"

definition deploymentUpdateTimeout :: int where
  "deploymentUpdateTimeout = 5 * Minute"

definition statefulSetUpdateTimeout :: int where
  "statefulSetUpdateTimeout = 10 * Minute"

definition pxStorageProvisionerName :: string where [go_consts]:
  "pxStorageProvisionerName = ''kubernetes.io/portworx-volume''"

section \<open>Creating an instance\<close>

definition Getenv :: "'s env \<Rightarrow> string \<Rightarrow> ('s world, string) go" where
  "Getenv env key =
     bindE (call env (ReqGetenv key)) (\<lambda>r. returnE (case r of RString s \<Rightarrow> s | _ \<Rightarrow> []))"

text \<open>
  \<open>New\<close>: the argument, else the environment variable, else the in-cluster configuration
  (\<open>ReqKubeConfig []\<close>); the instance itself holds nothing but the clients.
\<close>

definition New :: "'s env \<Rightarrow> string \<Rightarrow> ('s world, unit) go" where
  "New env kubeconfig =
     bindE (if kubeconfig = [] then Getenv env ''KUBECONFIG'' else returnE kubeconfig) (\<lambda>kubeconfig.
     bindE (tryE (callDone env (ReqKubeConfig kubeconfig))) (\<lambda>r. case r of
       Inl err \<Rightarrow> raiseE (ErrorString (''Error building kubeconfig: '' @ errorText err))
     | Inr _ \<Rightarrow> callDone env ReqNewForConfig))"

section \<open>Shared storage classes and the applications on them\<close>

definition isShared :: "strmap option \<Rightarrow> bool" where
  "isShared params = (Option.bind params (\<lambda>m. m ''shared'') = Some ''true'')"

definition GetPXSharedSCs :: "'s env \<Rightarrow> ('s world, string list) go" where
  "GetPXSharedSCs env =
     bindE (callList env (ReqList StorageClassKind [] []) asStorageClass)
       (collectE (\<lambda>sc.
          bindE (GetStorageClassParams env sc) (\<lambda>params.
            returnE (if isShared params then [Name (scMeta sc)] else []))))"

fun appsOfClasses :: "'s env \<Rightarrow> string list \<Rightarrow> ('s world, Deployment list \<times> StatefulSet list) go" where
  "appsOfClasses env [] = returnE ([], [])"
| "appsOfClasses env (sc # scs) =
     bindE (GetDeploymentsUsingStorageClass env sc) (\<lambda>deps.
     bindE (GetStatefulSetsUsingStorageClass env sc) (\<lambda>ss.
     bindE (appsOfClasses env scs) (\<lambda>rest. returnE (deps @ fst rest, ss @ snd rest))))"

definition GetPXSharedApps :: "'s env \<Rightarrow> ('s world, Deployment list \<times> StatefulSet list) go" where
  "GetPXSharedApps env = bindE (GetPXSharedSCs env) (appsOfClasses env)"

section \<open>Scaling one application down and restoring it\<close>

text \<open>
  What a task does with the object it has just read: nothing more, write it back changed,
  give up with an error, or panic.
\<close>

datatype 'a decision = Leave | Write 'a | Refuse goerror | Blow string

definition setAnnotations :: "strmap option \<Rightarrow> ObjectMeta \<Rightarrow> ObjectMeta" where
  "setAnnotations a m = m\<lparr>Annotations := a\<rparr>"

text \<open>\<open>fmt.Sprintf("%d", r)\<close> of an \<open>int32\<close>\<close>

definition replicaString :: "int32 \<Rightarrow> string" where
  "replicaString r = intString (sint r)"

text \<open>\<open>intstr.Parse\<close>: a decimal that fits an \<open>int\<close> is truncated to 32 bits.\<close>

definition intstrParse :: "string \<Rightarrow> IntOrString" where
  "intstrParse val = (case Atoi val of Some i \<Rightarrow> IntVal (of_int i) | None \<Rightarrow> StrVal val)"

definition nilMapPanic :: string where
  "nilMapPanic = ''assignment to entry in nil map''"

definition nilPointerPanic :: string where
  "nilPointerPanic = ''invalid memory address or nil pointer dereference''"

definition scaleDownDeployment :: "Deployment \<Rightarrow> Deployment decision" where
  "scaleDownDeployment d =
     (case depReplicas d of
        None \<Rightarrow> Blow nilPointerPanic
      | Some r \<Rightarrow>
          if r = 0 then Leave
          else case Annotations (depMeta d) of
             None \<Rightarrow> Blow nilMapPanic
           | Some m \<Rightarrow> Write (d\<lparr>depMeta := setAnnotations (Some (m(replicaMemoryKey \<mapsto> replicaString r)))
                                         (depMeta d),
                              depReplicas := Some 0\<rparr>))"

text \<open>
  For a stateful set the source has no test for zero.  The right-hand side
  \<open>*sCopy.Spec.Replicas\<close> is evaluated before the map assignment, so a nil pointer panics first.
\<close>

definition scaleDownStatefulSet :: "StatefulSet \<Rightarrow> StatefulSet decision" where
  "scaleDownStatefulSet s =
     (case ssReplicas s of
        None \<Rightarrow> Blow nilPointerPanic
      | Some r \<Rightarrow>
          (case Annotations (ssMeta s) of
             None \<Rightarrow> Blow nilMapPanic
           | Some m \<Rightarrow> Write (s\<lparr>ssMeta := setAnnotations (Some (m(replicaMemoryKey \<mapsto> replicaString r)))
                                        (ssMeta s),
                              ssReplicas := Some 0\<rparr>)))"

text \<open>
  The saved count of an object's annotations: \<open>Leave\<close> when there is none, \<open>Refuse\<close> when it
  does not parse, else the annotations without it and the count.
\<close>

definition savedReplicas :: "strmap option \<Rightarrow> (strmap \<times> int32) decision" where
  "savedReplicas annotations =
     (case annotations of
        None \<Rightarrow> Leave
      | Some m \<Rightarrow>
          (case m replicaMemoryKey of
             None \<Rightarrow> Leave
           | Some val \<Rightarrow>
               if val = [] then Leave
               else case intstrParse val of
                  StrVal s \<Rightarrow> Refuse (ErrorString (''failed to parse saved replica count: '' @ val))
                | IntVal i \<Rightarrow> Write (m(replicaMemoryKey := None), i)))"

definition restoreDeployment :: "Deployment \<Rightarrow> Deployment decision" where
  "restoreDeployment d =
     (case savedReplicas (Annotations (depMeta d)) of
        Write (m, i) \<Rightarrow>
          Write (d\<lparr>depMeta := setAnnotations (Some m) (depMeta d), depReplicas := Some i\<rparr>)
      | Leave \<Rightarrow> Leave | Refuse e \<Rightarrow> Refuse e | Blow p \<Rightarrow> Blow p)"

definition restoreStatefulSet :: "StatefulSet \<Rightarrow> StatefulSet decision" where
  "restoreStatefulSet s =
     (case savedReplicas (Annotations (ssMeta s)) of
        Write (m, i) \<Rightarrow>
          Write (s\<lparr>ssMeta := setAnnotations (Some m) (ssMeta s), ssReplicas := Some i\<rparr>)
      | Leave \<Rightarrow> Leave | Refuse e \<Rightarrow> Refuse e | Blow p \<Rightarrow> Blow p)"

text \<open>
  The four tasks have one shape: get the object (a deleted object is nothing to do, another
  error is retried), decide, write it back (an error is retried).
\<close>

definition appTask ::
  "'s env \<Rightarrow> kind \<Rightarrow> (kobject \<Rightarrow> 'a option) \<Rightarrow> ('a \<Rightarrow> kobject) \<Rightarrow> ('a \<Rightarrow> 'a decision) \<Rightarrow>
     string \<Rightarrow> string \<Rightarrow> ('s world, goerror + unit) go" where
  "appTask env k dec enc decide namespace name =
     bindE (tryE (callObj env (ReqGet k namespace name) dec)) (\<lambda>r. case r of
        Inl err \<Rightarrow> if IsNotFound err then returnE (Inr ()) else raiseE err
      | Inr x \<Rightarrow>
          (case decide x of
             Leave \<Rightarrow> returnE (Inr ())
           | Refuse e \<Rightarrow> returnE (Inl e)
           | Blow p \<Rightarrow> panicE p
           | Write y \<Rightarrow> bindE (callObj env (ReqUpdate (enc y)) dec) (\<lambda>_. returnE (Inr ()))))"

abbreviation deploymentTask where
  "deploymentTask env \<equiv> appTask env DeploymentKind asDeployment KDeployment"

abbreviation statefulSetTask where
  "statefulSetTask env \<equiv> appTask env StatefulSetKind asStatefulSet KStatefulSet"

section \<open>Scaling all shared applications\<close>

definition forDeployments ::
  "'s env \<Rightarrow> (Deployment \<Rightarrow> Deployment decision) \<Rightarrow> Deployment list \<Rightarrow> ('s world, unit) go" where
  "forDeployments env decide =
     forE (\<lambda>d. retryPlain env
       (deploymentTask env decide (Namespace (depMeta d)) (Name (depMeta d)))
       deploymentUpdateTimeout defaultRetryInterval)"

definition forStatefulSets ::
  "'s env \<Rightarrow> (StatefulSet \<Rightarrow> StatefulSet decision) \<Rightarrow> StatefulSet list \<Rightarrow> ('s world, unit) go" where
  "forStatefulSets env decide =
     forE (\<lambda>s. retryPlain env
       (statefulSetTask env decide (Namespace (ssMeta s)) (Name (ssMeta s)))
       statefulSetUpdateTimeout defaultRetryInterval)"

definition ScaleSharedAppsToZero :: "'s env \<Rightarrow> ('s world, unit) go" where
  "ScaleSharedAppsToZero env =
     bindE (GetPXSharedApps env) (\<lambda>(sharedDeps, sharedSS).
     bindE (forDeployments env scaleDownDeployment sharedDeps) (\<lambda>_.
            forStatefulSets env scaleDownStatefulSet sharedSS))"

definition RestoreScaledAppsReplicas :: "'s env \<Rightarrow> ('s world, unit) go" where
  "RestoreScaledAppsReplicas env =
     bindE (GetPXSharedApps env) (\<lambda>(sharedDeps, sharedSS).
     bindE (forDeployments env restoreDeployment sharedDeps) (\<lambda>_.
            forStatefulSets env restoreStatefulSet sharedSS))"

section \<open>Pods on Portworx volumes\<close>

text \<open>One volume of a pod; the loop stops at the first volume that is a Portworx volume.\<close>

definition volumeIsPx :: "'s env \<Rightarrow> string \<Rightarrow> Volume \<Rightarrow> ('s world, bool) go" where
  "volumeIsPx env namespace vol =
     (if volPortworxVolume vol \<noteq> None then returnE True
      else case volPersistentVolumeClaim vol of
        None \<Rightarrow> returnE False
      | Some claim \<Rightarrow>
          bindE (GetPersistentVolumeClaim env claim namespace) (\<lambda>pvc.
          bindE (GetPersistentVolume env (pvcVolumeName pvc)) (\<lambda>pv.
          if pvPortworxVolume pv \<noteq> None then returnE True
          else bindE (tryE (GetStorageProvisionerForPVC env pvc)) (\<lambda>r. case r of
             Inl err \<Rightarrow> if Contains (errorText err) ''does not have a storage class''
                         then returnE False else raiseE err
           | Inr scName \<Rightarrow> returnE (scName = pxStorageProvisionerName)))))"

definition isPodUsingPxVolume :: "'s env \<Rightarrow> Pod \<Rightarrow> ('s world, bool) go" where
  "isPodUsingPxVolume env pod = anyE (volumeIsPx env (Namespace (podMeta pod))) (podVolumes pod)"

definition getPodsUsingPX :: "'s env \<Rightarrow> ('s world, Pod list) go" where
  "getPodsUsingPX env =
     bindE (callList env (ReqList PodKind [] []) asPod)
       (collectE (\<lambda>pod. bindE (isPodUsingPxVolume env pod) (\<lambda>b. returnE (if b then [pod] else []))))"

definition IsAnyPXAppPodUnmanaged :: "'s env \<Rightarrow> ('s world, bool) go" where
  "IsAnyPXAppPodUnmanaged env =
     bindE (tryE (getPodsUsingPX env)) (\<lambda>r. case r of
        Inl err \<Rightarrow> raiseE (ErrorString (''failed to get pods using '' @ pxStorageProvisionerName @
                     ''. Err: '' @ errorText err))
      | Inr pods \<Rightarrow> returnE (filter (\<lambda>p. \<not> IsPodBeingManaged p) pods \<noteq> []))"

text \<open>\<open>GetSecret\<close>: a nil selector, and a missing key, give nil bytes (the empty string).\<close>

definition GetSecret :: "'s env \<Rightarrow> SecretKeySelector option \<Rightarrow> string \<Rightarrow> ('s world, string) go" where
  "GetSecret env sel namespace =
     (case sel of
        None \<Rightarrow> returnE []
      | Some x \<Rightarrow>
          bindE (callObj env (ReqGet SecretKind namespace (selName x)) asSecret) (\<lambda>sec.
            returnE (lookupStr (Some (secretData sec)) (selKey x))))"

section \<open>Which requests these operations send\<close>

text \<open>The requests of a scale-down or a restore: reads, and updates of the two kinds of app.\<close>

fun appRequest :: "request \<Rightarrow> bool" where
  "appRequest (ReqUpdate (KDeployment d)) = True"
| "appRequest (ReqUpdate (KStatefulSet s)) = True"
| "appRequest q = isRead q"

lemma read_appRequest: "isRead q \<Longrightarrow> appRequest q"
  by (cases q rule: appRequest.cases) simp_all

lemma issues_decision [issues_intro]:
  "(x = Leave \<Longrightarrow> issuesOn rq P a) \<Longrightarrow> (\<And>y. x = Write y \<Longrightarrow> issuesOn rq P (b y)) \<Longrightarrow>
   (\<And>e. x = Refuse e \<Longrightarrow> issuesOn rq P (c e)) \<Longrightarrow> (\<And>p. x = Blow p \<Longrightarrow> issuesOn rq P (d p)) \<Longrightarrow>
     issuesOn rq P (case x of Leave \<Rightarrow> a | Write y \<Rightarrow> b y | Refuse e \<Rightarrow> c e | Blow p \<Rightarrow> d p)"
  by (cases x) auto

lemma issues_Getenv [issues_intro]: "P (ReqGetenv key) \<Longrightarrow> issues P (Getenv env key)"
  unfolding Getenv_def by (intro issues_intro issues_call)

lemma issues_sharedApps [issues_intro]:
  assumes "\<And>k ns n. P (ReqGet k ns n)" and "\<And>k ns sel. P (ReqList k ns sel)"
  shows "issues P (GetPXSharedSCs env)" and "issues P (appsOfClasses env scs)"
    and "issues P (GetPXSharedApps env)"
proof -
  show *: "issues P (GetPXSharedSCs env)" for env :: "'b env"
    unfolding GetPXSharedSCs_def by (intro issues_intro assms)+
  have **: "issues P (appsOfClasses env scs)" for env :: "'b env" and scs
    by (induction scs) (auto intro!: issues_intro assms)
  then show "issues P (appsOfClasses env scs)" .
  show "issues P (GetPXSharedApps env)"
    unfolding GetPXSharedApps_def by (intro issues_intro * **)
qed

lemma issues_appTask:
  assumes "\<And>k ns n. P (ReqGet k ns n)" and "\<And>x y. decide x = Write y \<Longrightarrow> P (ReqUpdate (enc y))"
  shows "issues P (appTask env k dec enc decide ns n)"
  unfolding appTask_def by (intro issues_intro assms) auto

lemma issues_sharedLoops:
  assumes reads: "\<And>k ns n. P (ReqGet k ns n)" "\<And>k ns sel. P (ReqList k ns sel)"
    and writes: "\<And>d d'. f d = Write d' \<Longrightarrow> P (ReqUpdate (KDeployment d'))"
      "\<And>s s'. g s = Write s' \<Longrightarrow> P (ReqUpdate (KStatefulSet s'))"
  shows "issues P (bindE (GetPXSharedApps env) (\<lambda>(ds, ss).
    bindE (forDeployments env f ds) (\<lambda>_. forStatefulSets env g ss)))"
  unfolding forDeployments_def forStatefulSets_def
  by (intro issues_intro issues_appTask assms)

text \<open>What the two operations write: zero replicas and a count that parses; no saved count.\<close>

fun scaleDownRequest :: "request \<Rightarrow> bool" where
  "scaleDownRequest (ReqUpdate (KDeployment d)) =
     (depReplicas d = Some 0 \<and>
      (\<exists>m r. Annotations (depMeta d) = Some m \<and> m replicaMemoryKey = Some (replicaString r)))"
| "scaleDownRequest (ReqUpdate (KStatefulSet s)) =
     (ssReplicas s = Some 0 \<and>
      (\<exists>m r. Annotations (ssMeta s) = Some m \<and> m replicaMemoryKey = Some (replicaString r)))"
| "scaleDownRequest q = isRead q"

fun restoreRequest :: "request \<Rightarrow> bool" where
  "restoreRequest (ReqUpdate (KDeployment d)) =
     (depReplicas d \<noteq> None \<and> lookupStr (Annotations (depMeta d)) replicaMemoryKey = [])"
| "restoreRequest (ReqUpdate (KStatefulSet s)) =
     (ssReplicas s \<noteq> None \<and> lookupStr (Annotations (ssMeta s)) replicaMemoryKey = [])"
| "restoreRequest q = isRead q"

lemma issues_ScaleSharedAppsToZero: "issues scaleDownRequest (ScaleSharedAppsToZero env)"
  unfolding ScaleSharedAppsToZero_def
  by (rule issues_sharedLoops)
     (auto simp: scaleDownDeployment_def scaleDownStatefulSet_def setAnnotations_def
       split: option.splits if_splits)

lemma issues_RestoreScaledAppsReplicas: "issues restoreRequest (RestoreScaledAppsReplicas env)"
  unfolding RestoreScaledAppsReplicas_def
  by (rule issues_sharedLoops)
     (auto simp: restoreDeployment_def restoreStatefulSet_def savedReplicas_def setAnnotations_def
       lookupStr_def split: option.splits if_splits IntOrString.splits)

lemma scalingRequests_app: "scaleDownRequest q \<Longrightarrow> appRequest q" "restoreRequest q \<Longrightarrow> appRequest q"
  by (cases q rule: appRequest.cases; simp)+

lemma issues_scaling [issues_intro]:
  assumes "\<And>q. appRequest q \<Longrightarrow> P q"
  shows "issues P (ScaleSharedAppsToZero env)" and "issues P (RestoreScaledAppsReplicas env)"
  by (rule issues_mono [OF issues_ScaleSharedAppsToZero], simp add: assms scalingRequests_app)
     (rule issues_mono [OF issues_RestoreScaledAppsReplicas], simp add: assms scalingRequests_app)

lemma issues_podsUsingPX [issues_intro]:
  assumes "\<And>k ns n. P (ReqGet k ns n)" and "\<And>k ns sel. P (ReqList k ns sel)"
  shows "issues P (IsAnyPXAppPodUnmanaged env)"
  unfolding IsAnyPXAppPodUnmanaged_def getPodsUsingPX_def isPodUsingPxVolume_def volumeIsPx_def
  by (intro issues_intro assms)

lemma issues_GetSecret [issues_intro]:
  "(\<And>k ns n. P (ReqGet k ns n)) \<Longrightarrow> issues P (GetSecret env sel ns)"
  unfolding GetSecret_def by (intro issues_intro)

end
