(* ===== verification/PxConfig.thy ===== *)
theory PxConfig
  imports K8sUtils
begin

text \<open>
  The state of a cluster provider (\<open>pxClusterOps\<close> of \<open>pkg/cluster/px/px.go\<close>), its construction,
  and what it reads from the Portworx daemon set: the cluster name, the key-value store's
  endpoints and credentials, the platform and the affinity.  With it the key-value store's client
  and the wipe of the cluster's tree.
\<close>

section \<open>Constants\<close>

definition pxListOpts :: string where [go_consts]: "pxListOpts = ''name=portworx''"
definition dsOptPwxVolumeName :: string where [go_consts]: "dsOptPwxVolumeName = ''optpwx''"
definition pksPersistentStoreRoot :: string where [go_consts]: "pksPersistentStoreRoot = ''/var/vcap/store''"
definition pxDaemonsetContainerName :: string where [go_consts]: "pxDaemonsetContainerName = ''portworx''"
definition pxKvdbPrefix :: string where [go_consts]: "pxKvdbPrefix = ''pwx/''"

definition UsernameKey :: string where [go_consts]: "UsernameKey = ''Username''"
definition PasswordKey :: string where [go_consts]: "PasswordKey = ''Password''"
definition CAFileKey :: string where [go_consts]: "CAFileKey = ''CAFile''"
definition CertFileKey :: string where [go_consts]: "CertFileKey = ''CertFile''"
definition CertKeyFileKey :: string where [go_consts]: "CertKeyFileKey = ''CertKeyFile''"
definition ACLTokenKey :: string where [go_consts]: "ACLTokenKey = ''ACLToken''"

section \<open>The provider\<close>

text \<open>The \<open>platform\<close> field is the world's; the other fields are clients.\<close>

record pxClusterOps =
  dockerRegistrySecret :: string
  installedNamespaces :: "string list"

definition ListDaemonSets :: "'s env \<Rightarrow> string \<Rightarrow> ('s world, DaemonSet list) go" where
  "ListDaemonSets env ns = callList env (ReqList DaemonSetKind ns pxListOpts) asDaemonSet"

definition NewPXClusterProvider :: "'s env \<Rightarrow> string \<Rightarrow> string \<Rightarrow> ('s world, pxClusterOps) go" where
  "NewPXClusterProvider env secret kubeconfig =
     bindE (New env kubeconfig) (\<lambda>_.
     bindE (callList env (ReqList NamespaceKind [] []) (asMeta NamespaceKind)) (\<lambda>namespaces.
     bindE (collectE (\<lambda>ns. bindE (ListDaemonSets env (Name ns)) (\<lambda>dss.
              returnE (if dss \<noteq> [] then [Name ns] else []))) namespaces) (\<lambda>installed.
     if installed = [] then raiseE ErrNoPXDaemonset
     else bindE (setPlatform platformTypeDefault) (\<lambda>_.
          returnE \<lparr>dockerRegistrySecret = secret, installedNamespaces = installed\<rparr>))))"

definition getPXDaemonsets :: "'s env \<Rightarrow> pxClusterOps \<Rightarrow> ('s world, DaemonSet list) go" where
  "getPXDaemonsets env ops = collectE (ListDaemonSets env) (installedNamespaces ops)"

section \<open>Environment variables of a container\<close>

fun getEnv :: "EnvVar list \<Rightarrow> string \<Rightarrow> string" where
  "getEnv [] key = []"
| "getEnv (e # es) key = (if envName e = key then envValue e else getEnv es key)"

fun setEnv :: "EnvVar list \<Rightarrow> string \<Rightarrow> string \<Rightarrow> EnvVar list" where
  "setEnv [] key val = [\<lparr>envName = key, envValue = val, envValueFrom = None\<rparr>]"
| "setEnv (e # es) key val =
     (if envName e = key then e\<lparr>envValue := val\<rparr> # es else e # setEnv es key val)"

text \<open>
  \<open>extractEnv\<close>: the loop over the container's variables for the one named by \<open>$NAME\<close>.  A variable
  with neither a value nor a source is passed over.
\<close>

fun extractFrom :: "'s env \<Rightarrow> string \<Rightarrow> string \<Rightarrow> string \<Rightarrow> EnvVar list \<Rightarrow> ('s world, string) go" where
  "extractFrom env varName look4 namespace [] = returnE varName"
| "extractFrom env varName look4 namespace (v # vs) =
     (if envName v \<noteq> look4 then extractFrom env varName look4 namespace vs
      else if envValue v \<noteq> [] then returnE (envValue v)
      else case envValueFrom v of
        None \<Rightarrow> extractFrom env varName look4 namespace vs
      | Some src \<Rightarrow>
          (case SecretKeyRef src of
             None \<Rightarrow> raiseE (ErrorString (''could not de-reference '' @ varName))
           | Some ref \<Rightarrow>
               bindE (tryE (GetSecret env (Some ref) namespace)) (\<lambda>r. case r of
                  Inl err \<Rightarrow> raiseE (ErrorString (''cluld not extract '' @ selName ref @ '' secret: '' @ errorText err))
                | Inr val \<Rightarrow> returnE val)))"

definition extractEnv :: "'s env \<Rightarrow> string \<Rightarrow> EnvVar list \<Rightarrow> string \<Rightarrow> ('s world, string) go" where
  "extractEnv env varName specEnv namespace =
     (if length varName < 2 \<or> hd varName \<noteq> CHR ''$'' then returnE varName
      else extractFrom env varName (tl varName) namespace specEnv)"

section \<open>The arguments of the Portworx container\<close>

record kvArgs =
  argCluster :: string
  argInternal :: bool
  argEndpoints :: "string list"
  argOpts :: strmap

definition noArgs :: kvArgs where
  "noArgs = \<lparr>argCluster = [], argInternal = False, argEndpoints = [], argOpts = Map.empty\<rparr>"

definition setOpt :: "string \<Rightarrow> string \<Rightarrow> kvArgs \<Rightarrow> kvArgs" where
  "setOpt k val st = st\<lparr>argOpts := (argOpts st)(k \<mapsto> val)\<rparr>"

text \<open>
  How the loop over the arguments ends.  \<open>ArgsPanic\<close>: a flag that takes a value is the last
  argument, and \<open>c.Args[i+1]\<close> is out of range.
\<close>

datatype argsEnd = ArgsDone | ArgsFail goerror | ArgsPanic

definition indexPanic :: string where
  "indexPanic = ''index out of range''"

definition parsePwd :: "string \<Rightarrow> kvArgs \<Rightarrow> goerror + kvArgs" where
  "parsePwd val st =
     (case Split val (CHR '':'') of
        user # pwd # _ \<Rightarrow> Inr (setOpt PasswordKey pwd (setOpt UsernameKey user st))
      | _ \<Rightarrow> Inl (ErrorString (''failed to parse kvdb username and password: '' @ val)))"

text \<open>One argument that takes a value, with the value; other arguments are passed over.\<close>

definition parseFlag :: "string \<Rightarrow> string \<Rightarrow> kvArgs \<Rightarrow> goerror + kvArgs" where
  "parseFlag arg val st =
     (if arg = ''-c'' then Inr (st\<lparr>argCluster := val\<rparr>)
      else if arg = ''-k'' then
        (case splitCSV val of Inl e \<Rightarrow> Inl e | Inr es \<Rightarrow> Inr (st\<lparr>argEndpoints := es\<rparr>))
      else if arg = ''-pwd'' \<or> arg = ''-userpwd'' then parsePwd val st
      else if arg = ''-ca'' then Inr (setOpt CAFileKey val st)
      else if arg = ''-cert'' then Inr (setOpt CertFileKey val st)
      else if arg = ''-key'' then Inr (setOpt CertKeyFileKey val st)
      else Inr (setOpt ACLTokenKey val st))"

definition valueFlags :: "string list" where
  "valueFlags = [''-c'', ''-k'', ''-pwd'', ''-userpwd'', ''-ca'', ''-cert'', ''-key'', ''-acl'']"

fun parseArgs :: "string list \<Rightarrow> kvArgs \<Rightarrow> kvArgs \<times> argsEnd" where
  "parseArgs [] st = (st, ArgsDone)"
| "parseArgs (arg # rest) st =
     (if arg = ''-b'' then parseArgs rest (st\<lparr>argInternal := True\<rparr>)
      else if arg \<in> set valueFlags then
        (case rest of
           [] \<Rightarrow> (st, ArgsPanic)
         | val # _ \<Rightarrow>
             (case parseFlag arg val st of
                Inl e \<Rightarrow> (st, ArgsFail e)
              | Inr st' \<Rightarrow> parseArgs rest st'))
      else parseArgs rest st)"

section \<open>The configuration\<close>

text \<open>The six results of \<open>parseConfigFromDaemonset\<close>; the error is a result like the others.\<close>

record pxConfig =
  cfgEndpoints :: "string list"
  cfgOpts :: strmap
  cfgClusterName :: string
  cfgPlatform :: platformType
  cfgAffinity :: "affinity option"
  cfgErr :: "goerror option"

definition failedConfig :: "goerror \<Rightarrow> pxConfig" where
  "failedConfig e =
     \<lparr>cfgEndpoints = [], cfgOpts = Map.empty, cfgClusterName = [], cfgPlatform = platformTypeDefault,
      cfgAffinity = None, cfgErr = Some e\<rparr>"

definition detectPlatform :: "Volume list \<Rightarrow> platformType" where
  "detectPlatform vols =
     (if list_ex (\<lambda>v. case volHostPath v of
             None \<Rightarrow> False
           | Some h \<Rightarrow> volName v = dsOptPwxVolumeName \<and> HasPrefix (hostPath h) pksPersistentStoreRoot) vols
      then platformTypePKS else platformTypeDefault)"

text \<open>The first container called \<open>portworx\<close>; without one no arguments are read.\<close>

definition pxContainer :: "DaemonSet \<Rightarrow> Container option" where
  "pxContainer ds = find (\<lambda>c. cName c = pxDaemonsetContainerName) (Containers (dsPodSpec ds))"

definition containerArgs :: "Container option \<Rightarrow> string list" where
  "containerArgs c = (case c of None \<Rightarrow> [] | Some c \<Rightarrow> cArgs c)"

text \<open>\<open>Containers[pxContainerIdx].Env\<close>, reached only when a user name was read from that container.\<close>

definition containerEnv :: "Container option \<Rightarrow> EnvVar list" where
  "containerEnv c = (case c of None \<Rightarrow> [] | Some c \<Rightarrow> cEnv c)"

text \<open>The user name and the password when the user name is an environment variable.\<close>

definition resolveCredentials ::
  "'s env \<Rightarrow> EnvVar list \<Rightarrow> string \<Rightarrow> strmap \<Rightarrow> ('s world, strmap) go" where
  "resolveCredentials env vars ns opts =
     (let user = lookupStr (Some opts) UsernameKey in
      if user \<noteq> [] \<and> hd user = CHR ''$'' then
        bindE (extractEnv env user vars ns) (\<lambda>user'.
        bindE (extractEnv env (lookupStr (Some opts) PasswordKey) vars ns) (\<lambda>pwd'.
        returnE (opts(UsernameKey \<mapsto> user', PasswordKey \<mapsto> pwd'))))
      else returnE opts)"

text \<open>What is left to check when the arguments and the credentials are read.\<close>

definition checkConfig :: "kvArgs \<Rightarrow> strmap \<Rightarrow> platformType \<Rightarrow> affinity option \<Rightarrow> pxConfig" where
  "checkConfig st opts plat aff =
     (let cfg = \<lparr>cfgEndpoints = argEndpoints st, cfgOpts = opts, cfgClusterName = argCluster st,
                 cfgPlatform = plat, cfgAffinity = aff, cfgErr = None\<rparr> in
      if argInternal st then cfg\<lparr>cfgErr := Some ErrUsingInternalEtcd\<rparr>
      else if argEndpoints st = [] then
        cfg\<lparr>cfgErr := Some (ErrorString ''failed to get kvdb endpoint from daemonset containers'')\<rparr>
      else if argCluster st = [] then
        cfg\<lparr>cfgErr := Some (ErrorString ''failed to get cluster name from daemonset containers'')\<rparr>
      else cfg)"

definition configOf :: "'s env \<Rightarrow> DaemonSet \<Rightarrow> ('s world, pxConfig) go" where
  "configOf env ds =
     (let plat = detectPlatform (Volumes (dsPodSpec ds)); aff = podAffinity (dsPodSpec ds);
          c = pxContainer ds in
      case parseArgs (containerArgs c) noArgs of
        (st, ArgsPanic) \<Rightarrow> panicE indexPanic
      | (st, ArgsFail e) \<Rightarrow>
          returnE \<lparr>cfgEndpoints = [], cfgOpts = Map.empty, cfgClusterName = argCluster st,
                   cfgPlatform = plat, cfgAffinity = aff, cfgErr = Some e\<rparr>
      | (st, ArgsDone) \<Rightarrow>
          bindE (tryE (resolveCredentials env (containerEnv c) (Namespace (dsMeta ds)) (argOpts st)))
            (\<lambda>r. returnE (case r of Inl e \<Rightarrow> failedConfig e | Inr opts \<Rightarrow> checkConfig st opts plat aff)))"

definition parseConfigFromDaemonset :: "'s env \<Rightarrow> pxClusterOps \<Rightarrow> ('s world, pxConfig) go" where
  "parseConfigFromDaemonset env ops =
     bindE (tryE (getPXDaemonsets env ops)) (\<lambda>r. case r of
        Inl err \<Rightarrow> returnE (failedConfig err)
      | Inr [] \<Rightarrow> returnE (failedConfig ErrNoPXDaemonset)
      | Inr (ds # _) \<Rightarrow> configOf env ds)"

section \<open>The key-value store\<close>

text \<open>
  One endpoint: its scheme and the parts after it, empty parts left out.  None: the endpoint has no
  colon, and \<open>urlTokens[1]\<close> is out of range.
\<close>

definition rewriteURL :: "string \<Rightarrow> string option" where
  "rewriteURL url =
     (case Split url (CHR '':'') of
        t0 # t1 # ts \<Rightarrow>
          (let pre = (if t1 = ''https'' then ''https'' else ''http'');
               t1' = (if t1 = ''http'' \<or> t1 = ''https'' then [] else t1) in
           Some (pre @ concat (map (\<lambda>v. CHR '':'' # v) (filter (\<lambda>v. v \<noteq> []) (t1' # ts)))))
      | _ \<Rightarrow> None)"

text \<open>The first loop: only the first endpoint's scheme is looked at.\<close>

fun rewriteAll :: "string list \<Rightarrow> ('w, string list) go" where
  "rewriteAll [] = returnE []"
| "rewriteAll (url # urls) =
     (case rewriteURL url of
        None \<Rightarrow> panicE indexPanic
      | Some u \<Rightarrow> bindE (rewriteAll urls) (\<lambda>us. returnE (u # us)))"

definition rewriteEndpoints :: "string list \<Rightarrow> ('w, string list) go" where
  "rewriteEndpoints endpoints =
     (case endpoints of
        [] \<Rightarrow> returnE []
      | url # _ \<Rightarrow>
          if hd (Split url (CHR '':'')) \<noteq> ''etcd''
          then raiseE (ErrorString (''unknown discovery endpoint : '' @ hd (Split url (CHR '':''))))
          else rewriteAll endpoints)"

text \<open>The second loop: the first endpoint that answers, else the last one's error.\<close>

fun firstVersion :: "'s env \<Rightarrow> string \<Rightarrow> strmap \<Rightarrow> string list \<Rightarrow> ('s world, string) go" where
  "firstVersion env name opts [] = returnE []"
| "firstVersion env name opts [url] = callString env (ReqKvdbVersion name url opts)"
| "firstVersion env name opts (url # urls) =
     bindE (tryE (callString env (ReqKvdbVersion name url opts))) (\<lambda>r. case r of
        Inr v \<Rightarrow> returnE v
      | Inl err \<Rightarrow> firstVersion env name opts urls)"

definition getKVDBClient :: "'s env \<Rightarrow> string list \<Rightarrow> strmap \<Rightarrow> ('s world, unit) go" where
  "getKVDBClient env endpoints opts =
     bindE (rewriteEndpoints endpoints) (\<lambda>urls.
     bindE (firstVersion env ((if endpoints = [] then [] else ''etcd'') @ ''-kv'') opts urls) (\<lambda>kvdbVersion.
     if kvdbVersion = ''etcd'' then callDone env (ReqKvdbNew ''etcd-kv'' pxKvdbPrefix urls opts)
     else if kvdbVersion = ''etcdv3'' then callDone env (ReqKvdbNew ''etcdv3-kv'' pxKvdbPrefix urls opts)
     else raiseE (ErrorString (''Unknown kvdb endpoint and version ('' @ kvdbVersion @ '') ''))))"

definition wipePXKvdb :: "'s env \<Rightarrow> string list \<Rightarrow> strmap \<Rightarrow> string \<Rightarrow> ('s world, unit) go" where
  "wipePXKvdb env endpoints opts clusterName =
     (if endpoints = [] then raiseE (ErrorString ''endpoints not supplied for wiping KVDB'')
      else if clusterName = [] then raiseE (ErrorString ''PX cluster name not supplied for wiping KVDB'')
      else bindE (getKVDBClient env endpoints opts) (\<lambda>_. callDone env (ReqKvdbDeleteTree clusterName)))"

section \<open>Which requests these operations send\<close>

lemma issues_getPXDaemonsets [issues_intro]:
  "(\<And>ns. P (ReqList DaemonSetKind ns pxListOpts)) \<Longrightarrow> issues P (getPXDaemonsets env ops)"
  unfolding getPXDaemonsets_def ListDaemonSets_def by (intro issues_intro)

lemma issues_extractFrom:
  "(\<And>k ns n. P (ReqGet k ns n)) \<Longrightarrow> issues P (extractFrom env varName look4 ns vs)"
  by (induction vs) (auto intro!: issues_intro)

lemma issues_parseConfig [issues_intro]:
  assumes "\<And>k ns n. P (ReqGet k ns n)" and "\<And>k ns sel. P (ReqList k ns sel)"
  shows "issues P (parseConfigFromDaemonset env ops)"
  unfolding parseConfigFromDaemonset_def configOf_def resolveCredentials_def extractEnv_def
  by (auto intro!: issues_intro issues_extractFrom assms split: argsEnd.split)

fun kvdbRequest :: "string \<Rightarrow> request \<Rightarrow> bool" where
  "kvdbRequest clusterName (ReqKvdbVersion name url opts) = True"
| "kvdbRequest clusterName (ReqKvdbNew name pre urls opts) = (pre = pxKvdbPrefix)"
| "kvdbRequest clusterName (ReqKvdbDeleteTree t) = (t = clusterName)"
| "kvdbRequest clusterName q = False"

lemma issues_rewriteAll [issues_intro]: "issuesOn rq P (rewriteAll urls)"
  by (induction urls) (auto intro!: issues_intro)

lemma issues_rewriteEndpoints [issues_intro]: "issuesOn rq P (rewriteEndpoints urls)"
  unfolding rewriteEndpoints_def by (intro issues_intro)

lemma issues_firstVersion [issues_intro]:
  "(\<And>name url opts. P (ReqKvdbVersion name url opts)) \<Longrightarrow> issues P (firstVersion env name opts urls)"
  by (induction env name opts urls rule: firstVersion.induct) (auto intro!: issues_intro)

lemma issues_wipePXKvdb: "issues (kvdbRequest clusterName) (wipePXKvdb env endpoints opts clusterName)"
  unfolding wipePXKvdb_def getKVDBClient_def by (auto intro!: issues_intro)

section \<open>Facts about the arguments and the endpoints\<close>

lemma parseArgs_skip: "arg \<noteq> ''-b'' \<Longrightarrow> arg \<notin> set valueFlags \<Longrightarrow> parseArgs (arg # rest) st = parseArgs rest st"
  by simp

lemma parseArgs_flag:
  "arg \<in> set valueFlags \<Longrightarrow> parseFlag arg val st = Inr st' \<Longrightarrow> val \<noteq> ''-b'' \<Longrightarrow> val \<notin> set valueFlags \<Longrightarrow>
     parseArgs (arg # val # rest) st = parseArgs rest st'"
  by (auto simp: valueFlags_def)

lemma parsePwd_pair:
  "CHR '':'' \<notin> set user \<Longrightarrow> CHR '':'' \<notin> set pwd \<Longrightarrow>
     parsePwd (user @ '':'' @ pwd) st = Inr (setOpt PasswordKey pwd (setOpt UsernameKey user st))"
  by (simp add: parsePwd_def Split_append Split_no_sep)

lemma parseArgs_done_last:
  "args \<noteq> [] \<Longrightarrow> snd (parseArgs args st) = ArgsDone \<Longrightarrow> last args \<notin> set valueFlags"
proof (induction args st rule: parseArgs.induct)
  case (2 arg rest st)
  show ?case
  proof (cases "rest = []")
    case True
    with "2.prems" show ?thesis by (auto split: if_splits simp: valueFlags_def)
  next
    case False
    then show ?thesis using "2.prems" "2.IH" unfolding parseArgs.simps(2) [of arg rest st]
      by (auto split: if_splits sum.splits list.splits simp del: parseArgs.simps(2)) blast
  qed
qed simp

lemma parseArgs_panic_last:
  "snd (parseArgs args st) = ArgsPanic \<Longrightarrow> args \<noteq> [] \<and> last args \<in> set valueFlags"
proof (induction args st rule: parseArgs.induct)
  case (2 arg rest st)
  show ?case
  proof (cases "rest = []")
    case True
    with "2.prems" show ?thesis by (auto split: if_splits)
  next
    case False
    then show ?thesis using "2.prems" "2.IH" unfolding parseArgs.simps(2) [of arg rest st]
      by (auto split: if_splits sum.splits list.splits simp del: parseArgs.simps(2))
  qed
qed simp

text \<open>The parts of a rewritten endpoint are not empty and have no colon.\<close>

lemma no_double_colon:
  "\<forall>v\<in>set vs. v \<noteq> [] \<and> CHR '':'' \<notin> set v \<Longrightarrow> CHR '':'' \<notin> set pre \<Longrightarrow>
     \<not> Contains (pre @ concat (map (\<lambda>v. CHR '':'' # v) vs)) ''::''"
proof (induction vs arbitrary: pre)
  case Nil
  then show ?case by (induction pre) auto
next
  case (Cons v vs)
  then obtain c v' where v: "v = c # v'" "c \<noteq> CHR '':''" by (cases v) auto
  have tail: "\<not> Contains (v @ concat (map (\<lambda>v. CHR '':'' # v) vs)) ''::''" using Cons by simp
  with v have "\<not> Contains (CHR '':'' # v @ concat (map (\<lambda>v. CHR '':'' # v) vs)) ''::''" by simp
  with Cons.prems(2) show ?case by (induction pre) auto
qed

lemma rewriteURL_no_double_colon: "rewriteURL url = Some u \<Longrightarrow> \<not> Contains u ''::''"
proof -
  assume r: "rewriteURL url = Some u"
  then obtain t0 t1 ts where sp: "Split url (CHR '':'') = t0 # t1 # ts"
    by (auto simp: rewriteURL_def split: list.splits)
  let ?t1' = "if t1 = ''http'' \<or> t1 = ''https'' then [] else t1"
  let ?vs = "filter (\<lambda>v. v \<noteq> []) (?t1' # ts)"
  have "\<forall>v\<in>set ?vs. v \<noteq> [] \<and> CHR '':'' \<notin> set v"
    using Split_pieces [of _ url "CHR '':''"] unfolding sp by auto
  moreover have "CHR '':'' \<notin> set (if t1 = ''https'' then ''https'' else ''http'')" by simp
  ultimately have "\<not> Contains ((if t1 = ''https'' then ''https'' else ''http'') @
      concat (map (\<lambda>v. CHR '':'' # v) ?vs)) ''::''"
    by (rule no_double_colon)
  with r sp show ?thesis by (simp add: rewriteURL_def Let_def)
qed

end
