(* ===== verification/ApiTypes.thy ===== *)
theory ApiTypes
  imports KubeTypes
begin

text \<open>
  The custom resources of the repository: \<open>pkg/apis/portworx/v1beta1/types.go\<close> and
  \<open>pkg/apis/portworx/v1beta2/types.go\<close>.  Pointers are options; \<open>int64\<close> and \<open>uint64\<close> fields are
  words; scheduling constraints of Kubernetes, which the code only stores, are opaque strings.
\<close>

record TypeMeta =
  tmKind :: string
  tmAPIVersion :: string

record ListMeta =
  lmSelfLink :: string
  lmResourceVersion :: string
  lmContinue :: string
  lmRemainingItemCount :: "int64 option"

section \<open>v1beta1\<close>

datatype EnforcementType = EnforcementRequired | EnforcementPreferred | EnforcementOther string

datatype AffinityRuleType = AffinityRule | AntiAffinityRule | AffinityRuleOther string

record KvdbSpec =
  kvEndpoints :: "string list"
  kvBasicAuthSecret :: string
  kvCertificateSecret :: string
  kvACLTokenSecret :: string

record NodeNetwork =
  netData :: string
  netMgmt :: string

record StorageSpec =
  stDevices :: "string list"
  stZeroStorage :: bool
  stForce :: bool
  stUseAll :: bool
  stUseAllWithParitions :: bool

record Placement =
  plTypeMeta :: TypeMeta
  plNodeAffinity :: "string option"
  plPodAffinity :: "string option"
  plPodAntiAffinity :: "string option"
  plTolerations :: "string list"

record PlacementSpec =
  psTypeMeta :: TypeMeta
  psPX :: Placement

record ClusterSpec =
  csKvdb :: KvdbSpec
  csPXImage :: string
  csPXTag :: string
  csOCIMonImage :: string
  csOCIMonTag :: string
  csNetwork :: NodeNetwork
  csStorage :: StorageSpec
  csPlacement :: PlacementSpec
  csEnv :: "EnvVar list"

record Cluster =
  clTypeMeta :: TypeMeta
  clMeta :: ObjectMeta
  clSpec :: ClusterSpec

record ClusterList =
  cllTypeMeta :: TypeMeta
  cllListMeta :: ListMeta
  cllItems :: "Cluster list"

record StatusInfo =
  siReady :: bool
  siCode :: int32
  siMessage :: string
  siReason :: string

record NodeStatus =
  nsInfo :: StatusInfo
  nsName :: string

record ClusterStatus =
  clsInfo :: StatusInfo
  clsName :: string
  clsNodeStatuses :: "NodeStatus list"

datatype LabelSelectorOperator =
    LabelSelectorOpIn | LabelSelectorOpNotIn | LabelSelectorOpExists | LabelSelectorOpDoesNotExist
  | LabelSelectorOpGt | LabelSelectorOpLt | LabelSelectorOpOther string

record LabelSelectorRequirement =
  lsKey :: string
  lsOperator :: LabelSelectorOperator
  lsValues :: "string list"

record VolumePlacementRule =
  vpAffectedReplicas :: int64
  vpWeight :: int64
  vpEnforcement :: EnforcementType
  vpType :: AffinityRuleType
  vpMatchExpressions :: "LabelSelectorRequirement option list"

record VolumePlacementSpec =
  vpRules :: "VolumePlacementRule list"

record VolumePlacementStrategy =
  vpsTypeMeta :: TypeMeta
  vpsMeta :: ObjectMeta
  vpsSpec :: VolumePlacementSpec

record VolumePlacementStrategyList =
  vpslTypeMeta :: TypeMeta
  vpslListMeta :: ListMeta
  vpslItems :: "VolumePlacementStrategy list"

section \<open>v1beta2\<close>

record CommonPlacementSpec =
  cpWeight :: int64
  cpEnforcement :: EnforcementType
  cpTopologyKey :: string
  cpMatchExpressions :: "LabelSelectorRequirement option list"

record ReplicaPlacementSpec =
  rpCommon :: CommonPlacementSpec
  rpAffectedReplicas :: int64

record VolumePlacementSpec2 =
  vp2ReplicaAffinity :: "ReplicaPlacementSpec option list"
  vp2ReplicaAntiAffinity :: "ReplicaPlacementSpec option list"
  vp2VolumeAffinity :: "CommonPlacementSpec option list"
  vp2VolumeAntiAffinity :: "CommonPlacementSpec option list"

record VolumePlacementStrategy2 =
  vps2TypeMeta :: TypeMeta
  vps2Meta :: ObjectMeta
  vps2Spec :: VolumePlacementSpec2

record VolumePlacementStrategyList2 =
  vpsl2TypeMeta :: TypeMeta
  vpsl2ListMeta :: ListMeta
  vpsl2Items :: "VolumePlacementStrategy2 list"

section \<open>The zero values\<close>

definition zeroTypeMeta :: TypeMeta where
  "zeroTypeMeta = \<lparr>tmKind = [], tmAPIVersion = []\<rparr>"

text \<open>A \<open>Cluster\<close> literal that sets only the four image fields, as the command line does.\<close>

definition clusterOfImages :: "string \<Rightarrow> string \<Rightarrow> string \<Rightarrow> string \<Rightarrow> Cluster" where
  "clusterOfImages ociMonImage ociMonTag pxImage pxTag =
     \<lparr>clTypeMeta = zeroTypeMeta, clMeta = metaNamed [] [] None,
      clSpec = \<lparr>csKvdb = \<lparr>kvEndpoints = [], kvBasicAuthSecret = [], kvCertificateSecret = [],
                          kvACLTokenSecret = []\<rparr>,
                csPXImage = pxImage, csPXTag = pxTag, csOCIMonImage = ociMonImage,
                csOCIMonTag = ociMonTag, csNetwork = \<lparr>netData = [], netMgmt = []\<rparr>,
                csStorage = \<lparr>stDevices = [], stZeroStorage = False, stForce = False, stUseAll = False,
                             stUseAllWithParitions = False\<rparr>,
                csPlacement = \<lparr>psTypeMeta = zeroTypeMeta,
                               psPX = \<lparr>plTypeMeta = zeroTypeMeta, plNodeAffinity = None,
                                       plPodAffinity = None, plPodAntiAffinity = None,
                                       plTolerations = []\<rparr>\<rparr>,
                csEnv = []\<rparr>\<rparr>"

end
