(* ===== verification/PxUpgrade.thy ===== *)
theory PxUpgrade
  imports PxConfig ApiTypes
begin

text \<open>
  The upgrade of \<open>pkg/cluster/px/px.go\<close>: the checks before it, the optional scale-down of the shared
  applications with its deferred restore, the update of the daemon sets, and the services and the
  API daemon set that go with them.  Log calls are not modelled.
\<close>

section \<open>Constants and options\<close>

definition changeCauseAnnotation :: string where [go_consts]:
  "changeCauseAnnotation = ''kubernetes.io/change-cause''"
definition pxSecretsNamespace :: string where [go_consts]: "pxSecretsNamespace = ''portworx''"
definition defaultPXImage :: string where [go_consts]: "defaultPXImage = ''portworx/px-enterprise''"
definition pxServiceName :: string where [go_consts]: "pxServiceName = ''portworx-service''"
definition pxClusterRoleName :: string where [go_consts]: "pxClusterRoleName = ''node-get-put-list-role''"
definition pxRoleName :: string where [go_consts]: "pxRoleName = ''px-role''"
definition pxRoleBindingName :: string where [go_consts]: "pxRoleBindingName = ''px-role-binding''"
definition pxServiceAccountName :: string where [go_consts]: "pxServiceAccountName = ''px-account''"
definition pxAPIDaemonset :: string where [go_consts]: "pxAPIDaemonset = ''portworx-api''"
definition pxAPIServiceName :: string where [go_consts]: "pxAPIServiceName = ''portworx-api''"
definition pxVersionLabel :: string where [go_consts]: "pxVersionLabel = ''PX Version''"
definition pxImageEnvKey :: string where [go_consts]: "pxImageEnvKey = ''PX_IMAGE''"
definition apiLabels :: strmap where [go_consts]: "apiLabels = [''name'' \<mapsto> ''portworx-api'']"

definition sharedVolDetachTimeout :: int where "sharedVolDetachTimeout = 5 * Minute"
definition daemonsetUpdateTriggerTimeout :: int where "daemonsetUpdateTriggerTimeout = 5 * Minute"

type_synonym SharedAppsScaleDownMode = string

definition SharedAppsScaleDownAuto :: SharedAppsScaleDownMode where [go_consts]:
  "SharedAppsScaleDownAuto = ''auto''"
definition SharedAppsScaleDownOn :: SharedAppsScaleDownMode where [go_consts]:
  "SharedAppsScaleDownOn = ''on''"
definition SharedAppsScaleDownOff :: SharedAppsScaleDownMode where [go_consts]:
  "SharedAppsScaleDownOff = ''off''"

record UpgradeOptions =
  SharedAppsScaleDown :: SharedAppsScaleDownMode
  TimeoutPerNode :: int

section \<open>The Portworx driver\<close>

definition pxdRestPort :: int where [go_consts]: "pxdRestPort = 9001"

definition pxEndpoint :: "string \<Rightarrow> string" where
  "pxEndpoint ip = ''http://'' @ ip @ '':'' @ intString pxdRestPort"

lemma pxEndpoint_code [code]: "pxEndpoint ip = ''http://'' @ ip @ '':9001''"
  by (simp add: pxEndpoint_def pxdRestPort_def intString_def natString.simps digitChar_def char_of_eq_iff)

definition getPXDriver :: "'s env \<Rightarrow> string \<Rightarrow> ('s world, unit) go" where
  "getPXDriver env ip =
     bindE (callDone env (ReqNewDriverClient (pxEndpoint ip))) (\<lambda>_.
            callDone env (ReqNewClusterClient (pxEndpoint ip)))"

definition Inspect :: "'s env \<Rightarrow> string list \<Rightarrow> ('s world, OsdVolume list) go" where
  "Inspect env ids =
     bindE (call env (ReqInspect ids)) (\<lambda>r. case r of
        RErr e \<Rightarrow> raiseE e | RVolumes vs \<Rightarrow> returnE vs | _ \<Rightarrow> raiseE decodeError)"

definition Enumerate :: "'s env \<Rightarrow> ('s world, OsdNode list) go" where
  "Enumerate env =
     bindE (call env ReqEnumerate) (\<lambda>r. case r of
        RErr e \<Rightarrow> raiseE e | RNodes ns \<Rightarrow> returnE ns | _ \<Rightarrow> raiseE decodeError)"

text \<open>The first volume still attached is the error of the attempt.\<close>

definition detachedTask :: "'s env \<Rightarrow> string list \<Rightarrow> ('s world, goerror + unit) go" where
  "detachedTask env volsToInspect =
     bindE (Inspect env volsToInspect) (\<lambda>vols.
     case find (\<lambda>v. AttachedState v = ATTACH_STATE_EXTERNAL) vols of
       Some v \<Rightarrow> raiseE (ErrorString (''volume: '' @ volLocatorName v @ '' is still attached''))
     | None \<Rightarrow> returnE (Inr ()))"

definition sharedVolumes :: "'s env \<Rightarrow> ('s world, string list) go" where
  "sharedVolumes env =
     bindE (GetPXSharedSCs env)
       (collectE (\<lambda>sc. bindE (GetPVCsUsingStorageClass env sc)
          (collectE (\<lambda>pvc. bindE (GetVolumeForPersistentVolumeClaim env pvc) (\<lambda>pv. returnE [pv])))))"

definition waitTillPXSharedVolumesDetached :: "'s env \<Rightarrow> ('s world, unit) go" where
  "waitTillPXSharedVolumesDetached env =
     bindE (sharedVolumes env) (\<lambda>volsToInspect.
       retryPlain env (detachedTask env volsToInspect) sharedVolDetachTimeout defaultRetryInterval)"

section \<open>Deciding about the scale-down\<close>

text \<open>The loop variable is the node, but the version is always read from the first node.\<close>

fun versionLoop :: "string \<Rightarrow> OsdNode \<Rightarrow> OsdNode list \<Rightarrow> goerror + bool" where
  "versionLoop versionPrefix n0 [] = Inr False"
| "versionLoop versionPrefix n0 (n # ns) =
     (let ver = lookupStr (Some (NodeLabels n0)) pxVersionLabel in
      if ver = [] then Inl (ErrorString (''no version found in labels for node: '' @ osdNodeId n0))
      else if HasPrefix ver versionPrefix then Inr True
      else versionLoop versionPrefix n0 ns)"

definition isAnyNodeRunningVersionWithPrefix :: "'s env \<Rightarrow> string \<Rightarrow> ('s world, bool) go" where
  "isAnyNodeRunningVersionWithPrefix env versionPrefix =
     bindE (Enumerate env) (\<lambda>nodes.
     case nodes of
       [] \<Rightarrow> returnE False
     | n0 # _ \<Rightarrow>
         (case versionLoop versionPrefix n0 nodes of Inl e \<Rightarrow> raiseE e | Inr b \<Rightarrow> returnE b))"

definition isScaleDownOfSharedAppsRequired :: "bool \<Rightarrow> UpgradeOptions option \<Rightarrow> bool" where
  "isScaleDownOfSharedAppsRequired isMajorVerUpgrade opts =
     (case opts of
        None \<Rightarrow> isMajorVerUpgrade
      | Some o' \<Rightarrow>
          if SharedAppsScaleDown o' = [] \<or> SharedAppsScaleDown o' = SharedAppsScaleDownAuto
          then isMajorVerUpgrade
          else SharedAppsScaleDown o' = SharedAppsScaleDownOn)"

definition drainVerdict :: "bool \<Rightarrow> string \<Rightarrow> bool" where
  "drainVerdict currentVersionDublin newVersion =
     (if HasPrefix newVersion ''1.3.3'' \<or> HasPrefix newVersion ''1.3.4'' then True
      else currentVersionDublin \<and> (HasPrefix newVersion ''1.3'' \<or> HasPrefix newVersion ''1.4''))"

definition isUpgradeAppDrainRequired :: "'s env \<Rightarrow> ClusterSpec \<Rightarrow> ('s world, bool) go" where
  "isUpgradeAppDrainRequired env spec =
     bindE (isAnyNodeRunningVersionWithPrefix env ''1.2'') (\<lambda>currentVersionDublin.
     case parsePXVersion (csPXTag spec) of
       Inl e \<Rightarrow> raiseE e
     | Inr newVersion \<Rightarrow> returnE (drainVerdict currentVersionDublin newVersion))"

section \<open>Checks before the upgrade\<close>

definition preFlightChecks :: "'s env \<Rightarrow> pxClusterOps \<Rightarrow> ClusterSpec \<Rightarrow> ('s world, unit) go" where
  "preFlightChecks env ops spec =
     (if csOCIMonTag spec = [] then
        raiseE (ErrorString ''pre-flight check failed as new version of Portworx OCI monitor not given to upgrade API'')
      else bindE (getPXDaemonsets env ops) (\<lambda>dss.
        if dss = [] then raiseE ErrNoPXDaemonset
        else forE (\<lambda>d. bindE (tryE (ValidateDaemonSet env (Name (dsMeta d)) (Namespace (dsMeta d)) (1 * Minute)))
               (\<lambda>r. case r of
                  Inl err \<Rightarrow> raiseE (ErrorString
                    (''pre-flight check failed as existing Portworx DaemonSet is not ready. err: '' @ errorText err))
                | Inr _ \<Rightarrow> returnE ())) dss))"

text \<open>\<open>time.Duration(len-1) * time.Duration(perNode) * time.Second\<close> in 64-bit arithmetic.\<close>

definition readyTimeout :: "nat \<Rightarrow> int \<Rightarrow> int" where
  "readyTimeout nodes timeoutPerNode =
     sint (of_int (int nodes - 1) * of_int timeoutPerNode * of_int Second :: int64)"

definition getDaemonSetReadyTimeout :: "'s env \<Rightarrow> int \<Rightarrow> ('s world, int) go" where
  "getDaemonSetReadyTimeout env timeoutPerNode =
     bindE (callList env (ReqList NodeKind [] []) (asMeta NodeKind)) (\<lambda>nodes.
       returnE (readyTimeout (length nodes) timeoutPerNode))"

section \<open>Access control\<close>

definition rule :: "string \<Rightarrow> string list \<Rightarrow> string list \<Rightarrow> PolicyRule" where
  "rule grp resources verbs =
     \<lparr>APIGroups = [grp], Resources = resources, ResourceNames = [], Verbs = verbs\<rparr>"

definition pxClusterRole :: Role where
  "pxClusterRole =
     \<lparr>roleMeta = metaNamed [] pxClusterRoleName None,
      roleRules =
        [rule [] [''secrets''] [''get'', ''list''],
         rule [] [''nodes''] [''get'', ''update'', ''list'', ''watch''],
         rule [] [''pods''] [''get'', ''list'', ''delete'', ''watch'', ''update''],
         rule [] [''persistentvolumeclaims'', ''persistentvolumes'']
              [''get'', ''list'', ''create'', ''delete'', ''update''],
         rule ''storage.k8s.io'' [''storageclasses'', ''csinodes''] [''get'', ''list''],
         rule ''storage.k8s.io'' [''volumeattachments''] [''get'', ''list'', ''create'', ''delete'', ''update''],
         rule [] [''configmaps''] [''get'', ''update'', ''list'', ''create''],
         rule [] [''services''] [''get'', ''list'', ''create'', ''update'', ''delete''],
         rule [] [''endpoints''] [''get'', ''list'', ''create'', ''update'', ''delete''],
         (rule ''extensions'' [''podsecuritypolicies''] [''use''])\<lparr>ResourceNames := [''privileged'']\<rparr>,
         rule ''portworx.io'' [''volumeplacementstrategies''] [''get'', ''list''],
         rule ''stork.libopenstorage.org'' [''backuplocations''] [''get'', ''list''],
         rule ''core.libopenstorage.org'' [''*''] [''*''],
         rule [] [''events''] [''create'']]\<rparr>"

definition createOrUpdate :: "'s env \<Rightarrow> kobject \<Rightarrow> ('s world, unit) go" where
  "createOrUpdate env ob =
     bindE (tryE (callDone env (ReqCreate ob))) (\<lambda>r. case r of
        Inr _ \<Rightarrow> returnE ()
      | Inl err \<Rightarrow> if IsAlreadyExists err then callDone env (ReqUpdate ob) else raiseE err)"

definition createOrUpdateRole :: "'s env \<Rightarrow> Role \<Rightarrow> ('s world, unit) go" where
  "createOrUpdateRole env role = createOrUpdate env (KRole role)"

definition createOrUpdateRoleBinding :: "'s env \<Rightarrow> RoleBinding \<Rightarrow> ('s world, unit) go" where
  "createOrUpdateRoleBinding env binding = createOrUpdate env (KRoleBinding binding)"

definition pxSecretsRole :: Role where
  "pxSecretsRole =
     \<lparr>roleMeta = metaNamed pxSecretsNamespace pxRoleName None,
      roleRules = [rule [] [''secrets''] [''get'', ''list'', ''create'', ''update'', ''patch'']]\<rparr>"

definition pxSecretsRoleBinding :: "string \<Rightarrow> RoleBinding" where
  "pxSecretsRoleBinding ns =
     \<lparr>rbMeta = metaNamed pxSecretsNamespace pxRoleBindingName None,
      rbSubjects = [\<lparr>subjectKind = ''ServiceAccount'', subjectName = pxServiceAccountName,
                     subjectNamespace = ns\<rparr>],
      rbRoleRef = \<lparr>refKind = ''Role'', refName = pxRoleName, refAPIGroup = ''rbac.authorization.k8s.io''\<rparr>\<rparr>"

text \<open>\<^verbatim>\<open>if err != nil && !errors.IsAlreadyExists(err)\<close>\<close>

definition ensureNamespace :: "'s env \<Rightarrow> string \<Rightarrow> ('s world, unit) go" where
  "ensureNamespace env name =
     bindE (tryE (callDone env (ReqCreate (KNamespace (metaNamed [] name None))))) (\<lambda>r. case r of
        Inl err \<Rightarrow> if IsAlreadyExists err then returnE () else raiseE err
      | Inr _ \<Rightarrow> returnE ())"

definition updatePxSecretsPermissions :: "'s env \<Rightarrow> pxClusterOps \<Rightarrow> ('s world, unit) go" where
  "updatePxSecretsPermissions env ops =
     bindE (ensureNamespace env pxSecretsNamespace) (\<lambda>_.
     bindE (createOrUpdateRole env pxSecretsRole) (\<lambda>_.
     case installedNamespaces ops of
       [] \<Rightarrow> panicE indexPanic
     | ns # _ \<Rightarrow> createOrUpdateRoleBinding env (pxSecretsRoleBinding ns)))"

section \<open>Updating the daemon sets\<close>

text \<open>What the loop body of the update task does with one daemon set.\<close>

datatype dsPlan =
    DsSkip int64
  | DsUpdate DaemonSet "int64 option"
  | DsRefuse goerror
  | DsPanic string

definition pxImageSet :: "string \<Rightarrow> goerror" where
  "pxImageSet old = ErrorString (pxImageEnvKey @ ''='' @ old @
     '' env variable is set in the PX Daemonset. This upgrade method doesn't support that. '' @
     ''Remove the environment variable and retry. '')"

text \<open>Setting the image of the first container called \<open>portworx\<close>.\<close>

fun setPxImage :: "string \<Rightarrow> Container list \<Rightarrow> Container list" where
  "setPxImage img [] = []"
| "setPxImage img (c # cs) =
     (if cName c = pxDaemonsetContainerName then c\<lparr>cImage := img\<rparr> # cs else c # setPxImage img cs)"

definition setChangeCause :: "string \<Rightarrow> strmap \<Rightarrow> DaemonSet \<Rightarrow> DaemonSet" where
  "setChangeCause img m ds =
     ds\<lparr>dsMeta := setAnnotations (Some (m(changeCauseAnnotation \<mapsto> ''update PX to '' @ img))) (dsMeta ds)\<rparr>"

definition planDaemonSet :: "string \<Rightarrow> DaemonSet \<Rightarrow> dsPlan" where
  "planDaemonSet ociImage ds =
     (case pxContainer ds of
        None \<Rightarrow> DsUpdate ds None
      | Some c \<Rightarrow>
          let oldPxImage = getEnv (cEnv c) pxImageEnvKey; gen = ObservedGeneration (dsStatus ds) in
          if oldPxImage \<noteq> [] then DsRefuse (pxImageSet oldPxImage)
          else if cImage c = ociImage then DsSkip gen
          else case Annotations (dsMeta ds) of
             None \<Rightarrow> DsPanic nilMapPanic
           | Some m \<Rightarrow>
               DsUpdate (setChangeCause ociImage m
                  (ds\<lparr>dsPodSpec := (dsPodSpec ds)\<lparr>Containers :=
                        setPxImage ociImage (Containers (dsPodSpec ds))\<rparr>\<rparr>))
                 (Some (gen + 1)))"

text \<open>The variables of \<open>upgradePX\<close> that the task's closure writes.\<close>

record upgradeVars =
  uvDss :: "DaemonSet list"
  uvExpected :: "string \<rightharpoonup> int64"

definition expect :: "string \<Rightarrow> int64 \<Rightarrow> upgradeVars \<Rightarrow> upgradeVars" where
  "expect uid gen v = v\<lparr>uvExpected := (uvExpected v)(uid \<mapsto> gen)\<rparr>"

fun upgradeLoop ::
  "'s env \<Rightarrow> string \<Rightarrow> DaemonSet list \<Rightarrow> (upgradeVars \<times> 's world, goerror + unit) go" where
  "upgradeLoop env ociImage [] = returnE (Inr ())"
| "upgradeLoop env ociImage (ds # dss) =
     (case planDaemonSet ociImage ds of
        DsRefuse e \<Rightarrow> returnE (Inl e)
      | DsPanic p \<Rightarrow> panicE p
      | DsSkip gen \<Rightarrow>
          bindE (modifyVars (expect (UID (dsMeta ds)) gen)) (\<lambda>_. upgradeLoop env ociImage dss)
      | DsUpdate ds' gen \<Rightarrow>
          bindE (modifyVars (case gen of Some g \<Rightarrow> expect (UID (dsMeta ds)) g | None \<Rightarrow> (\<lambda>v. v))) (\<lambda>_.
          bindE (onWorld (callObj env (ReqUpdate (KDaemonSet ds')) asDaemonSet)) (\<lambda>_.
          upgradeLoop env ociImage dss)))"

definition upgradeTask ::
  "'s env \<Rightarrow> pxClusterOps \<Rightarrow> string \<Rightarrow> (upgradeVars \<times> 's world, goerror + unit) go" where
  "upgradeTask env ops ociImage =
     bindE (tryE (onWorld (getPXDaemonsets env ops))) (\<lambda>r. case r of
        Inl err \<Rightarrow> bindE (modifyVars (\<lambda>v. v\<lparr>uvDss := []\<rparr>)) (\<lambda>_. raiseE err)
      | Inr dss \<Rightarrow>
          bindE (modifyVars (\<lambda>v. v\<lparr>uvDss := dss\<rparr>)) (\<lambda>_.
          if dss = [] then raiseE ErrNoPXDaemonset else upgradeLoop env ociImage dss))"

definition generationTask :: "'s env \<Rightarrow> DaemonSet \<Rightarrow> int64 \<Rightarrow> ('s world, goerror + unit) go" where
  "generationTask env ds expectedGeneration =
     bindE (GetDaemonSet env (Name (dsMeta ds)) (Namespace (dsMeta ds))) (\<lambda>updatedDS.
     if ObservedGeneration (dsStatus updatedDS) \<noteq> expectedGeneration
     then raiseE (ErrorString (''PX daemonset: ['' @ Namespace (dsMeta ds) @ ''] '' @ Name (dsMeta ds) @
       '' still running previous generation: '' @ intString (sint (ObservedGeneration (dsStatus updatedDS))) @
       ''. Expected generation: '' @ intString (sint expectedGeneration)))
     else returnE (Inr ()))"

section \<open>Services and the API daemon set\<close>

type_synonym portMap = "int32 \<rightharpoonup> int32"

definition defaultTargetPorts :: portMap where
  "defaultTargetPorts = [9001 \<mapsto> 9001, 9019 \<mapsto> 9019, 9020 \<mapsto> 9020, 9021 \<mapsto> 9021]"

definition overridePorts :: "ServicePort list \<Rightarrow> portMap" where
  "overridePorts ports =
     foldl (\<lambda>m p. m(portPort p \<mapsto> intVal (portTargetPort p))) defaultTargetPorts ports"

definition portOf :: "portMap \<Rightarrow> string \<Rightarrow> int32 \<Rightarrow> ServicePort" where
  "portOf targetPorts name port =
     \<lparr>portName = name, portProtocol = ''TCP'', portPort = port,
      portTargetPort = IntVal (case targetPorts port of Some t \<Rightarrow> t | None \<Rightarrow> 0)\<rparr>"

definition pxServicePorts :: "portMap \<Rightarrow> ServicePort list" where
  "pxServicePorts m = [portOf m ''px-api'' 9001, portOf m ''px-kvdb'' 9019,
                       portOf m ''px-sdk'' 9020, portOf m ''px-rest-gateway'' 9021]"

definition apiServicePorts :: "portMap \<Rightarrow> ServicePort list" where
  "apiServicePorts m = [portOf m ''px-api'' 9001, portOf m ''px-sdk'' 9020,
                        portOf m ''px-rest-gateway'' 9021]"

definition zeroStatus :: DaemonSetStatus where
  "zeroStatus = \<lparr>ObservedGeneration = 0, DesiredNumberScheduled = 0, UpdatedNumberScheduled = 0,
                 NumberUnavailable = 0, NumberReady = 0\<rparr>"

definition apiDaemonSet :: "string \<Rightarrow> affinity option \<Rightarrow> DaemonSet" where
  "apiDaemonSet ns aff =
     \<lparr>dsMeta = metaNamed ns pxAPIDaemonset (Some apiLabels),
      dsMatchLabels = Some apiLabels, dsTemplateLabels = Some apiLabels,
      dsPodSpec =
        \<lparr>HostPID = False, HostNetwork = True, podAffinity = aff,
         Containers =
           [\<lparr>cName = pxAPIDaemonset, cImage = ''k8s.gcr.io/pause:3.1'', cImagePullPolicy = ''Always'',
             cArgs = [], cEnv = [], cPrivileged = None,
             cReadinessProbe = Some \<lparr>probeInitialDelaySeconds = 0, probePeriodSeconds = 10,
               probeHandler = HTTPGetAction ''127.0.0.1'' ''/status'' (IntVal 9001)\<rparr>,
             cVolumeMounts = []\<rparr>],
         RestartPolicy = ''Always'', ServiceAccountName = pxServiceAccountName, Volumes = []\<rparr>,
      dsStatus = zeroStatus\<rparr>"

definition checkAPIDaemonset :: "'s env \<Rightarrow> string \<Rightarrow> affinity option \<Rightarrow> ('s world, unit) go" where
  "checkAPIDaemonset env namespace aff =
     bindE (tryE (GetDaemonSet env pxAPIDaemonset namespace)) (\<lambda>r. case r of
        Inr _ \<Rightarrow> returnE ()
      | Inl err \<Rightarrow>
          if \<not> IsNotFound err then raiseE err
          else callDone env (ReqCreate (KDaemonSet (apiDaemonSet namespace aff))))"

definition apiService :: "string \<Rightarrow> portMap \<Rightarrow> Service" where
  "apiService ns targetPorts =
     \<lparr>svcMeta = metaNamed ns pxAPIServiceName (Some apiLabels), svcClusterIP = [],
      svcSelector = Some apiLabels, svcType = ''ClusterIP'', svcPorts = apiServicePorts targetPorts\<rparr>"

text \<open>
  \<open>checkAPIService\<close>.  \<open>CreateService\<close> of sched-ops sends a service without a namespace to the default
  namespace; the request carries the object as it is.
\<close>

definition checkAPIService :: "'s env \<Rightarrow> string \<Rightarrow> portMap \<Rightarrow> ('s world, unit) go" where
  "checkAPIService env namespace targetPorts =
     bindE (tryE (GetService env pxAPIServiceName namespace)) (\<lambda>r. case r of
        Inl err \<Rightarrow>
          if \<not> IsNotFound err then raiseE err
          else callDone env (ReqCreate (KService (apiService namespace targetPorts)))
      | Inr _ \<Rightarrow>
          bindE (PatchService env pxAPIServiceName namespace (apiServicePorts targetPorts)) (\<lambda>_. returnE ()))"

section \<open>The rolling upgrade\<close>

text \<open>The part after the update, for one daemon set: wait, validate, patch.\<close>

definition readyDaemonSet ::
  "'s env \<Rightarrow> UpgradeOptions option \<Rightarrow> upgradeVars \<Rightarrow> DaemonSet \<Rightarrow> ('s world, unit) go" where
  "readyDaemonSet env opts vars ds =
     bindE (retryPlain env (generationTask env ds
              (case uvExpected vars (UID (dsMeta ds)) of Some g \<Rightarrow> g | None \<Rightarrow> 0))
              daemonsetUpdateTriggerTimeout defaultRetryInterval) (\<lambda>_.
     case opts of
       None \<Rightarrow> panicE nilPointerPanic
     | Some o' \<Rightarrow>
         bindE (getDaemonSetReadyTimeout env (TimeoutPerNode o')) (\<lambda>daemonsetReadyTimeout.
           ValidateDaemonSet env (Name (dsMeta ds)) (Namespace (dsMeta ds)) daemonsetReadyTimeout))"

definition finishDaemonSet :: "'s env \<Rightarrow> DaemonSet \<Rightarrow> ('s world, unit) go" where
  "finishDaemonSet env ds =
     (let ns = Namespace (dsMeta ds) in
      bindE (GetService env pxServiceName ns) (\<lambda>pxService.
      let targetPorts = overridePorts (svcPorts pxService) in
      bindE (PatchService env pxServiceName ns (pxServicePorts targetPorts)) (\<lambda>_.
      bindE (checkAPIDaemonset env ns (podAffinity (dsPodSpec ds))) (\<lambda>_.
      checkAPIService env ns targetPorts))))"

definition ociImageOf :: "ClusterSpec \<Rightarrow> string" where
  "ociImageOf spec = csOCIMonImage spec @ '':'' @ csOCIMonTag spec"

definition upgradePX ::
  "'s env \<Rightarrow> pxClusterOps \<Rightarrow> ClusterSpec \<Rightarrow> UpgradeOptions option \<Rightarrow> ('s world, unit) go" where
  "upgradePX env ops spec opts =
     bindE (callDone env (ReqUpdate (KClusterRole pxClusterRole))) (\<lambda>_.
     bindE (updatePxSecretsPermissions env ops) (\<lambda>_.
     bindE (DoRetryWithTimeout env (asTask (upgradeTask env ops (ociImageOf spec)))
              daemonsetUpdateTriggerTimeout defaultRetryInterval
              \<lparr>uvDss = [], uvExpected = Map.empty\<rparr>) (\<lambda>vars.
     forE (\<lambda>ds. bindE (readyDaemonSet env opts vars ds) (\<lambda>_. finishDaemonSet env ds)) (uvDss vars))))"

section \<open>Upgrade\<close>

definition defaultSpec :: "ClusterSpec \<Rightarrow> ClusterSpec" where
  "defaultSpec spec =
     (let s1 = (if csPXImage spec = [] then spec\<lparr>csPXImage := defaultPXImage\<rparr> else spec) in
      if csPXTag s1 = [] then s1\<lparr>csPXTag := csOCIMonTag s1\<rparr> else s1)"

definition restoreDeferred :: "'s env \<Rightarrow> ('s world, unit) go" where
  "restoreDeferred env = bindE (tryE (RestoreScaledAppsReplicas env)) (\<lambda>_. returnE ())"

text \<open>Step 2 and step 3: the scale-down, if it is required, and the rolling upgrade.\<close>

definition upgradeSteps ::
  "'s env \<Rightarrow> pxClusterOps \<Rightarrow> ClusterSpec \<Rightarrow> UpgradeOptions option \<Rightarrow> bool \<Rightarrow> ('s world, unit) go" where
  "upgradeSteps env ops spec opts isAppDrainNeeded =
     (if isScaleDownOfSharedAppsRequired isAppDrainNeeded opts then
        deferE (restoreDeferred env)
          (bindE (ScaleSharedAppsToZero env) (\<lambda>_.
           bindE (waitTillPXSharedVolumesDetached env) (\<lambda>_.
           upgradePX env ops spec opts)))
      else upgradePX env ops spec opts)"

text \<open>The part of \<open>Upgrade\<close> before it: everything that can refuse the upgrade.\<close>

definition upgradeChecks ::
  "'s env \<Rightarrow> pxClusterOps \<Rightarrow> ClusterSpec \<Rightarrow> ('s world, ClusterSpec \<times> bool) go" where
  "upgradeChecks env ops newSpec =
     (case installedNamespaces ops of
        [] \<Rightarrow> raiseE ErrNoPXDaemonset
      | _ # _ # _ \<Rightarrow> raiseE (ErrorString ''Found Portworx installed in more than one namespace'')
      | [ns] \<Rightarrow>
          bindE (GetService env pxServiceName ns) (\<lambda>svc.
          if svcClusterIP svc = []
          then raiseE (ErrorString ''Portworx service doesn't have a ClusterIP assigned'')
          else bindE (getPXDriver env (svcClusterIP svc)) (\<lambda>_.
          bindE (preFlightChecks env ops newSpec) (\<lambda>_.
          let spec = defaultSpec newSpec in
          bindE (tryE (isUpgradeAppDrainRequired env spec)) (\<lambda>r.
          let isAppDrainNeeded = (case r of Inl _ \<Rightarrow> False | Inr b \<Rightarrow> b) in
          bindE (if isAppDrainNeeded then IsAnyPXAppPodUnmanaged env else returnE False) (\<lambda>unManaged.
          if unManaged
          then raiseE (ErrorString (''Aborting upgrade as some application pods using Portworx are not '' @
                 ''being managed by a controller.''))
          else bindE (parseConfigFromDaemonset env ops) (\<lambda>cfg.
          bindE (setPlatform (cfgPlatform cfg)) (\<lambda>_.
          case cfgErr cfg of
            None \<Rightarrow> returnE (spec, isAppDrainNeeded)
          | Some e \<Rightarrow>
              if e = ErrUsingInternalEtcd then returnE (spec, isAppDrainNeeded)
              else raiseE (ErrorString (''Failed to parse PX config from Daemonset for upgrading PX due to err: '' @
                     errorText e)))))))))) "

definition Upgrade ::
  "'s env \<Rightarrow> pxClusterOps \<Rightarrow> Cluster option \<Rightarrow> UpgradeOptions option \<Rightarrow> ('s world, unit) go" where
  "Upgrade env ops newSpec opts =
     (case newSpec of
        None \<Rightarrow> raiseE (ErrorString ''new cluster spec is required for the upgrade call'')
      | Some c \<Rightarrow>
          bindE (upgradeChecks env ops (clSpec c)) (\<lambda>(spec, isAppDrainNeeded).
            upgradeSteps env ops spec opts isAppDrainNeeded))"

definition Create :: "'s env \<Rightarrow> Cluster option \<Rightarrow> ('s world, unit) go" where
  "Create env spec = returnE ()"

definition Status :: "'s env \<Rightarrow> Cluster option \<Rightarrow> ('s world, ClusterStatus option) go" where
  "Status env c = returnE None"

section \<open>Which requests the upgrade sends\<close>

text \<open>What the rolling upgrade to \<open>img\<close> may send, for a provider installed in \<open>nss\<close>.\<close>

fun upgradeRequest :: "string \<Rightarrow> string list \<Rightarrow> request \<Rightarrow> bool" where
  "upgradeRequest img nss (ReqUpdate (KDaemonSet d)) =
     (case pxContainer d of None \<Rightarrow> True | Some c \<Rightarrow> cImage c = img \<and> getEnv (cEnv c) pxImageEnvKey = [])"
| "upgradeRequest img nss (ReqUpdate (KClusterRole r)) = (r = pxClusterRole)"
| "upgradeRequest img nss (ReqCreate (KNamespace m)) = (Name m = pxSecretsNamespace)"
| "upgradeRequest img nss (ReqCreate (KRole r)) = (r = pxSecretsRole)"
| "upgradeRequest img nss (ReqUpdate (KRole r)) = (r = pxSecretsRole)"
| "upgradeRequest img nss (ReqCreate (KRoleBinding b)) = (b \<in> pxSecretsRoleBinding ` set nss)"
| "upgradeRequest img nss (ReqUpdate (KRoleBinding b)) = (b \<in> pxSecretsRoleBinding ` set nss)"
| "upgradeRequest img nss (ReqCreate (KDaemonSet d)) = (\<exists>ns aff. d = apiDaemonSet ns aff)"
| "upgradeRequest img nss (ReqCreate (KService s)) = (\<exists>ns m. s = apiService ns m)"
| "upgradeRequest img nss (ReqPatchPorts ns n ports) =
     (\<exists>m. ports = pxServicePorts m \<or> ports = apiServicePorts m)"
| "upgradeRequest img nss q = isRead q"

lemma setPxImage_find:
  "find (\<lambda>c. cName c = pxDaemonsetContainerName) (setPxImage img cs) =
     map_option (\<lambda>c. c\<lparr>cImage := img\<rparr>) (find (\<lambda>c. cName c = pxDaemonsetContainerName) cs)"
  by (induction cs) auto

lemma pxContainer_updated:
  "pxContainer (setChangeCause img m (ds\<lparr>dsPodSpec := (dsPodSpec ds)\<lparr>Containers :=
      setPxImage img (Containers (dsPodSpec ds))\<rparr>\<rparr>)) = map_option (\<lambda>c. c\<lparr>cImage := img\<rparr>) (pxContainer ds)"
  by (simp add: pxContainer_def setChangeCause_def setPxImage_find)

lemma plan_request: "planDaemonSet img ds = DsUpdate ds' g \<Longrightarrow> upgradeRequest img nss (ReqUpdate (KDaemonSet ds'))"
  by (auto simp: planDaemonSet_def pxContainer_updated Let_def split: option.splits if_splits)

lemma issues_dsPlan [issues_intro]:
  "(\<And>g. x = DsSkip g \<Longrightarrow> issuesOn rq P (a g)) \<Longrightarrow> (\<And>d g. x = DsUpdate d g \<Longrightarrow> issuesOn rq P (b d g)) \<Longrightarrow>
   (\<And>e. x = DsRefuse e \<Longrightarrow> issuesOn rq P (c e)) \<Longrightarrow> (\<And>p. x = DsPanic p \<Longrightarrow> issuesOn rq P (d p)) \<Longrightarrow>
     issuesOn rq P (case x of DsSkip g \<Rightarrow> a g | DsUpdate ds g \<Rightarrow> b ds g | DsRefuse e \<Rightarrow> c e | DsPanic p \<Rightarrow> d p)"
  by (cases x) auto

lemma issues_upgradeLoop: "issuesL (upgradeRequest img nss) (upgradeLoop env img dss)"
proof (induction dss)
  case (Cons ds dss)
  show ?case unfolding upgradeLoop.simps by (intro issues_intro Cons plan_request)
qed (auto intro: issues_intro)

lemma issues_upgradeTask: "issuesL (upgradeRequest img nss) (upgradeTask env ops img)"
  unfolding upgradeTask_def by (intro issues_intro issues_upgradeLoop) simp_all

lemma issues_readyDaemonSet:
  assumes "\<And>k ns n. P (ReqGet k ns n)" and "\<And>k ns sel. P (ReqList k ns sel)"
  shows "issues P (readyDaemonSet env opts vars ds)"
  unfolding readyDaemonSet_def generationTask_def getDaemonSetReadyTimeout_def
  by (intro issues_intro assms)

lemma issues_PatchService:
  assumes "\<And>k ns n. P (ReqGet k ns n)" and "\<And>ns n. P (ReqPatchPorts ns n ports)"
  shows "issues P (PatchService env name ns ports)"
  unfolding PatchService_def by (intro issues_intro assms)

lemma issues_finishDaemonSet: "issues (upgradeRequest img nss) (finishDaemonSet env ds)"
  unfolding finishDaemonSet_def checkAPIDaemonset_def checkAPIService_def Let_def
  by (auto intro!: issues_intro issues_PatchService) blast+

lemma issues_secretsPermissions:
  "issues (upgradeRequest img (installedNamespaces ops)) (updatePxSecretsPermissions env ops)"
  unfolding updatePxSecretsPermissions_def ensureNamespace_def createOrUpdateRole_def
    createOrUpdateRoleBinding_def createOrUpdate_def
  by (auto intro!: issues_intro simp: metaNamed_def)

lemma issues_upgradePX:
  "issues (upgradeRequest (ociImageOf spec) (installedNamespaces ops)) (upgradePX env ops spec opts)"
  unfolding upgradePX_def
  by (intro issues_intro issues_secretsPermissions issues_upgradeTask issues_readyDaemonSet
      issues_finishDaemonSet) simp_all

lemma issues_driver [issues_intro]:
  "(\<And>e. P (ReqNewDriverClient e)) \<Longrightarrow> (\<And>e. P (ReqNewClusterClient e)) \<Longrightarrow> issues P (getPXDriver env ip)"
  "(\<And>ids. P (ReqInspect ids)) \<Longrightarrow> issues P (Inspect env vols)"
  "P ReqEnumerate \<Longrightarrow> issues P (Enumerate env)"
  unfolding getPXDriver_def Inspect_def Enumerate_def
  by (auto intro!: issues_intro issues_call split: reply.split)

lemma issues_waitDetached: "issues isRead (waitTillPXSharedVolumesDetached env)"
  unfolding waitTillPXSharedVolumesDetached_def sharedVolumes_def detachedTask_def
  by (intro issues_intro) simp_all

lemma issues_upgradeChecks: "issues isRead (upgradeChecks env ops spec)"
  unfolding upgradeChecks_def preFlightChecks_def isUpgradeAppDrainRequired_def
    isAnyNodeRunningVersionWithPrefix_def Let_def
  by (intro issues_intro) simp_all

section \<open>What the waits establish\<close>

text \<open>The retried tasks as instances of \<open>retry_task\<close>: what they have seen when they succeed.\<close>

definition seenDetached :: "'s env \<Rightarrow> string list \<Rightarrow> 's world \<Rightarrow> bool" where
  "seenDetached env ids w' \<longleftrightarrow>
     (\<exists>w vols. Inspect env ids w = (Ok vols, w') \<and>
        (\<forall>v\<in>set vols. AttachedState v \<noteq> ATTACH_STATE_EXTERNAL))"

definition seenGeneration :: "'s env \<Rightarrow> DaemonSet \<Rightarrow> int64 \<Rightarrow> 's world \<Rightarrow> bool" where
  "seenGeneration env ds gen w' \<longleftrightarrow>
     (\<exists>w d. GetDaemonSet env (Name (dsMeta ds)) (Namespace (dsMeta ds)) w = (Ok d, w') \<and>
        ObservedGeneration (dsStatus d) = gen)"

lemma plainTask_done:
  "plainTask f l w = (Done, l', w') \<Longrightarrow> f w = (Ok (Inr ()), w')"
  by (auto simp: asTask_def onWorld_def split: prod.splits outcome.splits sum.splits)

lemma detachedTask_done: "detachedTask env ids w = (Ok (Inr ()), w') \<Longrightarrow> seenDetached env ids w'"
  by (auto simp: detachedTask_def seenDetached_def bindE_Ok_iff raiseE_def returnE_def find_None_iff
      split: option.splits)

lemma generationTask_done: "generationTask env ds gen w = (Ok (Inr ()), w') \<Longrightarrow> seenGeneration env ds gen w'"
  by (auto simp: generationTask_def seenGeneration_def bindE_Ok_iff raiseE_def returnE_def split: if_splits)

interpretation detach: retry_task env "plainTask (detachedTask env ids)" "\<lambda>_ _. True"
    "\<lambda>_. seenDetached env ids" for env :: "'s env" and ids
  by unfold_locales (auto dest: plainTask_done detachedTask_done)

interpretation generation: retry_task env "plainTask (generationTask env ds gen)" "\<lambda>_ _. True"
    "\<lambda>_. seenGeneration env ds gen" for env :: "'s env" and ds gen
  by unfold_locales (auto dest: plainTask_done generationTask_done)

lemma waitDetached_Ok:
  "waitTillPXSharedVolumesDetached env w = (Ok (), w') \<Longrightarrow>
     \<exists>ids w1. sharedVolumes env w = (Ok ids, w1) \<and> seenDetached env ids w'"
  unfolding waitTillPXSharedVolumesDetached_def bindE_Ok_iff using detach.retry_post by blast

section \<open>Facts about one daemon set\<close>

lemma setPxImage_other:
  "length (setPxImage img cs) = length cs"
  "i < length cs \<Longrightarrow> setPxImage img cs ! i = cs ! i \<or>
     cName (cs ! i) = pxDaemonsetContainerName \<and> setPxImage img cs ! i = (cs ! i)\<lparr>cImage := img\<rparr>"
proof -
  show "length (setPxImage img cs) = length cs" by (induction cs) auto
  show "i < length cs \<Longrightarrow> setPxImage img cs ! i = cs ! i \<or>
     cName (cs ! i) = pxDaemonsetContainerName \<and> setPxImage img cs ! i = (cs ! i)\<lparr>cImage := img\<rparr>"
    by (induction cs arbitrary: i) (auto simp: nth_Cons split: nat.split)
qed

lemma plan_updateE:
  assumes "planDaemonSet img ds = DsUpdate ds' (Some g)"
  obtains c m where "pxContainer ds = Some c" and "Annotations (dsMeta ds) = Some m"
    and "getEnv (cEnv c) pxImageEnvKey = []" and "cImage c \<noteq> img"
    and "g = ObservedGeneration (dsStatus ds) + 1"
    and "ds' = setChangeCause img m (ds\<lparr>dsPodSpec := (dsPodSpec ds)\<lparr>Containers :=
           setPxImage img (Containers (dsPodSpec ds))\<rparr>\<rparr>)"
  using assms by (auto simp: planDaemonSet_def Let_def split: option.splits if_splits)

lemma plan_updated_skips:
  assumes "planDaemonSet img ds = DsUpdate ds' (Some g)"
  shows "planDaemonSet img ds' = DsSkip (ObservedGeneration (dsStatus ds'))"
  using assms
proof (rule plan_updateE)
  fix c m
  assume "pxContainer ds = Some c" "getEnv (cEnv c) pxImageEnvKey = []"
    and "ds' = setChangeCause img m (ds\<lparr>dsPodSpec := (dsPodSpec ds)\<lparr>Containers :=
           setPxImage img (Containers (dsPodSpec ds))\<rparr>\<rparr>)"
  then show ?thesis by (simp add: planDaemonSet_def pxContainer_updated)
qed

lemma readyTimeout_single: "readyTimeout 1 t = 0"
  by (simp add: readyTimeout_def)

lemma readyTimeout_exact:
  assumes "1 \<le> n" and "0 \<le> t" and "(int n - 1) * t * Second < 2 ^ 63"
  shows "readyTimeout n t = (int n - 1) * t * Second"
proof -
  have "0 \<le> (int n - 1) * t * Second" using assms by (simp add: Second_def)
  moreover have "(of_int (int n - 1) * of_int t * of_int Second :: int64) = of_int ((int n - 1) * t * Second)"
    by simp
  ultimately show ?thesis
    unfolding readyTimeout_def using assms(3)
    by (simp add: sint_sbintrunc' signed_take_bit_int_eq_self del: of_int_mult of_int_diff)
qed

lemma overridePorts_lookup:
  "foldl (\<lambda>m p. m(portPort p \<mapsto> intVal (portTargetPort p))) m0 ports k =
     (case find (\<lambda>p. portPort p = k) (rev ports) of
        Some p \<Rightarrow> Some (intVal (portTargetPort p)) | None \<Rightarrow> m0 k)"
  by (induction ports arbitrary: m0 rule: rev_induct) auto

end
