(* ===== verification/PxDelete.thy ===== *)
theory PxDelete
  imports PxUpgrade
begin

text \<open>
  The removal of a Portworx installation (\<open>Delete\<close> of \<open>pkg/cluster/px/px.go\<close>): all Kubernetes objects
  of the installation and, on request, the state on the nodes, with the node wiper daemon set, and the
  tree in the key-value store.
\<close>

section \<open>Constants\<close>

definition pxNodeWiperNamespace :: string where [go_consts]: "pxNodeWiperNamespace = ''kube-system''"
definition defaultNodeWiperImage :: string where [go_consts]: "defaultNodeWiperImage = ''portworx/px-node-wiper''"
definition defaultNodeWiperTag :: string where [go_consts]: "defaultNodeWiperTag = ''2.1.1''"
definition pxNodeWiperDaemonSetName :: string where [go_consts]: "pxNodeWiperDaemonSetName = ''px-node-wiper''"
definition bootstrapCloudDriveNamespace :: string where [go_consts]: "bootstrapCloudDriveNamespace = ''kube-system''"
definition internalEtcdConfigMapPrefix :: string where [go_consts]: "internalEtcdConfigMapPrefix = ''px-bootstrap-''"
definition cloudDriveConfigMapPrefix :: string where [go_consts]: "cloudDriveConfigMapPrefix = ''px-cloud-drive-''"
definition pxBringupQueueConfigMapPrefix :: string where [go_consts]:
  "pxBringupQueueConfigMapPrefix = ''px-bringup-queue-lock''"
definition pxAttachDrivesetConfigMap :: string where [go_consts]: "pxAttachDrivesetConfigMap = ''px-attach-driveset-lock''"
definition pureCloudDriveConfigMap :: string where [go_consts]: "pureCloudDriveConfigMap = ''px-pure-cloud-drive''"
definition talismanServiceAccount :: string where [go_consts]: "talismanServiceAccount = ''talisman-account''"
definition storkSnapshotStorageClass :: string where [go_consts]: "storkSnapshotStorageClass = ''stork-snapshot-sc''"
definition storkWebhookCfg :: string where [go_consts]: "storkWebhookCfg = ''stork-webhooks-cfg''"

text \<open>The names of the objects of an installation.\<close>

definition pxClusterRoleBindingName :: string where [go_consts]: "pxClusterRoleBindingName = ''node-role-binding''"
definition lhRoleName :: string where [go_consts]: "lhRoleName = ''px-lh-role''"
definition lhRoleBindingName :: string where [go_consts]: "lhRoleBindingName = ''px-lh-role-binding''"
definition lhServiceAccountName :: string where [go_consts]: "lhServiceAccountName = ''px-lh-account''"
definition lhConfigMap :: string where [go_consts]: "lhConfigMap = ''px-lighthouse-config''"
definition lhServiceName :: string where [go_consts]: "lhServiceName = ''px-lighthouse''"
definition lhDeploymentName :: string where [go_consts]: "lhDeploymentName = ''px-lighthouse''"
definition csiExtDeploymentName :: string where [go_consts]: "csiExtDeploymentName = ''px-csi-ext''"
definition pvcControllerClusterRole :: string where [go_consts]: "pvcControllerClusterRole = ''portworx-pvc-controller-role''"
definition pvcControllerClusterRoleBinding :: string where [go_consts]: "pvcControllerClusterRoleBinding = ''portworx-pvc-controller-role-binding''"
definition pvcControllerServiceAccount :: string where [go_consts]: "pvcControllerServiceAccount = ''portworx-pvc-controller-account''"
definition pvcControllerName :: string where [go_consts]: "pvcControllerName = ''portworx-pvc-controller''"
definition storkControllerName :: string where [go_consts]: "storkControllerName = ''stork''"
definition storkServiceName :: string where [go_consts]: "storkServiceName = ''stork-service''"
definition storkControllerConfigMap :: string where [go_consts]: "storkControllerConfigMap = ''stork-config''"
definition storkControllerClusterRole :: string where [go_consts]: "storkControllerClusterRole = ''stork-role''"
definition storkControllerClusterBinding :: string where [go_consts]: "storkControllerClusterBinding = ''stork-role-binding''"
definition storkControllerServiceAccount :: string where [go_consts]: "storkControllerServiceAccount = ''stork-account''"
definition storkSchedulerClusterRole :: string where [go_consts]: "storkSchedulerClusterRole = ''stork-scheduler-role''"
definition storkSchedulerCluserBinding :: string where [go_consts]: "storkSchedulerCluserBinding = ''stork-scheduler-role-binding''"
definition storkSchedulerServiceAccount :: string where [go_consts]: "storkSchedulerServiceAccount = ''stork-scheduler-account''"
definition storkSchedulerName :: string where [go_consts]: "storkSchedulerName = ''stork-scheduler''"
definition csiClusterRoleBinding :: string where [go_consts]: "csiClusterRoleBinding = ''px-csi-role-binding''"
definition csiService :: string where [go_consts]: "csiService = ''px-csi-service''"
definition csiAccount :: string where [go_consts]: "csiAccount = ''px-csi-account''"
definition csiClusterRole :: string where [go_consts]: "csiClusterRole = ''px-csi-role''"
definition csiStatefulSet :: string where [go_consts]: "csiStatefulSet = ''px-csi-ext''"
definition osbSecretName :: string where [go_consts]: "osbSecretName = ''px-osb''"
definition essentialSecretName :: string where [go_consts]: "essentialSecretName = ''px-essential''"

text \<open>The volumes of the node wiper and their paths.\<close>

definition dsSockPwxVolumeName :: string where [go_consts]: "dsSockPwxVolumeName = ''sockpwx''"
definition dsEtcPwxVolumeName :: string where [go_consts]: "dsEtcPwxVolumeName = ''etcpwx''"
definition dsDbusVolumeName :: string where [go_consts]: "dsDbusVolumeName = ''dbus''"
definition dsSysdVolumeName :: string where [go_consts]: "dsSysdVolumeName = ''sysdmount''"
definition devVolumeName :: string where [go_consts]: "devVolumeName = ''dev''"
definition multipathVolumeName :: string where [go_consts]: "multipathVolumeName = ''etc-multipath''"
definition lvmVolumeName :: string where [go_consts]: "lvmVolumeName = ''lvm''"
definition sysVolumeName :: string where [go_consts]: "sysVolumeName = ''sys''"
definition coresVolumeName :: string where [go_consts]: "coresVolumeName = ''cores''"
definition udevVolumeName :: string where [go_consts]: "udevVolumeName = ''run-udev-data''"
definition devMount :: string where [go_consts]: "devMount = ''/dev''"
definition multipathMount :: string where [go_consts]: "multipathMount = ''/etc/multipath''"
definition lvmMount :: string where [go_consts]: "lvmMount = ''/run/lvm''"
definition sysMount :: string where [go_consts]: "sysMount = ''/sys''"
definition udevMount :: string where [go_consts]: "udevMount = ''/run/udev/data''"
definition sysdmount :: string where [go_consts]: "sysdmount = ''/etc/systemd/system''"
definition dbusPath :: string where [go_consts]: "dbusPath = ''/var/run/dbus''"
definition pxOptPwx :: string where [go_consts]: "pxOptPwx = ''/opt/pwx''"
definition pxEtcdPwx :: string where [go_consts]: "pxEtcdPwx = ''/etc/pwx''"
definition pxSockPwx :: string where [go_consts]: "pxSockPwx = ''/var/lib/osd/driver''"

definition pxNodeWiperTimeout :: int where "pxNodeWiperTimeout = 10 * Minute"
definition daemonsetDeleteTimeout :: int where "daemonsetDeleteTimeout = 5 * Minute"

record DeleteOptions =
  WipeCluster :: bool
  WiperImage :: string
  WiperTag :: string

section \<open>What is deleted\<close>

definition clusterRoles :: "string list" where
  "clusterRoles = [pxClusterRoleName, storkControllerClusterRole, storkSchedulerClusterRole,
     pvcControllerClusterRole, csiClusterRole]"

definition clusterRoleBindings :: "string list" where
  "clusterRoleBindings = [pxClusterRoleBindingName, storkControllerClusterBinding, storkSchedulerCluserBinding,
     pvcControllerClusterRoleBinding, csiClusterRoleBinding]"

definition depNames :: "string list" where
  "depNames = [storkControllerName, storkSchedulerName, pvcControllerName, lhDeploymentName,
     csiExtDeploymentName]"

definition accounts :: "string list" where
  "accounts = [pxServiceAccountName, lhServiceAccountName, storkControllerServiceAccount,
     storkSchedulerServiceAccount, pvcControllerServiceAccount, csiAccount]"

definition services :: "string list" where
  "services = [pxServiceName, pxAPIServiceName, storkServiceName, lhServiceName, csiService]"

definition statefulSetNames :: "string list" where
  "statefulSetNames = [csiStatefulSet]"

definition secrets :: "string list" where
  "secrets = [osbSecretName, essentialSecretName]"

text \<open>The two config maps named after the cluster.\<close>

definition clusterConfigMaps :: "string \<Rightarrow> string list" where
  "clusterConfigMaps stripped =
     [internalEtcdConfigMapPrefix @ stripped, cloudDriveConfigMapPrefix @ stripped]"

section \<open>Deleting the objects\<close>

text \<open>\<^verbatim>\<open>if err != nil && !errors.IsNotFound(err) { return err }\<close> after a deletion.\<close>

definition deleteOb :: "'s env \<Rightarrow> kind \<Rightarrow> string \<Rightarrow> string \<Rightarrow> ('s world, unit) go" where
  "deleteOb env k ns name =
     bindE (tryE (callDone env (ReqDelete k ns name))) (\<lambda>r. case r of
        Inl err \<Rightarrow> if IsNotFound err then returnE () else raiseE err
      | Inr _ \<Rightarrow> returnE ())"

definition deleteAll :: "'s env \<Rightarrow> kind \<Rightarrow> string \<Rightarrow> string list \<Rightarrow> ('s world, unit) go" where
  "deleteAll env k ns names = forE (deleteOb env k ns) names"

text \<open>For the Portworx daemon sets, just listed, not found is an error too.\<close>

definition deleteDaemonSets :: "'s env \<Rightarrow> DaemonSet list \<Rightarrow> ('s world, unit) go" where
  "deleteDaemonSets env dss =
     forE (\<lambda>ds. callDone env (ReqDelete DaemonSetKind (Namespace (dsMeta ds)) (Name (dsMeta ds)))) dss"

definition deleteClusterWide :: "'s env \<Rightarrow> string \<Rightarrow> ('s world, unit) go" where
  "deleteClusterWide env clusterName =
     bindE (deleteAll env ClusterRoleKind [] clusterRoles) (\<lambda>_.
     bindE (deleteAll env ClusterRoleBindingKind [] clusterRoleBindings) (\<lambda>_.
     bindE (deleteOb env SecretKind pxSecretsNamespace (clusterWideSecret clusterName)) (\<lambda>_.
     bindE (deleteOb env StorageClassKind [] storkSnapshotStorageClass) (\<lambda>_.
     bindE (deleteOb env MutatingWebhookConfigurationKind [] storkWebhookCfg) (\<lambda>_.
     deleteOb env NamespaceKind [] pxSecretsNamespace)))))"

text \<open>
  The config maps in the bootstrap namespace: three by name and those with the prefix of the bring-up
  queue.  An error of the listing is dropped, and the list is empty then.
\<close>

definition ListConfigMap :: "'s env \<Rightarrow> string \<Rightarrow> ('s world, ObjectMeta list) go" where
  "ListConfigMap env ns = callList env (ReqList ConfigMapKind ns []) (asMeta ConfigMapKind)"

definition bootstrapConfigMaps :: "string \<Rightarrow> ObjectMeta list \<Rightarrow> string list" where
  "bootstrapConfigMaps stripped cms =
     pxAttachDrivesetConfigMap # clusterConfigMaps stripped @
     map Name (filter (\<lambda>cm. HasPrefix (Name cm) pxBringupQueueConfigMapPrefix) cms)"

definition deleteBootstrapConfigMaps :: "'s env \<Rightarrow> string \<Rightarrow> ('s world, unit) go" where
  "deleteBootstrapConfigMaps env stripped =
     bindE (tryE (ListConfigMap env bootstrapCloudDriveNamespace)) (\<lambda>r.
       deleteAll env ConfigMapKind bootstrapCloudDriveNamespace
         (bootstrapConfigMaps stripped (case r of Inl err \<Rightarrow> [] | Inr cms \<Rightarrow> cms)))"

text \<open>\<open>DeleteConfigMap\<close> of sched-ops replaces an empty namespace by the default one.\<close>

definition configMapNamespace :: "string \<Rightarrow> string" where
  "configMapNamespace ns = (if ns = [] then NamespaceDefault else ns)"

definition namespaceConfigMaps :: "string \<Rightarrow> string list" where
  "namespaceConfigMaps stripped =
     [pureCloudDriveConfigMap, lhConfigMap, storkControllerConfigMap, pxAttachDrivesetConfigMap] @
     clusterConfigMaps stripped"

definition deleteFromNamespace :: "'s env \<Rightarrow> string \<Rightarrow> string \<Rightarrow> ('s world, unit) go" where
  "deleteFromNamespace env stripped ns =
     bindE (deleteOb env DaemonSetKind ns pxAPIDaemonset) (\<lambda>_.
     bindE (deleteAll env DeploymentKind ns depNames) (\<lambda>_.
     bindE (deleteOb env RoleKind pxSecretsNamespace pxRoleName) (\<lambda>_.
     bindE (deleteOb env RoleKind ns lhRoleName) (\<lambda>_.
     bindE (deleteOb env RoleBindingKind pxSecretsNamespace pxRoleBindingName) (\<lambda>_.
     bindE (deleteOb env RoleBindingKind ns lhRoleBindingName) (\<lambda>_.
     bindE (deleteAll env ServiceAccountKind ns accounts) (\<lambda>_.
     bindE (deleteAll env ServiceKind ns services) (\<lambda>_.
     bindE (deleteAll env StatefulSetKind ns statefulSetNames) (\<lambda>_.
     bindE (deleteAll env SecretKind ns secrets) (\<lambda>_.
     deleteAll env ConfigMapKind (configMapNamespace ns) (namespaceConfigMaps stripped)))))))))))"

definition deleteAllPXComponents :: "'s env \<Rightarrow> pxClusterOps \<Rightarrow> string \<Rightarrow> ('s world, unit) go" where
  "deleteAllPXComponents env ops clusterName =
     bindE (getPXDaemonsets env ops) (\<lambda>dss.
     bindE (deleteDaemonSets env dss) (\<lambda>_.
     bindE (deleteClusterWide env clusterName) (\<lambda>_.
     bindE (deleteBootstrapConfigMaps env (strippedClusterName clusterName)) (\<lambda>_.
     forE (deleteFromNamespace env (strippedClusterName clusterName)) (installedNamespaces ops)))))"

section \<open>The node wiper\<close>

definition mount :: "string \<Rightarrow> string \<Rightarrow> VolumeMount" where
  "mount name path = \<lparr>mountName = name, mountPath = path, mountReadOnly = False\<rparr>"

definition hostVolume :: "string \<Rightarrow> string \<Rightarrow> string option \<Rightarrow> Volume" where
  "hostVolume name path ty =
     \<lparr>volName = name, volHostPath = Some \<lparr>hostPath = path, hostPathType = ty\<rparr>,
      volPortworxVolume = None, volPersistentVolumeClaim = None\<rparr>"

definition wiperMounts :: "VolumeMount list" where
  "wiperMounts =
     [mount dsEtcPwxVolumeName pxEtcdPwx, mount ''hostproc'' ''/hostproc'', mount dsOptPwxVolumeName pxOptPwx,
      mount dsSockPwxVolumeName pxSockPwx, mount dsDbusVolumeName dbusPath,
      mount dsSysdVolumeName sysdmount, mount devVolumeName devMount, mount lvmVolumeName lvmMount,
      mount multipathVolumeName multipathMount,
      (mount udevVolumeName udevMount)\<lparr>mountReadOnly := True\<rparr>,
      mount sysVolumeName sysMount, mount coresVolumeName ''/var/cores'']"

definition wiperVolumes :: "string \<Rightarrow> string \<Rightarrow> Volume list" where
  "wiperVolumes root coresDir =
     [hostVolume dsEtcPwxVolumeName (root @ pxEtcdPwx) None, hostVolume ''hostproc'' ''/proc'' None,
      hostVolume dsOptPwxVolumeName (root @ pxOptPwx) None,
      hostVolume dsSockPwxVolumeName (root @ pxSockPwx) None,
      hostVolume dsDbusVolumeName dbusPath None, hostVolume dsSysdVolumeName sysdmount None,
      hostVolume devVolumeName devMount None,
      hostVolume multipathVolumeName multipathMount (Some ''DirectoryOrCreate''),
      hostVolume lvmVolumeName lvmMount (Some ''DirectoryOrCreate''),
      hostVolume udevVolumeName udevMount None, hostVolume sysVolumeName sysMount None,
      hostVolume coresVolumeName (root @ coresDir) None]"

definition wiperContainer :: "string \<Rightarrow> bool \<Rightarrow> Container" where
  "wiperContainer img debug =
     \<lparr>cName = pxNodeWiperDaemonSetName, cImage = img, cImagePullPolicy = ''Always'',
      cArgs = (if debug then [''--debug''] else []) @ [''-w'', ''-r''], cEnv = [],
      cPrivileged = Some True,
      cReadinessProbe = Some \<lparr>probeInitialDelaySeconds = 120, probePeriodSeconds = 0,
        probeHandler = ExecAction [''cat'', ''/tmp/px-node-wipe-done'']\<rparr>,
      cVolumeMounts = wiperMounts\<rparr>"

definition wiperLabels :: strmap where
  "wiperLabels = [''name'' \<mapsto> pxNodeWiperDaemonSetName]"

definition wiperDaemonSet :: "string \<Rightarrow> string \<Rightarrow> string \<Rightarrow> affinity option \<Rightarrow> bool \<Rightarrow> DaemonSet" where
  "wiperDaemonSet root coresDir img aff debug =
     \<lparr>dsMeta = metaNamed pxNodeWiperNamespace pxNodeWiperDaemonSetName (Some wiperLabels),
      dsMatchLabels = Some wiperLabels, dsTemplateLabels = Some wiperLabels,
      dsPodSpec =
        \<lparr>HostPID = True, HostNetwork = False, podAffinity = aff, Containers = [wiperContainer img debug],
         RestartPolicy = ''Always'', ServiceAccountName = talismanServiceAccount,
         Volumes = wiperVolumes root coresDir\<rparr>,
      dsStatus = zeroStatus\<rparr>"

text \<open>Gone: any error of the \<open>Get\<close> counts, not only not found.\<close>

definition goneTask :: "'s env \<Rightarrow> DaemonSet \<Rightarrow> ('s world, goerror + unit) go" where
  "goneTask env ds =
     bindE (tryE (GetDaemonSet env (Name (dsMeta ds)) (Namespace (dsMeta ds)))) (\<lambda>r. case r of
        Inr _ \<Rightarrow> raiseE (ErrorString (''daemonset: ['' @ Namespace (dsMeta ds) @ ''] '' @ Name (dsMeta ds) @
                    '' is still present''))
      | Inl _ \<Rightarrow> returnE (Inr ()))"

definition deleteDeferred :: "'s env \<Rightarrow> DaemonSet \<Rightarrow> ('s world, unit) go" where
  "deleteDeferred env ds =
     bindE (tryE (callDone env (ReqDelete DaemonSetKind (Namespace (dsMeta ds)) (Name (dsMeta ds)))))
       (\<lambda>_. returnE ())"

definition runDaemonSet :: "'s env \<Rightarrow> DaemonSet \<Rightarrow> int \<Rightarrow> ('s world, unit) go" where
  "runDaemonSet env ds timeout =
     bindE (deleteOb env DaemonSetKind (Namespace (dsMeta ds)) (Name (dsMeta ds))) (\<lambda>_.
     bindE (retryPlain env (goneTask env ds) daemonsetDeleteTimeout defaultRetryInterval) (\<lambda>_.
     bindE (callObj env (ReqCreate (KDaemonSet ds)) asDaemonSet) (\<lambda>created.
     deferE (deleteDeferred env created)
       (ValidateDaemonSet env (Name (dsMeta created)) (Namespace (dsMeta created)) timeout))))"

text \<open>The package variable \<open>cores\<close> is set on PKS and stays set.\<close>

definition runPXNodeWiper ::
  "'s env \<Rightarrow> string \<Rightarrow> string \<Rightarrow> string \<Rightarrow> affinity option \<Rightarrow> ('s world, unit) go" where
  "runPXNodeWiper env pwxHostPathRoot wiperImage wiperTag aff =
     (let img = (if wiperImage = [] then defaultNodeWiperImage else wiperImage) @ '':'' @
                (if wiperTag = [] then defaultNodeWiperTag else wiperTag) in
      bindE (if pwxHostPathRoot = pksPersistentStoreRoot then setCores ''/cores'' else returnE ()) (\<lambda>_.
      bindE getCores (\<lambda>coresDir.
      runDaemonSet env (wiperDaemonSet pwxHostPathRoot coresDir img aff (debugLevel env)) pxNodeWiperTimeout)))"

section \<open>Delete\<close>

text \<open>The best-effort part: its errors are logged and dropped.\<close>

definition wipe :: "'s env \<Rightarrow> pxConfig \<Rightarrow> string \<Rightarrow> DeleteOptions \<Rightarrow> ('s world, unit) go" where
  "wipe env cfg pwxHostPathRoot opts =
     bindE (tryE (runPXNodeWiper env pwxHostPathRoot (WiperImage opts) (WiperTag opts) (cfgAffinity cfg))) (\<lambda>_.
     if cfgErr cfg = Some ErrUsingInternalEtcd then returnE ()
     else bindE (tryE (wipePXKvdb env (cfgEndpoints cfg) (cfgOpts cfg) (cfgClusterName cfg))) (\<lambda>_.
          returnE ()))"

definition Delete :: "'s env \<Rightarrow> pxClusterOps \<Rightarrow> DeleteOptions option \<Rightarrow> ('s world, unit) go" where
  "Delete env ops opts =
     bindE (parseConfigFromDaemonset env ops) (\<lambda>cfg.
     bindE (setPlatform (cfgPlatform cfg)) (\<lambda>_.
     if cfgErr cfg \<noteq> None \<and> cfgErr cfg \<noteq> Some ErrUsingInternalEtcd
     then raiseE (ErrorString (''Failed to parse PX config from Daemonset for deleting PX due to err: '' @
            (case cfgErr cfg of Some e \<Rightarrow> errorText e | None \<Rightarrow> [])))
     else
       let pwxHostPathRoot = (if cfgPlatform cfg = platformTypePKS then pksPersistentStoreRoot else ''/'') in
       bindE (deleteAllPXComponents env ops (cfgClusterName cfg)) (\<lambda>_.
       case opts of
         None \<Rightarrow> returnE ()
       | Some o' \<Rightarrow> if WipeCluster o' then wipe env cfg pwxHostPathRoot o' else returnE ())))"

section \<open>The deletion plan\<close>

text \<open>
  The deletions in the order of the source, for the daemon sets and the config maps the API server
  lists.
\<close>

definition daemonSetPlan :: "DaemonSet list \<Rightarrow> request list" where
  "daemonSetPlan dss = map (\<lambda>ds. ReqDelete DaemonSetKind (Namespace (dsMeta ds)) (Name (dsMeta ds))) dss"

definition clusterPlan :: "string \<Rightarrow> request list" where
  "clusterPlan clusterName =
     map (ReqDelete ClusterRoleKind []) clusterRoles @
     map (ReqDelete ClusterRoleBindingKind []) clusterRoleBindings @
     [ReqDelete SecretKind pxSecretsNamespace (clusterWideSecret clusterName),
      ReqDelete StorageClassKind [] storkSnapshotStorageClass,
      ReqDelete MutatingWebhookConfigurationKind [] storkWebhookCfg,
      ReqDelete NamespaceKind [] pxSecretsNamespace]"

definition bootstrapPlan :: "string \<Rightarrow> ObjectMeta list \<Rightarrow> request list" where
  "bootstrapPlan stripped cms =
     map (ReqDelete ConfigMapKind bootstrapCloudDriveNamespace) (bootstrapConfigMaps stripped cms)"

definition namespacePlan :: "string \<Rightarrow> string \<Rightarrow> request list" where
  "namespacePlan stripped ns =
     [ReqDelete DaemonSetKind ns pxAPIDaemonset] @ map (ReqDelete DeploymentKind ns) depNames @
     [ReqDelete RoleKind pxSecretsNamespace pxRoleName, ReqDelete RoleKind ns lhRoleName,
      ReqDelete RoleBindingKind pxSecretsNamespace pxRoleBindingName,
      ReqDelete RoleBindingKind ns lhRoleBindingName] @
     map (ReqDelete ServiceAccountKind ns) accounts @ map (ReqDelete ServiceKind ns) services @
     map (ReqDelete StatefulSetKind ns) statefulSetNames @ map (ReqDelete SecretKind ns) secrets @
     map (ReqDelete ConfigMapKind (configMapNamespace ns)) (namespaceConfigMaps stripped)"

definition deletionPlan ::
  "string \<Rightarrow> DaemonSet list \<Rightarrow> ObjectMeta list \<Rightarrow> string list \<Rightarrow> request list" where
  "deletionPlan clusterName dss cms nss =
     daemonSetPlan dss @ clusterPlan clusterName @
     bootstrapPlan (strippedClusterName clusterName) cms @
     concat (map (namespacePlan (strippedClusterName clusterName)) nss)"

text \<open>
  \<open>performs m A\<close>: whatever the services answer, the changes \<open>m\<close> asks for are, in this order, a
  prefix of one of the plans \<open>A\<close>, and all of it when \<open>m\<close> returns without error.
\<close>

definition performs :: "('s world, 'a) go \<Rightarrow> request list set \<Rightarrow> bool" where
  "performs m A \<longleftrightarrow> (\<forall>w. \<exists>l p. p \<in> A \<and> reqs (snd (m w)) = reqs w @ l \<and>
     prefix (filter isMutation l) p \<and> (\<forall>a w'. m w = (Ok a, w') \<longrightarrow> filter isMutation l = p))"

lemma performsE:
  assumes "performs m A" and "m w = (r, w')"
  obtains p l where "p \<in> A" and "reqs w' = reqs w @ l" and "prefix (filter isMutation l) p"
    and "\<forall>a. r = Ok a \<longrightarrow> filter isMutation l = p"
  using assms unfolding performs_def by (metis snd_conv)

lemma performs_read: "issues isRead m \<Longrightarrow> performs m {[]}"
proof -
  assume m: "issues isRead m"
  have "filter isMutation l = []" if "list_all isRead l" for l
    using that by (induction l) auto
  with m show ?thesis unfolding performs_def issuesOn_def by (metis prefix_order.refl singletonI)
qed

lemma performs_callDone: "isMutation q \<Longrightarrow> performs (callDone env q) {[q]}"
  unfolding performs_def
  by (auto simp: callDone_def call_def bindE_def go_run split: prod.splits reply.splits)

lemma performs_bindE:
  assumes "performs m A" and "\<And>a. performs (f a) (B a)"
  shows "performs (bindE m f) {p @ q | p q. p \<in> A \<and> (\<exists>a. q \<in> B a)}"
  unfolding performs_def
proof
  fix w
  obtain r w1 where m: "m w = (r, w1)" by (cases "m w")
  obtain p l where
    1: "p \<in> A" "reqs w1 = reqs w @ l" "prefix (filter isMutation l) p"
      "\<forall>a. r = Ok a \<longrightarrow> filter isMutation l = p" by (rule performsE [OF assms(1) m])
  obtain a0 q0 where "q0 \<in> B a0" using assms(2) unfolding performs_def by blast
  with 1 have stop: "\<exists>p'. (\<exists>p q. p' = p @ q \<and> p \<in> A \<and> (\<exists>a. q \<in> B a)) \<and> prefix (filter isMutation l) p'"
    by (intro exI [of _ "p @ q0"]) auto
  show "\<exists>l p. p \<in> {p @ q | p q. p \<in> A \<and> (\<exists>a. q \<in> B a)} \<and> reqs (snd (bindE m f w)) = reqs w @ l \<and>
      prefix (filter isMutation l) p \<and> (\<forall>a w'. bindE m f w = (Ok a, w') \<longrightarrow> filter isMutation l = p)"
  proof (cases r)
    case (Ok a)
    obtain r2 w2 where f: "f a w1 = (r2, w2)" by (cases "f a w1")
    obtain q k where
      2: "q \<in> B a" "reqs w2 = reqs w1 @ k" "prefix (filter isMutation k) q"
        "\<forall>b. r2 = Ok b \<longrightarrow> filter isMutation k = q" by (rule performsE [OF assms(2) f])
    show ?thesis
      by (rule exI [of _ "l @ k"], rule exI [of _ "p @ q"]) (use m f Ok 1 2 in \<open>auto simp: bindE_def\<close>)
  qed (use m 1(2) stop in \<open>auto simp: bindE_def\<close>)
qed

lemma performs_seq:
  "performs m {p} \<Longrightarrow> (\<And>a. performs (f a) {q}) \<Longrightarrow> performs (bindE m f) {p @ q}"
  by (drule performs_bindE [where B = "\<lambda>_. {q}"]) simp_all

lemma performs_deleteOb: "performs (deleteOb env k ns n) {[ReqDelete k ns n]}"
  unfolding performs_def deleteOb_def
  by (auto simp: callDone_def call_def bindE_def tryE_def go_run split: prod.splits reply.splits)

lemma performs_forE:
  "(\<And>x. performs (f x) {P x}) \<Longrightarrow> performs (forE f xs) {concat (map P xs)}"
proof (induction xs)
  case Nil
  show ?case by (auto intro!: performs_read issues_intro)
next
  case (Cons x xs)
  then show ?case by (auto intro!: performs_seq)
qed

lemma performs_deleteAll: "performs (deleteAll env k ns names) {map (ReqDelete k ns) names}"
  unfolding deleteAll_def
  using performs_forE [where f = "deleteOb env k ns" and P = "\<lambda>n. [ReqDelete k ns n]", OF performs_deleteOb]
  by simp

lemma performs_deleteDaemonSets: "performs (deleteDaemonSets env dss) {daemonSetPlan dss}"
proof -
  let ?q = "\<lambda>ds. ReqDelete DaemonSetKind (Namespace (dsMeta ds)) (Name (dsMeta ds))"
  have "performs (forE (\<lambda>ds. callDone env (?q ds)) dss) {concat (map (\<lambda>ds. [?q ds]) dss)}"
    by (rule performs_forE) (rule performs_callDone, simp)
  then show ?thesis by (simp add: deleteDaemonSets_def daemonSetPlan_def)
qed

lemmas performs_deletes = performs_seq performs_deleteOb performs_deleteAll

lemma performs_clusterWide: "performs (deleteClusterWide env clusterName) {clusterPlan clusterName}"
proof -
  have "performs (deleteClusterWide env clusterName)
     {map (ReqDelete ClusterRoleKind []) clusterRoles @
      map (ReqDelete ClusterRoleBindingKind []) clusterRoleBindings @
      [ReqDelete SecretKind pxSecretsNamespace (clusterWideSecret clusterName)] @
      [ReqDelete StorageClassKind [] storkSnapshotStorageClass] @
      [ReqDelete MutatingWebhookConfigurationKind [] storkWebhookCfg] @
      [ReqDelete NamespaceKind [] pxSecretsNamespace]}"
    unfolding deleteClusterWide_def by (intro performs_deletes)
  then show ?thesis by (simp add: clusterPlan_def)
qed

lemma performs_namespace: "performs (deleteFromNamespace env stripped ns) {namespacePlan stripped ns}"
proof -
  have "performs (deleteFromNamespace env stripped ns)
     {[ReqDelete DaemonSetKind ns pxAPIDaemonset] @ map (ReqDelete DeploymentKind ns) depNames @
      [ReqDelete RoleKind pxSecretsNamespace pxRoleName] @ [ReqDelete RoleKind ns lhRoleName] @
      [ReqDelete RoleBindingKind pxSecretsNamespace pxRoleBindingName] @
      [ReqDelete RoleBindingKind ns lhRoleBindingName] @
      map (ReqDelete ServiceAccountKind ns) accounts @ map (ReqDelete ServiceKind ns) services @
      map (ReqDelete StatefulSetKind ns) statefulSetNames @ map (ReqDelete SecretKind ns) secrets @
      map (ReqDelete ConfigMapKind (configMapNamespace ns)) (namespaceConfigMaps stripped)}"
    unfolding deleteFromNamespace_def by (intro performs_deletes)
  then show ?thesis by (simp add: namespacePlan_def)
qed

lemma performs_bootstrap:
  "performs (deleteBootstrapConfigMaps env stripped) {bootstrapPlan stripped cms | cms. True}"
proof -
  have list: "performs (tryE (ListConfigMap env bootstrapCloudDriveNamespace)) {[]}"
    unfolding ListConfigMap_def by (auto intro!: performs_read issues_intro)
  have "performs (deleteBootstrapConfigMaps env stripped)
      {p @ q | p q. p \<in> {[]} \<and> (\<exists>r. q \<in> {map (ReqDelete ConfigMapKind bootstrapCloudDriveNamespace)
         (bootstrapConfigMaps stripped (case r of Inl (err :: goerror) \<Rightarrow> [] | Inr cms \<Rightarrow> cms))})}"
    unfolding deleteBootstrapConfigMaps_def by (rule performs_bindE [OF list performs_deleteAll])
  then show ?thesis
    unfolding performs_def bootstrapPlan_def by (simp, metis (no_types, lifting))
qed

end
