(* ===== verification/Server.thy ===== *)
theory Server
  imports SchedOps
begin

text \<open>
  What the program relies on of the API server's object storage, as a locale, and the rules for
  running code against it.  The laws are those of a server on which nobody else works; what the
  program does against arbitrary answers is the subject of the \<open>issues\<close> rules instead.
\<close>

section \<open>Keys and stores\<close>

type_synonym key = "kind \<times> string \<times> string"
type_synonym store = "key \<rightharpoonup> kobject"

definition keyOf :: "kobject \<Rightarrow> key" where
  "keyOf ob = (kindOf ob, Namespace (metaOf ob), Name (metaOf ob))"

text \<open>Objects of cluster-scoped kinds have no namespace.\<close>

fun clusterScoped :: "kind \<Rightarrow> bool" where
  "clusterScoped PVKind = True"
| "clusterScoped StorageClassKind = True"
| "clusterScoped NodeKind = True"
| "clusterScoped NamespaceKind = True"
| "clusterScoped ClusterRoleKind = True"
| "clusterScoped ClusterRoleBindingKind = True"
| "clusterScoped MutatingWebhookConfigurationKind = True"
| "clusterScoped CustomResourceDefinitionKind = True"
| "clusterScoped _ = False"

definition wellScoped :: "kobject \<Rightarrow> bool" where
  "wellScoped ob \<longleftrightarrow> (clusterScoped (kindOf ob) \<longrightarrow> Namespace (metaOf ob) = [])"

text \<open>Every object is stored under its own key.\<close>

definition storeOk :: "store \<Rightarrow> bool" where
  "storeOk v \<longleftrightarrow> (\<forall>key ob. v key = Some ob \<longrightarrow> keyOf ob = key \<and> wellScoped ob)"

text \<open>An equality selector \<open>key=value\<close>, the only form the program uses; empty selects all.\<close>

definition matchesSelector :: "string \<Rightarrow> kobject \<Rightarrow> bool" where
  "matchesSelector sel ob =
     (sel = [] \<or> (case Split sel (CHR ''='') of
         [k, v] \<Rightarrow> Option.bind (Labels (metaOf ob)) (\<lambda>m. m k) = Some v
       | _ \<Rightarrow> False))"

definition listed :: "kind \<Rightarrow> string \<Rightarrow> string \<Rightarrow> kobject \<Rightarrow> bool" where
  "listed k ns sel ob \<longleftrightarrow>
     kindOf ob = k \<and> (ns = [] \<or> Namespace (metaOf ob) = ns) \<and> matchesSelector sel ob"

section \<open>Kinds of objects\<close>

text \<open>The objects of one kind, wrapped by \<open>enc\<close> and unwrapped by \<open>dec\<close>.\<close>

locale object_kind =
  fixes k :: kind and enc :: "'a \<Rightarrow> kobject" and dec :: "kobject \<Rightarrow> 'a option"
  assumes dec_enc: "dec (enc x) = Some x"
    and kind_enc: "kindOf (enc x) = k"
    and dec_kind: "kindOf ob = k \<Longrightarrow> \<exists>x. ob = enc x"
begin

lemma dec_kindE: "kindOf ob = k \<Longrightarrow> \<exists>x. dec ob = Some x \<and> ob = enc x"
  using dec_kind dec_enc by blast

lemma enc_inject: "enc x = enc y \<Longrightarrow> x = y"
  using dec_enc by (metis option.inject)

lemma those_dec:
  "\<forall>ob\<in>set obs. kindOf ob = k \<Longrightarrow> \<exists>xs. those (map dec obs) = Some xs \<and> obs = map enc xs"
proof (induction obs)
  case (Cons ob obs)
  then obtain xs where "those (map dec obs) = Some xs" "obs = map enc xs" by auto
  moreover obtain x where "ob = enc x" using Cons.prems dec_kind by auto
  ultimately show ?case by (intro exI [of _ "x # xs"]) (simp add: dec_enc)
qed simp

end

lemma kindOf_cases:
  "kindOf ob = DeploymentKind \<Longrightarrow> \<exists>x. ob = KDeployment x"
  "kindOf ob = StatefulSetKind \<Longrightarrow> \<exists>x. ob = KStatefulSet x"
  "kindOf ob = DaemonSetKind \<Longrightarrow> \<exists>x. ob = KDaemonSet x"
  "kindOf ob = PVCKind \<Longrightarrow> \<exists>x. ob = KPVC x"
  "kindOf ob = PodKind \<Longrightarrow> \<exists>x. ob = KPod x"
  "kindOf ob = StorageClassKind \<Longrightarrow> \<exists>x. ob = KStorageClass x"
  by (cases ob; simp)+

interpretation deployments: object_kind DeploymentKind KDeployment asDeployment
  by unfold_locales (auto simp: decoders kindOf_cases)

interpretation statefulSets: object_kind StatefulSetKind KStatefulSet asStatefulSet
  by unfold_locales (auto simp: decoders kindOf_cases)

interpretation daemonSets: object_kind DaemonSetKind KDaemonSet asDaemonSet
  by unfold_locales (auto simp: decoders kindOf_cases)

interpretation claims: object_kind PVCKind KPVC asPVC
  by unfold_locales (auto simp: decoders kindOf_cases)

interpretation pods: object_kind PodKind KPod asPod
  by unfold_locales (auto simp: decoders kindOf_cases)

interpretation storageClasses: object_kind StorageClassKind KStorageClass asStorageClass
  by unfold_locales (auto simp: decoders kindOf_cases)

section \<open>The laws\<close>

text \<open>
  What is stored when \<open>ob\<close> is sent as an update: \<open>ob\<close> itself, except that the status of a daemon set
  belongs to its controller.
\<close>

definition accepted :: "kobject \<Rightarrow> kobject \<Rightarrow> bool" where
  "accepted ob ob' \<longleftrightarrow>
     (case ob of
        KDaemonSet d \<Rightarrow> (\<exists>st. ob' = KDaemonSet (d\<lparr>dsStatus := st\<rparr>))
      | _ \<Rightarrow> ob' = ob)"

lemma accepted_same: "kindOf ob \<noteq> DaemonSetKind \<Longrightarrow> accepted ob ob' \<longleftrightarrow> ob' = ob"
  by (cases ob) (simp_all add: accepted_def)

lemma accepted_refl: "accepted ob ob"
proof (cases ob)
  case (KDaemonSet d)
  have "KDaemonSet d = KDaemonSet (d\<lparr>dsStatus := dsStatus d\<rparr>)" by (cases d) simp
  then show ?thesis unfolding KDaemonSet accepted_def kobject.case by (rule exI)
qed (simp_all add: accepted_def)

locale object_server =
  fixes env :: "'s env" and objs :: "'s \<Rightarrow> store" and good :: "'s \<Rightarrow> bool"
  assumes stored: "good s \<Longrightarrow> objs s key = Some ob \<Longrightarrow> keyOf ob = key \<and> wellScoped ob"
    and kept: "good s \<Longrightarrow> handle env q s = (r, s', d) \<Longrightarrow> good s'"
    and read: "good s \<Longrightarrow> isRead q \<Longrightarrow> handle env q s = (r, s', d) \<Longrightarrow> objs s' = objs s"
    and rested: "good s \<Longrightarrow> idle env pause s = (s', d) \<Longrightarrow> good s' \<and> objs s' = objs s"
    and get: "good s \<Longrightarrow> handle env (ReqGet k ns name) s = (r, s', d) \<Longrightarrow>
       (case objs s (k, ns, name) of
          Some ob \<Rightarrow> r = RObj ob | None \<Rightarrow> (\<exists>msg. r = RErr (StatusError NotFound msg)))"
    and list: "good s \<Longrightarrow> handle env (ReqList k ns sel) s = (r, s', d) \<Longrightarrow>
       (\<exists>obs. r = RList obs \<and> distinct obs \<and>
          set obs = {ob. objs s (keyOf ob) = Some ob \<and> listed k ns sel ob})"
    and update: "good s \<Longrightarrow> objs s (keyOf ob) = Some old \<Longrightarrow>
       handle env (ReqUpdate ob) s = (r, s', d) \<Longrightarrow>
       (\<exists>ob'. accepted ob ob' \<and> r = RObj ob' \<and> objs s' = (objs s)(keyOf ob \<mapsto> ob'))"
    and update_none: "good s \<Longrightarrow> objs s (keyOf ob) = None \<Longrightarrow>
       handle env (ReqUpdate ob) s = (r, s', d) \<Longrightarrow> (\<exists>e. r = RErr e) \<and> objs s' = objs s"
    and patch: "good s \<Longrightarrow> handle env (ReqPatchPorts ns name ports) s = (r, s', d) \<Longrightarrow>
       key \<noteq> (ServiceKind, ns, name) \<Longrightarrow> objs s' key = objs s key"
    and create: "good s \<Longrightarrow> wellScoped ob \<Longrightarrow> handle env (ReqCreate ob) s = (r, s', d) \<Longrightarrow>
       (case objs s (keyOf ob) of
          None \<Rightarrow> r = RObj ob \<and> objs s' = (objs s)(keyOf ob \<mapsto> ob)
        | Some old \<Rightarrow> (\<exists>msg. r = RErr (StatusError AlreadyExists msg)) \<and> objs s' = objs s)"
    and delete: "good s \<Longrightarrow> handle env (ReqDelete k ns name) s = (r, s', d) \<Longrightarrow>
       (case objs s (k, ns, name) of
          None \<Rightarrow> (\<exists>msg. r = RErr (StatusError NotFound msg)) \<and> objs s' = objs s
        | Some old \<Rightarrow> r = RDone \<and> objs s' = (objs s)((k, ns, name) := None))"
begin

text \<open>The store as the program's requests see it, and worlds whose server state is well formed.\<close>

definition view :: "'s world \<Rightarrow> store" where
  "view w = objs (srv w)"

definition sound :: "'s world \<Rightarrow> bool" where
  "sound w \<longleftrightarrow> good (srv w)"

lemma storeOk_view: "sound w \<Longrightarrow> storeOk (view w)"
  using stored by (auto simp: storeOk_def view_def sound_def)

text \<open>
  \<open>reads m R\<close>: from every sound world \<open>m\<close> ends with a result allowed by \<open>R\<close> of the store and leaves
  the store as it is.
\<close>

definition reads :: "('s world, 'a) go \<Rightarrow> (store \<Rightarrow> 'a outcome \<Rightarrow> bool) \<Rightarrow> bool" where
  "reads m R \<longleftrightarrow>
     (\<forall>w. sound w \<longrightarrow> (\<exists>r w'. m w = (r, w') \<and> R (view w) r \<and> view w' = view w \<and> sound w'))"

lemma readsD:
  "reads m R \<Longrightarrow> sound w \<Longrightarrow> \<exists>r w'. m w = (r, w') \<and> R (view w) r \<and> view w' = view w \<and> sound w'"
  by (simp add: reads_def)

lemma reads_weaken: "reads m R \<Longrightarrow> (\<And>v r. R v r \<Longrightarrow> R' v r) \<Longrightarrow> reads m R'"
  unfolding reads_def by blast

lemma reads_returnE: "reads (returnE a) (\<lambda>v r. r = Ok a)"
  by (simp add: reads_def returnE_def)

lemma reads_raiseE: "reads (raiseE e) (\<lambda>v r. r = Err e)"
  by (simp add: reads_def raiseE_def)

lemma reads_bindE:
  assumes m: "reads m R" and f: "\<And>a. reads (f a) (S a)"
  shows "reads (bindE m f)
    (\<lambda>v r. (\<exists>a. R v (Ok a) \<and> S a v r) \<or> (\<exists>e. R v (Err e) \<and> r = Err e) \<or>
            (\<exists>p. R v (Panic p) \<and> r = Panic p) \<or> (\<exists>p. R v (Crash p) \<and> r = Crash p))"
  unfolding reads_def
proof (intro allI impI)
  fix w assume "sound w"
  from readsD [OF m this] obtain r w1 where
    1: "m w = (r, w1)" "R (view w) r" "view w1 = view w" "sound w1" by blast
  show "\<exists>r w'. bindE m f w = (r, w') \<and>
      ((\<exists>a. R (view w) (Ok a) \<and> S a (view w) r) \<or> (\<exists>e. R (view w) (Err e) \<and> r = Err e) \<or>
       (\<exists>p. R (view w) (Panic p) \<and> r = Panic p) \<or> (\<exists>p. R (view w) (Crash p) \<and> r = Crash p)) \<and>
      view w' = view w \<and> sound w'"
  proof (cases r)
    case (Ok a)
    from readsD [OF f [of a] 1(4)] obtain r' w2 where
      2: "f a w1 = (r', w2)" "S a (view w1) r'" "view w2 = view w1" "sound w2" by blast
    with 1 Ok show ?thesis by (auto simp: bindE_def)
  qed (use 1 in \<open>auto simp: bindE_def\<close>)
qed

text \<open>Code that cannot fail on a sound world: \<open>yields m Q\<close>.\<close>

abbreviation (input) yields :: "('s world, 'a) go \<Rightarrow> (store \<Rightarrow> 'a \<Rightarrow> bool) \<Rightarrow> bool" where
  "yields m Q \<equiv> reads m (\<lambda>v r. \<exists>a. r = Ok a \<and> Q v a)"

lemma yields_returnE: "(\<And>v. Q v a) \<Longrightarrow> yields (returnE a) Q"
  by (simp add: reads_def returnE_def)

lemma yields_bindE:
  assumes m: "yields m Q" and f: "\<And>a. yields (f a) (S a)"
    and imp: "\<And>v a b. Q v a \<Longrightarrow> S a v b \<Longrightarrow> T v b"
  shows "yields (bindE m f) T"
proof (rule reads_weaken [OF reads_bindE [OF m f]])
  fix v r
  assume "(\<exists>a. (\<exists>a'. Ok a = Ok a' \<and> Q v a') \<and> (\<exists>b. r = Ok b \<and> S a v b)) \<or>
    (\<exists>e. (\<exists>a'. Err e = Ok a' \<and> Q v a') \<and> r = Err e) \<or>
    (\<exists>p. (\<exists>a'. Panic p = Ok a' \<and> Q v a') \<and> r = Panic p) \<or>
    (\<exists>p. (\<exists>a'. Crash p = Ok a' \<and> Q v a') \<and> r = Crash p)"
  then obtain a b where "Q v a" "r = Ok b" "S a v b" by auto
  with imp show "\<exists>b. r = Ok b \<and> T v b" by blast
qed

lemma yields_tryE:
  assumes m: "reads m R" and imp: "\<And>v a. R v (Ok a) \<Longrightarrow> Q v (Inr a)"
    "\<And>v e. R v (Err e) \<Longrightarrow> Q v (Inl e)" "\<And>v p. \<not> R v (Panic p)" "\<And>v p. \<not> R v (Crash p)"
  shows "yields (tryE m) Q"
  unfolding reads_def
proof (intro allI impI)
  fix w assume "sound w"
  from readsD [OF m this] obtain r w1 where
    1: "m w = (r, w1)" "R (view w) r" "view w1 = view w" "sound w1" by blast
  then show "\<exists>r w'. tryE m w = (r, w') \<and> (\<exists>a. r = Ok a \<and> Q (view w) a) \<and> view w' = view w \<and> sound w'"
    by (cases r) (auto simp: tryE_def imp)
qed

text \<open>Code that computes a total function of the store.\<close>

abbreviation (input) computes :: "('s world, 'a) go \<Rightarrow> (store \<Rightarrow> 'a) \<Rightarrow> bool" where
  "computes m g \<equiv> reads m (\<lambda>v r. r = Ok (g v))"

lemma computes_run:
  "computes m g \<Longrightarrow> sound w \<Longrightarrow> \<exists>w'. m w = (Ok (g (view w)), w') \<and> view w' = view w \<and> sound w'"
  by (drule (1) readsD) blast

lemma computes_anyE:
  assumes "\<And>x. computes (f x) (\<lambda>v. P v x)"
  shows "computes (anyE f xs) (\<lambda>v. list_ex (P v) xs)"
proof (induction xs)
  case Nil
  show ?case using reads_returnE by simp
next
  case (Cons x xs)
  have tail: "reads (if b then returnE True else anyE f xs)
      (\<lambda>v r. r = Ok (if b then True else list_ex (P v) xs))" for b
    using Cons.IH reads_returnE [of True] by (cases b) simp_all
  show ?case
    unfolding anyE.simps
    by (rule reads_weaken [OF reads_bindE [OF assms tail]]) (auto split: if_splits)
qed

text \<open>A collecting loop whose iterations are known to succeed on the elements \<open>pre\<close> allows.\<close>

lemma reads_collectE:
  assumes "\<And>x. reads (g x) (\<lambda>v r. pre v x \<longrightarrow> r = Ok (G v x))"
  shows "reads (collectE g xs) (\<lambda>v r. (\<forall>x\<in>set xs. pre v x) \<longrightarrow> r = Ok (concat (map (G v) xs)))"
proof (induction xs)
  case Nil
  show ?case unfolding collectE.simps by (rule reads_weaken [OF reads_returnE]) simp
next
  case (Cons x xs)
  have rest: "reads (bindE (collectE g xs) (\<lambda>zs. returnE (ys @ zs)))
      (\<lambda>v r. (\<forall>x\<in>set xs. pre v x) \<longrightarrow> r = Ok (ys @ concat (map (G v) xs)))" for ys
    by (rule reads_weaken [OF reads_bindE [OF Cons.IH reads_returnE]]) auto
  show ?case
    unfolding collectE.simps
    by (rule reads_weaken [OF reads_bindE [OF assms rest]]) auto
qed

lemma computes_filter:
  assumes "\<And>x. computes (f x) (\<lambda>v. P v x)"
  shows "computes (collectE (\<lambda>x. bindE (f x) (\<lambda>b. returnE (if b then [x] else []))) xs)
    (\<lambda>v. filter (P v) xs)"
proof -
  have one: "reads (bindE (f x) (\<lambda>b. returnE (if b then [x] else [])))
      (\<lambda>v r. True \<longrightarrow> r = Ok (if P v x then [x] else []))" for x
    by (rule reads_weaken [OF reads_bindE [OF assms reads_returnE]]) auto
  have "concat (map (\<lambda>x. if P v x then [x] else []) xs) = filter (P v) xs" for v
    by (induction xs) auto
  with reads_collectE [where pre = "\<lambda>v x. True" and xs = xs and
      g = "\<lambda>x. bindE (f x) (\<lambda>b. returnE (if b then [x] else []))" and
      G = "\<lambda>v x. if P v x then [x] else []", OF one]
  show ?thesis by simp
qed

section \<open>Requests against the store\<close>

lemma call_read:
  assumes "sound w" and "isRead q" and "handle env q (srv w) = (r, s', d)"
  shows "\<exists>w'. call env q w = (Ok r, w') \<and> view w' = view w \<and> sound w'"
  using assms kept [OF _ assms(3)] read [OF _ assms(2,3)]
  by (auto simp: call_def view_def sound_def)

lemma reads_get:
  "reads (callObj env (ReqGet k ns n) dec)
     (\<lambda>v r. case v (k, ns, n) of
         None \<Rightarrow> (\<exists>msg. r = Err (StatusError NotFound msg))
       | Some ob \<Rightarrow> (case dec ob of Some x \<Rightarrow> r = Ok x | None \<Rightarrow> r = Err decodeError))"
  unfolding reads_def
proof (intro allI impI)
  fix w assume w: "sound w"
  obtain r s' d where h: "handle env (ReqGet k ns n) (srv w) = (r, s', d)"
    by (cases "handle env (ReqGet k ns n) (srv w)") auto
  from call_read [OF w _ h] obtain w' where
    c: "call env (ReqGet k ns n) w = (Ok r, w')" "view w' = view w" "sound w'" by auto
  have "case view w (k, ns, n) of
      Some ob \<Rightarrow> r = RObj ob | None \<Rightarrow> (\<exists>msg. r = RErr (StatusError NotFound msg))"
    using get [OF _ h] w by (simp add: view_def sound_def)
  with c show "\<exists>r w'. callObj env (ReqGet k ns n) dec w = (r, w') \<and>
      (case view w (k, ns, n) of
         None \<Rightarrow> (\<exists>msg. r = Err (StatusError NotFound msg))
       | Some ob \<Rightarrow> (case dec ob of Some x \<Rightarrow> r = Ok x | None \<Rightarrow> r = Err decodeError)) \<and>
      view w' = view w \<and> sound w'"
    by (cases "view w (k, ns, n)"; cases "Option.bind (view w (k, ns, n)) dec")
       (auto simp: callObj_def bindE_def go_run)
qed

lemma yields_list:
  assumes kind: "object_kind k enc dec"
  shows "yields (callList env (ReqList k ns sel) dec)
     (\<lambda>v xs. storeOk v \<and> distinct xs \<and>
        (\<forall>x. x \<in> set xs \<longleftrightarrow> v (keyOf (enc x)) = Some (enc x) \<and> listed k ns sel (enc x)))"
  unfolding reads_def
proof (intro allI impI)
  fix w assume w: "sound w"
  obtain r s' d where h: "handle env (ReqList k ns sel) (srv w) = (r, s', d)"
    by (cases "handle env (ReqList k ns sel) (srv w)") auto
  from call_read [OF w _ h] obtain w' where
    c: "call env (ReqList k ns sel) w = (Ok r, w')" "view w' = view w" "sound w'" by auto
  obtain obs where obs: "r = RList obs" "distinct obs"
      "set obs = {ob. view w (keyOf ob) = Some ob \<and> listed k ns sel ob}"
    using list [OF _ h] w by (auto simp: view_def sound_def)
  from obs(3) have "\<forall>ob\<in>set obs. kindOf ob = k" by (auto simp: listed_def)
  from object_kind.those_dec [OF kind this] obtain xs where
    xs: "those (map dec obs) = Some xs" "obs = map enc xs" by blast
  have "x \<in> set xs \<longleftrightarrow> enc x \<in> set obs" for x
    using xs(2) object_kind.enc_inject [OF kind] by auto
  with obs(3) have mem: "\<forall>x. x \<in> set xs \<longleftrightarrow>
      view w (keyOf (enc x)) = Some (enc x) \<and> listed k ns sel (enc x)"
    by simp
  have "distinct xs" using obs(2) xs(2) by (simp add: distinct_map)
  moreover have "callList env (ReqList k ns sel) dec w = (Ok xs, w')"
    using c(1) obs(1) xs(1) by (simp add: callList_def bindE_def go_run)
  ultimately show "\<exists>r w'. callList env (ReqList k ns sel) dec w = (r, w') \<and>
      (\<exists>a. r = Ok a \<and> storeOk (view w) \<and> distinct a \<and> (\<forall>x. x \<in> set a \<longleftrightarrow>
         view w (keyOf (enc x)) = Some (enc x) \<and> listed k ns sel (enc x))) \<and>
      view w' = view w \<and> sound w'"
    using mem c(2,3) storeOk_view [OF w] by (intro exI [of _ "Ok xs"] exI [of _ w'] exI [of _ xs] conjI) simp_all
qed

lemma callObj_update:
  assumes "sound w" and "view w (keyOf ob) = Some old" and "dec ob = Some x" and "kindOf ob \<noteq> DaemonSetKind"
  shows "\<exists>w'. callObj env (ReqUpdate ob) dec w = (Ok x, w') \<and>
    view w' = (view w)(keyOf ob \<mapsto> ob) \<and> sound w'"
proof -
  obtain r s' d where h: "handle env (ReqUpdate ob) (srv w) = (r, s', d)"
    by (cases "handle env (ReqUpdate ob) (srv w)") auto
  with assms show ?thesis
    using update [OF _ _ h, of old] kept [OF _ h]
    by (auto simp: accepted_same callObj_def call_def bindE_def go_run view_def sound_def)
qed

end

end
