(* ===== verification/AppScaling.thy ===== *)
theory AppScaling
  imports K8sUtils Server
begin

text \<open>
  Correctness of the scale-down and the restore of the applications on shared volumes: what each
  step does to one object, which objects are found, and what the two operations do to the store of
  an API server that obeys the laws of \<open>object_server\<close>.
\<close>

section \<open>One object\<close>

lemma sint32_inInt64: "inInt64 (sint (r :: int32))"
  using sint_ge [of r] sint_lt [of r] by (simp add: inInt64_def)

lemma intstrParse_replicaString: "intstrParse (replicaString r) = IntVal r"
  by (simp add: intstrParse_def replicaString_def Atoi_intString sint32_inInt64)

lemma replicaString_nonempty: "replicaString r \<noteq> []"
  by (simp add: replicaString_def intString_nonempty)

lemma savedReplicas_saved:
  "savedReplicas (Some (m(replicaMemoryKey \<mapsto> replicaString r))) = Write (m(replicaMemoryKey := None), r)"
  by (simp add: savedReplicas_def replicaString_nonempty intstrParse_replicaString)

lemma savedReplicas_none: "m replicaMemoryKey = None \<Longrightarrow> savedReplicas (Some m) = Leave"
  by (simp add: savedReplicas_def)

text \<open>
  An application the scale-down can handle: it has a replica count and annotations.  It is
  \<open>fresh\<close> when no count is saved in them yet.
\<close>

definition readyDeployment :: "Deployment \<Rightarrow> bool" where
  "readyDeployment d \<longleftrightarrow> depReplicas d \<noteq> None \<and> Annotations (depMeta d) \<noteq> None"

definition readyStatefulSet :: "StatefulSet \<Rightarrow> bool" where
  "readyStatefulSet s \<longleftrightarrow> ssReplicas s \<noteq> None \<and> Annotations (ssMeta s) \<noteq> None"

definition freshMeta :: "ObjectMeta \<Rightarrow> bool" where
  "freshMeta m \<longleftrightarrow> (\<exists>a. Annotations m = Some a \<and> a replicaMemoryKey = None)"

text \<open>An object after a task: changed when the decision is to write.\<close>

definition after :: "('a \<Rightarrow> 'a decision) \<Rightarrow> 'a \<Rightarrow> 'a" where
  "after decide x = (case decide x of Write y \<Rightarrow> y | _ \<Rightarrow> x)"

lemma after_Leave: "decide x = Leave \<Longrightarrow> after decide x = x"
  by (simp add: after_def)

lemma restore_scaled_deployment:
  assumes "depReplicas d \<noteq> None" and "freshMeta (depMeta d)"
  shows "after restoreDeployment (after scaleDownDeployment d) = d"
proof -
  from assms obtain r m where "depReplicas d = Some r" "Annotations (depMeta d) = Some m"
      "m replicaMemoryKey = None" unfolding freshMeta_def by auto
  then show ?thesis
    by (cases "depMeta d")
       (auto simp: after_def scaleDownDeployment_def restoreDeployment_def savedReplicas_saved
          savedReplicas_none setAnnotations_def fun_upd_idem)
qed

lemma restore_scaled_statefulset:
  assumes "ssReplicas s \<noteq> None" and "freshMeta (ssMeta s)"
  shows "after restoreStatefulSet (after scaleDownStatefulSet s) = s"
proof -
  from assms obtain r m where "ssReplicas s = Some r" "Annotations (ssMeta s) = Some m"
      "m replicaMemoryKey = None" unfolding freshMeta_def by auto
  then show ?thesis
    by (cases "ssMeta s")
       (auto simp: after_def scaleDownStatefulSet_def restoreStatefulSet_def savedReplicas_saved
          setAnnotations_def fun_upd_idem)
qed

lemma scaled_deployment_zero:
  "readyDeployment d \<Longrightarrow> depReplicas (after scaleDownDeployment d) = Some 0"
  by (auto simp: readyDeployment_def after_def scaleDownDeployment_def)

lemma scaled_statefulset_zero:
  "readyStatefulSet s \<Longrightarrow> ssReplicas (after scaleDownStatefulSet s) = Some 0"
  by (auto simp: readyStatefulSet_def after_def scaleDownStatefulSet_def)

lemma scaleDown_deployment_idem:
  "readyDeployment d \<Longrightarrow> scaleDownDeployment (after scaleDownDeployment d) = Leave"
  by (auto simp: readyDeployment_def after_def scaleDownDeployment_def)

lemma restore_deployment_idem: "restoreDeployment d = Write d' \<Longrightarrow> restoreDeployment d' = Leave"
  by (auto simp: restoreDeployment_def savedReplicas_def setAnnotations_def
      split: option.splits if_splits IntOrString.splits)

lemma restore_statefulset_idem: "restoreStatefulSet s = Write s' \<Longrightarrow> restoreStatefulSet s' = Leave"
  by (auto simp: restoreStatefulSet_def savedReplicas_def setAnnotations_def
      split: option.splits if_splits IntOrString.splits)

section \<open>One object of the store\<close>

definition stepOb ::
  "(kobject \<Rightarrow> 'a option) \<Rightarrow> ('a \<Rightarrow> kobject) \<Rightarrow> ('a \<Rightarrow> 'a decision) \<Rightarrow> kobject option \<Rightarrow> kobject option" where
  "stepOb dec enc decide o' =
     (case Option.bind o' dec of None \<Rightarrow> o' | Some x \<Rightarrow>
        (case decide x of Write y \<Rightarrow> Some (enc y) | _ \<Rightarrow> o'))"

definition stepKey ::
  "(kobject \<Rightarrow> 'a option) \<Rightarrow> ('a \<Rightarrow> kobject) \<Rightarrow> ('a \<Rightarrow> 'a decision) \<Rightarrow> key \<Rightarrow> store \<Rightarrow> store" where
  "stepKey dec enc decide key v = v(key := stepOb dec enc decide (v key))"

lemma fold_stepKey:
  assumes "distinct keys \<or> (\<forall>x. stepOb dec enc decide (stepOb dec enc decide x) = stepOb dec enc decide x)"
  shows "fold (stepKey dec enc decide) keys v key =
    (if key \<in> set keys then stepOb dec enc decide (v key) else v key)"
  using assms
  by (induction keys arbitrary: v) (auto simp: stepKey_def)

lemma stepOb_idem:
  assumes "\<And>x y. decide x = Write y \<Longrightarrow> decide y = Leave" and "\<And>x. dec (enc x) = Some x"
  shows "stepOb dec enc decide (stepOb dec enc decide x) = stepOb dec enc decide x"
  using assms by (auto simp: stepOb_def split: option.splits decision.splits)

lemma stepOb_after:
  "dec (enc x) = Some x \<Longrightarrow> stepOb dec enc decide (Some (enc x)) = Some (enc (after decide x))"
  by (auto simp: stepOb_def after_def split: decision.splits)

section \<open>Which applications are found\<close>

definition classOf :: "store \<Rightarrow> PVC \<Rightarrow> StorageClass option" where
  "classOf v pvc =
     (if pvcStorageClass pvc = [] then None
      else Option.bind (v (StorageClassKind, [], pvcStorageClass pvc)) asStorageClass)"

definition hasClass :: "store \<Rightarrow> string \<Rightarrow> PVC \<Rightarrow> bool" where
  "hasClass v sc pvc = (case classOf v pvc of None \<Rightarrow> False | Some c \<Rightarrow> Name (scMeta c) = sc)"

definition volumeHasClass :: "store \<Rightarrow> string \<Rightarrow> string \<Rightarrow> Volume \<Rightarrow> bool" where
  "volumeHasClass v ns sc vol =
     (case volPersistentVolumeClaim vol of
        None \<Rightarrow> False
      | Some c \<Rightarrow> (case Option.bind (v (PVCKind, ns, c)) asPVC of
                     None \<Rightarrow> False | Some pvc \<Rightarrow> hasClass v sc pvc))"

definition deploymentUses :: "store \<Rightarrow> string \<Rightarrow> Deployment \<Rightarrow> bool" where
  "deploymentUses v sc d = list_ex (volumeHasClass v (Namespace (depMeta d)) sc) (depVolumes d)"

definition statefulSetUses :: "store \<Rightarrow> string \<Rightarrow> StatefulSet \<Rightarrow> bool" where
  "statefulSetUses v sc s = list_ex (hasClass v sc) (ssVolumeClaimTemplates s)"

definition sharedClass :: "store \<Rightarrow> string \<Rightarrow> bool" where
  "sharedClass v sc = (case v (StorageClassKind, [], sc) of
     Some (KStorageClass c) \<Rightarrow> isShared (scParameters c) | _ \<Rightarrow> False)"

text \<open>The deployments and stateful sets on shared classes.\<close>

definition sharedDeployments :: "store \<Rightarrow> Deployment set" where
  "sharedDeployments v =
     {d. v (keyOf (KDeployment d)) = Some (KDeployment d) \<and> (\<exists>sc. sharedClass v sc \<and> deploymentUses v sc d)}"

definition sharedStatefulSets :: "store \<Rightarrow> StatefulSet set" where
  "sharedStatefulSets v =
     {s. v (keyOf (KStatefulSet s)) = Some (KStatefulSet s) \<and> (\<exists>sc. sharedClass v sc \<and> statefulSetUses v sc s)}"

text \<open>No stateful set has claims of two shared classes.\<close>

definition oneClassEach :: "store \<Rightarrow> bool" where
  "oneClassEach v \<longleftrightarrow> (\<forall>s sc sc'. sharedClass v sc \<and> sharedClass v sc' \<and>
     statefulSetUses v sc s \<and> statefulSetUses v sc' s \<longrightarrow> sc = sc')"

text \<open>What the loop over the classes \<open>scs\<close> has collected at its end.\<close>

definition oneOf :: "store \<Rightarrow> string list \<Rightarrow> bool" where
  "oneOf v scs \<longleftrightarrow> (\<forall>s. \<forall>sc\<in>set scs. \<forall>sc'\<in>set scs.
     statefulSetUses v sc s \<and> statefulSetUses v sc' s \<longrightarrow> sc = sc')"

definition appsOn :: "string list \<Rightarrow> store \<Rightarrow> Deployment list \<times> StatefulSet list \<Rightarrow> bool" where
  "appsOn scs v r \<longleftrightarrow>
     (\<forall>d. d \<in> set (fst r) \<longleftrightarrow>
        v (keyOf (KDeployment d)) = Some (KDeployment d) \<and> (\<exists>sc\<in>set scs. deploymentUses v sc d)) \<and>
     (\<forall>s. s \<in> set (snd r) \<longleftrightarrow>
        v (keyOf (KStatefulSet s)) = Some (KStatefulSet s) \<and> (\<exists>sc\<in>set scs. statefulSetUses v sc s)) \<and>
     (distinct scs \<longrightarrow> oneOf v scs \<longrightarrow> distinct (snd r))"

context object_server
begin

lemma computes_isClass: "computes (isClass env sc pvc) (\<lambda>v. hasClass v sc pvc)"
proof -
  have "yields (tryE (GetStorageClassForPVC env pvc))
      (\<lambda>v r. (case r of Inl e \<Rightarrow> False | Inr c \<Rightarrow> Name (scMeta c) = sc) = hasClass v sc pvc)"
  proof (cases "pvcStorageClass pvc = []")
    case True
    then show ?thesis unfolding GetStorageClassForPVC_def
      by (auto intro!: yields_tryE [OF reads_raiseE] simp: hasClass_def classOf_def)
  next
    case False
    show ?thesis unfolding GetStorageClassForPVC_def Let_def if_not_P [OF False]
      by (rule yields_tryE [OF reads_get])
         (auto simp: hasClass_def classOf_def False split: option.splits)
  qed
  from reads_bindE [OF this reads_returnE] show ?thesis
    unfolding isClass_def by (rule reads_weaken) auto
qed

lemma computes_volumeUsesClass:
  "computes (volumeUsesClass env ns sc vol) (\<lambda>v. volumeHasClass v ns sc vol)"
proof (cases "volPersistentVolumeClaim vol")
  case None
  then show ?thesis unfolding volumeUsesClass_def volumeHasClass_def
    using reads_returnE by simp
next
  case (Some c)
  have pvc: "yields (tryE (GetPersistentVolumeClaim env c ns))
      (\<lambda>v r. Option.bind (v (PVCKind, ns, c)) asPVC = (case r of Inl e \<Rightarrow> None | Inr pvc \<Rightarrow> Some pvc))"
    unfolding GetPersistentVolumeClaim_def
    by (rule yields_tryE [OF reads_get]) (auto split: option.splits)
  have next_step: "computes (case r of Inl e \<Rightarrow> returnE False | Inr pvc \<Rightarrow> isClass env sc pvc)
      (\<lambda>v. case r of Inl e \<Rightarrow> False | Inr pvc \<Rightarrow> hasClass v sc pvc)" for r :: "goerror + PVC"
    using reads_returnE [of False] computes_isClass by (cases r) simp_all
  show ?thesis
    unfolding volumeUsesClass_def volumeHasClass_def Some option.case
    by (rule reads_weaken [OF reads_bindE [OF pvc next_step]]) (auto split: sum.splits)
qed

lemma yields_deploymentsUsing:
  "yields (GetDeploymentsUsingStorageClass env sc)
     (\<lambda>v ds. distinct ds \<and> (\<forall>d. d \<in> set ds \<longleftrightarrow>
        v (keyOf (KDeployment d)) = Some (KDeployment d) \<and> deploymentUses v sc d))"
  unfolding GetDeploymentsUsingStorageClass_def
  by (rule reads_weaken [OF reads_bindE [OF yields_list [OF deployments.object_kind_axioms]
        computes_filter [OF computes_anyE [OF computes_volumeUsesClass]]]])
     (auto simp: listed_def matchesSelector_def deploymentUses_def)

lemma yields_statefulSetsUsing:
  "yields (GetStatefulSetsUsingStorageClass env sc)
     (\<lambda>v ss. distinct ss \<and> (\<forall>s. s \<in> set ss \<longleftrightarrow>
        v (keyOf (KStatefulSet s)) = Some (KStatefulSet s) \<and> statefulSetUses v sc s))"
  unfolding GetStatefulSetsUsingStorageClass_def
  by (rule reads_weaken [OF reads_bindE [OF yields_list [OF statefulSets.object_kind_axioms]
        computes_filter [OF computes_anyE [OF computes_isClass]]]])
     (auto simp: listed_def matchesSelector_def statefulSetUses_def)

lemma yields_appsOfClasses: "yields (appsOfClasses env scs) (appsOn scs)"
proof (induction scs)
  case Nil
  show ?case unfolding appsOfClasses.simps by (rule yields_returnE) (simp add: appsOn_def)
next
  case (Cons sc scs)
  have rest: "yields (bindE (appsOfClasses env scs) (\<lambda>rest. returnE (ds @ fst rest, ss @ snd rest)))
      (\<lambda>v r. \<exists>rest. appsOn scs v rest \<and> r = (ds @ fst rest, ss @ snd rest))" for ds ss
    by (rule reads_weaken [OF reads_bindE [OF Cons.IH reads_returnE]]) auto
  have sets: "yields (bindE (GetStatefulSetsUsingStorageClass env sc) (\<lambda>ss.
        bindE (appsOfClasses env scs) (\<lambda>rest. returnE (ds @ fst rest, ss @ snd rest))))
      (\<lambda>v r. \<exists>ss rest. distinct ss \<and> (\<forall>s. s \<in> set ss \<longleftrightarrow>
         v (keyOf (KStatefulSet s)) = Some (KStatefulSet s) \<and> statefulSetUses v sc s) \<and>
         appsOn scs v rest \<and> r = (ds @ fst rest, ss @ snd rest))" for ds
    by (rule yields_bindE [OF yields_statefulSetsUsing rest]) blast
  show ?case
    unfolding appsOfClasses.simps
  proof (rule yields_bindE [OF yields_deploymentsUsing sets])
    fix v ds r
    assume ds: "distinct ds \<and> (\<forall>d. (d \<in> set ds) =
        (v (keyOf (KDeployment d)) = Some (KDeployment d) \<and> deploymentUses v sc d))"
      and "\<exists>ss rest. distinct ss \<and> (\<forall>s. (s \<in> set ss) =
         (v (keyOf (KStatefulSet s)) = Some (KStatefulSet s) \<and> statefulSetUses v sc s)) \<and>
         appsOn scs v rest \<and> r = (ds @ fst rest, ss @ snd rest)"
    then obtain ss rest where ss: "distinct ss" "\<And>s. (s \<in> set ss) =
         (v (keyOf (KStatefulSet s)) = Some (KStatefulSet s) \<and> statefulSetUses v sc s)"
       and rest: "appsOn scs v rest" and r: "r = (ds @ fst rest, ss @ snd rest)" by blast
    have "distinct (snd r)" if d: "distinct (sc # scs)" and one: "oneOf v (sc # scs)"
    proof -
      from d one rest have "distinct (snd rest)" by (auto simp: appsOn_def oneOf_def)
      moreover have "set ss \<inter> set (snd rest) = {}"
        using d one rest ss(2) by (fastforce simp: appsOn_def oneOf_def)
      ultimately show ?thesis using ss(1) r by simp
    qed
    then show "appsOn (sc # scs) v r" using ds ss(2) rest r by (auto simp: appsOn_def)
  qed
qed

lemma yields_sharedSCs:
  "yields (GetPXSharedSCs env) (\<lambda>v scs. distinct scs \<and> (\<forall>sc. sc \<in> set scs \<longleftrightarrow> sharedClass v sc))"
proof -
  let ?name = "\<lambda>c. Name (scMeta c)"
  let ?pre = "\<lambda>v c. v (StorageClassKind, [], ?name c) = Some (KStorageClass c)"
  have params: "reads (GetStorageClassParams env c) (\<lambda>v r. ?pre v c \<longrightarrow> r = Ok (scParameters c))" for c
    unfolding GetStorageClassParams_def
    by (rule reads_weaken [OF reads_bindE [OF reads_get reads_returnE]])
       (auto simp: asStorageClass_def)
  have one: "reads (bindE (GetStorageClassParams env c)
        (\<lambda>p. returnE (if isShared p then [?name c] else [])))
      (\<lambda>v r. ?pre v c \<longrightarrow> r = Ok (if isShared (scParameters c) then [?name c] else []))" for c
    by (rule reads_weaken [OF reads_bindE [OF params reads_returnE]]) auto
  have cat: "concat (map (\<lambda>c. if isShared (scParameters c) then [?name c] else []) cs) =
      map ?name (filter (\<lambda>c. isShared (scParameters c)) cs)" for cs
    by (induction cs) auto
  have loop: "reads (collectE (\<lambda>c. bindE (GetStorageClassParams env c)
        (\<lambda>p. returnE (if isShared p then [?name c] else []))) cs)
      (\<lambda>v r. (\<forall>c\<in>set cs. ?pre v c) \<longrightarrow>
         r = Ok (map ?name (filter (\<lambda>c. isShared (scParameters c)) cs)))" for cs
    using reads_collectE [where pre = ?pre and xs = cs, OF one] unfolding cat .
  show ?thesis
    unfolding GetPXSharedSCs_def
  proof (rule reads_weaken [OF reads_bindE [OF yields_list [OF storageClasses.object_kind_axioms] loop]],
      elim disjE exE conjE, simp_all)
    fix v :: store and cs :: "StorageClass list" and r
    assume ok: "storeOk v" and dist: "distinct cs"
      and mem: "\<forall>c. c \<in> set cs \<longleftrightarrow> v (keyOf (KStorageClass c)) = Some (KStorageClass c) \<and>
         listed StorageClassKind [] [] (KStorageClass c)"
      and run: "(\<forall>c\<in>set cs. ?pre v c) \<longrightarrow>
         r = Ok (map ?name (filter (\<lambda>c. isShared (scParameters c)) cs))"
    have key: "keyOf (KStorageClass c) = (StorageClassKind, [], ?name c)" if "c \<in> set cs" for c
      using ok mem that unfolding storeOk_def wellScoped_def keyOf_def by fastforce
    have pre: "c \<in> set cs \<longleftrightarrow> ?pre v c" for c
    proof
      assume "c \<in> set cs" then show "?pre v c" using mem key by metis
    next
      assume c: "?pre v c"
      then have "keyOf (KStorageClass c) = (StorageClassKind, [], ?name c)"
        using ok by (auto simp: storeOk_def)
      with c mem show "c \<in> set cs" by (auto simp: listed_def matchesSelector_def)
    qed
    have "inj_on ?name (set cs)" using pre by (auto simp: inj_on_def)
    then have "distinct (map ?name (filter (\<lambda>c. isShared (scParameters c)) cs))"
      using dist by (auto simp: distinct_map inj_on_def)
    moreover have "sc \<in> ?name ` {c \<in> set cs. isShared (scParameters c)} \<longleftrightarrow> sharedClass v sc" for sc
    proof
      assume "sc \<in> ?name ` {c \<in> set cs. isShared (scParameters c)}"
      then show "sharedClass v sc" using pre by (auto simp: sharedClass_def)
    next
      assume "sharedClass v sc"
      then obtain c where c: "v (StorageClassKind, [], sc) = Some (KStorageClass c)"
          "isShared (scParameters c)"
        by (auto simp: sharedClass_def split: option.splits kobject.splits)
      moreover have "keyOf (KStorageClass c) = (StorageClassKind, [], sc)"
        using ok c(1) unfolding storeOk_def by blast
      then have "?name c = sc" by (simp add: keyOf_def)
      ultimately show "sc \<in> ?name ` {c \<in> set cs. isShared (scParameters c)}" using pre by auto
    qed
    ultimately show "\<exists>scs. r = Ok scs \<and> distinct scs \<and> (\<forall>sc. (sc \<in> set scs) = sharedClass v sc)"
      using run pre by (intro exI [of _ "map ?name (filter (\<lambda>c. isShared (scParameters c)) cs)"]) auto
  qed
qed

lemma yields_sharedApps:
  "yields (GetPXSharedApps env) (\<lambda>v r.
     set (fst r) = sharedDeployments v \<and> set (snd r) = sharedStatefulSets v \<and>
     (oneClassEach v \<longrightarrow> distinct (snd r)))"
  unfolding GetPXSharedApps_def
proof (rule yields_bindE [OF yields_sharedSCs yields_appsOfClasses])
  fix v scs r
  assume scs: "distinct scs \<and> (\<forall>sc. (sc \<in> set scs) = sharedClass v sc)" and r: "appsOn scs v r"
  have ex: "(\<exists>sc\<in>set scs. P sc) \<longleftrightarrow> (\<exists>sc. sharedClass v sc \<and> P sc)" for P using scs by blast
  have "oneClassEach v \<longrightarrow> oneOf v scs" using scs unfolding oneClassEach_def oneOf_def by blast
  with scs r show "set (fst r) = sharedDeployments v \<and> set (snd r) = sharedStatefulSets v \<and>
     (oneClassEach v \<longrightarrow> distinct (snd r))"
    unfolding appsOn_def ex sharedDeployments_def sharedStatefulSets_def by blast
qed

text \<open>One task, and the loop of tasks, over objects the decision function can handle.\<close>

lemma appTask_run:
  assumes w: "sound w" and kind: "object_kind k enc dec" and k: "k \<noteq> DaemonSetKind"
    and dc: "\<And>x. view w (k, ns, n) = Some (enc x) \<Longrightarrow>
      decide x = Leave \<or> (\<exists>y. decide x = Write y \<and> keyOf (enc y) = keyOf (enc x))"
  shows "\<exists>w'. appTask env k dec enc decide ns n w = (Ok (Inr ()), w') \<and> sound w' \<and>
    view w' = stepKey dec enc decide (k, ns, n) (view w)"
proof -
  from readsD [OF reads_get w] obtain r w1 where
    c: "callObj env (ReqGet k ns n) dec w = (r, w1)" "view w1 = view w" "sound w1" and
    r: "case view w (k, ns, n) of None \<Rightarrow> (\<exists>msg. r = Err (StatusError NotFound msg))
        | Some ob \<Rightarrow> (case dec ob of Some x \<Rightarrow> r = Ok x | None \<Rightarrow> r = Err decodeError)" by blast
  show ?thesis
  proof (cases "view w (k, ns, n)")
    case None
    with r c show ?thesis
      by (auto simp: appTask_def bindE_def tryE_def go_run stepKey_def stepOb_def fun_upd_idem)
  next
    case (Some ob)
    with storeOk_view [OF w] have key: "keyOf ob = (k, ns, n)" by (simp add: storeOk_def)
    then obtain x where ob: "ob = enc x" and dec: "dec ob = Some x"
      using object_kind.dec_kindE [OF kind, of ob] by (auto simp: keyOf_def)
    have run: "appTask env k dec enc decide ns n w =
        (case decide x of Leave \<Rightarrow> returnE (Inr ()) | Refuse e \<Rightarrow> returnE (Inl e) | Blow p \<Rightarrow> panicE p
         | Write y \<Rightarrow> bindE (callObj env (ReqUpdate (enc y)) dec) (\<lambda>_. returnE (Inr ()))) w1"
      using c(1) r Some dec by (simp add: appTask_def bindE_def tryE_def)
    from dc Some ob have "decide x = Leave \<or> (\<exists>y. decide x = Write y \<and> keyOf (enc y) = keyOf (enc x))"
      by blast
    then consider "decide x = Leave" | y where "decide x = Write y" "keyOf (enc y) = (k, ns, n)"
      using key ob by auto
    then show ?thesis
    proof cases
      case 1
      with run c Some dec show ?thesis by (simp add: go_run stepKey_def stepOb_def fun_upd_idem)
    next
      case 2
      from callObj_update [OF c(3), of "enc y" ob dec y] 2 c(2) Some k object_kind.dec_enc [OF kind] object_kind.kind_enc [OF kind]
      obtain w2 where "callObj env (ReqUpdate (enc y)) dec w1 = (Ok y, w2)"
        "view w2 = (view w)((k, ns, n) \<mapsto> enc y)" "sound w2" by auto
      with 2 run Some dec show ?thesis by (simp add: bindE_def go_run stepKey_def stepOb_def)
    qed
  qed
qed

lemma forApps_run:
  assumes kind: "object_kind k enc dec" and k: "k \<noteq> DaemonSetKind" and timeout: "0 < timeout"
    and dc: "\<And>x. P x \<Longrightarrow>
      decide x = Leave \<or> (\<exists>y. decide x = Write y \<and> P y \<and> keyOf (enc y) = keyOf (enc x))"
  shows "sound w \<Longrightarrow> \<forall>key\<in>set (map (keyOf \<circ> enc) xs). \<forall>y. view w key = Some (enc y) \<longrightarrow> P y \<Longrightarrow>
    \<exists>w'. forE (\<lambda>x. retryPlain env (appTask env k dec enc decide
             (Namespace (metaOf (enc x))) (Name (metaOf (enc x)))) timeout pause) xs w = (Ok (), w') \<and>
         sound w' \<and> view w' = fold (stepKey dec enc decide) (map (keyOf \<circ> enc) xs) (view w)"
proof (induction xs arbitrary: w)
  case Nil
  then show ?case by (simp add: returnE_def)
next
  case (Cons x xs)
  let ?ns = "Namespace (metaOf (enc x))" and ?n = "Name (metaOf (enc x))"
  have key: "keyOf (enc x) = (k, ?ns, ?n)" by (simp add: keyOf_def object_kind.kind_enc [OF kind])
  have here: "decide y = Leave \<or> (\<exists>z. decide y = Write z \<and> P z \<and> keyOf (enc z) = keyOf (enc y))"
    if "view w (k, ?ns, ?n) = Some (enc y)" for y
    using dc Cons.prems(2) that key by simp
  have "decide y = Leave \<or> (\<exists>z. decide y = Write z \<and> keyOf (enc z) = keyOf (enc y))"
    if "view w (k, ?ns, ?n) = Some (enc y)" for y
    using here [OF that] by blast
  from appTask_run [OF Cons.prems(1) kind k this] obtain w1 where
    one: "appTask env k dec enc decide ?ns ?n w = (Ok (Inr ()), w1)" "sound w1"
      "view w1 = stepKey dec enc decide (keyOf (enc x)) (view w)"
    unfolding key by blast
  have "\<forall>key\<in>set (map (keyOf \<circ> enc) xs). \<forall>y. view w1 key = Some (enc y) \<longrightarrow> P y"
  proof (intro ballI allI impI)
    fix key' y assume k': "key' \<in> set (map (keyOf \<circ> enc) xs)" and y: "view w1 key' = Some (enc y)"
    show "P y"
    proof (cases "key' = keyOf (enc x)")
      case False
      with one(3) y have "view w key' = Some (enc y)" by (simp add: stepKey_def)
      with Cons.prems(2) k' show ?thesis by auto
    next
      case True
      with one(3) y have "stepOb dec enc decide (view w (keyOf (enc x))) = Some (enc y)"
        by (simp add: stepKey_def)
      moreover have "\<exists>z. ob = enc z \<and> dec ob = Some z" if "view w (keyOf (enc x)) = Some ob" for ob
        using storeOk_view [OF Cons.prems(1)] that key object_kind.dec_kindE [OF kind, of ob]
        unfolding storeOk_def by (auto simp: keyOf_def)
      ultimately obtain z where z: "view w (keyOf (enc x)) = Some (enc z)"
          "stepOb dec enc decide (Some (enc z)) = Some (enc y)"
        by (cases "view w (keyOf (enc x))") (auto simp: stepOb_def [of _ _ _ None])
      moreover from z(1) Cons.prems(2) have "P z" by simp
      moreover from z(2) have "y = after decide z"
        using object_kind.dec_enc [OF kind] object_kind.enc_inject [OF kind]
        by (simp add: stepOb_after)
      ultimately show ?thesis using dc [of z] by (auto simp: after_def)
    qed
  qed
  from Cons.IH [OF one(2) this] obtain w2 where
    rest: "forE (\<lambda>x. retryPlain env (appTask env k dec enc decide
        (Namespace (metaOf (enc x))) (Name (metaOf (enc x)))) timeout pause) xs w1 = (Ok (), w2)"
      "sound w2" "view w2 = fold (stepKey dec enc decide) (map (keyOf \<circ> enc) xs) (view w1)" by blast
  have "retryPlain env (appTask env k dec enc decide ?ns ?n) timeout pause w = (Ok (), w1)"
    by (rule retryPlain_first_done) (use timeout one(1) in simp_all)
  with rest one(3) show ?case by (simp add: bindE_def comp_def)
qed

end

section \<open>All shared applications\<close>

abbreviation depKey :: "Deployment \<Rightarrow> key" where "depKey d \<equiv> keyOf (KDeployment d)"
abbreviation ssKey :: "StatefulSet \<Rightarrow> key" where "ssKey s \<equiv> keyOf (KStatefulSet s)"

text \<open>The store after a task has run for each shared application.\<close>

definition onShared ::
  "(Deployment \<Rightarrow> Deployment decision) \<Rightarrow> (StatefulSet \<Rightarrow> StatefulSet decision) \<Rightarrow> store \<Rightarrow> store" where
  "onShared f g v key =
     (if key \<in> depKey ` sharedDeployments v then stepOb asDeployment KDeployment f (v key)
      else if key \<in> ssKey ` sharedStatefulSets v then stepOb asStatefulSet KStatefulSet g (v key)
      else v key)"

lemma kind_of_keys:
  "key \<in> depKey ` A \<Longrightarrow> fst key = DeploymentKind" "key \<in> ssKey ` B \<Longrightarrow> fst key = StatefulSetKind"
  by (auto simp: keyOf_def)

lemma onShared_other:
  "fst key \<noteq> DeploymentKind \<Longrightarrow> fst key \<noteq> StatefulSetKind \<Longrightarrow> onShared f g v key = v key"
  using kind_of_keys unfolding onShared_def by metis

lemma onShared_uses [simp]:
  "hasClass (onShared f g v) = hasClass v" "sharedClass (onShared f g v) = sharedClass v"
  "volumeHasClass (onShared f g v) = volumeHasClass v"
  "deploymentUses (onShared f g v) = deploymentUses v"
  "statefulSetUses (onShared f g v) = statefulSetUses v"
proof -
  show *: "hasClass (onShared f g v) = hasClass v"
    by (intro ext) (simp add: hasClass_def classOf_def onShared_other)
  show "sharedClass (onShared f g v) = sharedClass v"
    by (intro ext) (simp add: sharedClass_def onShared_other)
  show **: "volumeHasClass (onShared f g v) = volumeHasClass v"
    by (intro ext) (auto simp: volumeHasClass_def * onShared_other split: option.split)
  show "deploymentUses (onShared f g v) = deploymentUses v"
    by (intro ext) (simp add: deploymentUses_def **)
  show "statefulSetUses (onShared f g v) = statefulSetUses v"
    by (intro ext) (simp add: statefulSetUses_def *)
qed

text \<open>Scaling changes neither where an application is stored nor which volumes it uses.\<close>

lemma scaleDown_keeps:
  "scaleDownDeployment d = Write d' \<Longrightarrow>
     depKey d' = depKey d \<and> depVolumes d' = depVolumes d \<and> readyDeployment d'"
  "scaleDownStatefulSet s = Write s' \<Longrightarrow>
     ssKey s' = ssKey s \<and> ssVolumeClaimTemplates s' = ssVolumeClaimTemplates s \<and> readyStatefulSet s'"
  by (auto simp: scaleDownDeployment_def scaleDownStatefulSet_def keyOf_def setAnnotations_def
      readyDeployment_def readyStatefulSet_def split: option.splits if_splits)

lemma scaleDown_total:
  "readyDeployment d \<Longrightarrow> scaleDownDeployment d = Leave \<or> (\<exists>d'. scaleDownDeployment d = Write d')"
  "readyStatefulSet s \<Longrightarrow> scaleDownStatefulSet s = Leave \<or> (\<exists>s'. scaleDownStatefulSet s = Write s')"
  by (cases "scaleDownDeployment d"; auto simp: scaleDownDeployment_def readyDeployment_def
        split: option.splits if_splits)
     (cases "scaleDownStatefulSet s"; auto simp: scaleDownStatefulSet_def readyStatefulSet_def
        split: option.splits)

text \<open>The restore needs every saved count to parse.\<close>

definition parses :: "ObjectMeta \<Rightarrow> bool" where
  "parses m \<longleftrightarrow> (\<forall>e. savedReplicas (Annotations m) \<noteq> Refuse e)"

lemma restore_keeps:
  "restoreDeployment d = Write d' \<Longrightarrow> depKey d' = depKey d \<and> parses (depMeta d')"
  "restoreStatefulSet s = Write s' \<Longrightarrow> ssKey s' = ssKey s \<and> parses (ssMeta s')"
  by (auto simp: restoreDeployment_def restoreStatefulSet_def keyOf_def setAnnotations_def
      parses_def savedReplicas_def split: option.splits if_splits IntOrString.splits)

lemma restore_total:
  "parses (depMeta d) \<Longrightarrow> restoreDeployment d = Leave \<or> (\<exists>d'. restoreDeployment d = Write d')"
  "parses (ssMeta s) \<Longrightarrow> restoreStatefulSet s = Leave \<or> (\<exists>s'. restoreStatefulSet s = Write s')"
  by (auto simp: restoreDeployment_def restoreStatefulSet_def parses_def savedReplicas_def
      split: option.splits if_splits IntOrString.splits)

lemma deploymentUses_cong:
  "depKey d' = depKey d \<Longrightarrow> depVolumes d' = depVolumes d \<Longrightarrow> deploymentUses v sc d' = deploymentUses v sc d"
  by (simp add: deploymentUses_def keyOf_def)

lemma statefulSetUses_cong:
  "ssVolumeClaimTemplates s' = ssVolumeClaimTemplates s \<Longrightarrow> statefulSetUses v sc s' = statefulSetUses v sc s"
  by (simp add: statefulSetUses_def)

text \<open>The shared applications of the scaled-down store are the scaled-down shared applications.\<close>

abbreviation scaledStore :: "store \<Rightarrow> store" where
  "scaledStore \<equiv> onShared scaleDownDeployment scaleDownStatefulSet"

abbreviation restoredStore :: "store \<Rightarrow> store" where
  "restoredStore \<equiv> onShared restoreDeployment restoreStatefulSet"

lemma after_scaleDown:
  "depKey (after scaleDownDeployment d) = depKey d"
  "depVolumes (after scaleDownDeployment d) = depVolumes d"
  "ssKey (after scaleDownStatefulSet s) = ssKey s"
  "ssVolumeClaimTemplates (after scaleDownStatefulSet s) = ssVolumeClaimTemplates s"
  using scaleDown_keeps by (auto simp: after_def split: decision.split)

lemma scaledStore_deployment:
  "d \<in> sharedDeployments v \<Longrightarrow> scaledStore v (depKey d) = Some (KDeployment (after scaleDownDeployment d))"
  by (auto simp: onShared_def sharedDeployments_def stepOb_after deployments.dec_enc)

lemma scaledStore_statefulSet:
  assumes "s \<in> sharedStatefulSets v"
  shows "scaledStore v (ssKey s) = Some (KStatefulSet (after scaleDownStatefulSet s))"
proof -
  have "ssKey s \<notin> depKey ` sharedDeployments v"
    using kind_of_keys(1) [of "ssKey s"] by (auto simp: keyOf_def)
  with assms show ?thesis
    by (auto simp: onShared_def sharedStatefulSets_def stepOb_after statefulSets.dec_enc)
qed

lemma scaled_sharedDeployments:
  "sharedDeployments (scaledStore v) = after scaleDownDeployment ` sharedDeployments v"
proof (intro set_eqI iffI)
  fix d' assume "d' \<in> after scaleDownDeployment ` sharedDeployments v"
  then obtain d where d: "d \<in> sharedDeployments v" "d' = after scaleDownDeployment d" by blast
  then obtain sc where "sharedClass v sc" "deploymentUses v sc d"
    by (auto simp: sharedDeployments_def)
  with d scaledStore_deployment [OF d(1)] show "d' \<in> sharedDeployments (scaledStore v)"
    unfolding sharedDeployments_def
    by (auto simp: after_scaleDown deploymentUses_cong [of "after scaleDownDeployment d" d])
next
  fix d' assume d': "d' \<in> sharedDeployments (scaledStore v)"
  then obtain sc where sc: "sharedClass v sc" "deploymentUses v sc d'"
    and st: "scaledStore v (depKey d') = Some (KDeployment d')"
    by (auto simp: sharedDeployments_def)
  show "d' \<in> after scaleDownDeployment ` sharedDeployments v"
  proof (cases "depKey d' \<in> depKey ` sharedDeployments v")
    case True
    then obtain d where "d \<in> sharedDeployments v" "depKey d' = depKey d" by blast
    with scaledStore_deployment [of d v] st show ?thesis by auto
  next
    case False
    then have "depKey d' \<notin> ssKey ` sharedStatefulSets v"
      using kind_of_keys(2) [of "depKey d'"] by (auto simp: keyOf_def)
    with False st have "v (depKey d') = Some (KDeployment d')" by (simp add: onShared_def)
    with sc False show ?thesis by (auto simp: sharedDeployments_def)
  qed
qed

lemma scaled_sharedStatefulSets:
  "sharedStatefulSets (scaledStore v) = after scaleDownStatefulSet ` sharedStatefulSets v"
proof (intro set_eqI iffI)
  fix s' assume "s' \<in> after scaleDownStatefulSet ` sharedStatefulSets v"
  then obtain s where s: "s \<in> sharedStatefulSets v" "s' = after scaleDownStatefulSet s" by blast
  then obtain sc where "sharedClass v sc" "statefulSetUses v sc s"
    by (auto simp: sharedStatefulSets_def)
  with s scaledStore_statefulSet [OF s(1)] show "s' \<in> sharedStatefulSets (scaledStore v)"
    unfolding sharedStatefulSets_def
    by (auto simp: after_scaleDown statefulSetUses_cong [of "after scaleDownStatefulSet s" s])
next
  fix s' assume s': "s' \<in> sharedStatefulSets (scaledStore v)"
  then obtain sc where sc: "sharedClass v sc" "statefulSetUses v sc s'"
    and st: "scaledStore v (ssKey s') = Some (KStatefulSet s')"
    by (auto simp: sharedStatefulSets_def)
  show "s' \<in> after scaleDownStatefulSet ` sharedStatefulSets v"
  proof (cases "ssKey s' \<in> ssKey ` sharedStatefulSets v")
    case True
    then obtain s where "s \<in> sharedStatefulSets v" "ssKey s' = ssKey s" by blast
    with scaledStore_statefulSet [of s v] st show ?thesis by auto
  next
    case False
    then have "ssKey s' \<notin> depKey ` sharedDeployments v"
      using kind_of_keys(1) [of "ssKey s'"] by (auto simp: keyOf_def)
    with False st have "v (ssKey s') = Some (KStatefulSet s')" by (simp add: onShared_def)
    with sc False show ?thesis by (auto simp: sharedStatefulSets_def)
  qed
qed

text \<open>Restoring the scaled-down store gives the store back.\<close>

lemma restored_scaled:
  assumes P: "\<And>d. d \<in> sharedDeployments v \<Longrightarrow> depReplicas d \<noteq> None \<and> freshMeta (depMeta d)"
    and Q: "\<And>s. s \<in> sharedStatefulSets v \<Longrightarrow> ssReplicas s \<noteq> None \<and> freshMeta (ssMeta s)"
  shows "restoredStore (scaledStore v) = v"
proof
  fix key
  have dk: "depKey ` sharedDeployments (scaledStore v) = depKey ` sharedDeployments v"
    unfolding scaled_sharedDeployments image_image by (simp add: after_scaleDown)
  have sk: "ssKey ` sharedStatefulSets (scaledStore v) = ssKey ` sharedStatefulSets v"
    unfolding scaled_sharedStatefulSets image_image by (simp add: after_scaleDown)
  consider d where "d \<in> sharedDeployments v" "key = depKey d"
    | s where "s \<in> sharedStatefulSets v" "key = ssKey s" "key \<notin> depKey ` sharedDeployments v"
    | "key \<notin> depKey ` sharedDeployments v" "key \<notin> ssKey ` sharedStatefulSets v"
    by blast
  then show "restoredStore (scaledStore v) key = v key"
  proof cases
    case 1
    then have "restoredStore (scaledStore v) key =
        Some (KDeployment (after restoreDeployment (after scaleDownDeployment d)))"
      unfolding onShared_def [of restoreDeployment] dk
      by (simp add: scaledStore_deployment stepOb_after deployments.dec_enc)
    with 1 P restore_scaled_deployment show ?thesis by (auto simp: sharedDeployments_def)
  next
    case 2
    then have "restoredStore (scaledStore v) key =
        Some (KStatefulSet (after restoreStatefulSet (after scaleDownStatefulSet s)))"
      unfolding onShared_def [of restoreDeployment] dk sk
      by (simp add: scaledStore_statefulSet stepOb_after statefulSets.dec_enc)
    with 2 Q restore_scaled_statefulset show ?thesis by (auto simp: sharedStatefulSets_def)
  next
    case 3
    then show ?thesis unfolding onShared_def [of restoreDeployment] dk sk by (simp add: onShared_def)
  qed
qed

lemma scaled_parses:
  "depReplicas d \<noteq> None \<Longrightarrow> freshMeta (depMeta d) \<Longrightarrow> parses (depMeta (after scaleDownDeployment d))"
  "ssReplicas s \<noteq> None \<Longrightarrow> freshMeta (ssMeta s) \<Longrightarrow> parses (ssMeta (after scaleDownStatefulSet s))"
  by (auto simp: parses_def freshMeta_def after_def scaleDownDeployment_def scaleDownStatefulSet_def
      setAnnotations_def savedReplicas_saved savedReplicas_none split: if_splits)

context object_server
begin

lemma timeouts_pos: "0 < deploymentUpdateTimeout" "0 < statefulSetUpdateTimeout"
  by (simp_all add: deploymentUpdateTimeout_def statefulSetUpdateTimeout_def durations)

text \<open>
  The two loops after the applications have been found.  \<open>P\<close> and \<open>Q\<close> are what the decisions
  need of the objects and keep.
\<close>

lemma sharedLoops_run:
  assumes w: "sound w"
    and f: "\<And>d. P d \<Longrightarrow> f d = Leave \<or> (\<exists>d'. f d = Write d' \<and> P d' \<and> depKey d' = depKey d)"
    and g: "\<And>s. Q s \<Longrightarrow> g s = Leave \<or> (\<exists>s'. g s = Write s' \<and> Q s' \<and> ssKey s' = ssKey s)"
    and idem: "\<And>d d'. f d = Write d' \<Longrightarrow> f d' = Leave"
    and once: "oneClassEach (view w) \<or> (\<forall>s s'. g s = Write s' \<longrightarrow> g s' = Leave)"
    and P: "\<And>d. d \<in> sharedDeployments (view w) \<Longrightarrow> P d"
    and Q: "\<And>s. s \<in> sharedStatefulSets (view w) \<Longrightarrow> Q s"
  shows "\<exists>w'. bindE (GetPXSharedApps env) (\<lambda>(ds, ss).
      bindE (forDeployments env f ds) (\<lambda>_. forStatefulSets env g ss)) w = (Ok (), w') \<and> sound w' \<and>
    view w' = onShared f g (view w)"
proof -
  let ?sf = "stepKey asDeployment KDeployment f" and ?sg = "stepKey asStatefulSet KStatefulSet g"
  from readsD [OF yields_sharedApps w] obtain ds ss w0 where
    apps: "GetPXSharedApps env w = (Ok (ds, ss), w0)" "view w0 = view w" "sound w0" and
    ds: "set ds = sharedDeployments (view w)" and ss: "set ss = sharedStatefulSets (view w)" and
    dist: "oneClassEach (view w) \<longrightarrow> distinct ss"
    by auto
  have "\<forall>key\<in>set (map depKey ds). \<forall>y. view w0 key = Some (KDeployment y) \<longrightarrow> P y"
    using P ds apps(2) by (auto simp: sharedDeployments_def)
  with forApps_run [OF deployments.object_kind_axioms _ timeouts_pos(1), of P f w0 ds defaultRetryInterval] f
  obtain w1 where deps: "forDeployments env f ds w0 = (Ok (), w1)" "sound w1"
      "view w1 = fold ?sf (map depKey ds) (view w)"
    using apps by (auto simp: forDeployments_def comp_def)
  have v1: "view w1 key = (if key \<in> depKey ` sharedDeployments (view w)
      then stepOb asDeployment KDeployment f (view w key) else view w key)" for key
    unfolding deps(3)
    using stepOb_idem [of f asDeployment KDeployment, OF idem deployments.dec_enc]
    by (subst fold_stepKey) (simp_all add: ds)
  have same: "view w1 (ssKey s) = view w (ssKey s)" for s
    unfolding v1 using kind_of_keys(1) [of "ssKey s"] by (auto simp: keyOf_def)
  have "\<forall>key\<in>set (map ssKey ss). \<forall>y. view w1 key = Some (KStatefulSet y) \<longrightarrow> Q y"
    using Q ss same by (auto simp: sharedStatefulSets_def)
  with forApps_run [OF statefulSets.object_kind_axioms _ timeouts_pos(2), of Q g w1 ss defaultRetryInterval] g
  obtain w2 where sets: "forStatefulSets env g ss w1 = (Ok (), w2)" "sound w2"
      "view w2 = fold ?sg (map ssKey ss) (view w1)"
    using deps(2) by (auto simp: forStatefulSets_def comp_def)
  have keys: "distinct (map ssKey ss) \<or> (\<forall>x. stepOb asStatefulSet KStatefulSet g
      (stepOb asStatefulSet KStatefulSet g x) = stepOb asStatefulSet KStatefulSet g x)"
  proof (cases "oneClassEach (view w)")
    case True
    have "inj_on ssKey (set ss)"
    proof (rule inj_onI)
      fix s s' assume "s \<in> set ss" "s' \<in> set ss" and eq: "ssKey s = ssKey s'"
      then have "view w (ssKey s) = Some (KStatefulSet s)" "view w (ssKey s') = Some (KStatefulSet s')"
        unfolding ss sharedStatefulSets_def by blast+
      then show "s = s'" unfolding eq by simp
    qed
    with True dist show ?thesis by (simp add: distinct_map)
  next
    case False
    with once have "\<And>s s'. g s = Write s' \<Longrightarrow> g s' = Leave" by blast
    from stepOb_idem [of g asStatefulSet KStatefulSet, OF this statefulSets.dec_enc]
    show ?thesis by simp
  qed
  have "view w2 = onShared f g (view w)"
  proof
    fix key
    have disj: "key \<in> depKey ` A \<Longrightarrow> key \<notin> ssKey ` B" for A B
      using kind_of_keys(1) [of key A] kind_of_keys(2) [of key B] by auto
    have "view w2 key = (if key \<in> set (map ssKey ss)
        then stepOb asStatefulSet KStatefulSet g (view w1 key) else view w1 key)"
      unfolding sets(3) by (rule fold_stepKey [OF keys])
    moreover have "set (map ssKey ss) = ssKey ` sharedStatefulSets (view w)" by (simp add: ss)
    ultimately show "view w2 key = onShared f g (view w) key"
      using disj [of "sharedDeployments (view w)" "sharedStatefulSets (view w)"]
      unfolding onShared_def v1 by presburger
  qed
  with apps(1) deps(1) sets(1,2) show ?thesis by (simp add: bindE_def)
qed

text \<open>The scale-down brings every shared application to zero replicas.\<close>

lemma scale_run:
  assumes w: "sound w" and one: "oneClassEach (view w)"
    and P: "\<And>d. d \<in> sharedDeployments (view w) \<Longrightarrow> readyDeployment d"
    and Q: "\<And>s. s \<in> sharedStatefulSets (view w) \<Longrightarrow> readyStatefulSet s"
  shows "\<exists>w'. ScaleSharedAppsToZero env w = (Ok (), w') \<and> sound w' \<and>
    view w' = onShared scaleDownDeployment scaleDownStatefulSet (view w)"
  unfolding ScaleSharedAppsToZero_def
proof (rule sharedLoops_run [OF w, where P = readyDeployment and Q = readyStatefulSet])
  show "scaleDownDeployment d = Leave \<or>
      (\<exists>d'. scaleDownDeployment d = Write d' \<and> readyDeployment d' \<and> depKey d' = depKey d)"
    if "readyDeployment d" for d
    using scaleDown_total(1) [OF that] scaleDown_keeps(1) by blast
  show "scaleDownStatefulSet s = Leave \<or>
      (\<exists>s'. scaleDownStatefulSet s = Write s' \<and> readyStatefulSet s' \<and> ssKey s' = ssKey s)"
    if "readyStatefulSet s" for s
    using scaleDown_total(2) [OF that] scaleDown_keeps(2) by blast
  show "scaleDownDeployment d' = Leave" if "scaleDownDeployment d = Write d'" for d d'
    using that by (auto simp: scaleDownDeployment_def split: option.splits if_splits)
qed (use one P Q in auto)

lemma restore_run:
  assumes w: "sound w"
    and P: "\<And>d. d \<in> sharedDeployments (view w) \<Longrightarrow> parses (depMeta d)"
    and Q: "\<And>s. s \<in> sharedStatefulSets (view w) \<Longrightarrow> parses (ssMeta s)"
  shows "\<exists>w'. RestoreScaledAppsReplicas env w = (Ok (), w') \<and> sound w' \<and>
    view w' = onShared restoreDeployment restoreStatefulSet (view w)"
  unfolding RestoreScaledAppsReplicas_def
proof (rule sharedLoops_run [OF w, where P = "\<lambda>d. parses (depMeta d)" and Q = "\<lambda>s. parses (ssMeta s)"])
  show "restoreDeployment d = Leave \<or>
      (\<exists>d'. restoreDeployment d = Write d' \<and> parses (depMeta d') \<and> depKey d' = depKey d)"
    if "parses (depMeta d)" for d
    using restore_total(1) [OF that] restore_keeps(1) by blast
  show "restoreStatefulSet s = Leave \<or>
      (\<exists>s'. restoreStatefulSet s = Write s' \<and> parses (ssMeta s') \<and> ssKey s' = ssKey s)"
    if "parses (ssMeta s)" for s
    using restore_total(2) [OF that] restore_keeps(2) by blast
qed (use P Q restore_deployment_idem restore_statefulset_idem in auto)

text \<open>Scale-down followed by restore.\<close>

lemma scale_restore_run:
  assumes w: "sound w" and one: "oneClassEach (view w)"
    and P: "\<And>d. d \<in> sharedDeployments (view w) \<Longrightarrow> depReplicas d \<noteq> None \<and> freshMeta (depMeta d)"
    and Q: "\<And>s. s \<in> sharedStatefulSets (view w) \<Longrightarrow> ssReplicas s \<noteq> None \<and> freshMeta (ssMeta s)"
  shows "\<exists>w1 w2. ScaleSharedAppsToZero env w = (Ok (), w1) \<and> view w1 = scaledStore (view w) \<and>
    RestoreScaledAppsReplicas env w1 = (Ok (), w2) \<and> view w2 = view w"
proof -
  have "readyDeployment d" if "d \<in> sharedDeployments (view w)" for d
    using P [OF that] by (auto simp: readyDeployment_def freshMeta_def)
  moreover have "readyStatefulSet s" if "s \<in> sharedStatefulSets (view w)" for s
    using Q [OF that] by (auto simp: readyStatefulSet_def freshMeta_def)
  ultimately obtain w1 where w1: "ScaleSharedAppsToZero env w = (Ok (), w1)" "sound w1"
      "view w1 = scaledStore (view w)"
    using scale_run [OF w one] by blast
  have "parses (depMeta d)" if "d \<in> sharedDeployments (view w1)" for d
    using that P scaled_parses(1) unfolding w1(3) scaled_sharedDeployments by blast
  moreover have "parses (ssMeta s)" if "s \<in> sharedStatefulSets (view w1)" for s
    using that Q scaled_parses(2) unfolding w1(3) scaled_sharedStatefulSets by blast
  ultimately obtain w2 where "RestoreScaledAppsReplicas env w1 = (Ok (), w2)"
      "view w2 = restoredStore (view w1)"
    using restore_run [OF w1(2)] by blast
  with w1 restored_scaled [of "view w"] P Q show ?thesis by auto
qed

end

end
