(* ===== verification/Tracker.thy ===== *)
theory Tracker
  imports AppScaling "HOL-Library.List_Lexorder" "HOL-Library.Char_ord" "HOL-Library.Product_Lexorder"
begin

text \<open>
  The object tracker of \<open>client-go/testing/fixture.go\<close>, on which the generated fake clientset
  \<open>pkg/client/clientset/versioned/fake\<close> is built: an in-memory API server without controllers.
  It obeys the laws of \<open>object_server\<close>, so what is proved from the laws (in \<open>Server\<close> and
  \<open>AppScaling\<close>) holds when the program runs against it; it is also the server on which the examples of this development run.
\<close>

section \<open>The tracker\<close>

text \<open>The objects, in the order they were added; no two have the same kind, namespace and name.\<close>

type_synonym tracker = "kobject list"

definition lookupOb :: "tracker \<Rightarrow> store" where
  "lookupOb s key = find (\<lambda>ob. keyOf ob = key) s"

definition notFound :: "string \<Rightarrow> reply" where
  "notFound name = RErr (StatusError NotFound (name @ '' not found''))"

definition trackerGet :: "tracker \<Rightarrow> kind \<Rightarrow> string \<Rightarrow> string \<Rightarrow> reply" where
  "trackerGet s k ns name =
     (case lookupOb s (k, ns, name) of Some ob \<Rightarrow> RObj ob | None \<Rightarrow> notFound name)"

definition replaceOb :: "kobject \<Rightarrow> tracker \<Rightarrow> tracker" where
  "replaceOb ob s = map (\<lambda>x. if keyOf x = keyOf ob then ob else x) s"

text \<open>\<open>add\<close>, with \<open>replaceExisting\<close> for an update; the objects arrive in their own namespace.\<close>

definition trackerAdd :: "bool \<Rightarrow> kobject \<Rightarrow> tracker \<Rightarrow> reply \<times> tracker" where
  "trackerAdd replaceExisting ob s =
     (if \<not> wellScoped ob
        then (RErr (StatusError BadRequest ''request namespace does not match object namespace''), s)
      else case lookupOb s (keyOf ob) of
        Some old \<Rightarrow>
          if replaceExisting then (RObj ob, replaceOb ob s)
          else (RErr (StatusError AlreadyExists (Name (metaOf ob) @ '' already exists'')), s)
      | None \<Rightarrow>
          if replaceExisting then (notFound (Name (metaOf ob)), s)
          else (RObj ob, s @ [ob]))"

definition trackerDelete :: "kind \<Rightarrow> string \<Rightarrow> string \<Rightarrow> tracker \<Rightarrow> reply \<times> tracker" where
  "trackerDelete k ns name s =
     (case lookupOb s (k, ns, name) of
        None \<Rightarrow> (notFound name, s)
      | Some old \<Rightarrow> (RDone, filter (\<lambda>ob. keyOf ob \<noteq> (k, ns, name)) s))"

text \<open>\<open>filterByNamespace\<close> and the fake client's label filter, sorted by namespace and name.\<close>

definition trackerList :: "tracker \<Rightarrow> kind \<Rightarrow> string \<Rightarrow> string \<Rightarrow> kobject list" where
  "trackerList s k ns sel =
     sort_key (\<lambda>ob. (Namespace (metaOf ob), Name (metaOf ob))) (filter (listed k ns sel) s)"

text \<open>Requests that are not for the tracker are answered by \<open>other\<close>.\<close>

fun trackerHandle :: "(request \<Rightarrow> reply) \<Rightarrow> request \<Rightarrow> tracker \<Rightarrow> reply \<times> tracker \<times> nat" where
  "trackerHandle other (ReqGet k ns name) s = (trackerGet s k ns name, s, 0)"
| "trackerHandle other (ReqList k ns sel) s = (RList (trackerList s k ns sel), s, 0)"
| "trackerHandle other (ReqCreate ob) s = (case trackerAdd False ob s of (r, s') \<Rightarrow> (r, s', 0))"
| "trackerHandle other (ReqUpdate ob) s = (case trackerAdd True ob s of (r, s') \<Rightarrow> (r, s', 0))"
| "trackerHandle other (ReqDelete k ns name) s =
     (case trackerDelete k ns name s of (r, s') \<Rightarrow> (r, s', 0))"
| "trackerHandle other q s = (other q, s, 0)"

definition trackerEnv :: "(request \<Rightarrow> reply) \<Rightarrow> tracker env" where
  "trackerEnv other = \<lparr>handle = trackerHandle other, idle = (\<lambda>d s. (s, 0)), debugLevel = False\<rparr>"

definition trackerGood :: "tracker \<Rightarrow> bool" where
  "trackerGood s \<longleftrightarrow> distinct (map keyOf s) \<and> list_all wellScoped s"

section \<open>The laws\<close>

lemma lookupOb_Nil [simp]: "lookupOb [] key = None"
  by (simp add: lookupOb_def)

lemma lookupOb_Cons [simp]: "lookupOb (ob # s) key = (if keyOf ob = key then Some ob else lookupOb s key)"
  by (simp add: lookupOb_def)

lemma lookupOb_member: "lookupOb s key = Some ob \<Longrightarrow> ob \<in> set s \<and> keyOf ob = key"
  by (induction s) (auto split: if_splits)

lemma lookupOb_distinct:
  "distinct (map keyOf s) \<Longrightarrow> ob \<in> set s \<longleftrightarrow> lookupOb s (keyOf ob) = Some ob"
  by (induction s) (auto simp: rev_image_eqI dest: lookupOb_member)

lemma lookupOb_snoc: "lookupOb s (keyOf ob) = None \<Longrightarrow> lookupOb (s @ [ob]) = (lookupOb s)(keyOf ob \<mapsto> ob)"
proof
  fix key assume "lookupOb s (keyOf ob) = None"
  then show "lookupOb (s @ [ob]) key = ((lookupOb s)(keyOf ob \<mapsto> ob)) key"
    by (induction s) (auto split: if_splits)
qed

lemma lookupOb_None: "lookupOb s key = None \<longleftrightarrow> key \<notin> keyOf ` set s"
  by (induction s) auto

lemma lookupOb_replaceOb:
  "lookupOb (replaceOb ob s) key =
     (if key = keyOf ob then map_option (\<lambda>_. ob) (lookupOb s key) else lookupOb s key)"
proof (induction s)
  case (Cons x s)
  then show ?case by (cases "keyOf x = keyOf ob"; cases "key = keyOf ob") (simp_all add: replaceOb_def)
qed (simp add: replaceOb_def)

lemma lookupOb_replace:
  "lookupOb s (keyOf ob) = Some old \<Longrightarrow> lookupOb (replaceOb ob s) = (lookupOb s)(keyOf ob \<mapsto> ob)"
  by (rule ext) (simp add: lookupOb_replaceOb)

lemma keys_replace: "map keyOf (replaceOb ob s) = map keyOf s"
  by (induction s) (auto simp: replaceOb_def)

lemma replaceOb_member: "x \<in> set (replaceOb ob s) \<Longrightarrow> x = ob \<or> x \<in> set s"
  by (auto simp: replaceOb_def split: if_splits)

lemma lookupOb_filter:
  "lookupOb (filter (\<lambda>ob. keyOf ob \<noteq> key) s) = (lookupOb s)(key := None)"
proof
  fix key'
  show "lookupOb (filter (\<lambda>ob. keyOf ob \<noteq> key) s) key' = ((lookupOb s)(key := None)) key'"
    by (induction s) auto
qed

lemma trackerAdd_good:
  assumes "trackerGood s" and "trackerAdd rep ob s = (r, s')" shows "trackerGood s'"
  using assms keys_replace [of ob s]
  by (auto simp: trackerAdd_def trackerGood_def lookupOb_None list_all_iff
      split: if_splits option.splits dest: replaceOb_member)

lemma trackerDelete_good:
  assumes "trackerGood s" and "trackerDelete k ns name s = (r, s')" shows "trackerGood s'"
  using assms
  by (auto simp: trackerDelete_def trackerGood_def list_all_iff distinct_map_filter split: option.splits)

lemma trackerHandle_good:
  "trackerGood s \<Longrightarrow> trackerHandle other q s = (r, s', d) \<Longrightarrow> trackerGood s'"
  by (cases q) (auto split: prod.splits dest: trackerAdd_good trackerDelete_good)

lemma trackerAdd_update:
  assumes "trackerGood s" "lookupOb s (keyOf ob) = Some old" "trackerAdd True ob s = (r, s')"
  shows "r = RObj ob \<and> lookupOb s' = (lookupOb s)(keyOf ob \<mapsto> ob)"
proof -
  have "wellScoped old" "keyOf old = keyOf ob"
    using assms(1) lookupOb_member [OF assms(2)] by (simp_all add: trackerGood_def list_all_iff)
  then have "wellScoped ob" by (simp add: wellScoped_def keyOf_def)
  with assms(2,3) show ?thesis by (auto simp: trackerAdd_def lookupOb_replace)
qed

lemma trackerAdd_update_none:
  "lookupOb s (keyOf ob) = None \<Longrightarrow> trackerAdd True ob s = (r, s') \<Longrightarrow> (\<exists>e. r = RErr e) \<and> s' = s"
  by (auto simp: trackerAdd_def notFound_def split: if_splits)

interpretation tracker: object_server "trackerEnv other" lookupOb trackerGood
  for other :: "request \<Rightarrow> reply"
proof
  fix s :: tracker and q r s' d key ob k ns sel name old pause
  assume good: "trackerGood s"
  show "lookupOb s key = Some ob \<Longrightarrow> keyOf ob = key \<and> wellScoped ob"
    using good lookupOb_member by (auto simp: trackerGood_def list_all_iff)
  show "handle (trackerEnv other) q s = (r, s', d) \<Longrightarrow> trackerGood s'"
    using good trackerHandle_good by (simp add: trackerEnv_def)
  show "isRead q \<Longrightarrow> handle (trackerEnv other) q s = (r, s', d) \<Longrightarrow> lookupOb s' = lookupOb s"
    by (cases q) (auto simp: trackerEnv_def)
  show "idle (trackerEnv other) pause s = (s', d) \<Longrightarrow> trackerGood s' \<and> lookupOb s' = lookupOb s"
    using good by (simp add: trackerEnv_def)
  show "handle (trackerEnv other) (ReqGet k ns name) s = (r, s', d) \<Longrightarrow>
      case lookupOb s (k, ns, name) of None \<Rightarrow> \<exists>msg. r = RErr (StatusError NotFound msg)
      | Some ob \<Rightarrow> r = RObj ob"
    by (auto simp: trackerEnv_def trackerGet_def notFound_def split: option.splits)
  show "handle (trackerEnv other) (ReqList k ns sel) s = (r, s', d) \<Longrightarrow>
      \<exists>obs. r = RList obs \<and> distinct obs \<and>
        set obs = {ob. lookupOb s (keyOf ob) = Some ob \<and> listed k ns sel ob}"
    using good lookupOb_distinct [of s]
    by (auto simp: trackerEnv_def trackerList_def trackerGood_def distinct_map)
  show "lookupOb s (keyOf ob) = Some old \<Longrightarrow> handle (trackerEnv other) (ReqUpdate ob) s = (r, s', d) \<Longrightarrow>
      \<exists>ob'. accepted ob ob' \<and> r = RObj ob' \<and> lookupOb s' = (lookupOb s)(keyOf ob \<mapsto> ob')"
    using good trackerAdd_update [of s ob old] accepted_refl by (fastforce simp: trackerEnv_def split: prod.splits)
  show "lookupOb s (keyOf ob) = None \<Longrightarrow> handle (trackerEnv other) (ReqUpdate ob) s = (r, s', d) \<Longrightarrow>
      (\<exists>e. r = RErr e) \<and> lookupOb s' = lookupOb s"
    using trackerAdd_update_none [of s ob] by (auto simp: trackerEnv_def split: prod.splits)
  show "handle (trackerEnv other) (ReqPatchPorts ns name ports) s = (r, s', d) \<Longrightarrow>
      key \<noteq> (ServiceKind, ns, name) \<Longrightarrow> lookupOb s' key = lookupOb s key" for ports
    by (auto simp: trackerEnv_def)
  show "wellScoped ob \<Longrightarrow> handle (trackerEnv other) (ReqCreate ob) s = (r, s', d) \<Longrightarrow>
      case lookupOb s (keyOf ob) of
        None \<Rightarrow> r = RObj ob \<and> lookupOb s' = (lookupOb s)(keyOf ob \<mapsto> ob)
      | Some old \<Rightarrow> (\<exists>msg. r = RErr (StatusError AlreadyExists msg)) \<and> lookupOb s' = lookupOb s"
    by (auto simp: trackerEnv_def trackerAdd_def lookupOb_snoc split: option.splits)
  show "handle (trackerEnv other) (ReqDelete k ns name) s = (r, s', d) \<Longrightarrow>
      case lookupOb s (k, ns, name) of
        None \<Rightarrow> (\<exists>msg. r = RErr (StatusError NotFound msg)) \<and> lookupOb s' = lookupOb s
      | Some old \<Rightarrow> r = RDone \<and> lookupOb s' = (lookupOb s)((k, ns, name) := None)"
    by (auto simp: trackerEnv_def trackerDelete_def notFound_def lookupOb_filter split: option.splits)
qed

section \<open>A server with a daemon set controller\<close>

text \<open>
  The tracker with a controller that observes every update of a daemon set at once, and with the patch
  of a service's ports.  It is another server that obeys the laws, on which an upgrade makes progress.
\<close>

definition bumpGeneration :: "DaemonSet \<Rightarrow> DaemonSet" where
  "bumpGeneration d = d\<lparr>dsStatus := (dsStatus d)\<lparr>ObservedGeneration := ObservedGeneration (dsStatus d) + 1\<rparr>\<rparr>"

fun controlledHandle :: "(request \<Rightarrow> reply) \<Rightarrow> request \<Rightarrow> tracker \<Rightarrow> reply \<times> tracker \<times> nat" where
  "controlledHandle other (ReqUpdate (KDaemonSet d)) s =
     trackerHandle other (ReqUpdate (KDaemonSet (bumpGeneration d))) s"
| "controlledHandle other (ReqPatchPorts ns n ports) s =
     (case lookupOb s (ServiceKind, ns, n) of
        Some (KService sv) \<Rightarrow> trackerHandle other (ReqUpdate (KService (sv\<lparr>svcPorts := ports\<rparr>))) s
      | _ \<Rightarrow> (notFound n, s, 0))"
| "controlledHandle other q s = trackerHandle other q s"

definition controlledEnv :: "bool \<Rightarrow> (request \<Rightarrow> reply) \<Rightarrow> tracker env" where
  "controlledEnv debug other =
     \<lparr>handle = controlledHandle other, idle = (\<lambda>d s. (s, 0)), debugLevel = debug\<rparr>"

lemma keyOf_bump [simp]: "keyOf (KDaemonSet (bumpGeneration d)) = keyOf (KDaemonSet d)"
  by (simp add: keyOf_def bumpGeneration_def)

lemma accepted_bump: "accepted (KDaemonSet d) (KDaemonSet (bumpGeneration d))"
  by (auto simp: accepted_def bumpGeneration_def)

text \<open>Every request is answered as the tracker answers some request, or refused.\<close>

lemma controlled_cases:
  "(\<forall>d. q \<noteq> ReqUpdate (KDaemonSet d)) \<Longrightarrow> (\<forall>ns n ports. q \<noteq> ReqPatchPorts ns n ports) \<Longrightarrow>
     controlledHandle other q s = trackerHandle other q s"
  by (cases "(other, q, s)" rule: controlledHandle.cases) auto

lemma keyOf_ports: "keyOf (KService sv) = (ServiceKind, ns, n) \<Longrightarrow>
    keyOf (KService (sv\<lparr>svcPorts := ports\<rparr>)) = (ServiceKind, ns, n)"
  by (simp add: keyOf_def)

lemma controlled_patch:
  assumes "trackerGood s" "controlledHandle other (ReqPatchPorts ns n ports) s = (r, s', d)"
  shows "trackerGood s' \<and> (key \<noteq> (ServiceKind, ns, n) \<longrightarrow> lookupOb s' key = lookupOb s key)"
proof (cases "lookupOb s (ServiceKind, ns, n)")
  case (Some ob)
  show ?thesis
  proof (cases ob)
    case (KService sv)
    let ?sv = "KService (sv\<lparr>svcPorts := ports\<rparr>)"
    have "keyOf ?sv = (ServiceKind, ns, n)"
      using lookupOb_member [OF Some] KService by (intro keyOf_ports) simp
    moreover have "trackerAdd True ?sv s = (r, s')"
      using assms(2) Some KService by (auto split: prod.splits)
    ultimately show ?thesis
      using trackerAdd_good [OF assms(1)] Some
      by (auto simp: trackerAdd_def lookupOb_replaceOb split: if_splits)
  qed (use assms Some in auto)
qed (use assms in auto)

lemma controlledHandle_good:
  assumes "trackerGood s" "controlledHandle other q s = (r, s', d)" shows "trackerGood s'"
proof -
  consider x where "q = ReqUpdate (KDaemonSet x)" | ns n ports where "q = ReqPatchPorts ns n ports"
    | "\<forall>x. q \<noteq> ReqUpdate (KDaemonSet x)" "\<forall>ns n ports. q \<noteq> ReqPatchPorts ns n ports" by blast
  then show ?thesis
  proof cases
    case (1 x)
    then have "trackerHandle other (ReqUpdate (KDaemonSet (bumpGeneration x))) s = (r, s', d)"
      using assms(2) by (simp only: controlledHandle.simps)
    from trackerHandle_good [OF assms(1) this] show ?thesis .
  next
    case (2 ns n ports)
    then show ?thesis using controlled_patch [OF assms(1)] assms(2) by blast
  next
    case 3
    then have "trackerHandle other q s = (r, s', d)" using controlled_cases [OF 3] assms(2) by simp
    from trackerHandle_good [OF assms(1) this] show ?thesis .
  qed
qed

interpretation controlled: object_server "controlledEnv debug other" lookupOb trackerGood
  for debug and other :: "request \<Rightarrow> reply"
proof
  fix s :: tracker and q r s' d key ob k ns sel name old pause
  assume good: "trackerGood s"
  have h: "handle (trackerEnv other) = trackerHandle other" by (simp add: trackerEnv_def)
  note same = controlled_cases [of _ other s]
  show "lookupOb s key = Some ob \<Longrightarrow> keyOf ob = key \<and> wellScoped ob"
    by (rule tracker.stored [OF good])
  show "handle (controlledEnv debug other) q s = (r, s', d) \<Longrightarrow> trackerGood s'"
    using controlledHandle_good [OF good] by (simp add: controlledEnv_def)
  show "isRead q \<Longrightarrow> handle (controlledEnv debug other) q s = (r, s', d) \<Longrightarrow> lookupOb s' = lookupOb s"
    by (cases q) (auto simp: controlledEnv_def)
  show "idle (controlledEnv debug other) pause s = (s', d) \<Longrightarrow> trackerGood s' \<and> lookupOb s' = lookupOb s"
    using good by (simp add: controlledEnv_def)
  show "handle (controlledEnv debug other) (ReqGet k ns name) s = (r, s', d) \<Longrightarrow>
      case lookupOb s (k, ns, name) of None \<Rightarrow> \<exists>msg. r = RErr (StatusError NotFound msg)
      | Some ob \<Rightarrow> r = RObj ob"
    by (rule tracker.get [OF good, of other k ns name r s' d]) (auto simp: controlledEnv_def h)
  show "handle (controlledEnv debug other) (ReqList k ns sel) s = (r, s', d) \<Longrightarrow>
      \<exists>obs. r = RList obs \<and> distinct obs \<and>
        set obs = {ob. lookupOb s (keyOf ob) = Some ob \<and> listed k ns sel ob}"
    by (rule tracker.list [OF good, of other k ns sel r s' d]) (auto simp: controlledEnv_def h)
  show "wellScoped ob \<Longrightarrow> handle (controlledEnv debug other) (ReqCreate ob) s = (r, s', d) \<Longrightarrow>
      case lookupOb s (keyOf ob) of
        None \<Rightarrow> r = RObj ob \<and> lookupOb s' = (lookupOb s)(keyOf ob \<mapsto> ob)
      | Some old \<Rightarrow> (\<exists>msg. r = RErr (StatusError AlreadyExists msg)) \<and> lookupOb s' = lookupOb s"
    by (rule tracker.create [OF good, of ob other r s' d]) (auto simp: controlledEnv_def h)
  show "handle (controlledEnv debug other) (ReqDelete k ns name) s = (r, s', d) \<Longrightarrow>
      case lookupOb s (k, ns, name) of
        None \<Rightarrow> (\<exists>msg. r = RErr (StatusError NotFound msg)) \<and> lookupOb s' = lookupOb s
      | Some old \<Rightarrow> r = RDone \<and> lookupOb s' = (lookupOb s)((k, ns, name) := None)"
    by (rule tracker.delete [OF good, of other k ns name r s' d]) (auto simp: controlledEnv_def h)
  show "handle (controlledEnv debug other) (ReqPatchPorts ns name ports) s = (r, s', d) \<Longrightarrow>
      key \<noteq> (ServiceKind, ns, name) \<Longrightarrow> lookupOb s' key = lookupOb s key" for ports
    using controlled_patch [OF good, of other ns name ports r s' d key]
    by (simp add: controlledEnv_def del: controlledHandle.simps)
  show "lookupOb s (keyOf ob) = Some old \<Longrightarrow> handle (controlledEnv debug other) (ReqUpdate ob) s = (r, s', d) \<Longrightarrow>
      \<exists>ob'. accepted ob ob' \<and> r = RObj ob' \<and> lookupOb s' = (lookupOb s)(keyOf ob \<mapsto> ob')"
  proof (cases "\<exists>x. ob = KDaemonSet x")
    case True
    then obtain x where x: "ob = KDaemonSet x" ..
    assume "lookupOb s (keyOf ob) = Some old" "handle (controlledEnv debug other) (ReqUpdate ob) s = (r, s', d)"
    then have "r = RObj (KDaemonSet (bumpGeneration x)) \<and>
        lookupOb s' = (lookupOb s)(keyOf ob \<mapsto> KDaemonSet (bumpGeneration x))"
      using trackerAdd_update [OF good, of "KDaemonSet (bumpGeneration x)" old r s']
      by (auto simp: controlledEnv_def x split: prod.splits)
    with accepted_bump [of x] show ?thesis unfolding x by blast
  next
    case False
    then show "lookupOb s (keyOf ob) = Some old \<Longrightarrow>
        handle (controlledEnv debug other) (ReqUpdate ob) s = (r, s', d) \<Longrightarrow> ?thesis"
      using tracker.update [OF good, of ob old other r s' d] same [of "ReqUpdate ob"]
      by (simp add: controlledEnv_def h)
  qed
  show "lookupOb s (keyOf ob) = None \<Longrightarrow> handle (controlledEnv debug other) (ReqUpdate ob) s = (r, s', d) \<Longrightarrow>
      (\<exists>e. r = RErr e) \<and> lookupOb s' = lookupOb s"
  proof (cases "\<exists>x. ob = KDaemonSet x")
    case True
    then obtain x where x: "ob = KDaemonSet x" ..
    assume "lookupOb s (keyOf ob) = None" "handle (controlledEnv debug other) (ReqUpdate ob) s = (r, s', d)"
    then show ?thesis
      using trackerAdd_update_none [of s "KDaemonSet (bumpGeneration x)" r s']
      by (auto simp: controlledEnv_def x split: prod.splits)
  next
    case False
    then show "lookupOb s (keyOf ob) = None \<Longrightarrow>
        handle (controlledEnv debug other) (ReqUpdate ob) s = (r, s', d) \<Longrightarrow> ?thesis"
      using tracker.update_none [OF good, of ob other r s' d] same [of "ReqUpdate ob"]
      by (simp add: controlledEnv_def h)
  qed
qed

end
