(* ===== verification/DeleteStore.thy ===== *)
theory DeleteStore
  imports PxDelete Tracker
begin

text \<open>
  What the deletion of an installation does to the store of an API server that obeys the laws of
  \<open>object_server\<close>: exactly the objects of the installation disappear.
\<close>

section \<open>The objects of an installation\<close>

definition planKeys :: "request list \<Rightarrow> key set" where
  "planKeys plan = {(k, ns, n). ReqDelete k ns n \<in> set plan}"

lemma planKeys_simps [simp]:
  "planKeys [] = {}" "planKeys (ReqDelete k ns n # plan) = insert (k, ns, n) (planKeys plan)"
  "planKeys (p @ q) = planKeys p \<union> planKeys q"
  "planKeys (map (ReqDelete k ns) names) = (\<lambda>n. (k, ns, n)) ` set names"
  "planKeys (concat (map f xs)) = (\<Union>x\<in>set xs. planKeys (f x))"
  by (auto simp: planKeys_def)

text \<open>The Portworx daemon sets of the namespaces \<open>nss\<close>, by label.\<close>

definition pxDaemonSets :: "store \<Rightarrow> string list \<Rightarrow> DaemonSet set" where
  "pxDaemonSets v nss =
     {d. v (keyOf (KDaemonSet d)) = Some (KDaemonSet d) \<and> Namespace (dsMeta d) \<in> set nss \<and>
         matchesSelector pxListOpts (KDaemonSet d)}"

definition bootstrapKeys :: "string \<Rightarrow> key set" where
  "bootstrapKeys stripped =
     {(ConfigMapKind, bootstrapCloudDriveNamespace, n) | n.
        n \<in> set (pxAttachDrivesetConfigMap # clusterConfigMaps stripped) \<or>
        HasPrefix n pxBringupQueueConfigMapPrefix}"

definition installationKeys :: "string \<Rightarrow> string list \<Rightarrow> store \<Rightarrow> key set" where
  "installationKeys clusterName nss v =
     (keyOf \<circ> KDaemonSet) ` pxDaemonSets v nss \<union> planKeys (clusterPlan clusterName) \<union>
     bootstrapKeys (strippedClusterName clusterName) \<union>
     (\<Union>ns\<in>set nss. planKeys (namespacePlan (strippedClusterName clusterName) ns))"

section \<open>Erasing keys\<close>

lemma restrict_agree:
  "(\<And>key ob. m key = Some ob \<Longrightarrow> key \<in> K \<longleftrightarrow> key \<in> L) \<Longrightarrow> m |` (- K) = m |` (- L)"
proof
  fix key
  assume "\<And>key ob. m key = Some ob \<Longrightarrow> key \<in> K \<longleftrightarrow> key \<in> L"
  then show "(m |` (- K)) key = (m |` (- L)) key"
    by (cases "m key") (auto simp: restrict_map_def)
qed

interpretation configMaps: object_kind ConfigMapKind KConfigMap "asMeta ConfigMapKind"
proof unfold_locales
  fix ob assume "kindOf ob = ConfigMapKind"
  then show "\<exists>x. ob = KConfigMap x" by (cases ob) simp_all
qed (simp_all add: asMeta_def)

context object_server
begin

definition erases :: "('s world, unit) go \<Rightarrow> key set \<Rightarrow> bool" where
  "erases m K \<longleftrightarrow>
     (\<forall>w. sound w \<longrightarrow> (\<exists>w'. m w = (Ok (), w') \<and> sound w' \<and> view w' = view w |` (- K)))"

lemma erasesD: "erases m K \<Longrightarrow> sound w \<Longrightarrow> \<exists>w'. m w = (Ok (), w') \<and> sound w' \<and> view w' = view w |` (- K)"
  by (simp add: erases_def)

lemma erases_seq: "erases m K \<Longrightarrow> erases n L \<Longrightarrow> erases (bindE m (\<lambda>_. n)) (K \<union> L)"
  unfolding erases_def
proof (intro allI impI)
  fix w
  assume m: "\<forall>w. sound w \<longrightarrow> (\<exists>w'. m w = (Ok (), w') \<and> sound w' \<and> view w' = view w |` (- K))"
    and n: "\<forall>w. sound w \<longrightarrow> (\<exists>w'. n w = (Ok (), w') \<and> sound w' \<and> view w' = view w |` (- L))"
    and w: "sound w"
  from m w obtain w1 where 1: "m w = (Ok (), w1)" "sound w1" "view w1 = view w |` (- K)" by blast
  from n 1(2) obtain w2 where 2: "n w1 = (Ok (), w2)" "sound w2" "view w2 = view w1 |` (- L)" by blast
  from 1 2 show "\<exists>w'. bindE m (\<lambda>_. n) w = (Ok (), w') \<and> sound w' \<and> view w' = view w |` (- (K \<union> L))"
    by (simp add: bindE_def restrict_restrict)
qed

lemma erases_forE: "(\<And>x. erases (f x) (K x)) \<Longrightarrow> erases (forE f xs) (\<Union>x\<in>set xs. K x)"
proof (induction xs)
  case Nil
  show ?case by (simp add: erases_def returnE_def restrict_map_def)
next
  case (Cons x xs)
  have "erases (bindE (f x) (\<lambda>_. forE f xs)) (K x \<union> (\<Union>x\<in>set xs. K x))"
    using erases_seq Cons by blast
  then show ?case by simp
qed

lemma callDone_delete:
  assumes w: "sound w" and ob: "view w (k, ns, n) = Some ob"
  shows "\<exists>w'. callDone env (ReqDelete k ns n) w = (Ok (), w') \<and> sound w' \<and> view w' = (view w)((k, ns, n) := None)"
proof -
  obtain r s' d where h: "handle env (ReqDelete k ns n) (srv w) = (r, s', d)"
    by (cases "handle env (ReqDelete k ns n) (srv w)") auto
  from w ob show ?thesis
    using delete [OF _ h] kept [OF _ h] h
    by (auto simp: callDone_def call_def bindE_def go_run view_def sound_def)
qed

lemma erases_deleteOb: "erases (deleteOb env k ns n) {(k, ns, n)}"
  unfolding erases_def
proof (intro allI impI)
  fix w assume w: "sound w"
  obtain r s' d where h: "handle env (ReqDelete k ns n) (srv w) = (r, s', d)"
    by (cases "handle env (ReqDelete k ns n) (srv w)") auto
  have res: "view w |` (- {(k, ns, n)}) = (view w)((k, ns, n) := None)"
    by (auto simp: restrict_map_def)
  from w show "\<exists>w'. deleteOb env k ns n w = (Ok (), w') \<and> sound w' \<and> view w' = view w |` (- {(k, ns, n)})"
    unfolding res using delete [OF _ h] kept [OF _ h] h
    by (cases "objs (srv w) (k, ns, n)")
       (auto simp: deleteOb_def callDone_def call_def bindE_def tryE_def go_run view_def sound_def fun_upd_idem)
qed

lemma erases_deleteAll: "erases (deleteAll env k ns names) (planKeys (map (ReqDelete k ns) names))"
  unfolding deleteAll_def
  using erases_forE [where f = "deleteOb env k ns" and K = "\<lambda>n. {(k, ns, n)}" and xs = names, OF erases_deleteOb]
  by (simp add: UNION_singleton_eq_range)

lemma erases_cong: "erases m K \<Longrightarrow> K = L \<Longrightarrow> erases m L"
  by simp

lemmas erases_deletes = erases_seq erases_deleteOb erases_deleteAll

lemma erases_clusterWide: "erases (deleteClusterWide env clusterName) (planKeys (clusterPlan clusterName))"
  unfolding deleteClusterWide_def
  by (rule erases_cong, (rule erases_deletes)+) (auto simp: clusterPlan_def)

lemma erases_namespace: "erases (deleteFromNamespace env stripped ns) (planKeys (namespacePlan stripped ns))"
  unfolding deleteFromNamespace_def
  by (rule erases_cong, (rule erases_deletes)+) (auto simp: namespacePlan_def)

text \<open>The config maps of the bootstrap namespace, those of the bring-up queue as listed.\<close>

lemma erases_bootstrap: "erases (deleteBootstrapConfigMaps env stripped) (bootstrapKeys stripped)"
  unfolding erases_def
proof (intro allI impI)
  let ?ns = bootstrapCloudDriveNamespace
  fix w assume w: "sound w"
  from readsD [OF yields_list [OF configMaps.object_kind_axioms] w, of ?ns "[]"] obtain cms w1 where
    1: "ListConfigMap env ?ns w = (Ok cms, w1)" "view w1 = view w" "sound w1" "storeOk (view w)"
      "\<And>x. x \<in> set cms \<longleftrightarrow> view w (keyOf (KConfigMap x)) = Some (KConfigMap x) \<and>
         listed ConfigMapKind ?ns [] (KConfigMap x)"
    unfolding ListConfigMap_def by blast
  let ?plan = "planKeys (map (ReqDelete ConfigMapKind ?ns) (bootstrapConfigMaps stripped cms))"
  from erasesD [OF erases_deleteAll 1(3)] obtain w2 where
    2: "deleteAll env ConfigMapKind ?ns (bootstrapConfigMaps stripped cms) w1 = (Ok (), w2)" "sound w2"
      "view w2 = view w1 |` (- ?plan)" by blast
  have "view w |` (- ?plan) = view w |` (- bootstrapKeys stripped)"
  proof (rule restrict_agree)
    fix key ob assume ob: "view w key = Some ob"
    have "keyOf ob = key" using ob 1(4) unfolding storeOk_def by blast
    show "key \<in> ?plan \<longleftrightarrow> key \<in> bootstrapKeys stripped"
    proof
      assume "key \<in> ?plan"
      then show "key \<in> bootstrapKeys stripped"
        unfolding planKeys_simps(4) by (auto simp: bootstrapKeys_def bootstrapConfigMaps_def)
    next
      assume "key \<in> bootstrapKeys stripped"
      then obtain n where n: "key = (ConfigMapKind, ?ns, n)"
          "n \<in> set (pxAttachDrivesetConfigMap # clusterConfigMaps stripped) \<or>
           HasPrefix n pxBringupQueueConfigMapPrefix"
        by (auto simp: bootstrapKeys_def)
      with \<open>keyOf ob = key\<close> obtain m where m: "ob = KConfigMap m" "Name m = n" "Namespace m = ?ns"
        using configMaps.dec_kind [of ob] by (auto simp: keyOf_def)
      with ob n have "m \<in> set cms" by (simp add: 1(5) keyOf_def listed_def matchesSelector_def)
      with n m show "key \<in> ?plan"
        unfolding planKeys_simps(4) by (auto simp: bootstrapConfigMaps_def)
    qed
  qed
  with 1 2 show "\<exists>w'. deleteBootstrapConfigMaps env stripped w = (Ok (), w') \<and> sound w' \<and>
      view w' = view w |` (- bootstrapKeys stripped)"
    by (simp add: deleteBootstrapConfigMaps_def bindE_def tryE_def)
qed

text \<open>The daemon sets, for which a missing object would be an error.\<close>

lemma yields_getPXDaemonsets:
  assumes "distinct nss" and "[] \<notin> set nss"
  shows "yields (collectE (ListDaemonSets env) nss)
    (\<lambda>v dss. storeOk v \<and> distinct dss \<and> set dss = pxDaemonSets v nss)"
  using assms
proof (induction nss)
  case Nil
  show ?case unfolding collectE.simps reads_def
    by (auto simp: returnE_def pxDaemonSets_def storeOk_view)
next
  case (Cons ns nss)
  have tail: "yields (bindE (collectE (ListDaemonSets env) nss) (\<lambda>zs. returnE (ys @ zs)))
      (\<lambda>v dss. \<exists>zs. dss = ys @ zs \<and> distinct zs \<and> set zs = pxDaemonSets v nss)" for ys
    by (rule yields_bindE [where S = "\<lambda>zs v dss. dss = ys @ zs", OF Cons.IH yields_returnE])
       (use Cons.prems in auto)
  show ?case
    unfolding collectE.simps ListDaemonSets_def
    by (rule yields_bindE [OF yields_list [OF daemonSets.object_kind_axioms] tail [unfolded ListDaemonSets_def]])
       (use Cons.prems in \<open>auto simp: pxDaemonSets_def listed_def keyOf_def\<close>)
qed

lemma deleteDaemonSets_run:
  assumes "sound w" and "distinct (map (keyOf \<circ> KDaemonSet) dss)"
    and "\<And>d. d \<in> set dss \<Longrightarrow> view w (keyOf (KDaemonSet d)) = Some (KDaemonSet d)"
  shows "\<exists>w'. deleteDaemonSets env dss w = (Ok (), w') \<and> sound w' \<and>
    view w' = view w |` (- (keyOf \<circ> KDaemonSet) ` set dss)"
  using assms
proof (induction dss arbitrary: w)
  case Nil
  then show ?case by (simp add: deleteDaemonSets_def returnE_def restrict_map_def)
next
  case (Cons d dss)
  have key: "keyOf (KDaemonSet d) = (DaemonSetKind, Namespace (dsMeta d), Name (dsMeta d))"
    by (simp add: keyOf_def)
  from callDone_delete [OF Cons.prems(1) Cons.prems(3) [of d, unfolded key]] obtain w1 where
    1: "callDone env (ReqDelete DaemonSetKind (Namespace (dsMeta d)) (Name (dsMeta d))) w = (Ok (), w1)"
      "sound w1" "view w1 = (view w)(keyOf (KDaemonSet d) := None)"
    unfolding key by auto
  have "view w1 (keyOf (KDaemonSet e)) = Some (KDaemonSet e)" if "e \<in> set dss" for e
    using that Cons.prems(2,3) 1(3) by (auto simp: rev_image_eqI)
  with Cons.IH [OF 1(2)] Cons.prems(2) obtain w2 where
    2: "deleteDaemonSets env dss w1 = (Ok (), w2)" "sound w2"
      "view w2 = view w1 |` (- (keyOf \<circ> KDaemonSet) ` set dss)" by auto
  have "view w1 |` (- (keyOf \<circ> KDaemonSet) ` set dss) = view w |` (- (keyOf \<circ> KDaemonSet) ` set (d # dss))"
    by (rule ext) (simp add: 1(3) restrict_map_def)
  with 1 2 show ?case by (simp add: deleteDaemonSets_def bindE_def)
qed

lemma distinct_keys:
  assumes "distinct dss" and "set dss = pxDaemonSets v nss"
  shows "distinct (map (keyOf \<circ> KDaemonSet) dss)"
proof -
  have "d = e" if "d \<in> set dss" "e \<in> set dss" "keyOf (KDaemonSet d) = keyOf (KDaemonSet e)" for d e
    using that unfolding assms(2) pxDaemonSets_def by simp
  with assms(1) show ?thesis by (simp add: distinct_map inj_on_def)
qed

section \<open>Deleting the installation\<close>

lemma deleteAllPXComponents_run:
  assumes w: "sound w" and ns: "distinct (installedNamespaces ops)" "[] \<notin> set (installedNamespaces ops)"
  shows "\<exists>w'. deleteAllPXComponents env ops clusterName w = (Ok (), w') \<and> sound w' \<and>
    view w' = view w |` (- installationKeys clusterName (installedNamespaces ops) (view w))"
proof -
  let ?nss = "installedNamespaces ops"
  let ?str = "strippedClusterName clusterName"
  let ?D = "(keyOf \<circ> KDaemonSet) ` pxDaemonSets (view w) ?nss"
  let ?rest = "bindE (deleteClusterWide env clusterName) (\<lambda>_.
      bindE (deleteBootstrapConfigMaps env ?str) (\<lambda>_. forE (deleteFromNamespace env ?str) ?nss))"
  let ?K = "planKeys (clusterPlan clusterName) \<union> (bootstrapKeys ?str \<union>
      (\<Union>ns\<in>set ?nss. planKeys (namespacePlan ?str ns)))"
  from readsD [OF yields_getPXDaemonsets [OF ns] w] obtain dss w1 where
    1: "getPXDaemonsets env ops w = (Ok dss, w1)" "view w1 = view w" "sound w1"
      "distinct dss" "set dss = pxDaemonSets (view w) ?nss"
    unfolding getPXDaemonsets_def by blast
  have "view w1 (keyOf (KDaemonSet d)) = Some (KDaemonSet d)" if "d \<in> set dss" for d
    using that 1(2,5) by (simp add: pxDaemonSets_def)
  from deleteDaemonSets_run [OF 1(3) distinct_keys [OF 1(4,5)] this] obtain w2 where
    2: "deleteDaemonSets env dss w1 = (Ok (), w2)" "sound w2" "view w2 = view w |` (- ?D)"
    unfolding 1(2,5) by blast
  have "erases ?rest ?K"
    by (intro erases_seq erases_clusterWide erases_bootstrap erases_forE erases_namespace)
  from erasesD [OF this 2(2)] obtain w3 where
    3: "?rest w2 = (Ok (), w3)" "sound w3" "view w3 = view w2 |` (- ?K)" by blast
  have "view w3 = view w |` (- installationKeys clusterName ?nss (view w))"
    unfolding 3(3) 2(3) restrict_restrict installationKeys_def by (simp add: Un_assoc)
  with 1(1) 2(1) 3(1,2) show ?thesis by (simp add: deleteAllPXComponents_def bindE_def)
qed

section \<open>Code that leaves the store alone\<close>

definition quiet :: "('s world, 'a) go \<Rightarrow> bool" where
  "quiet m \<longleftrightarrow> reads m (\<lambda>_ _. True)"

lemma quietD: "quiet m \<Longrightarrow> sound w \<Longrightarrow> m w = (r, w') \<Longrightarrow> sound w' \<and> view w' = view w"
  unfolding quiet_def by (drule (1) readsD) auto

lemma quiet_returnE: "quiet (returnE a)"
  by (simp add: quiet_def reads_def returnE_def)

lemma quiet_raiseE: "quiet (raiseE e)"
  by (simp add: quiet_def reads_def raiseE_def)

lemma quiet_bindE: "quiet m \<Longrightarrow> (\<And>a. quiet (f a)) \<Longrightarrow> quiet (bindE m f)"
  unfolding quiet_def by (rule reads_weaken [OF reads_bindE]) simp_all

lemma quiet_tryE: "quiet m \<Longrightarrow> quiet (tryE m)"
  unfolding quiet_def reads_def tryE_def
  by (rule allI, drule_tac x = w in spec) (auto split: outcome.splits)

lemma quiet_get: "quiet (callObj env (ReqGet k ns n) dec)"
  unfolding quiet_def by (rule reads_weaken [OF reads_get]) simp

lemma quiet_list: "quiet (callList env (ReqList k ns sel) dec)"
  unfolding quiet_def reads_def
proof (intro allI impI)
  fix w assume w: "sound w"
  obtain r s' d where h: "handle env (ReqList k ns sel) (srv w) = (r, s', d)"
    by (cases "handle env (ReqList k ns sel) (srv w)") auto
  from call_read [OF w _ h] obtain w' where
    "call env (ReqList k ns sel) w = (Ok r, w')" "view w' = view w" "sound w'" by auto
  then show "\<exists>r w'. callList env (ReqList k ns sel) dec w = (r, w') \<and> True \<and> view w' = view w \<and> sound w'"
    by (cases r) (auto simp: callList_def bindE_def go_run split: option.splits)
qed

lemmas quiet_intro = quiet_returnE quiet_raiseE quiet_bindE quiet_tryE quiet_get quiet_list

lemma quiet_sleep: "sound w \<Longrightarrow> sound (sleep env since d w) \<and> view (sleep env since d w) = view w"
  using rested [of "srv w" d] by (auto simp: sleep_def sound_def view_def split: prod.splits)

text \<open>A retried task that leaves the store alone, as an instance of the retry contract.\<close>

lemma quiet_task:
  assumes "quiet f"
  shows "retry_task env (plainTask f) (\<lambda>_ w. sound w \<and> view w = v) (\<lambda>_ w. sound w \<and> view w = v)"
proof -
  have keep: "sound w' \<and> view w' = v"
    if "sound w \<and> view w = v" "plainTask f l w = (a, l', w')" for l w a l' w'
  proof -
    obtain r w1 where "f w = (r, w1)" by (cases "f w")
    with that quietD [OF assms, of w r w1] show ?thesis
      by (auto simp: asTask_def onWorld_def split: outcome.splits sum.splits)
  qed
  show ?thesis
  proof
    fix l l' :: unit and w w' a since d
    assume w: "sound w \<and> view w = v"
    then show "sound (sleep env since d w) \<and> view (sleep env since d w) = v" by (simp add: quiet_sleep)
    show "sound w' \<and> view w' = v" if "plainTask f l w = (a, l', w')" using keep [OF w that] .
    show "sound w' \<and> view w' = v" if "plainTask f l w = (Done, l', w')" using keep [OF w that] .
  qed
qed

lemma quiet_retry: "quiet f \<Longrightarrow> quiet (retryPlain env f timeout pause)"
  unfolding quiet_def reads_def
proof (intro allI impI)
  fix w assume f: "\<forall>w. sound w \<longrightarrow> (\<exists>r w'. f w = (r, w') \<and> True \<and> view w' = view w \<and> sound w')"
    and w: "sound w"
  obtain r w' where run: "retryPlain env f timeout pause w = (r, w')"
    by (cases "retryPlain env f timeout pause w")
  have "quiet f" using f by (simp add: quiet_def reads_def)
  from retry_task.retry_keeps [OF quiet_task [OF this] _ run, of "view w"] w run
  show "\<exists>r w'. retryPlain env f timeout pause w = (r, w') \<and> True \<and> view w' = view w \<and> sound w'" by auto
qed

lemma quiet_ValidateDaemonSet: "quiet (ValidateDaemonSet env name ns timeout)"
  unfolding ValidateDaemonSet_def validateDaemonSetTask_def GetDaemonSet_def GetPodsByOwner_def
  by (intro quiet_retry quiet_bindE quiet_get)
     (auto intro!: quiet_intro split: sum.split option.split simp: Let_def)

section \<open>Running a daemon set\<close>

lemma callObj_create:
  assumes "sound w" and "view w (keyOf ob) = None" and "wellScoped ob" and "dec ob = Some x"
  shows "\<exists>w'. callObj env (ReqCreate ob) dec w = (Ok x, w') \<and> view w' = (view w)(keyOf ob \<mapsto> ob) \<and> sound w'"
proof -
  obtain r s' d where h: "handle env (ReqCreate ob) (srv w) = (r, s', d)"
    by (cases "handle env (ReqCreate ob) (srv w)") auto
  with assms show ?thesis
    using create [OF _ assms(3) h] kept [OF _ h]
    by (auto simp: callObj_def call_def bindE_def go_run view_def sound_def)
qed

lemma goneTask_run:
  assumes "sound w" and "Namespace (dsMeta ds) \<noteq> []" and "view w (keyOf (KDaemonSet ds)) = None"
  shows "\<exists>w'. goneTask env ds w = (Ok (Inr ()), w') \<and> view w' = view w \<and> sound w'"
  using readsD [OF reads_get [where dec = asDaemonSet] assms(1), of DaemonSetKind "Namespace (dsMeta ds)" "Name (dsMeta ds)"]
    assms(2,3)
  by (auto simp: goneTask_def GetDaemonSet_def keyOf_def bindE_def tryE_def go_run)

text \<open>Whatever the validation finds, the daemon set is gone in the end.\<close>

lemma runDaemonSet_run:
  assumes w: "sound w" and ns: "Namespace (dsMeta ds) \<noteq> []"
  shows "\<exists>r w'. runDaemonSet env ds timeout w = (r, w') \<and> sound w' \<and>
    view w' = (view w)(keyOf (KDaemonSet ds) := None)"
proof -
  let ?key = "keyOf (KDaemonSet ds)"
  have key: "?key = (DaemonSetKind, Namespace (dsMeta ds), Name (dsMeta ds))" by (simp add: keyOf_def)
  have rest: "m |` (- {?key}) = m(?key := None)" for m :: store by (auto simp: restrict_map_def)
  from erasesD [OF erases_deleteOb w, of DaemonSetKind "Namespace (dsMeta ds)" "Name (dsMeta ds)"]
  obtain w1 where
    1: "deleteOb env DaemonSetKind (Namespace (dsMeta ds)) (Name (dsMeta ds)) w = (Ok (), w1)" "sound w1"
      "view w1 = (view w)(?key := None)"
    unfolding key [symmetric] rest by blast
  from goneTask_run [OF 1(2) ns] 1(3) obtain w2 where
    g: "goneTask env ds w1 = (Ok (Inr ()), w2)" "view w2 = view w1" "sound w2" by auto
  have 2: "retryPlain env (goneTask env ds) daemonsetDeleteTimeout defaultRetryInterval w1 = (Ok (), w2)"
    by (rule retryPlain_first_done) (use g in \<open>simp_all add: daemonsetDeleteTimeout_def durations\<close>)
  have "\<exists>w3. callObj env (ReqCreate (KDaemonSet ds)) asDaemonSet w2 = (Ok ds, w3) \<and>
      view w3 = (view w2)(?key \<mapsto> KDaemonSet ds) \<and> sound w3"
    by (rule callObj_create) (use g 1 in \<open>simp_all add: wellScoped_def decoders\<close>)
  then obtain w3 where
    3: "callObj env (ReqCreate (KDaemonSet ds)) asDaemonSet w2 = (Ok ds, w3)"
      "view w3 = (view w2)(?key \<mapsto> KDaemonSet ds)" "sound w3" by blast
  obtain r w4 where
    v: "ValidateDaemonSet env (Name (dsMeta ds)) (Namespace (dsMeta ds)) timeout w3 = (r, w4)"
    by (cases "ValidateDaemonSet env (Name (dsMeta ds)) (Namespace (dsMeta ds)) timeout w3")
  have 4: "sound w4" "view w4 = view w3" using quietD [OF quiet_ValidateDaemonSet 3(3) v] by auto
  have "view w4 ?key = Some (KDaemonSet ds)" using 3 4 by simp
  from callDone_delete [OF 4(1) this [unfolded key]] obtain w5 where
    5: "deleteDeferred env ds w4 = (Ok (), w5)" "sound w5" "view w5 = (view w4)(?key := None)"
    unfolding key by (auto simp: deleteDeferred_def bindE_def tryE_def returnE_def)
  have fin: "view w5 = (view w)(?key := None)" using 1 g 3 4 5 by simp
  have nc: "r \<noteq> Crash p" for p
    using calmD [OF calm_SchedOps(15) v] by blast
  from 1(1) 2 3(1) v 5(1,2) fin nc show ?thesis
    by (cases r) (auto simp: runDaemonSet_def bindE_def deferE_def)
qed

end

end
