(* ===== verification/ScalingProps.thy ===== *)
theory ScalingProps
  imports Tracker
begin

text \<open>
  The properties of \<open>pkg/k8sutils\<close>, with the example cluster they are exercised on.
\<close>

section \<open>An example cluster\<close>

text \<open>A shared storage class, a claim of it, a deployment and a stateful set that use it.\<close>

definition exClass :: StorageClass where
  "exClass = \<lparr>scMeta = metaNamed [] ''px-shared'' None, scProvisioner = pxStorageProvisionerName,
              scParameters = Some [''shared'' \<mapsto> ''true'']\<rparr>"

definition exClaim :: PVC where
  "exClaim = \<lparr>pvcMeta = metaNamed ''prod'' ''data'' None, pvcStorageClassName = Some ''px-shared'',
              pvcVolumeName = ''pvc-1''\<rparr>"

definition exMeta :: "string \<Rightarrow> strmap option \<Rightarrow> ObjectMeta" where
  "exMeta name annotations = (metaNamed ''prod'' name None)\<lparr>Annotations := annotations\<rparr>"

definition exDeployment :: "strmap option \<Rightarrow> int32 \<Rightarrow> Deployment" where
  "exDeployment annotations replicas =
     \<lparr>depMeta = exMeta ''web'' annotations, depReplicas = Some replicas,
      depVolumes = [\<lparr>volName = ''data'', volHostPath = None, volPortworxVolume = None,
                     volPersistentVolumeClaim = Some ''data''\<rparr>]\<rparr>"

definition exStatefulSet :: "strmap option \<Rightarrow> int32 \<Rightarrow> StatefulSet" where
  "exStatefulSet annotations replicas =
     \<lparr>ssMeta = exMeta ''db'' annotations, ssReplicas = Some replicas,
      ssVolumeClaimTemplates = [exClaim]\<rparr>"

definition exCluster :: tracker where
  "exCluster = [KStorageClass exClass, KPVC exClaim, KDeployment (exDeployment (Some Map.empty) 3),
                KStatefulSet (exStatefulSet (Some Map.empty) 2)]"

definition exWorld :: "'s \<Rightarrow> 's world" where
  "exWorld s = \<lparr>srv = s, clock = 0, reqs = [], platform = platformTypeDefault, cores = ''/var/cores''\<rparr>"

definition noService :: "request \<Rightarrow> reply" where
  "noService q = RErr (ErrorString ''no such service'')"

lemmas ex_defs = exClass_def exClaim_def exMeta_def exDeployment_def exStatefulSet_def exWorld_def
  metaNamed_def

lemma exCluster_good: "trackerGood exCluster"
  by (simp add: trackerGood_def exCluster_def keyOf_def wellScoped_def ex_defs)

lemma exCluster_apps:
  "lookupOb exCluster (keyOf (KDeployment d)) = Some (KDeployment d) \<Longrightarrow> d = exDeployment (Some Map.empty) 3"
  "lookupOb exCluster (keyOf (KStatefulSet s)) = Some (KStatefulSet s) \<Longrightarrow> s = exStatefulSet (Some Map.empty) 2"
  by (drule lookupOb_member, simp add: exCluster_def)+

lemma exCluster_class: "sharedClass (lookupOb exCluster) sc \<Longrightarrow> sc = ''px-shared''"
  by (auto simp: sharedClass_def exCluster_def keyOf_def ex_defs split: if_splits)

lemma exCluster_shared:
  "exDeployment (Some Map.empty) 3 \<in> sharedDeployments (lookupOb exCluster)"
  "exStatefulSet (Some Map.empty) 2 \<in> sharedStatefulSets (lookupOb exCluster)"
proof -
  have "sharedClass (lookupOb exCluster) ''px-shared''"
    by (simp add: sharedClass_def exCluster_def keyOf_def isShared_def ex_defs)
  moreover have "deploymentUses (lookupOb exCluster) ''px-shared'' (exDeployment (Some Map.empty) 3)"
    "statefulSetUses (lookupOb exCluster) ''px-shared'' (exStatefulSet (Some Map.empty) 2)"
    by (simp_all add: deploymentUses_def statefulSetUses_def volumeHasClass_def hasClass_def classOf_def
        pvcStorageClass_def exCluster_def keyOf_def decoders ex_defs)
  moreover have "lookupOb exCluster (keyOf (KDeployment (exDeployment (Some Map.empty) 3))) =
      Some (KDeployment (exDeployment (Some Map.empty) 3))"
    "lookupOb exCluster (keyOf (KStatefulSet (exStatefulSet (Some Map.empty) 2))) =
      Some (KStatefulSet (exStatefulSet (Some Map.empty) 2))"
    by (simp_all add: exCluster_def keyOf_def ex_defs)
  ultimately show "exDeployment (Some Map.empty) 3 \<in> sharedDeployments (lookupOb exCluster)"
    "exStatefulSet (Some Map.empty) 2 \<in> sharedStatefulSets (lookupOb exCluster)"
    unfolding sharedDeployments_def sharedStatefulSets_def by blast+
qed

lemma exCluster_oneClass: "oneClassEach (lookupOb exCluster)"
  unfolding oneClassEach_def using exCluster_class by blast

lemma exCluster_fresh:
  "\<forall>d\<in>sharedDeployments (lookupOb exCluster). depReplicas d \<noteq> None \<and> freshMeta (depMeta d)"
  "\<forall>s\<in>sharedStatefulSets (lookupOb exCluster). ssReplicas s \<noteq> None \<and> freshMeta (ssMeta s)"
  using exCluster_apps
  by (fastforce simp: sharedDeployments_def sharedStatefulSets_def freshMeta_def ex_defs)+

section \<open>Properties\<close>



text \<open>
  C2.  Whatever the API server answers and however the run ends, everything
  \<open>ScaleSharedAppsToZero\<close> writes is a deployment or stateful set with zero replicas and a saved count,
  everything \<open>RestoreScaledAppsReplicas\<close> writes is one with a replica count and without a saved one,
  and every other request either sends is a read.
\<close>

theorem scaling_writes:
  "list_all scaleDownRequest (trace (ScaleSharedAppsToZero env) w) \<and>
   list_all restoreRequest (trace (RestoreScaledAppsReplicas env) w)"
  by (intro conjI issues_trace [OF issues_ScaleSharedAppsToZero] issues_trace [OF issues_RestoreScaledAppsReplicas])

text \<open>
  The replica count survives its detour through the annotation: for every 32-bit count,
  restoring from annotations into which the scale-down has printed the count gives the count
  and the other annotations back.
\<close>

lemma saved_count_roundtrip:
  "savedReplicas (Some (m(replicaMemoryKey \<mapsto> replicaString r))) = Write (m(replicaMemoryKey := None), r)"
  by (rule savedReplicas_saved)

text \<open>
  C5.  A deployment may be scaled down any number of times before it is restored: the second
  scale-down writes nothing, so the restore still finds the original count.  For a stateful set
  the second scale-down saves the count zero over the first one, and the restore leaves it at zero.
\<close>

theorem scale_down_twice:
  "depReplicas d \<noteq> None \<Longrightarrow> freshMeta (depMeta d) \<Longrightarrow> ssReplicas s \<noteq> None \<Longrightarrow> freshMeta (ssMeta s) \<Longrightarrow>
     after restoreDeployment (after scaleDownDeployment (after scaleDownDeployment d)) = d \<and>
     ssReplicas (after restoreStatefulSet (after scaleDownStatefulSet (after scaleDownStatefulSet s))) = Some 0"
proof -
  assume d: "depReplicas d \<noteq> None" "freshMeta (depMeta d)" and s: "ssReplicas s \<noteq> None" "freshMeta (ssMeta s)"
  have "after scaleDownDeployment (after scaleDownDeployment d) = after scaleDownDeployment d"
    using d by (intro after_Leave scaleDown_deployment_idem) (auto simp: readyDeployment_def freshMeta_def)
  moreover from s obtain r m where "ssReplicas s = Some r" "Annotations (ssMeta s) = Some m"
    by (auto simp: freshMeta_def)
  then have "ssReplicas (after restoreStatefulSet (after scaleDownStatefulSet (after scaleDownStatefulSet s))) = Some 0"
    by (simp add: after_def scaleDownStatefulSet_def restoreStatefulSet_def setAnnotations_def savedReplicas_saved)
  ultimately show ?thesis using restore_scaled_deployment [OF d] by simp
qed

theorem scale_down_twice_witness:
  "after restoreDeployment (after scaleDownDeployment (after scaleDownDeployment
       (exDeployment (Some Map.empty) 3))) = exDeployment (Some Map.empty) 3 \<and>
   ssReplicas (after restoreStatefulSet (after scaleDownStatefulSet (after scaleDownStatefulSet
       (exStatefulSet (Some Map.empty) 2)))) = Some 0"
  by (rule scale_down_twice) (simp_all add: freshMeta_def ex_defs)

text \<open>
  C6.  A shared deployment whose annotations are nil (the server omits an empty map) brings the
  process down: if the first deployment found is read back with a non-zero replica count and nil
  annotations, the assignment to the nil map panics in the retry goroutine, so
  \<open>ScaleSharedAppsToZero\<close> ends in a crash, after which no deferred call of the caller runs.
\<close>

theorem scale_down_nil_annotations:
  assumes "GetPXSharedApps env w = (Ok (d # ds, ss), w0)"
    and "handle env (ReqGet DeploymentKind (Namespace (depMeta d)) (Name (depMeta d))) (srv w0) =
      (RObj (KDeployment d'), s', t)"
    and "depReplicas d' = Some r" and "r \<noteq> 0" and "Annotations (depMeta d') = None"
  shows "\<exists>w'. ScaleSharedAppsToZero env w = (Crash nilMapPanic, w')"
proof -
  let ?w1 = "w0\<lparr>srv := s', clock := clock w0 + int t, reqs := reqs w0 @
      [ReqGet DeploymentKind (Namespace (depMeta d)) (Name (depMeta d))]\<rparr>"
  have "deploymentTask env scaleDownDeployment (Namespace (depMeta d)) (Name (depMeta d)) w0 =
      (Panic nilMapPanic, ?w1)"
    using assms(2-5)
    by (simp add: appTask_def callObj_def call_def bindE_def tryE_def go_run asDeployment_def
        scaleDownDeployment_def)
  then have "retryPlain env (deploymentTask env scaleDownDeployment (Namespace (depMeta d))
      (Name (depMeta d))) deploymentUpdateTimeout defaultRetryInterval w0 = (Crash nilMapPanic, ?w1)"
    by (intro retryPlain_first_panic) (simp_all add: deploymentUpdateTimeout_def durations)
  then have "forDeployments env scaleDownDeployment (d # ds) w0 = (Crash nilMapPanic, ?w1)"
    by (simp add: forDeployments_def bindE_def)
  with assms(1) show ?thesis by (simp add: ScaleSharedAppsToZero_def bindE_def)
qed

definition exNilCluster :: tracker where
  "exNilCluster = [KStorageClass exClass, KPVC exClaim, KDeployment (exDeployment None 3)]"

theorem scale_down_nil_annotations_witness:
  "\<exists>w'. ScaleSharedAppsToZero (trackerEnv noService) (exWorld exNilCluster) = (Crash nilMapPanic, w')"
proof -
  let ?q = "\<lambda>d. ReqGet DeploymentKind (Namespace (depMeta d)) (Name (depMeta d))"
  have "okAnd (\<lambda>(ds, ss) w0. consAnd (\<lambda>d _. objAnd asDeployment
      (\<lambda>d'. depReplicas d' = Some 3 \<and> Option.is_none (Annotations (depMeta d')))
      (fst (handle (trackerEnv noService) (?q d) (srv w0)))) ds)
    (GetPXSharedApps (trackerEnv noService) (exWorld exNilCluster))"
    by code_simp
  then obtain d ds ss w0 d' where
    1: "GetPXSharedApps (trackerEnv noService) (exWorld exNilCluster) = (Ok (d # ds, ss), w0)" and
    2: "fst (handle (trackerEnv noService) (?q d) (srv w0)) = RObj (KDeployment d')" and
    3: "depReplicas d' = Some 3" "Annotations (depMeta d') = None"
    by (auto simp: okAnd_iff consAnd_iff objAnd_iff decode_Some Option.is_none_def)
  from 2 obtain s' t where "handle (trackerEnv noService) (?q d) (srv w0) = (RObj (KDeployment d'), s', t)"
    by (cases "handle (trackerEnv noService) (?q d) (srv w0)") auto
  from scale_down_nil_annotations [OF 1 this 3(1) _ 3(2)] show ?thesis by simp
qed

end
