(* ===== verification/ConfigProps.thy ===== *)
theory ConfigProps
  imports PxConfig ScalingProps
begin

text \<open>Properties of the configuration the provider reads and of the key-value store's wipe.\<close>

text \<open>An argument list as the installer writes it: name, endpoints, credentials.\<close>

definition renderArgs ::
  "string \<Rightarrow> string list \<Rightarrow> string \<Rightarrow> string \<Rightarrow> string \<Rightarrow> string \<Rightarrow> string \<Rightarrow> string \<Rightarrow> string list" where
  "renderArgs cluster endpoints user pwd ca cert key acl =
     [''-c'', cluster, ''-k'', Join endpoints (CHR '',''), ''-userpwd'', user @ '':'' @ pwd,
      ''-ca'', ca, ''-cert'', cert, ''-key'', key, ''-acl'', acl]"

definition plainValue :: "string \<Rightarrow> bool" where
  "plainValue v \<longleftrightarrow> v \<noteq> ''-b'' \<and> v \<notin> set valueFlags"



text \<open>
  C8.  The loop over the arguments of the Portworx container panics exactly when the last argument
  is a flag that takes a value and no earlier argument made it fail: \<open>c.Args[i+1]\<close> is not guarded.
\<close>

theorem parse_args_panic_iff:
  "args \<noteq> [] \<Longrightarrow> snd (parseArgs args st) = ArgsPanic \<longleftrightarrow>
     last args \<in> set valueFlags \<and> (\<forall>e. snd (parseArgs args st) \<noteq> ArgsFail e)"
  using parseArgs_done_last [of args st] parseArgs_panic_last [of args st]
  by (cases "snd (parseArgs args st)") auto

theorem parse_args_panic_iff_witness:
  "snd (parseArgs [''-k'', ''etcd:http://h:1'', ''-c''] noArgs) = ArgsPanic \<and>
   last [''-k'', ''etcd:http://h:1'', ''-c''] \<in> set valueFlags"
proof -
  have "snd (parseArgs [''-k'', ''etcd:http://h:1'', ''-c''] noArgs) = ArgsPanic" by code_simp
  then show ?thesis
    using parse_args_panic_iff [of "[''-k'', ''etcd:http://h:1'', ''-c'']" noArgs] by blast
qed



text \<open>
  C11.  Whatever the services answer, the wipe of the key-value store asks for nothing but versions,
  a client with the \<open>pwx/\<close> prefix and the removal of the tree of the given cluster; without
  endpoints or without a cluster name it fails and sends nothing.
\<close>

theorem wipe_kvdb_requests:
  "list_all (kvdbRequest clusterName) (trace (wipePXKvdb env endpoints opts clusterName) w) \<and>
   (endpoints = [] \<or> clusterName = [] \<longrightarrow>
      (\<exists>e. wipePXKvdb env endpoints opts clusterName w = (Err e, w)))"
  by (intro conjI issues_trace issues_wipePXKvdb) (auto simp: wipePXKvdb_def raiseE_def)

theorem wipe_kvdb_requests_witness:
  "\<exists>e. wipePXKvdb (trackerEnv noService) [''etcd:http://h:1''] Map.empty [] (exWorld []) =
     (Err e, exWorld [])"
  using wipe_kvdb_requests [of "[]" "trackerEnv noService" "[''etcd:http://h:1'']" Map.empty "exWorld []"]
  by simp

end
