(* ===== verification/UpgradeProps.thy ===== *)
theory UpgradeProps
  imports PxUpgrade ConfigProps
begin

text \<open>Properties of the upgrade.\<close>

section \<open>Helper lemmas\<close>

lemma trace_bindE_Ok:
  assumes "m w = (Ok a, w1)" and "issues P m" and "issues Q (f a)"
  shows "trace (bindE m f) w = trace m w @ trace (f a) w1"
proof -
  have 1: "reqs w1 = reqs w @ trace m w" using issues_reqs [OF assms(2), of w] assms(1) by simp
  have 2: "reqs (snd (f a w1)) = reqs w1 @ trace (f a) w1" by (rule issues_reqs [OF assms(3)])
  have "trace (bindE m f) w = drop (length (reqs w)) (reqs (snd (f a w1)))"
    using assms(1) by (simp add: trace_def bindE_def)
  with 1 2 show ?thesis by simp
qed

lemma trace_bindE_stop:
  "(\<And>a w1. m w \<noteq> (Ok a, w1)) \<Longrightarrow> trace (bindE m f) w = trace m w"
  by (cases "m w"; cases "fst (m w)") (auto simp: trace_def bindE_def)

lemma deferE_runs:
  assumes "deferE d m w = (r, w')" and "\<And>p. r \<noteq> Crash p"
  shows "w' = snd (d (snd (m w)))"
proof -
  obtain r1 w1 r2 w2 where "m w = (r1, w1)" "d w1 = (r2, w2)" by (metis surj_pair)
  with assms show ?thesis by (cases r1; cases r2) (auto simp: deferE_def)
qed

lemma trace_deferE:
  assumes "issues P m" and "issues Q d"
  shows "\<exists>k. trace (deferE d m) w = trace m w @ k \<and> list_all Q k"
proof -
  obtain r1 w1 r2 w2 where m: "m w = (r1, w1)" and d: "d w1 = (r2, w2)" by (metis surj_pair)
  have 1: "reqs w1 = reqs w @ trace m w" using issues_reqs [OF assms(1), of w] m by simp
  have 2: "reqs w2 = reqs w1 @ trace d w1" "list_all Q (trace d w1)"
    using issues_reqs [OF assms(2), of w1] issues_trace [OF assms(2), of w1] d by simp_all
  have "snd (deferE d m w) = w1 \<or> snd (deferE d m w) = w2"
    using m d by (cases r1; cases r2) (auto simp: deferE_def)
  then show ?thesis
  proof
    assume "snd (deferE d m w) = w1"
    then have "trace (deferE d m) w = trace m w" by (simp add: trace_def m)
    then show ?thesis by (intro exI [of _ "[]"]) simp
  next
    assume "snd (deferE d m w) = w2"
    then have "trace (deferE d m) w = trace m w @ trace d w1" using 1 2 by (simp add: trace_def)
    with 2 show ?thesis by blast
  qed
qed

lemma snd_restoreDeferred: "snd (restoreDeferred env w) = snd (RestoreScaledAppsReplicas env w)"
  by (auto simp: restoreDeferred_def bindE_def tryE_def returnE_def split: prod.splits outcome.splits)

lemma issues_upgradeSteps:
  "issues (\<lambda>q. upgradeRequest (ociImageOf spec) (installedNamespaces ops) q \<or> appRequest q)
     (upgradeSteps env ops spec opts drain)"
  unfolding upgradeSteps_def restoreDeferred_def
  by (intro issues_intro issues_mono [OF issues_upgradePX] issues_mono [OF issues_waitDetached])
     (auto simp: read_appRequest)

text \<open>What has been established when the checks have passed.\<close>

lemma upgradeChecks_passed:
  assumes "upgradeChecks env ops spec0 w = (Ok (spec, drain), w')"
  shows "(\<exists>ns. installedNamespaces ops = [ns]) \<and> csOCIMonTag spec0 \<noteq> [] \<and> spec = defaultSpec spec0"
proof -
  from assms obtain ns where ns: "installedNamespaces ops = [ns]"
    by (auto simp: upgradeChecks_def raiseE_def split: list.splits)
  then show ?thesis
    using assms
    by (auto simp: upgradeChecks_def bindE_Ok_iff raiseE_def returnE_def preFlightChecks_def Let_def
        split: if_splits option.splits)
qed

lemma ociImageOf_default [simp]: "ociImageOf (defaultSpec spec) = ociImageOf spec"
  by (simp add: ociImageOf_def defaultSpec_def Let_def)

section \<open>An example upgrade\<close>

text \<open>
  A one-namespace installation with two nodes, on an API server whose daemon set controller bumps
  the observed generation at once, with the applications of the example cluster on it.
\<close>

definition exPx :: "string \<Rightarrow> strmap option \<Rightarrow> DaemonSet" where
  "exPx img annotations =
     \<lparr>dsMeta = \<lparr>Name = ''portworx'', Namespace = ''kube-system'', UID = ''u1'',
                Labels = Some [''name'' \<mapsto> ''portworx''], Annotations = annotations\<rparr>,
      dsMatchLabels = None, dsTemplateLabels = None,
      dsPodSpec =
        \<lparr>HostPID = False, HostNetwork = True, podAffinity = None,
         Containers =
           [\<lparr>cName = ''portworx'', cImage = img, cImagePullPolicy = ''Always'',
             cArgs = [''-k'', ''etcd:http://10.0.0.9:2379'', ''-c'', ''prod-px''], cEnv = [],
             cPrivileged = Some True, cReadinessProbe = None, cVolumeMounts = []\<rparr>],
         RestartPolicy = ''Always'', ServiceAccountName = ''px-account'', Volumes = []\<rparr>,
      dsStatus = \<lparr>ObservedGeneration = 1, DesiredNumberScheduled = 1, UpdatedNumberScheduled = 1,
                  NumberUnavailable = 0, NumberReady = 1\<rparr>\<rparr>"

definition exPod :: Pod where
  "exPod = \<lparr>podMeta = metaNamed ''kube-system'' ''portworx-abcde'' None,
            podOwnerReferences = [\<lparr>ownerUID = ''u1'', ownerController = Some True\<rparr>],
            podVolumes = [], podPhase = ''Running'', podInitRunning = [],
            podContainerStatuses = [\<lparr>csRunning = True, csTerminatedOK = False, csReady = True\<rparr>]\<rparr>"

definition exService :: Service where
  "exService = \<lparr>svcMeta = metaNamed ''kube-system'' ''portworx-service'' None, svcClusterIP = ''10.1.1.1'',
                svcSelector = None, svcType = ''ClusterIP'',
                svcPorts = [\<lparr>portName = ''px-api'', portProtocol = ''TCP'', portPort = 9001,
                             portTargetPort = IntVal 17001\<rparr>]\<rparr>"

definition exInstall :: "strmap option \<Rightarrow> tracker" where
  "exInstall annotations =
     [KStorageClass exClass, KPVC exClaim, KDeployment (exDeployment annotations 3),
      KDaemonSet (exPx ''portworx/oci-monitor:2.0.0'' (Some Map.empty)), KPod exPod, KService exService,
      KNode (metaNamed [] ''node1'' None), KNode (metaNamed [] ''node2'' None),
      KNamespace (metaNamed [] ''kube-system'' None), KClusterRole pxClusterRole]"

fun exServices :: "request \<Rightarrow> reply" where
  "exServices ReqEnumerate =
     RNodes [\<lparr>osdNodeId = ''n1'', NodeLabels = [''PX Version'' \<mapsto> ''2.0.0'']\<rparr>]"
| "exServices (ReqInspect ids) = RVolumes (map (\<lambda>i. \<lparr>volLocatorName = i, AttachedState = ATTACH_STATE_INTERNAL\<rparr>) ids)"
| "exServices (ReqGetenv k) = RString []"
| "exServices (ReqKvdbVersion name url opts) = RString ''etcdv3''"
| "exServices q = RDone"

definition exEnv :: "tracker env" where
  "exEnv = controlledEnv False exServices"

definition exOps :: pxClusterOps where
  "exOps = \<lparr>dockerRegistrySecret = [], installedNamespaces = [''kube-system'']\<rparr>"

definition exTarget :: Cluster where
  "exTarget = clusterOfImages ''portworx/oci-monitor'' ''2.1.1'' [] []"

definition exOptions :: "string \<Rightarrow> UpgradeOptions" where
  "exOptions mode = \<lparr>SharedAppsScaleDown = mode, TimeoutPerNode = 600\<rparr>"

abbreviation exStart :: "tracker world" where
  "exStart \<equiv> exWorld (exInstall (Some Map.empty))"

section \<open>Properties\<close>

text \<open>
  C12.  Nothing is changed by an upgrade that is refused: whatever the services answer, if
  \<open>Upgrade\<close> sends a request that changes anything then all its checks have passed, in particular
  Portworx is installed in exactly one namespace and a new OCI monitor tag was given.
\<close>

theorem upgrade_mutates_only_after_checks:
  assumes "\<exists>q\<in>set (trace (Upgrade env ops newSpec opts) w). isMutation q"
  shows "\<exists>c ns spec drain w1. newSpec = Some c \<and> installedNamespaces ops = [ns] \<and>
    csOCIMonTag (clSpec c) \<noteq> [] \<and> upgradeChecks env ops (clSpec c) w = (Ok (spec, drain), w1)"
proof (cases newSpec)
  case None
  with assms show ?thesis by (simp add: Upgrade_def raiseE_def trace_def)
next
  case (Some c)
  show ?thesis
  proof (cases "\<exists>v w1. upgradeChecks env ops (clSpec c) w = (Ok v, w1)")
    case True
    then show ?thesis using Some upgradeChecks_passed by fastforce
  next
    case False
    then have "trace (Upgrade env ops newSpec opts) w = trace (upgradeChecks env ops (clSpec c)) w"
      unfolding Upgrade_def Some option.case by (intro trace_bindE_stop) blast
    with assms issues_trace [OF issues_upgradeChecks, of env ops "clSpec c" w] show ?thesis
      by (auto simp: list_all_iff)
  qed
qed

theorem upgrade_mutates_only_after_checks_witness:
  "\<exists>spec drain w1. upgradeChecks exEnv exOps (clSpec exTarget) exStart =
     (Ok (spec, drain), w1)"
proof -
  have "list_ex isMutation
      (trace (Upgrade exEnv exOps (Some exTarget) (Some (exOptions ''off''))) exStart)"
    by code_simp
  then have "\<exists>q\<in>set (trace (Upgrade exEnv exOps (Some exTarget) (Some (exOptions ''off'')))
      exStart). isMutation q"
    by (simp add: list_ex_iff)
  from upgrade_mutates_only_after_checks [OF this] show ?thesis by auto
qed

text \<open>
  C13.  Whatever the services answer and however it ends, an upgrade deletes nothing, and its
  writes are exactly of these kinds: Portworx daemon sets whose \<open>portworx\<close> container runs the new
  OCI monitor image, the Portworx roles and their binding, the secrets namespace, the API daemon set
  and service, the target ports of the two services, and, from the scale-down and the restore,
  deployments and stateful sets.
\<close>

theorem upgrade_requests:
  "list_all (\<lambda>q. upgradeRequest (ociImageOf (clSpec c)) (installedNamespaces ops) q \<or> appRequest q)
     (trace (Upgrade env ops (Some c) opts) w)"
proof -
  let ?P = "\<lambda>q. upgradeRequest (ociImageOf (clSpec c)) (installedNamespaces ops) q \<or> appRequest q"
  have read: "isRead q \<Longrightarrow> ?P q" for q by (simp add: read_appRequest)
  show ?thesis
  proof (cases "\<exists>v w1. upgradeChecks env ops (clSpec c) w = (Ok v, w1)")
    case True
    then obtain spec drain w1 where ok: "upgradeChecks env ops (clSpec c) w = (Ok (spec, drain), w1)"
      by (metis surj_pair)
    have steps: "issues ?P (upgradeSteps env ops spec opts drain)"
      using issues_upgradeSteps [of spec ops env opts drain] upgradeChecks_passed [OF ok] by simp
    have "trace (Upgrade env ops (Some c) opts) w =
        trace (upgradeChecks env ops (clSpec c)) w @ trace (upgradeSteps env ops spec opts drain) w1"
      unfolding Upgrade_def option.case
      using trace_bindE_Ok [OF ok issues_upgradeChecks, of ?P "\<lambda>(spec, drain). upgradeSteps env ops spec opts drain"]
        steps by simp
    moreover have "list_all ?P (trace (upgradeChecks env ops (clSpec c)) w)"
      by (rule issues_trace [OF issues_mono [OF issues_upgradeChecks]]) (rule read)
    ultimately show ?thesis using issues_trace [OF steps] by simp
  next
    case False
    then have "trace (Upgrade env ops (Some c) opts) w = trace (upgradeChecks env ops (clSpec c)) w"
      unfolding Upgrade_def option.case by (intro trace_bindE_stop) blast
    moreover have "list_all ?P (trace (upgradeChecks env ops (clSpec c)) w)"
      by (rule issues_trace [OF issues_mono [OF issues_upgradeChecks]]) (rule read)
    ultimately show ?thesis by simp
  qed
qed

section \<open>The scale-down around the upgrade\<close>

text \<open>The world in which \<open>Upgrade\<close> leaves its steps 2 and 3, before the deferred restore.\<close>

definition scaledUpgrade ::
  "'s env \<Rightarrow> pxClusterOps \<Rightarrow> ClusterSpec \<Rightarrow> UpgradeOptions option \<Rightarrow> ('s world, unit) go" where
  "scaledUpgrade env ops spec opts =
     bindE (ScaleSharedAppsToZero env) (\<lambda>_.
     bindE (waitTillPXSharedVolumesDetached env) (\<lambda>_. upgradePX env ops spec opts))"

lemma upgradeSteps_scaled:
  "isScaleDownOfSharedAppsRequired drain opts \<Longrightarrow>
     upgradeSteps env ops spec opts drain = deferE (restoreDeferred env) (scaledUpgrade env ops spec opts)"
  by (simp add: upgradeSteps_def scaledUpgrade_def)

lemma Upgrade_checked:
  "upgradeChecks env ops (clSpec c) w = (Ok (spec, drain), w1) \<Longrightarrow>
     Upgrade env ops (Some c) opts w = upgradeSteps env ops spec opts drain w1"
  by (simp add: Upgrade_def bindE_def)

text \<open>
  C14.  Once the checks have passed and the scale-down is required, the replicas are always restored:
  whatever the services answer, unless the process crashes, the last thing \<open>Upgrade\<close> does is to run
  \<open>RestoreScaledAppsReplicas\<close>, in the world in which the scale-down, the wait for detached volumes and
  the rolling upgrade have ended, with or without an error.
\<close>

theorem upgrade_always_restores:
  assumes "upgradeChecks env ops (clSpec c) w = (Ok (spec, drain), w1)"
    and "isScaleDownOfSharedAppsRequired drain opts"
    and "Upgrade env ops (Some c) opts w = (r, w')" and "\<And>p. r \<noteq> Crash p"
  shows "w' = snd (RestoreScaledAppsReplicas env (snd (scaledUpgrade env ops spec opts w1)))"
  using deferE_runs [of "restoreDeferred env" "scaledUpgrade env ops spec opts" w1 r w'] assms
  by (simp add: Upgrade_checked upgradeSteps_scaled snd_restoreDeferred)

theorem upgrade_always_restores_witness:
  "\<exists>spec w1 w'. Upgrade exEnv exOps (Some exTarget) (Some (exOptions ''on'')) exStart = (Ok (), w') \<and>
     w' = snd (RestoreScaledAppsReplicas exEnv (snd (scaledUpgrade exEnv exOps spec (Some (exOptions ''on'')) w1)))"
proof -
  have "okAnd (\<lambda>v w1. okAnd (\<lambda>_ _. True)
      (upgradeSteps exEnv exOps (fst v) (Some (exOptions ''on'')) (snd v) w1))
      (upgradeChecks exEnv exOps (clSpec exTarget) exStart)"
    by code_simp
  then obtain spec drain w1 w' where
    1: "upgradeChecks exEnv exOps (clSpec exTarget) exStart = (Ok (spec, drain), w1)" and
    2: "upgradeSteps exEnv exOps spec (Some (exOptions ''on'')) drain w1 = (Ok (), w')"
    by (auto simp: okAnd_iff)
  have 3: "Upgrade exEnv exOps (Some exTarget) (Some (exOptions ''on'')) exStart = (Ok (), w')"
    using Upgrade_checked [OF 1] 2 by simp
  have "isScaleDownOfSharedAppsRequired drain (Some (exOptions ''on''))"
    by (simp add: isScaleDownOfSharedAppsRequired_def exOptions_def go_consts)
  from upgrade_always_restores [OF 1 this 3] 3 show ?thesis by auto
qed


definition crashAnd :: "('w \<Rightarrow> bool) \<Rightarrow> 'a outcome \<times> 'w \<Rightarrow> bool" where
  "crashAnd P r = (case r of (Crash p, w) \<Rightarrow> P w | _ \<Rightarrow> False)"

lemma crashAnd_iff: "crashAnd P r \<longleftrightarrow> (\<exists>p w. r = (Crash p, w) \<and> P w)"
  by (cases r; cases "fst r") (auto simp: crashAnd_def)


text \<open>A request that updates a daemon set.\<close>

fun isDaemonSetUpdate :: "request \<Rightarrow> bool" where
  "isDaemonSetUpdate (ReqUpdate (KDaemonSet d)) = True"
| "isDaemonSetUpdate q = False"

lemma appRequest_no_ds: "appRequest q \<Longrightarrow> \<not> isDaemonSetUpdate q"
  by (cases q rule: isDaemonSetUpdate.cases) simp_all

lemma issues_no_ds: "issues appRequest m \<Longrightarrow> list_all (\<lambda>q. \<not> isDaemonSetUpdate q) (trace m w)"
  using appRequest_no_ds by (auto intro: issues_trace issues_mono)

lemma scaledUpgrade_ds_update:
  assumes "\<exists>q\<in>set (trace (scaledUpgrade env ops spec opts) w). isDaemonSetUpdate q"
  shows "\<exists>w2 w3. ScaleSharedAppsToZero env w = (Ok (), w2) \<and>
    waitTillPXSharedVolumesDetached env w2 = (Ok (), w3)"
proof (rule ccontr)
  assume neg: "\<not> ?thesis"
  let ?rest = "bindE (waitTillPXSharedVolumesDetached env) (\<lambda>_. upgradePX env ops spec opts)"
  have scale: "issues appRequest (ScaleSharedAppsToZero env)" by (intro issues_intro)
  have wait: "issues appRequest (waitTillPXSharedVolumesDetached env)"
    by (rule issues_mono [OF issues_waitDetached]) (rule read_appRequest)
  have no: "list_all (\<lambda>q. \<not> isDaemonSetUpdate q) (trace (scaledUpgrade env ops spec opts) w)"
  proof (cases "\<exists>w2. ScaleSharedAppsToZero env w = (Ok (), w2)")
    case False
    then have "trace (scaledUpgrade env ops spec opts) w = trace (ScaleSharedAppsToZero env) w"
      unfolding scaledUpgrade_def by (intro trace_bindE_stop) auto
    with issues_no_ds [OF scale] show ?thesis by simp
  next
    case True
    then obtain w2 where w2: "ScaleSharedAppsToZero env w = (Ok (), w2)" by blast
    have all: "issues (\<lambda>q. True) ?rest"
      by (intro issues_intro issues_mono [OF issues_upgradePX] issues_mono [OF issues_waitDetached]) simp_all
    have "trace ?rest w2 = trace (waitTillPXSharedVolumesDetached env) w2"
      using neg w2 by (intro trace_bindE_stop) auto
    then have "trace (scaledUpgrade env ops spec opts) w =
        trace (ScaleSharedAppsToZero env) w @ trace (waitTillPXSharedVolumesDetached env) w2"
      unfolding scaledUpgrade_def using trace_bindE_Ok [OF w2 scale, of _ "\<lambda>_. ?rest"] all by simp
    with issues_no_ds [OF scale, of w] issues_no_ds [OF wait, of w2] show ?thesis by simp
  qed
  with assms show False by (auto simp: list_all_iff)
qed

text \<open>
  C16.  With the scale-down, no Portworx daemon set is touched while a shared volume may be in use:
  whatever the services answer, if \<open>Upgrade\<close> sends an update of a daemon set, then the scale-down has
  returned without error, and in the last inspection of the volumes of all claims of shared classes,
  after it, none was attached to a host.
\<close>

theorem upgrade_detaches_first:
  assumes "upgradeChecks env ops (clSpec c) w = (Ok (spec, drain), w1)"
    and "isScaleDownOfSharedAppsRequired drain opts"
    and "\<exists>q\<in>set (trace (Upgrade env ops (Some c) opts) w). isDaemonSetUpdate q"
  shows "\<exists>w2 ids w3 w4. ScaleSharedAppsToZero env w1 = (Ok (), w2) \<and>
    sharedVolumes env w2 = (Ok ids, w3) \<and>
    waitTillPXSharedVolumesDetached env w2 = (Ok (), w4) \<and> seenDetached env ids w4"
proof -
  let ?steps = "deferE (restoreDeferred env) (scaledUpgrade env ops spec opts)"
  have scaled: "issues (\<lambda>q. True) (scaledUpgrade env ops spec opts)"
    unfolding scaledUpgrade_def
    by (intro issues_intro issues_mono [OF issues_upgradePX] issues_mono [OF issues_waitDetached]) simp_all
  have restore: "issues appRequest (restoreDeferred env)"
    unfolding restoreDeferred_def by (intro issues_intro)
  have "trace (Upgrade env ops (Some c) opts) w =
      trace (upgradeChecks env ops (clSpec c)) w @ trace ?steps w1"
    unfolding Upgrade_def option.case
    using trace_bindE_Ok [OF assms(1) issues_upgradeChecks, of "\<lambda>q. True"
        "\<lambda>(spec, drain). upgradeSteps env ops spec opts drain"]
      issues_deferE [of _ "\<lambda>q. True", OF issues_mono [OF restore] scaled]
    by (simp add: upgradeSteps_scaled [OF assms(2)])
  moreover have "list_all (\<lambda>q. \<not> isDaemonSetUpdate q) (trace (upgradeChecks env ops (clSpec c)) w)"
    by (rule issues_trace [OF issues_mono [OF issues_upgradeChecks]]) (auto elim: isDaemonSetUpdate.elims)
  moreover obtain k where "trace ?steps w1 = trace (scaledUpgrade env ops spec opts) w1 @ k"
      "list_all appRequest k"
    using trace_deferE [OF scaled restore] by blast
  ultimately have "\<exists>q\<in>set (trace (scaledUpgrade env ops spec opts) w1). isDaemonSetUpdate q"
    using assms(3) appRequest_no_ds by (auto simp: list_all_iff)
  from scaledUpgrade_ds_update [OF this] obtain w2 w4 where
    "ScaleSharedAppsToZero env w1 = (Ok (), w2)" "waitTillPXSharedVolumesDetached env w2 = (Ok (), w4)"
    by blast
  with waitDetached_Ok [of env w2 w4] show ?thesis by blast
qed

theorem upgrade_detaches_first_witness:
  "\<exists>w1 w2 ids w3 w4. ScaleSharedAppsToZero exEnv w1 = (Ok (), w2) \<and>
     sharedVolumes exEnv w2 = (Ok ids, w3) \<and>
     waitTillPXSharedVolumesDetached exEnv w2 = (Ok (), w4) \<and> seenDetached exEnv ids w4"
proof -
  have "okAnd (\<lambda>v w1. list_ex isDaemonSetUpdate
      (trace (Upgrade exEnv exOps (Some exTarget) (Some (exOptions ''on''))) exStart))
      (upgradeChecks exEnv exOps (clSpec exTarget) exStart)"
    by code_simp
  then obtain spec drain w1 where
    1: "upgradeChecks exEnv exOps (clSpec exTarget) exStart = (Ok (spec, drain), w1)" and
    2: "\<exists>q\<in>set (trace (Upgrade exEnv exOps (Some exTarget) (Some (exOptions ''on''))) exStart).
          isDaemonSetUpdate q"
    by (auto simp: okAnd_iff list_ex_iff)
  have "isScaleDownOfSharedAppsRequired drain (Some (exOptions ''on''))"
    by (simp add: isScaleDownOfSharedAppsRequired_def exOptions_def go_consts)
  from upgrade_detaches_first [OF 1 this 2] show ?thesis by blast
qed

end
