(* ===== verification/RolloutProps.thy ===== *)
theory RolloutProps
  imports UpgradeProps
begin

text \<open>
  Properties of the steps of the rolling upgrade: one daemon set, the timeouts, the version check,
  the service ports and the access-control objects.
\<close>



text \<open>
  C18.  The timeout for the validation is the number of nodes less one times the timeout per node as
  long as that fits 64 bits, so on a one-node cluster it is zero: if the API server lists a single
  node, the step that waits for the upgraded daemon set to become ready fails with a timeout without
  having looked at the daemon set, whatever its state.
\<close>

theorem single_node_upgrade_times_out:
  assumes "callList env (ReqList NodeKind [] []) (asMeta NodeKind) w = (Ok [node], w1)"
  shows "bindE (getDaemonSetReadyTimeout env t) (ValidateDaemonSet env name ns) w =
    (Err (ErrTimedOut ''context deadline exceeded''), w1)"
  using assms
  by (simp add: getDaemonSetReadyTimeout_def bindE_def returnE_def readyTimeout_single
      ValidateDaemonSet_def retry_timeout_nonpos del: One_nat_def) (simp add: readyTimeout_def retry_timeout_nonpos)

theorem single_node_upgrade_times_out_witness:
  "\<exists>w1. bindE (getDaemonSetReadyTimeout exEnv 600) (ValidateDaemonSet exEnv ''portworx'' ''kube-system'')
     (exWorld [KNode (metaNamed [] ''node1'' None)]) = (Err (ErrTimedOut ''context deadline exceeded''), w1)"
proof -
  have "okAnd (\<lambda>xs w1. length xs = 1)
      (callList exEnv (ReqList NodeKind [] []) (asMeta NodeKind) (exWorld [KNode (metaNamed [] ''node1'' None)]))"
    by code_simp
  then obtain node w1 where "callList exEnv (ReqList NodeKind [] []) (asMeta NodeKind)
      (exWorld [KNode (metaNamed [] ''node1'' None)]) = (Ok [node], w1)"
    by (auto simp: okAnd_iff length_Suc_conv)
  from single_node_upgrade_times_out [OF this] show ?thesis by blast
qed

text \<open>
  C40.  The timeout does not wrap around when the product fits: for at least one node and a
  non-negative timeout per node, it is the exact product in nanoseconds.
\<close>

theorem ready_timeout_exact:
  "1 \<le> n \<Longrightarrow> 0 \<le> t \<Longrightarrow> (int n - 1) * t * Second < 2 ^ 63 \<Longrightarrow> readyTimeout n t = (int n - 1) * t * Second"
  by (rule readyTimeout_exact)

theorem ready_timeout_exact_witness: "readyTimeout 5 600 = 2400 * Second"
  using ready_timeout_exact [of 5 600] by (simp add: Second_def)

text \<open>
  C20.  The version check looks at the first node only: whatever the other nodes run, the result for
  a cluster is that for its first node alone.
\<close>

theorem version_check_first_node:
  "versionLoop pre n0 (n0 # ns) = versionLoop pre n0 [n0]"
proof -
  let ?ver = "lookupStr (Some (NodeLabels n0)) pxVersionLabel"
  have "?ver \<noteq> [] \<Longrightarrow> \<not> HasPrefix ?ver pre \<Longrightarrow> versionLoop pre n0 ns = Inr False"
    by (induction ns) (simp_all add: Let_def)
  then show ?thesis by (simp add: Let_def)
qed

text \<open>
  C21.  The target ports of the upgraded services: for each port number the last entry of the
  current service decides, and the default is the port itself; a named target port counts as zero.
\<close>

theorem override_ports_spec:
  "overridePorts ports k =
     (case find (\<lambda>p. portPort p = k) (rev ports) of
        Some p \<Rightarrow> Some (case portTargetPort p of IntVal i \<Rightarrow> i | StrVal s \<Rightarrow> 0)
      | None \<Rightarrow> if k = 9001 \<or> k = 9019 \<or> k = 9020 \<or> k = 9021 then Some k else None)"
proof -
  have 1: "intVal x = (case x of IntVal i \<Rightarrow> i | StrVal s \<Rightarrow> 0)" for x by (cases x) simp_all
  have 2: "defaultTargetPorts k =
      (if k = 9001 \<or> k = 9019 \<or> k = 9020 \<or> k = 9021 then Some k else None)"
    by (simp add: defaultTargetPorts_def)
  have "overridePorts ports k = (case find (\<lambda>p. portPort p = k) (rev ports) of
        Some p \<Rightarrow> Some (intVal (portTargetPort p)) | None \<Rightarrow> defaultTargetPorts k)"
    unfolding overridePorts_def by (rule overridePorts_lookup)
  then show ?thesis unfolding 1 2 .
qed

text \<open>
  The decision whether to scale down: the mode \<open>on\<close> always scales down, the modes \<open>auto\<close>, the
  empty mode and no options at all follow the need to drain applications, every other mode never does;
  and draining is needed for the targets 1.3.3 and 1.3.4, and for 1.3 and 1.4 coming from 1.2.
\<close>

lemma scale_down_decision:
  "isScaleDownOfSharedAppsRequired (drainVerdict dublin v) opts \<longleftrightarrow>
     (case opts of Some o' \<Rightarrow> SharedAppsScaleDown o' = ''on'' | None \<Rightarrow> False) \<or>
     (case opts of Some o' \<Rightarrow> SharedAppsScaleDown o' \<in> {[], ''auto''} | None \<Rightarrow> True) \<and>
     (prefix ''1.3.3'' v \<or> prefix ''1.3.4'' v \<or> dublin \<and> (prefix ''1.3'' v \<or> prefix ''1.4'' v))"
  by (cases opts)
     (auto simp: isScaleDownOfSharedAppsRequired_def drainVerdict_def HasPrefix_prefix go_consts)

end
