(* ===== verification/DeleteProps.thy ===== *)
theory DeleteProps
  imports DeleteStore RolloutProps
begin

text \<open>Properties of the removal of an installation.\<close>

section \<open>Helper lemmas\<close>

lemma performs_run:
  assumes "performs m A" and "m w = (r, w')"
  shows "\<exists>p\<in>A. prefix (filter isMutation (trace m w)) p \<and>
    (\<forall>a. r = Ok a \<longrightarrow> filter isMutation (trace m w) = p)"
proof -
  obtain p l where "p \<in> A" "reqs w' = reqs w @ l" "prefix (filter isMutation l) p"
      "\<forall>a. r = Ok a \<longrightarrow> filter isMutation l = p"
    by (rule performsE [OF assms])
  moreover have "trace m w = drop (length (reqs w)) (reqs w')" using assms(2) by (simp add: trace_def)
  ultimately show ?thesis by auto
qed

text \<open>Everything after the listing of the daemon sets.\<close>

definition deleteListed :: "'s env \<Rightarrow> pxClusterOps \<Rightarrow> string \<Rightarrow> DaemonSet list \<Rightarrow> ('s world, unit) go" where
  "deleteListed env ops clusterName dss =
     bindE (deleteDaemonSets env dss) (\<lambda>_.
     bindE (deleteClusterWide env clusterName) (\<lambda>_.
     bindE (deleteBootstrapConfigMaps env (strippedClusterName clusterName)) (\<lambda>_.
     forE (deleteFromNamespace env (strippedClusterName clusterName)) (installedNamespaces ops))))"

lemma deleteAll_listed: "deleteAllPXComponents env ops c = bindE (getPXDaemonsets env ops) (deleteListed env ops c)"
  by (simp add: deleteAllPXComponents_def deleteListed_def [abs_def])

lemma performs_deleteListed:
  "performs (deleteListed env ops c dss) {deletionPlan c dss cms (installedNamespaces ops) | cms. True}"
proof -
  let ?s = "strippedClusterName c"
  let ?P = "{p @ q | p q. p \<in> {daemonSetPlan dss} \<and> (\<exists>a :: unit. q \<in>
      {p @ q | p q. p \<in> {clusterPlan c} \<and> (\<exists>a :: unit. q \<in>
      {p @ q | p q. p \<in> {bootstrapPlan ?s cms | cms. True} \<and>
        (\<exists>a :: unit. q \<in> {concat (map (namespacePlan ?s) (installedNamespaces ops))})})})}"
  have "performs (deleteListed env ops c dss) ?P"
    unfolding deleteListed_def
    by (intro performs_bindE performs_deleteDaemonSets performs_clusterWide performs_bootstrap
        performs_forE performs_namespace)
  moreover have "?P = {deletionPlan c dss cms (installedNamespaces ops) | cms. True}"
    by (auto simp: deletionPlan_def)
  ultimately show ?thesis by simp
qed

lemma trace_reads: "issues isRead m \<Longrightarrow> filter isMutation (trace m w) = []"
  using issues_trace [of isRead m w] by (simp add: filter_empty_conv list_all_iff)

section \<open>The requests of a removal\<close>

text \<open>
  Apart from reads: deletions; and, when the installation is to be wiped, the creation of the node
  wiper and the requests to the key-value store.
\<close>

definition wiperKey :: key where
  "wiperKey = (DaemonSetKind, pxNodeWiperNamespace, pxNodeWiperDaemonSetName)"

fun isKvdbRequest :: "request \<Rightarrow> bool" where
  "isKvdbRequest (ReqKvdbVersion name url opts) = True"
| "isKvdbRequest (ReqKvdbNew name pre urls opts) = True"
| "isKvdbRequest (ReqKvdbDeleteTree t) = True"
| "isKvdbRequest q = False"

fun deleteRequest :: "bool \<Rightarrow> request \<Rightarrow> bool" where
  "deleteRequest wiping (ReqCreate ob) = (wiping \<and> keyOf ob = wiperKey)"
| "deleteRequest wiping (ReqUpdate ob) = False"
| "deleteRequest wiping (ReqPatchPorts ns n ports) = False"
| "deleteRequest wiping q = (isKvdbRequest q \<longrightarrow> wiping)"

lemma deleteRequest_read: "isRead q \<Longrightarrow> \<not> isKvdbRequest q \<Longrightarrow> deleteRequest wiping q"
  by (cases q) simp_all

definition wantsWipe :: "DeleteOptions option \<Rightarrow> bool" where
  "wantsWipe opts = (case opts of None \<Rightarrow> False | Some o' \<Rightarrow> WipeCluster o')"

lemma issues_deleteAllPXComponents [issues_intro]:
  assumes "\<And>k ns n. P (ReqDelete k ns n)" and "\<And>k ns sel. P (ReqList k ns sel)"
  shows "issues P (deleteAllPXComponents env ops c)"
  unfolding deleteAllPXComponents_def deleteDaemonSets_def deleteClusterWide_def
    deleteBootstrapConfigMaps_def deleteFromNamespace_def deleteAll_def deleteOb_def ListConfigMap_def
  by (intro issues_intro assms)

lemma issues_runPXNodeWiper:
  assumes "\<And>k ns n. P (ReqDelete k ns n)" and "\<And>k ns sel. P (ReqList k ns sel)"
    and "\<And>k ns n. P (ReqGet k ns n)" and "\<And>ob. keyOf ob = wiperKey \<Longrightarrow> P (ReqCreate ob)"
  shows "issues P (runPXNodeWiper env root img tag aff)"
  unfolding runPXNodeWiper_def runDaemonSet_def deleteOb_def deleteDeferred_def goneTask_def Let_def
  by (intro issues_intro assms) (simp add: keyOf_def wiperKey_def wiperDaemonSet_def metaNamed_def)

text \<open>What \<open>Delete\<close> does with the configuration it has read.\<close>

definition deleteWith :: "'s env \<Rightarrow> pxClusterOps \<Rightarrow> DeleteOptions option \<Rightarrow> pxConfig \<Rightarrow> ('s world, unit) go" where
  "deleteWith env ops opts cfg =
     bindE (setPlatform (cfgPlatform cfg)) (\<lambda>_.
     if cfgErr cfg \<noteq> None \<and> cfgErr cfg \<noteq> Some ErrUsingInternalEtcd
     then raiseE (ErrorString (''Failed to parse PX config from Daemonset for deleting PX due to err: '' @
            (case cfgErr cfg of Some e \<Rightarrow> errorText e | None \<Rightarrow> [])))
     else
       let pwxHostPathRoot = (if cfgPlatform cfg = platformTypePKS then pksPersistentStoreRoot else ''/'') in
       bindE (deleteAllPXComponents env ops (cfgClusterName cfg)) (\<lambda>_.
       case opts of
         None \<Rightarrow> returnE ()
       | Some o' \<Rightarrow> if WipeCluster o' then wipe env cfg pwxHostPathRoot o' else returnE ()))"

lemma Delete_with: "Delete env ops opts = bindE (parseConfigFromDaemonset env ops) (deleteWith env ops opts)"
  by (simp add: Delete_def deleteWith_def [abs_def])

lemma issues_wipe:
  "issues (\<lambda>q. deleteRequest True q \<and> (\<forall>t. q = ReqKvdbDeleteTree t \<longrightarrow> t = cfgClusterName cfg) \<and>
      (cfgErr cfg = Some ErrUsingInternalEtcd \<longrightarrow> \<not> isKvdbRequest q)) (wipe env cfg root o')"
  (is "issues ?P _")
proof -
  have kv: "?P q" if "kvdbRequest (cfgClusterName cfg) q" "cfgErr cfg \<noteq> Some ErrUsingInternalEtcd" for q
    using that by (cases q) auto
  have "issues ?P (runPXNodeWiper env root (WiperImage o') (WiperTag o') (cfgAffinity cfg))"
    by (rule issues_runPXNodeWiper) auto
  moreover have "issues ?P (wipePXKvdb env (cfgEndpoints cfg) (cfgOpts cfg) (cfgClusterName cfg))"
    if "cfgErr cfg \<noteq> Some ErrUsingInternalEtcd"
    by (rule issues_mono [OF issues_wipePXKvdb]) (rule kv [OF _ that])
  ultimately show ?thesis unfolding wipe_def by (intro issues_intro)
qed

lemma issues_deleteWith:
  "issues (\<lambda>q. deleteRequest (wantsWipe opts) q \<and> (\<forall>t. q = ReqKvdbDeleteTree t \<longrightarrow> t = cfgClusterName cfg) \<and>
      (cfgErr cfg = Some ErrUsingInternalEtcd \<longrightarrow> \<not> isKvdbRequest q)) (deleteWith env ops opts cfg)"
  (is "issues ?P _")
proof -
  have "issues ?P (wipe env cfg root o')" if "opts = Some o'" "WipeCluster o'" for root o'
    using issues_wipe [of cfg env root o'] that by (simp add: wantsWipe_def)
  then show ?thesis
    unfolding deleteWith_def Let_def
    by (intro issues_intro) auto
qed

lemma trace_Delete:
  assumes "parseConfigFromDaemonset env ops w = (Ok cfg, w1)"
  shows "trace (Delete env ops opts) w =
    trace (parseConfigFromDaemonset env ops) w @ trace (deleteWith env ops opts cfg) w1"
  unfolding Delete_with
proof (rule trace_bindE_Ok)
  show "issues (\<lambda>_. True) (parseConfigFromDaemonset env ops)" by (intro issues_intro) simp_all
qed (fact assms issues_deleteWith)+

lemma issues_config_read: "issues (\<lambda>q. isRead q \<and> \<not> isKvdbRequest q) (parseConfigFromDaemonset env ops)"
  by (intro issues_intro) simp_all

text \<open>The wipe itself never returns an error.\<close>

lemma wipe_no_error: "wipe env cfg root o' w \<noteq> (Err e, w')"
  by (auto simp: wipe_def bindE_def tryE_def returnE_def split: prod.splits outcome.splits if_splits)

lemma deleteWith_error:
  assumes run: "deleteWith env ops opts cfg w = (Err e, w')"
    and comps: "issues P (deleteAllPXComponents env ops (cfgClusterName cfg))"
  shows "list_all P (trace (deleteWith env ops opts cfg) w)"
proof (cases "cfgErr cfg \<noteq> None \<and> cfgErr cfg \<noteq> Some ErrUsingInternalEtcd")
  case True
  then show ?thesis by (simp add: deleteWith_def bindE_def setPlatform_def raiseE_def trace_def)
next
  case False
  let ?w1 = "w\<lparr>platform := cfgPlatform cfg\<rparr>"
  from run False have "deleteAllPXComponents env ops (cfgClusterName cfg) ?w1 = (Err e, w')"
    by (auto simp: deleteWith_def bindE_def setPlatform_def Let_def returnE_def wipe_no_error
        split: prod.splits outcome.splits option.splits if_splits)
  with run have "trace (deleteWith env ops opts cfg) w = trace (deleteAllPXComponents env ops (cfgClusterName cfg)) ?w1"
    by (simp add: trace_def)
  with issues_trace [OF comps] show ?thesis by simp
qed

lemma runPXNodeWiper_runs:
  "\<exists>ds w1. keyOf (KDaemonSet ds) = wiperKey \<and> Namespace (dsMeta ds) \<noteq> [] \<and> srv w1 = srv w \<and>
     runPXNodeWiper env root img tag aff w = runDaemonSet env ds pxNodeWiperTimeout w1"
proof -
  have "keyOf (KDaemonSet (wiperDaemonSet root c i aff d)) = wiperKey"
    "Namespace (dsMeta (wiperDaemonSet root c i aff d)) \<noteq> []" for c i d
    by (simp_all add: keyOf_def wiperKey_def wiperDaemonSet_def metaNamed_def pxNodeWiperNamespace_def)
  moreover obtain c i d w1 where "srv w1 = srv w" "runPXNodeWiper env root img tag aff w =
      runDaemonSet env (wiperDaemonSet root c i aff d) pxNodeWiperTimeout w1"
  proof (cases "root = pksPersistentStoreRoot")
    case True
    then show ?thesis
      using that [of "w\<lparr>cores := ''/cores''\<rparr>"]
      by (simp add: runPXNodeWiper_def bindE_def setCores_def getCores_def Let_def)
  next
    case False
    then show ?thesis
      using that [of w] by (simp add: runPXNodeWiper_def bindE_def getCores_def returnE_def Let_def)
  qed
  ultimately show ?thesis by blast
qed

section \<open>Properties\<close>

text \<open>
  C23.  What the removal asks for and in which order: whatever the services answer, if the Portworx
  daemon sets are listed as \<open>dss\<close> then the changes \<open>deleteAllPXComponents\<close> requests are, in order, a
  prefix of the deletion plan (those daemon sets, the cluster-wide objects, the bootstrap config
  maps, and the objects of every installed namespace), and the whole plan when it returns without
  error.
\<close>

theorem delete_components_plan:
  assumes "getPXDaemonsets env ops w = (Ok dss, w1)"
    and "deleteAllPXComponents env ops c w = (r, w')"
  shows "\<exists>cms. prefix (filter isMutation (trace (deleteAllPXComponents env ops c) w))
      (deletionPlan c dss cms (installedNamespaces ops)) \<and>
    (r = Ok () \<longrightarrow> filter isMutation (trace (deleteAllPXComponents env ops c) w) =
      deletionPlan c dss cms (installedNamespaces ops))"
proof -
  have read: "issues isRead (getPXDaemonsets env ops)" by (intro issues_intro) simp
  have any: "issues (\<lambda>_. True) (deleteListed env ops c dss)"
    unfolding deleteListed_def deleteDaemonSets_def deleteClusterWide_def deleteBootstrapConfigMaps_def
      deleteFromNamespace_def deleteAll_def deleteOb_def ListConfigMap_def
    by (intro issues_intro) simp_all
  have tr: "trace (deleteAllPXComponents env ops c) w =
      trace (getPXDaemonsets env ops) w @ trace (deleteListed env ops c dss) w1"
    unfolding deleteAll_listed by (rule trace_bindE_Ok) (fact assms(1) read any)+
  have run: "deleteListed env ops c dss w1 = (r, w')"
    using assms unfolding deleteAll_listed by (simp add: bindE_def)
  from performs_run [OF performs_deleteListed run] show ?thesis
    unfolding tr by (auto simp: trace_reads [OF read])
qed

theorem delete_components_plan_witness:
  "\<exists>cms. filter isMutation (trace (deleteAllPXComponents exEnv exOps ''prod-px'') exStart) =
     deletionPlan ''prod-px'' [exPx ''portworx/oci-monitor:2.0.0'' (Some Map.empty)] cms [''kube-system'']"
proof -
  have "okAnd (\<lambda>a w1. True) (deleteAllPXComponents exEnv exOps ''prod-px'' exStart)"
    by code_simp
  then obtain w' where run: "deleteAllPXComponents exEnv exOps ''prod-px'' exStart = (Ok (), w')"
    by (auto simp: okAnd_iff)
  obtain w1 where "getPXDaemonsets exEnv exOps exStart =
      (Ok [exPx ''portworx/oci-monitor:2.0.0'' (Some Map.empty)], w1)"
    by (simp add: getPXDaemonsets_def exOps_def ListDaemonSets_def callList_def call_def bindE_def go_run
        exEnv_def controlledEnv_def exWorld_def trackerList_def exInstall_def listed_def matchesSelector_def pxListOpts_def
        decoders exPx_def)
  from delete_components_plan [OF this run] show ?thesis by (auto simp: exOps_def)
qed

text \<open>
  C24.  What the removal does to the cluster: on an API server that stores what it is given (the
  client-go tracker), for a provider with distinct, non-empty installed namespaces,
  \<open>deleteAllPXComponents\<close> succeeds and leaves exactly the objects that are not of the installation:
  the labelled daemon sets of the installed namespaces, the fixed cluster-wide and namespaced names,
  the config maps of the cluster, and those of the bring-up queue.
\<close>

theorem delete_components_store:
  assumes "trackerGood (srv w)" and "distinct (installedNamespaces ops)"
    and "[] \<notin> set (installedNamespaces ops)"
  shows "\<exists>w'. deleteAllPXComponents (trackerEnv other) ops c w = (Ok (), w') \<and> trackerGood (srv w') \<and>
    lookupOb (srv w') =
      lookupOb (srv w) |` (- installationKeys c (installedNamespaces ops) (lookupOb (srv w)))"
  using tracker.deleteAllPXComponents_run [of w ops other c] assms
  by (simp add: tracker.sound_def tracker.view_def)

theorem delete_components_store_witness:
  "\<exists>w'. deleteAllPXComponents (trackerEnv exServices) exOps ''prod-px'' exStart = (Ok (), w') \<and>
     lookupOb (srv w') (DaemonSetKind, ''kube-system'', ''portworx'') = None \<and>
     lookupOb (srv w') (NodeKind, [], ''node1'') \<noteq> None"
proof -
  let ?v = "lookupOb (srv exStart)"
  let ?ds = "exPx ''portworx/oci-monitor:2.0.0'' (Some Map.empty)"
  have good: "trackerGood (srv exStart)" by code_simp
  have "keyOf (KDaemonSet ?ds) = (DaemonSetKind, ''kube-system'', ''portworx'')"
    "?v (DaemonSetKind, ''kube-system'', ''portworx'') = Some (KDaemonSet ?ds)"
    "matchesSelector pxListOpts (KDaemonSet ?ds)" "Namespace (dsMeta ?ds) = ''kube-system''"
    by (simp_all add: exWorld_def exInstall_def keyOf_def exClass_def exClaim_def exDeployment_def exPx_def
        matchesSelector_def pxListOpts_def)
  then have ds: "(DaemonSetKind, ''kube-system'', ''portworx'') \<in> installationKeys ''prod-px'' [''kube-system''] ?v"
    by (auto simp: installationKeys_def pxDaemonSets_def intro!: image_eqI [where x = ?ds])
  have "?v (NodeKind, [], ''node1'') \<noteq> None" by code_simp
  moreover have "(NodeKind, [], ''node1'') \<notin> installationKeys ''prod-px'' [''kube-system''] ?v"
    by (auto simp: installationKeys_def pxDaemonSets_def planKeys_def clusterPlan_def bootstrapKeys_def
        namespacePlan_def keyOf_def)
  moreover obtain w' where
    "deleteAllPXComponents (trackerEnv exServices) exOps ''prod-px'' exStart = (Ok (), w')"
    "lookupOb (srv w') = ?v |` (- installationKeys ''prod-px'' [''kube-system''] ?v)"
    using delete_components_store [OF good, of exOps exServices "''prod-px''"] by (auto simp: exOps_def)
  ultimately show ?thesis using ds by simp
qed

lemma delete_request_kinds: "list_all (deleteRequest (wantsWipe opts)) (trace (Delete env ops opts) w)"
proof -
  have "issues (deleteRequest (wantsWipe opts)) (Delete env ops opts)"
    unfolding Delete_with
    by (intro issues_bindE issues_mono [OF issues_deleteWith] issues_mono [OF issues_config_read])
       (auto intro: deleteRequest_read)
  then show ?thesis by (rule issues_trace)
qed

text \<open>
  The wipe is best effort and comes last: if a removal returns an error, the node wiper was not
  created and no request went to the key-value store, so no data was wiped.
\<close>

lemma delete_error_wipes_nothing:
  assumes "Delete env ops opts w = (Err e, w')"
  shows "list_all (deleteRequest False) (trace (Delete env ops opts) w)"
proof -
  let ?D = "deleteRequest False"
  have cfg: "issues ?D (parseConfigFromDaemonset env ops)"
    by (rule issues_mono [OF issues_config_read]) (auto intro: deleteRequest_read)
  have comps: "issues ?D (deleteAllPXComponents env ops c)" for c
    by (intro issues_intro) simp_all
  show ?thesis
  proof (cases "\<exists>cfg w1. parseConfigFromDaemonset env ops w = (Ok cfg, w1)")
    case False
    then have "trace (Delete env ops opts) w = trace (parseConfigFromDaemonset env ops) w"
      unfolding Delete_with by (intro trace_bindE_stop) blast
    with issues_trace [OF cfg] show ?thesis by simp
  next
    case True
    then obtain cfg w1 where c: "parseConfigFromDaemonset env ops w = (Ok cfg, w1)" by blast
    have run: "deleteWith env ops opts cfg w1 = (Err e, w')" using assms c by (simp add: Delete_with bindE_def)
    have "list_all ?D (trace (deleteWith env ops opts cfg) w1)"
      by (rule deleteWith_error [OF run comps])
    with issues_trace [OF \<open>issues ?D (parseConfigFromDaemonset env ops)\<close>, of w] show ?thesis
      by (simp add: trace_Delete [OF c])
  qed
qed

text \<open>
  C25.  Whatever the services answer and however it ends, a removal updates and patches nothing; it
  creates nothing but the node wiper's daemon set, and that, like every request to the key-value
  store, only when the options ask for the wipe.  The wipe comes last: if the removal returns an error,
  then even if the wipe was asked for the node wiper was not created and no request went to the
  key-value store.
\<close>

theorem delete_requests:
  "list_all (deleteRequest (wantsWipe opts)) (trace (Delete env ops opts) w) \<and>
   (\<forall>e w'. Delete env ops opts w = (Err e, w') \<longrightarrow>
      list_all (deleteRequest False) (trace (Delete env ops opts) w))"
  using delete_request_kinds delete_error_wipes_nothing by blast

theorem delete_requests_witness:
  "list_all (deleteRequest False)
     (trace (Delete exEnv exOps (Some \<lparr>WipeCluster = True, WiperImage = [], WiperTag = []\<rparr>)) (exWorld []))"
proof -
  have "case fst (Delete exEnv exOps (Some \<lparr>WipeCluster = True, WiperImage = [], WiperTag = []\<rparr>) (exWorld [])) of
      Err e \<Rightarrow> True | _ \<Rightarrow> False"
    by code_simp
  then obtain e w' where
    "Delete exEnv exOps (Some \<lparr>WipeCluster = True, WiperImage = [], WiperTag = []\<rparr>) (exWorld []) = (Err e, w')"
    by (cases "Delete exEnv exOps (Some \<lparr>WipeCluster = True, WiperImage = [], WiperTag = []\<rparr>) (exWorld [])")
       (auto split: outcome.splits)
  then show ?thesis using delete_requests [of "Some \<lparr>WipeCluster = True, WiperImage = [], WiperTag = []\<rparr>" exEnv exOps
    "exWorld []"] by simp
qed

text \<open>
  C26.  The configuration read from the daemon set decides about the rest: if it cannot be read, the
  removal fails and has changed nothing; with the internal key-value store no request goes to any
  key-value store; and a tree removed there is the one of the configured cluster.
\<close>

theorem delete_config:
  assumes "parseConfigFromDaemonset env ops w = (Ok cfg, w1)"
  shows "(cfgErr cfg \<notin> {None, Some ErrUsingInternalEtcd} \<longrightarrow>
       (\<exists>e w'. Delete env ops opts w = (Err e, w')) \<and> filter isMutation (trace (Delete env ops opts) w) = []) \<and>
    (cfgErr cfg = Some ErrUsingInternalEtcd \<longrightarrow> filter isKvdbRequest (trace (Delete env ops opts) w) = []) \<and>
    (\<forall>t. ReqKvdbDeleteTree t \<in> set (trace (Delete env ops opts) w) \<longrightarrow> t = cfgClusterName cfg)"
proof -
  let ?c = "trace (parseConfigFromDaemonset env ops) w"
  let ?d = "trace (deleteWith env ops opts cfg) w1"
  have c: "isRead q \<and> \<not> isKvdbRequest q" if "q \<in> set ?c" for q
    using that issues_trace [OF issues_config_read, of env ops w] by (auto simp: list_all_iff)
  have d: "(\<forall>t. q = ReqKvdbDeleteTree t \<longrightarrow> t = cfgClusterName cfg) \<and>
      (cfgErr cfg = Some ErrUsingInternalEtcd \<longrightarrow> \<not> isKvdbRequest q)" if "q \<in> set ?d" for q
    using that issues_trace [OF issues_deleteWith, of opts cfg env ops w1] by (auto simp: list_all_iff)
  have fail: "(\<exists>e w'. Delete env ops opts w = (Err e, w')) \<and> ?d = []"
    if "cfgErr cfg \<notin> {None, Some ErrUsingInternalEtcd}"
    using that assms
    by (auto simp: Delete_with bindE_def deleteWith_def raiseE_def trace_def setPlatform_def)
  show ?thesis
    unfolding trace_Delete [OF assms]
    using c d fail by (fastforce simp: filter_empty_conv)
qed

theorem delete_config_witness:
  "filter isMutation (trace (Delete exEnv exOps None) (exWorld [])) = []"
proof -
  have "okAnd (\<lambda>cfg w1. cfgErr cfg = Some ErrNoPXDaemonset) (parseConfigFromDaemonset exEnv exOps (exWorld []))"
    by code_simp
  then obtain cfg w1 where "parseConfigFromDaemonset exEnv exOps (exWorld []) = (Ok cfg, w1)"
    and "cfgErr cfg = Some ErrNoPXDaemonset"
    by (auto simp: okAnd_iff)
  with delete_config [OF this(1), of None] show ?thesis by simp
qed

text \<open>
  C28.  The node wiper leaves nothing behind in the cluster: on the tracker, whether its daemon set
  becomes ready in time or not and whether an old one was there or not, after \<open>runPXNodeWiper\<close> every
  object is as before, except that there is no daemon set of the wiper.
\<close>

theorem node_wiper_cleans_up:
  assumes "trackerGood (srv w)"
  shows "\<exists>r w'. runPXNodeWiper (trackerEnv other) root img tag aff w = (r, w') \<and> trackerGood (srv w') \<and>
    lookupOb (srv w') = (lookupOb (srv w))(wiperKey := None)"
proof -
  obtain ds w1 where ds: "keyOf (KDaemonSet ds) = wiperKey" "Namespace (dsMeta ds) \<noteq> []" "srv w1 = srv w"
    and run: "runPXNodeWiper (trackerEnv other) root img tag aff w =
      runDaemonSet (trackerEnv other) ds pxNodeWiperTimeout w1"
    using runPXNodeWiper_runs by blast
  show ?thesis
    using tracker.runDaemonSet_run [of w1 ds other pxNodeWiperTimeout] assms ds
    unfolding run tracker.sound_def tracker.view_def by simp
qed

theorem node_wiper_cleans_up_witness:
  "\<exists>r w'. runPXNodeWiper (trackerEnv exServices) ''/'' [] [] None exStart = (r, w') \<and>
     lookupOb (srv w') wiperKey = None"
proof -
  have "trackerGood (srv exStart)" by code_simp
  from node_wiper_cleans_up [OF this, of exServices "''/''" "[]" "[]" None] show ?thesis by auto
qed

end
