(* ===== verification/Talisman.thy ===== *)
theory Talisman
  imports GoFlags DeleteProps
begin

text \<open>
  \<open>cmd/talisman/talisman.go\<close>: the command line, its three operations and the exit status.  The
  set-up of logging is a model of its own (\<open>LogSetup\<close>); here it is reduced to the level, which decides
  about the wiper's \<open>--debug\<close>.
\<close>

section \<open>Flags\<close>

record flagVars =
  newPXImage :: string
  newPXTag :: string
  newOCIMonImage :: string
  newOCIMonTag :: string
  wiperImage :: string
  wiperTag :: string
  operation :: string
  dockerRegSecret :: string
  kubeconfigPath :: string
  sharedAppsScaleDown :: string
  wipeCluster :: bool
  upgradeTimeoutPerNode :: int
  logFile :: string
  logLevelDebug :: bool
  logLevelTrace :: bool

definition pxOperationUpgrade :: string where [go_consts]: "pxOperationUpgrade = ''upgrade''"
definition pxOperationRestoreSharedApps :: string where [go_consts]:
  "pxOperationRestoreSharedApps = ''restoresharedapps''"
definition pxOperationDelete :: string where [go_consts]: "pxOperationDelete = ''delete''"

definition defaultFlags :: flagVars where
  "defaultFlags =
     \<lparr>newPXImage = [], newPXTag = [], newOCIMonImage = ''portworx/oci-monitor'', newOCIMonTag = [],
      wiperImage = [], wiperTag = [], operation = pxOperationUpgrade, dockerRegSecret = [],
      kubeconfigPath = [], sharedAppsScaleDown = SharedAppsScaleDownAuto, wipeCluster = False,
      upgradeTimeoutPerNode = 600, logFile = [], logLevelDebug = False, logLevelTrace = False\<rparr>"

definition flagTable :: "(string \<times> flagVars flag) list" where
  "flagTable =
     [(''operation'', StringFlag (\<lambda>v. operation_update (\<lambda>_. v))),
      (''ocimontag'', StringFlag (\<lambda>v. newOCIMonTag_update (\<lambda>_. v))),
      (''ocimonimage'', StringFlag (\<lambda>v. newOCIMonImage_update (\<lambda>_. v))),
      (''pximage'', StringFlag (\<lambda>v. newPXImage_update (\<lambda>_. v))),
      (''pxtag'', StringFlag (\<lambda>v. newPXTag_update (\<lambda>_. v))),
      (''kubeconfig'', StringFlag (\<lambda>v. kubeconfigPath_update (\<lambda>_. v))),
      (''dockerregsecret'', StringFlag (\<lambda>v. dockerRegSecret_update (\<lambda>_. v))),
      (''scaledownsharedapps'', StringFlag (\<lambda>v. sharedAppsScaleDown_update (\<lambda>_. v))),
      (''wipecluster'', BoolFlag (\<lambda>v. wipeCluster_update (\<lambda>_. v))),
      (''wiperimage'', StringFlag (\<lambda>v. wiperImage_update (\<lambda>_. v))),
      (''wipertag'', StringFlag (\<lambda>v. wiperTag_update (\<lambda>_. v))),
      (''upgradetimeoutpernode'', IntFlag (\<lambda>v. upgradeTimeoutPerNode_update (\<lambda>_. v))),
      (''log'', StringFlag (\<lambda>v. logFile_update (\<lambda>_. v))),
      (''debug'', BoolFlag (\<lambda>v. logLevelDebug_update (\<lambda>_. v))),
      (''trace'', BoolFlag (\<lambda>v. logLevelTrace_update (\<lambda>_. v)))]"

section \<open>The operations\<close>

text \<open>\<open>logrus.Fatalf\<close> ends the process with status 1; here it is the error of the operation.\<close>

definition Fatalf :: "string \<Rightarrow> ('w, 'a) go" where
  "Fatalf msg = raiseE (ErrorString msg)"

text \<open>\<^verbatim>\<open>x, err := m(); if err != nil { logrus.Fatalf(msg, err) }\<close>\<close>

definition orFatal :: "string \<Rightarrow> ('w, 'a) go \<Rightarrow> ('w, 'a) go" where
  "orFatal msg m =
     bindE (tryE m) (\<lambda>r. case r of Inl err \<Rightarrow> Fatalf (msg @ errorText err) | Inr x \<Rightarrow> returnE x)"

definition doUpgrade :: "'s env \<Rightarrow> flagVars \<Rightarrow> ('s world, unit) go" where
  "doUpgrade env fl =
     (if newOCIMonTag fl = [] then
        Fatalf (''error: new OCI monitor tag not specified for '' @ operation fl @ '' operation'')
      else
        bindE (orFatal ''failed to instantiate PX cluster provider. err: ''
                 (NewPXClusterProvider env (dockerRegSecret fl) (kubeconfigPath fl))) (\<lambda>inst.
        orFatal (''failed to upgrade portworx to version: '' @ newOCIMonTag fl @ ''. err: '')
          (Upgrade env inst
             (Some (clusterOfImages (newOCIMonImage fl) (newOCIMonTag fl) (newPXImage fl) (newPXTag fl)))
             (Some \<lparr>SharedAppsScaleDown = sharedAppsScaleDown fl,
                    TimeoutPerNode = upgradeTimeoutPerNode fl\<rparr>))))"

definition doRestoreSharedApps :: "'s env \<Rightarrow> flagVars \<Rightarrow> ('s world, unit) go" where
  "doRestoreSharedApps env fl =
     bindE (orFatal ''failed to restore shared apps. err: '' (New env (kubeconfigPath fl))) (\<lambda>_.
     orFatal ''failed to restore shared apps. err: '' (RestoreScaledAppsReplicas env))"

definition doDelete :: "'s env \<Rightarrow> flagVars \<Rightarrow> ('s world, unit) go" where
  "doDelete env fl =
     bindE (orFatal ''failed to instantiate PX cluster provider. err: ''
              (NewPXClusterProvider env (dockerRegSecret fl) (kubeconfigPath fl))) (\<lambda>inst.
     orFatal ''Failed to delete PX cluster. err: ''
       (Delete env inst
          (Some \<lparr>WipeCluster = wipeCluster fl, WiperImage = wiperImage fl, WiperTag = wiperTag fl\<rparr>)))"

text \<open>What \<open>main\<close> does with the parsed flags.\<close>

definition dispatch :: "'s env \<Rightarrow> flagVars \<Rightarrow> ('s world, unit) go" where
  "dispatch env fl =
     (if operation fl = [] then Fatalf ''error: no operation given for the PX cluster''
      else
        let env' = env\<lparr>debugLevel := logLevelTrace fl \<or> logLevelDebug fl\<rparr> in
        if operation fl = pxOperationUpgrade then doUpgrade env' fl
        else if operation fl = pxOperationRestoreSharedApps then doRestoreSharedApps env' fl
        else if operation fl = pxOperationDelete then doDelete env' fl
        else Fatalf (''error: invalid operation: '' @ operation fl))"

text \<open>
  The exit status: \<open>flag.Parse\<close> ends with 0 after \<open>-help\<close> and with 2 on wrong usage; a panic ends a Go
  program with 2.
\<close>

definition exitStatus :: "unit outcome \<Rightarrow> nat" where
  "exitStatus r = (case r of Ok _ \<Rightarrow> 0 | Err _ \<Rightarrow> 1 | Panic _ \<Rightarrow> 2 | Crash _ \<Rightarrow> 2)"

definition talismanMain :: "'s env \<Rightarrow> string list \<Rightarrow> 's world \<Rightarrow> nat \<times> 's world" where
  "talismanMain env args w =
     (case parseFlags (map_of flagTable) args defaultFlags of
        Parsed fl \<Rightarrow> (case dispatch env fl w of (r, w') \<Rightarrow> (exitStatus r, w'))
      | Help \<Rightarrow> (0, w)
      | BadUsage \<Rightarrow> (2, w))"

section \<open>Facts about the operations\<close>

lemma orFatal_Ok_iff: "orFatal msg m w = (Ok x, w') \<longleftrightarrow> m w = (Ok x, w')"
  by (auto simp: orFatal_def bindE_def tryE_def Fatalf_def raiseE_def returnE_def
      split: prod.splits outcome.splits)

lemma issues_orFatal [issues_intro]: "issuesOn rq P m \<Longrightarrow> issuesOn rq P (orFatal msg m)"
  unfolding orFatal_def Fatalf_def by (intro issues_intro)

lemma issues_NewPXClusterProvider: "issues isRead (NewPXClusterProvider env secret kubeconfig)"
  unfolding NewPXClusterProvider_def New_def ListDaemonSets_def
  by (intro issues_intro) simp_all

section \<open>Properties\<close>

definition boolWord :: "bool \<Rightarrow> string" where
  "boolWord b = (if b then ''true'' else ''false'')"

definition renderFlags :: "flagVars \<Rightarrow> string list" where
  "renderFlags fl =
     [renderFlag ''operation'' (operation fl), renderFlag ''ocimontag'' (newOCIMonTag fl),
      renderFlag ''ocimonimage'' (newOCIMonImage fl), renderFlag ''pximage'' (newPXImage fl),
      renderFlag ''pxtag'' (newPXTag fl), renderFlag ''kubeconfig'' (kubeconfigPath fl),
      renderFlag ''dockerregsecret'' (dockerRegSecret fl),
      renderFlag ''scaledownsharedapps'' (sharedAppsScaleDown fl),
      renderFlag ''wipecluster'' (boolWord (wipeCluster fl)), renderFlag ''wiperimage'' (wiperImage fl),
      renderFlag ''wipertag'' (wiperTag fl),
      renderFlag ''upgradetimeoutpernode'' (intString (upgradeTimeoutPerNode fl)),
      renderFlag ''log'' (logFile fl), renderFlag ''debug'' (boolWord (logLevelDebug fl)),
      renderFlag ''trace'' (boolWord (logLevelTrace fl))]"

lemma ParseBool_boolWord [simp]: "ParseBool (boolWord b) = Some b"
  by (simp add: boolWord_def)

text \<open>
  C32.  Every setting of the flags can be given on the command line: for any texts and truth values,
  and a timeout that fits 64 bits, parsing the flags written as \<open>-name=value\<close> gives exactly that setting.
\<close>

theorem flags_roundtrip:
  "inInt64 (upgradeTimeoutPerNode fl) \<Longrightarrow>
     parseFlags (map_of flagTable) (renderFlags fl) defaultFlags = Parsed fl"
  by (cases fl) (simp add: renderFlags_def parseFlags_render flagTable_def ParseInt_intString defaultFlags_def
      del: parseFlags.simps(2))

theorem flags_roundtrip_witness:
  "parseFlags (map_of flagTable) (renderFlags (defaultFlags\<lparr>newOCIMonTag := ''2.1.1''\<rparr>)) defaultFlags =
     Parsed (defaultFlags\<lparr>newOCIMonTag := ''2.1.1''\<rparr>)"
  by (rule flags_roundtrip) (simp add: defaultFlags_def inInt64_def)

text \<open>
  Exit status 0 means that the operation asked for was carried out: unless help was asked for,
  the provider or client was set up without error and \<open>Upgrade\<close>, \<open>RestoreScaledAppsReplicas\<close> or \<open>Delete\<close>,
  as the flags say, returned without error in the final world.
\<close>

lemma exit_status_zero:
  assumes "parseFlags (map_of flagTable) args defaultFlags = Parsed fl"
    and "talismanMain env args w = (0, w')"
  shows "\<exists>env'. env' = env\<lparr>debugLevel := logLevelTrace fl \<or> logLevelDebug fl\<rparr> \<and>
    (operation fl = ''upgrade'' \<and> newOCIMonTag fl \<noteq> [] \<and>
       (\<exists>inst w1. NewPXClusterProvider env' (dockerRegSecret fl) (kubeconfigPath fl) w = (Ok inst, w1) \<and>
          Upgrade env' inst
            (Some (clusterOfImages (newOCIMonImage fl) (newOCIMonTag fl) (newPXImage fl) (newPXTag fl)))
            (Some \<lparr>SharedAppsScaleDown = sharedAppsScaleDown fl, TimeoutPerNode = upgradeTimeoutPerNode fl\<rparr>) w1 =
            (Ok (), w')) \<or>
     operation fl = ''restoresharedapps'' \<and>
       (\<exists>w1. New env' (kubeconfigPath fl) w = (Ok (), w1) \<and> RestoreScaledAppsReplicas env' w1 = (Ok (), w')) \<or>
     operation fl = ''delete'' \<and>
       (\<exists>inst w1. NewPXClusterProvider env' (dockerRegSecret fl) (kubeconfigPath fl) w = (Ok inst, w1) \<and>
          Delete env' inst
            (Some \<lparr>WipeCluster = wipeCluster fl, WiperImage = wiperImage fl, WiperTag = wiperTag fl\<rparr>) w1 =
            (Ok (), w')))"
proof -
  obtain r where "dispatch env fl w = (r, w')" "exitStatus r = 0"
    using assms by (auto simp: talismanMain_def split: prod.splits)
  then have run: "dispatch env fl w = (Ok (), w')" by (cases r) (simp_all add: exitStatus_def)
  have "operation fl \<in> {''upgrade'', ''restoresharedapps'', ''delete''}"
    using run by (auto simp: dispatch_def Let_def Fatalf_def raiseE_def go_consts split: if_splits)
  then consider "operation fl = ''upgrade''" | "operation fl = ''restoresharedapps''" | "operation fl = ''delete''"
    by auto
  then show ?thesis
  proof cases
    case 1
    then have "doUpgrade (env\<lparr>debugLevel := logLevelTrace fl \<or> logLevelDebug fl\<rparr>) fl w = (Ok (), w')"
      using run by (simp add: dispatch_def Let_def go_consts)
    with 1 show ?thesis
      by (auto simp: doUpgrade_def bindE_Ok_iff orFatal_Ok_iff Fatalf_def raiseE_def split: if_splits)
  next
    case 2
    then have "doRestoreSharedApps (env\<lparr>debugLevel := logLevelTrace fl \<or> logLevelDebug fl\<rparr>) fl w = (Ok (), w')"
      using run by (simp add: dispatch_def Let_def go_consts)
    with 2 show ?thesis by (auto simp: doRestoreSharedApps_def bindE_Ok_iff orFatal_Ok_iff)
  next
    case 3
    then have "doDelete (env\<lparr>debugLevel := logLevelTrace fl \<or> logLevelDebug fl\<rparr>) fl w = (Ok (), w')"
      using run by (simp add: dispatch_def Let_def go_consts)
    with 3 show ?thesis by (auto simp: doDelete_def bindE_Ok_iff orFatal_Ok_iff)
  qed
qed

lemma exit_status_zero_witness:
  "\<exists>w1 w'. New (trackerEnv exServices) [] exStart = (Ok (), w1) \<and>
     RestoreScaledAppsReplicas (trackerEnv exServices) w1 = (Ok (), w')"
proof -
  let ?args = "[''--operation'', ''restoresharedapps'']"
  let ?fl = "defaultFlags\<lparr>operation := ''restoresharedapps''\<rparr>"
  have parse: "parseFlags (map_of flagTable) ?args defaultFlags = Parsed ?fl"
    by (simp add: flagText_def badName_def splitValue_def flagTable_def)
  have "fst (talismanMain (trackerEnv exServices) ?args exStart) = 0" by code_simp
  then obtain w' where "talismanMain (trackerEnv exServices) ?args exStart = (0, w')"
    by (metis prod.collapse)
  moreover have "(trackerEnv exServices)\<lparr>debugLevel := logLevelTrace ?fl \<or> logLevelDebug ?fl\<rparr> = trackerEnv exServices"
    by (simp add: trackerEnv_def defaultFlags_def)
  ultimately show ?thesis
    using exit_status_zero [OF parse] by (fastforce simp: defaultFlags_def)
qed

text \<open>
  C34.  What the command line refuses has no effect: an unknown or empty operation, and an upgrade
  without an OCI monitor tag (which is also what no arguments at all mean), end with status 1 and
  nothing was sent.
\<close>

theorem refused_command_line:
  assumes "parseFlags (map_of flagTable) args defaultFlags = Parsed fl"
    and "operation fl \<notin> {''upgrade'', ''restoresharedapps'', ''delete''} \<or>
      operation fl = ''upgrade'' \<and> newOCIMonTag fl = []"
  shows "talismanMain env args w = (1, w)"
  using assms
  by (auto simp: talismanMain_def dispatch_def doUpgrade_def Fatalf_def raiseE_def exitStatus_def Let_def go_consts)

theorem refused_command_line_witness: "talismanMain (trackerEnv exServices) [] exStart = (1, exStart)"
  by (rule refused_command_line [where fl = defaultFlags]) (simp_all add: defaultFlags_def go_consts)

end
