(* ===== verification/ProviderStore.thy ===== *)
theory ProviderStore
  imports DeleteProps
begin

text \<open>
  The provider and \<open>Delete\<close> against the store of an API server that obeys the laws of
  \<open>object_server\<close>: which namespaces the provider finds, and what is left after a removal.
\<close>

interpretation namespaces: object_kind NamespaceKind KNamespace "asMeta NamespaceKind"
proof unfold_locales
  fix ob assume "kindOf ob = NamespaceKind"
  then show "\<exists>x. ob = KNamespace x" by (cases ob) simp_all
qed (simp_all add: asMeta_def)

text \<open>The namespaces of the store with a Portworx daemon set.\<close>

definition pxNamespaces :: "store \<Rightarrow> string set" where
  "pxNamespaces v = {n. v (NamespaceKind, [], n) \<noteq> None \<and> pxDaemonSets v [n] \<noteq> {}}"

context object_server
begin

section \<open>More code that leaves the store alone\<close>

lemma quiet_call: "isRead q \<Longrightarrow> quiet (call env q)"
  unfolding quiet_def reads_def
proof (intro allI impI)
  fix w assume q: "isRead q" and w: "sound w"
  obtain r s' d where h: "handle env q (srv w) = (r, s', d)" by (cases "handle env q (srv w)") auto
  from call_read [OF w q h] show "\<exists>r w'. call env q w = (r, w') \<and> True \<and> view w' = view w \<and> sound w'" by blast
qed

lemma quiet_callDone: "isRead q \<Longrightarrow> quiet (callDone env q)"
  unfolding callDone_def by (rule quiet_bindE [OF quiet_call]) (auto intro!: quiet_intro split: reply.split)

lemma quiet_New: "quiet (New env kubeconfig)"
  unfolding New_def Getenv_def
  by (intro quiet_bindE quiet_tryE quiet_callDone)
     (auto intro!: quiet_intro quiet_call quiet_callDone split: sum.split)

lemma quiet_panicE: "quiet (panicE p)"
  by (simp add: quiet_def reads_def panicE_def)

lemma quiet_collectE: "(\<And>x. quiet (f x)) \<Longrightarrow> quiet (collectE f xs)"
  by (induction xs) (auto intro!: quiet_intro)

lemma quiet_extractFrom: "quiet (extractFrom env varName look4 ns vs)"
  by (induction vs) (auto intro!: quiet_intro simp: GetSecret_def split: option.split sum.split)

lemma quiet_parseConfig: "quiet (parseConfigFromDaemonset env ops)"
  unfolding parseConfigFromDaemonset_def configOf_def resolveCredentials_def extractEnv_def
    getPXDaemonsets_def ListDaemonSets_def Let_def
  by (intro quiet_bindE quiet_tryE quiet_collectE quiet_list)
     (auto intro!: quiet_intro quiet_extractFrom quiet_panicE split: sum.split list.split argsEnd.split prod.split)

section \<open>The provider\<close>

lemma reads_after_yields:
  assumes "yields m Q" and "\<And>a. reads (f a) (S a)" and "\<And>v a r. Q v a \<Longrightarrow> S a v r \<Longrightarrow> T v r"
  shows "reads (bindE m f) T"
  by (rule reads_weaken [OF reads_bindE [OF assms(1,2)]]) (auto dest: assms(3))

lemma reads_hasPx:
  "reads (bindE (ListDaemonSets env (Name ns)) (\<lambda>dss. returnE (if dss \<noteq> [] then [Name ns] else [])))
     (\<lambda>v r. Name ns \<noteq> [] \<longrightarrow> r = Ok (if pxDaemonSets v [Name ns] \<noteq> {} then [Name ns] else []))"
  unfolding ListDaemonSets_def
proof (rule reads_after_yields [OF yields_list [OF daemonSets.object_kind_axioms] reads_returnE], elim conjE)
  fix v :: store and dss r
  assume dss: "\<forall>x. x \<in> set dss \<longleftrightarrow> v (keyOf (KDaemonSet x)) = Some (KDaemonSet x) \<and>
      listed DaemonSetKind (Name ns) pxListOpts (KDaemonSet x)"
    and r: "r = Ok (if dss \<noteq> [] then [Name ns] else [])"
  show "Name ns \<noteq> [] \<longrightarrow> r = Ok (if pxDaemonSets v [Name ns] \<noteq> {} then [Name ns] else [])"
  proof
    assume "Name ns \<noteq> []"
    with dss have "pxDaemonSets v [Name ns] = set dss" by (auto simp: pxDaemonSets_def listed_def)
    with r show "r = Ok (if pxDaemonSets v [Name ns] \<noteq> {} then [Name ns] else [])" by simp
  qed
qed

lemma listed_namespaces:
  assumes v: "storeOk v" and d: "distinct nss"
    and nss: "\<And>m. m \<in> set nss \<longleftrightarrow> v (keyOf (KNamespace m)) = Some (KNamespace m) \<and>
      listed NamespaceKind [] [] (KNamespace m)"
  shows "distinct (map Name nss)" and "n \<in> Name ` set nss \<longleftrightarrow> v (NamespaceKind, [], n) \<noteq> None"
proof -
  have key: "v (NamespaceKind, [], Name m) = Some (KNamespace m)" if "m \<in> set nss" for m
  proof -
    have "v (keyOf (KNamespace m)) = Some (KNamespace m)" using nss that by simp
    moreover from this v have "wellScoped (KNamespace m)" unfolding storeOk_def by blast
    ultimately show ?thesis by (simp add: keyOf_def wellScoped_def)
  qed
  then have "inj_on Name (set nss)" by (metis (no_types, lifting) inj_onI kobject.inject(12) namespaces.enc_inject option.inject)
  with d show "distinct (map Name nss)" by (simp add: distinct_map)
  show "n \<in> Name ` set nss \<longleftrightarrow> v (NamespaceKind, [], n) \<noteq> None"
  proof
    assume "v (NamespaceKind, [], n) \<noteq> None"
    then obtain ob where ob: "v (NamespaceKind, [], n) = Some ob" by blast
    then have k: "keyOf ob = (NamespaceKind, [], n)" using v unfolding storeOk_def by blast
    then obtain m where "ob = KNamespace m" using namespaces.dec_kind [of ob] by (auto simp: keyOf_def)
    with ob k have "m \<in> set nss" "Name m = n" by (auto simp: nss keyOf_def listed_def matchesSelector_def)
    then show "n \<in> Name ` set nss" by blast
  qed (use key in auto)
qed

lemma provider_run:
  assumes w: "sound w" and new: "New env kubeconfig w = (Ok (), w0)"
    and named: "view w (NamespaceKind, [], []) = None"
  shows "\<exists>r w'. NewPXClusterProvider env secret kubeconfig w = (r, w') \<and> sound w' \<and> view w' = view w \<and>
    (if pxNamespaces (view w) = {} then r = Err ErrNoPXDaemonset
     else \<exists>inst. r = Ok inst \<and> dockerRegistrySecret inst = secret \<and> distinct (installedNamespaces inst) \<and>
       set (installedNamespaces inst) = pxNamespaces (view w))"
proof -
  let ?v = "view w"
  let ?G = "\<lambda>ns. if pxDaemonSets ?v [Name ns] \<noteq> {} then [Name ns] else []"
  let ?one = "\<lambda>ns. bindE (ListDaemonSets env (Name ns)) (\<lambda>dss. returnE (if dss \<noteq> [] then [Name ns] else []))"
  have 0: "sound w0" "view w0 = ?v" using quietD [OF quiet_New w new] by auto
  from readsD [OF yields_list [OF namespaces.object_kind_axioms] 0(1), of "[]" "[]"] obtain nss w1 where
    1: "callList env (ReqList NamespaceKind [] []) (asMeta NamespaceKind) w0 = (Ok nss, w1)" "sound w1"
      "view w1 = ?v" "storeOk ?v" "distinct nss"
      "\<And>m. m \<in> set nss \<longleftrightarrow> ?v (keyOf (KNamespace m)) = Some (KNamespace m) \<and>
         listed NamespaceKind [] [] (KNamespace m)"
    unfolding 0(2) by blast
  note names = listed_namespaces [OF 1(4,5,6)]
  have "\<forall>ns\<in>set nss. Name ns \<noteq> []" using names(2) [of "[]"] named by force
  with readsD [OF reads_collectE [where g = ?one and xs = nss, OF reads_hasPx] 1(2)] obtain w2 where
    2: "collectE ?one nss w1 = (Ok (concat (map ?G nss)), w2)" "sound w2" "view w2 = ?v"
    unfolding 1(3) by blast
  have "concat (map ?G nss) = filter (\<lambda>n. pxDaemonSets ?v [n] \<noteq> {}) (map Name nss)"
    by (induction nss) auto
  then have inst: "distinct (concat (map ?G nss))" "set (concat (map ?G nss)) = pxNamespaces ?v"
    using names by (auto simp: pxNamespaces_def)
  have "NewPXClusterProvider env secret kubeconfig w =
      (if concat (map ?G nss) = [] then raiseE ErrNoPXDaemonset
       else bindE (setPlatform platformTypeDefault) (\<lambda>_.
          returnE \<lparr>dockerRegistrySecret = secret, installedNamespaces = concat (map ?G nss)\<rparr>)) w2"
    using new 1(1) 2(1) by (simp add: NewPXClusterProvider_def bindE_def)
  with 2(2,3) inst show ?thesis
    by (cases "concat (map ?G nss) = []")
       (auto simp: raiseE_def bindE_def setPlatform_def returnE_def sound_def view_def)
qed

section \<open>Delete\<close>

lemma Delete_run:
  assumes w: "sound w" and ns: "distinct (installedNamespaces ops)" "[] \<notin> set (installedNamespaces ops)"
    and cfg: "parseConfigFromDaemonset env ops w = (Ok cfg, w1)" "cfgErr cfg \<in> {None, Some ErrUsingInternalEtcd}"
    and nowipe: "\<not> wantsWipe opts"
  shows "\<exists>w'. Delete env ops opts w = (Ok (), w') \<and> sound w' \<and>
    view w' = view w |` (- installationKeys (cfgClusterName cfg) (installedNamespaces ops) (view w))"
proof -
  let ?w2 = "w1\<lparr>platform := cfgPlatform cfg\<rparr>"
  have "sound w1" "view w1 = view w" using quietD [OF quiet_parseConfig w cfg(1)] by auto
  then have 2: "sound ?w2" "view ?w2 = view w" by (simp_all add: sound_def view_def)
  from deleteAllPXComponents_run [OF 2(1) ns, of "cfgClusterName cfg"] obtain w' where
    "deleteAllPXComponents env ops (cfgClusterName cfg) ?w2 = (Ok (), w')" "sound w'"
    "view w' = view w |` (- installationKeys (cfgClusterName cfg) (installedNamespaces ops) (view w))"
    unfolding 2(2) by blast
  with cfg nowipe show ?thesis
    by (auto simp: Delete_def bindE_def setPlatform_def wantsWipe_def returnE_def split: option.splits)
qed

end

end
