(* ===== verification/UpgradeStore.thy ===== *)
theory UpgradeStore
  imports ProviderStore RolloutProps
begin

text \<open>
  The upgrade against the store of an API server that obeys the laws of \<open>object_server\<close>: whatever
  else happens, only a fixed set of objects can be different afterwards, applications that were scaled
  down are back as they were, and a successful upgrade leaves every Portworx daemon set on the new image.
\<close>

section \<open>The objects an upgrade may change\<close>

abbreviation dsKey :: "DaemonSet \<Rightarrow> key" where "dsKey d \<equiv> keyOf (KDaemonSet d)"

definition upgradeKeys :: "store \<Rightarrow> string list \<Rightarrow> key set" where
  "upgradeKeys v nss =
     {(ClusterRoleKind, [], pxClusterRoleName), (NamespaceKind, [], pxSecretsNamespace),
      (RoleKind, pxSecretsNamespace, pxRoleName), (RoleBindingKind, pxSecretsNamespace, pxRoleBindingName)} \<union>
     dsKey ` pxDaemonSets v nss \<union>
     (\<Union>ns\<in>set nss. {(DaemonSetKind, ns, pxAPIDaemonset), (ServiceKind, ns, pxServiceName),
                     (ServiceKind, ns, pxAPIServiceName)})"

text \<open>Nothing else has changed, and the Portworx daemon sets are still the same ones.\<close>

definition upgradeFrame :: "string list \<Rightarrow> store \<Rightarrow> store \<Rightarrow> bool" where
  "upgradeFrame nss v0 v \<longleftrightarrow>
     (\<forall>key. key \<notin> upgradeKeys v0 nss \<longrightarrow> v key = v0 key) \<and>
     dsKey ` pxDaemonSets v nss = dsKey ` pxDaemonSets v0 nss"

definition runsImage :: "string \<Rightarrow> DaemonSet \<Rightarrow> bool" where
  "runsImage img d \<longleftrightarrow> (\<forall>c. pxContainer d = Some c \<longrightarrow> cImage c = img)"

definition upgraded :: "string \<Rightarrow> string list \<Rightarrow> store \<Rightarrow> bool" where
  "upgraded img nss v \<longleftrightarrow> (\<forall>d\<in>pxDaemonSets v nss. runsImage img d)"

lemma upgradeFrame_refl: "upgradeFrame nss v v"
  by (simp add: upgradeFrame_def)

lemma pxDaemonSets_cong:
  "(\<And>ns n. v' (DaemonSetKind, ns, n) = v (DaemonSetKind, ns, n)) \<Longrightarrow> pxDaemonSets v' nss = pxDaemonSets v nss"
  by (simp add: pxDaemonSets_def keyOf_def)

text \<open>Changes of single objects: another kind, a Portworx daemon set, the API daemon set.\<close>

lemma frame_other:
  assumes "upgradeFrame nss v0 v" "k \<noteq> DaemonSetKind" "(k, ns, n) \<in> upgradeKeys v0 nss"
    and v': "\<And>key. key \<noteq> (k, ns, n) \<Longrightarrow> v' key = v key"
  shows "upgradeFrame nss v0 v'" "upgraded img nss v' \<longleftrightarrow> upgraded img nss v"
proof -
  have px: "pxDaemonSets v' nss = pxDaemonSets v nss"
    by (rule pxDaemonSets_cong) (use assms(2) in \<open>simp add: v'\<close>)
  then show "upgraded img nss v' \<longleftrightarrow> upgraded img nss v" by (simp add: upgraded_def)
  show "upgradeFrame nss v0 v'"
    using assms(1,3) v' px unfolding upgradeFrame_def by metis
qed

lemma frame_api:
  assumes "upgradeFrame nss v0 v" "ns \<in> set nss" "v (DaemonSetKind, ns, pxAPIDaemonset) = None"
    and v': "v' = v((DaemonSetKind, ns, pxAPIDaemonset) \<mapsto> KDaemonSet (apiDaemonSet ns aff))"
  shows "upgradeFrame nss v0 v'" "upgraded img nss v' \<longleftrightarrow> upgraded img nss v"
proof -
  have "\<not> matchesSelector pxListOpts (KDaemonSet (apiDaemonSet ns aff))"
    by (simp add: matchesSelector_def apiDaemonSet_def metaNamed_def go_consts)
  then have px: "pxDaemonSets v' nss = pxDaemonSets v nss"
    using assms(3) by (auto simp: pxDaemonSets_def v')
  then show "upgraded img nss v' \<longleftrightarrow> upgraded img nss v" by (simp add: upgraded_def)
  have "(DaemonSetKind, ns, pxAPIDaemonset) \<in> upgradeKeys v0 nss" using assms(2) by (auto simp: upgradeKeys_def)
  with assms(1) px show "upgradeFrame nss v0 v'" unfolding upgradeFrame_def by (auto simp: v')
qed

lemma pxDaemonSets_update:
  assumes "old \<in> pxDaemonSets v nss" "dsKey d' = dsKey old" "Labels (dsMeta d') = Labels (dsMeta old)"
  shows "pxDaemonSets (v(dsKey old \<mapsto> KDaemonSet d')) nss = insert d' (pxDaemonSets v nss - {old})"
proof -
  have m: "matchesSelector pxListOpts (KDaemonSet d') \<longleftrightarrow> matchesSelector pxListOpts (KDaemonSet old)"
    using assms(3) by (simp add: matchesSelector_def split: list.split)
  have n: "Namespace (dsMeta d') = Namespace (dsMeta old)" using assms(2) by (simp add: keyOf_def)
  show ?thesis using assms(1,2) m n by (auto simp: pxDaemonSets_def)
qed

lemma frame_px:
  assumes "upgradeFrame nss v0 v" "old \<in> pxDaemonSets v nss" "dsKey d' = dsKey old"
    "Labels (dsMeta d') = Labels (dsMeta old)"
  shows "upgradeFrame nss v0 (v(dsKey old \<mapsto> KDaemonSet d'))"
proof -
  have "dsKey old \<in> upgradeKeys v0 nss"
    using assms(1,2) unfolding upgradeFrame_def upgradeKeys_def by blast
  moreover have "dsKey ` insert d' (pxDaemonSets v nss - {old}) = dsKey ` pxDaemonSets v nss"
    using assms(2,3) by (auto simp: pxDaemonSets_def image_iff)
  ultimately show ?thesis
    using assms(1) unfolding upgradeFrame_def pxDaemonSets_update [OF assms(2-4)] by auto
qed

interpretation services: object_kind ServiceKind KService asService
proof unfold_locales
  fix ob assume "kindOf ob = ServiceKind"
  then show "\<exists>x. ob = KService x" by (cases ob) simp_all
qed (simp_all add: decoders)

text \<open>The scale-down and the restore depend on four kinds of objects, none of which an upgrade changes.\<close>

definition appKind :: "kind \<Rightarrow> bool" where
  "appKind k \<longleftrightarrow> k \<in> {DeploymentKind, StatefulSetKind, PVCKind, StorageClassKind}"

lemma onShared_cong:
  assumes same: "\<And>k ns n. appKind k \<Longrightarrow> v' (k, ns, n) = v (k, ns, n)"
  shows "sharedDeployments v' = sharedDeployments v" "sharedStatefulSets v' = sharedStatefulSets v"
    and "appKind (fst key) \<Longrightarrow> onShared f g v' key = onShared f g v key"
proof -
  have c: "hasClass v' = hasClass v"
    by (intro ext) (simp add: hasClass_def classOf_def same appKind_def)
  have s: "sharedClass v' = sharedClass v"
    by (intro ext) (simp add: sharedClass_def same appKind_def)
  have vol: "volumeHasClass v' = volumeHasClass v"
    by (intro ext) (auto simp: volumeHasClass_def c same appKind_def split: option.split)
  show d: "sharedDeployments v' = sharedDeployments v" and t: "sharedStatefulSets v' = sharedStatefulSets v"
    by (simp_all add: sharedDeployments_def sharedStatefulSets_def deploymentUses_def statefulSetUses_def
        c s vol keyOf_def same appKind_def)
  show "onShared f g v' key = onShared f g v key" if "appKind (fst key)"
    using that same [of "fst key" "fst (snd key)" "snd (snd key)"] by (simp add: onShared_def d t)
qed

lemma upgradeKeys_noApp: "key \<in> upgradeKeys v nss \<Longrightarrow> \<not> appKind (fst key)"
  by (auto simp: upgradeKeys_def appKind_def keyOf_def)

lemma pxDaemonSets_onShared [simp]: "pxDaemonSets (onShared f g v) nss = pxDaemonSets v nss"
  by (rule pxDaemonSets_cong) (simp add: onShared_other)

text \<open>The frame of an upgrade between a scale-down and a restore is a frame without them.\<close>

lemma frame_restored:
  assumes P: "\<And>d. d \<in> sharedDeployments v \<Longrightarrow> depReplicas d \<noteq> None \<and> freshMeta (depMeta d)"
    and Q: "\<And>s. s \<in> sharedStatefulSets v \<Longrightarrow> ssReplicas s \<noteq> None \<and> freshMeta (ssMeta s)"
    and f: "upgradeFrame nss (scaledStore v) v3"
  shows "upgradeFrame nss v (restoredStore v3)" "upgraded img nss (restoredStore v3) \<longleftrightarrow> upgraded img nss v3"
    and "sharedDeployments v3 = sharedDeployments (scaledStore v)"
    and "sharedStatefulSets v3 = sharedStatefulSets (scaledStore v)"
proof -
  have K: "upgradeKeys (scaledStore v) nss = upgradeKeys v nss" by (simp add: upgradeKeys_def)
  have same: "v3 (k, ns, n) = scaledStore v (k, ns, n)" if "appKind k" for k ns n
    using f upgradeKeys_noApp [of "(k, ns, n)" "scaledStore v" nss] that unfolding upgradeFrame_def by auto
  note cong = onShared_cong [of v3 "scaledStore v", OF same]
  show "sharedDeployments v3 = sharedDeployments (scaledStore v)"
    "sharedStatefulSets v3 = sharedStatefulSets (scaledStore v)" by (rule cong(1), assumption) (rule cong(2))
  show "upgraded img nss (restoredStore v3) \<longleftrightarrow> upgraded img nss v3" by (simp add: upgraded_def)
  have "restoredStore v3 key = v key" if key: "key \<notin> upgradeKeys v nss" for key
  proof (cases "appKind (fst key)")
    case True
    then show ?thesis using cong(3) restored_scaled [of v] P Q by simp
  next
    case False
    then have "fst key \<noteq> DeploymentKind" "fst key \<noteq> StatefulSetKind" by (auto simp: appKind_def)
    moreover have "v3 key = scaledStore v key" using f key K unfolding upgradeFrame_def by blast
    ultimately show ?thesis by (simp add: onShared_other)
  qed
  then show "upgradeFrame nss v (restoredStore v3)" using f by (simp add: upgradeFrame_def)
qed

section \<open>Partial correctness over the store\<close>

context object_server
begin

text \<open>
  \<open>ensures P m Q E\<close>: from a sound world whose store satisfies \<open>P\<close>, a result \<open>a\<close> of \<open>m\<close> leaves a store
  with \<open>Q a\<close>, and every other way to end one with \<open>E\<close>.
\<close>

definition ensures ::
  "(store \<Rightarrow> bool) \<Rightarrow> ('s world, 'a) go \<Rightarrow> ('a \<Rightarrow> store \<Rightarrow> bool) \<Rightarrow> (store \<Rightarrow> bool) \<Rightarrow> bool" where
  "ensures P m Q E \<longleftrightarrow>
     (\<forall>w r w'. sound w \<longrightarrow> P (view w) \<longrightarrow> m w = (r, w') \<longrightarrow>
        sound w' \<and> (case r of Ok a \<Rightarrow> Q a (view w') | _ \<Rightarrow> E (view w')))"

lemma ensuresI:
  assumes "\<And>w r w'. sound w \<Longrightarrow> P (view w) \<Longrightarrow> m w = (r, w') \<Longrightarrow>
    sound w' \<and> (case r of Ok a \<Rightarrow> Q a (view w') | _ \<Rightarrow> E (view w'))"
  shows "ensures P m Q E"
  using assms by (simp add: ensures_def)

lemma ensuresD:
  assumes "ensures P m Q E" "sound w" "P (view w)" "m w = (r, w')"
  shows "sound w'" "r = Ok a \<Longrightarrow> Q a (view w')" "(\<And>a. r \<noteq> Ok a) \<Longrightarrow> E (view w')"
proof -
  have *: "sound w' \<and> (case r of Ok a \<Rightarrow> Q a (view w') | _ \<Rightarrow> E (view w'))"
    using assms unfolding ensures_def by blast
  then show "sound w'" ..
  show "Q a (view w')" if "r = Ok a" using * that by simp
  show "E (view w')" if "\<And>a. r \<noteq> Ok a" using * that by (cases r) auto
qed

lemma ensures_weaken:
  assumes "ensures P m Q E" "\<And>v. P' v \<Longrightarrow> P v" "\<And>a v. Q a v \<Longrightarrow> Q' a v" "\<And>v. E v \<Longrightarrow> E' v"
  shows "ensures P' m Q' E'"
proof (rule ensuresI)
  fix w r w' assume run: "sound w" "P' (view w)" "m w = (r, w')"
  note d = ensuresD [OF assms(1) run(1) assms(2) [OF run(2)] run(3)]
  show "sound w' \<and> (case r of Ok a \<Rightarrow> Q' a (view w') | _ \<Rightarrow> E' (view w'))"
    using d assms(3,4) by (cases r) auto
qed

lemma ensures_quiet: "quiet m \<Longrightarrow> ensures P m (\<lambda>_. P) P"
  by (rule ensuresI) (auto dest: quietD split: outcome.split)

lemma ensures_bindE:
  assumes m: "ensures P m Q E" and f: "\<And>a. ensures (Q a) (f a) R E"
  shows "ensures P (bindE m f) R E"
proof (rule ensuresI)
  fix w r w' assume run: "sound w" "P (view w)" "bindE m f w = (r, w')"
  obtain r1 w1 where 1: "m w = (r1, w1)" by (cases "m w")
  note d = ensuresD [OF m run(1,2) 1]
  show "sound w' \<and> (case r of Ok a \<Rightarrow> R a (view w') | _ \<Rightarrow> E (view w'))"
  proof (cases r1)
    case (Ok a)
    then have "f a w1 = (r, w')" using run(3) 1 by (simp add: bindE_def)
    from f [of a] d(1) d(2) [OF Ok] this show ?thesis unfolding ensures_def by blast
  qed (use d run(3) 1 in \<open>auto simp: bindE_def\<close>)
qed

lemma ensures_tryE:
  assumes "ensures P m Q E"
  shows "ensures P (tryE m) (\<lambda>r v. case r of Inr a \<Rightarrow> Q a v | Inl e \<Rightarrow> E v) E"
proof (rule ensuresI)
  fix w r w' assume run: "sound w" "P (view w)" "tryE m w = (r, w')"
  obtain r1 w1 where 1: "m w = (r1, w1)" by (cases "m w")
  note d = ensuresD [OF assms run(1,2) 1]
  show "sound w' \<and> (case r of Ok r \<Rightarrow> case r of Inr a \<Rightarrow> Q a (view w') | Inl e \<Rightarrow> E (view w') | _ \<Rightarrow> E (view w'))"
    using d run(3) 1 by (cases r1) (auto simp: tryE_def)
qed

lemma ensures_forE:
  assumes "\<And>x. x \<in> set xs \<Longrightarrow> ensures P (f x) (\<lambda>_. P) E"
  shows "ensures P (forE f xs) (\<lambda>_. P) E"
  using assms
proof (induction xs)
  case Nil
  show ?case by (rule ensuresI) (auto simp: returnE_def)
next
  case (Cons x xs)
  show ?case unfolding forE.simps
    by (rule ensures_bindE [where Q = "\<lambda>_. P"]) (use Cons in simp_all)
qed

lemma ensures_sum:
  "(\<And>e. ensures (P (Inl e)) (f e) Q E) \<Longrightarrow> (\<And>a. ensures (P (Inr a)) (g a) Q E) \<Longrightarrow>
     ensures (P x) (case x of Inl e \<Rightarrow> f e | Inr a \<Rightarrow> g a) Q E"
  by (cases x) simp_all

section \<open>Requests\<close>

lemma callDone_run:
  assumes "sound w" "callDone env q w = (r, w')"
  shows "sound w'" "\<exists>s d x. handle env q (srv w) = (x, s, d) \<and> view w' = objs s \<and>
    r = (case x of RErr e \<Rightarrow> Err e | _ \<Rightarrow> Ok ())"
  using assms kept [of "srv w" q]
  by (auto simp: callDone_def call_def bindE_def sound_def view_def go_run split: prod.splits reply.splits)

lemma callObj_run:
  assumes "sound w" "callObj env q dec w = (r, w')"
  shows "sound w'" "\<exists>s d x. handle env q (srv w) = (x, s, d) \<and> view w' = objs s \<and>
    (\<forall>e. x = RErr e \<longrightarrow> r = Err e)"
  using assms kept [of "srv w" q]
  by (auto simp: callObj_def call_def bindE_def sound_def view_def go_run split: prod.splits reply.splits option.splits)

lemma update_view:
  assumes "sound w" "handle env (ReqUpdate ob) (srv w) = (x, s, d)"
  shows "objs s = view w \<and> (\<exists>e. x = RErr e) \<or>
    (\<exists>old ob'. view w (keyOf ob) = Some old \<and> accepted ob ob' \<and> objs s = (view w)(keyOf ob \<mapsto> ob'))"
  using assms update [of "srv w" ob _ x s d] update_none [of "srv w" ob x s d]
  by (cases "objs (srv w) (keyOf ob)") (auto simp: sound_def view_def)

lemma create_view:
  assumes "sound w" "wellScoped ob" "handle env (ReqCreate ob) (srv w) = (x, s, d)"
  shows "objs s = view w \<or> view w (keyOf ob) = None \<and> objs s = (view w)(keyOf ob \<mapsto> ob)"
  using assms create [of "srv w" ob x s d] by (auto simp: sound_def view_def split: option.splits)

lemma ensures_update:
  assumes "\<And>v old ob'. storeOk v \<Longrightarrow> P v \<Longrightarrow> v (keyOf ob) = Some old \<Longrightarrow> accepted ob ob' \<Longrightarrow> P (v(keyOf ob \<mapsto> ob'))"
  shows "ensures P (callDone env (ReqUpdate ob)) (\<lambda>_. P) P"
proof (rule ensuresI)
  fix w r w' assume run: "sound w" "P (view w)" "callDone env (ReqUpdate ob) w = (r, w')"
  obtain s d x where h: "handle env (ReqUpdate ob) (srv w) = (x, s, d)" "view w' = objs s"
    using callDone_run(2) [OF run(1,3)] by blast
  have "P (view w')"
    using update_view [OF run(1) h(1)] assms [OF storeOk_view [OF run(1)] run(2)] run(2) h(2) by auto
  then show "sound w' \<and> (case r of Ok _ \<Rightarrow> P (view w') | _ \<Rightarrow> P (view w'))"
    using callDone_run(1) [OF run(1,3)] by (cases r) simp_all
qed

lemma ensures_create:
  assumes "wellScoped ob" "\<And>v. P v \<Longrightarrow> v (keyOf ob) = None \<Longrightarrow> P (v(keyOf ob \<mapsto> ob))"
  shows "ensures P (callDone env (ReqCreate ob)) (\<lambda>_. P) P"
proof (rule ensuresI)
  fix w r w' assume run: "sound w" "P (view w)" "callDone env (ReqCreate ob) w = (r, w')"
  obtain s d x where h: "handle env (ReqCreate ob) (srv w) = (x, s, d)" "view w' = objs s"
    using callDone_run(2) [OF run(1,3)] by blast
  have "P (view w')"
    using create_view [OF run(1) assms(1) h(1)] assms(2) [OF run(2)] run(2) h(2) by auto
  then show "sound w' \<and> (case r of Ok _ \<Rightarrow> P (view w') | _ \<Rightarrow> P (view w'))"
    using callDone_run(1) [OF run(1,3)] by (cases r) simp_all
qed

lemma ensures_patch:
  assumes "\<And>v v'. P v \<Longrightarrow> (\<And>key. key \<noteq> (ServiceKind, ns, n) \<Longrightarrow> v' key = v key) \<Longrightarrow> P v'"
  shows "ensures P (callObj env (ReqPatchPorts ns n ports) dec) (\<lambda>_. P) P"
proof (rule ensuresI)
  fix w r w' assume run: "sound w" "P (view w)" "callObj env (ReqPatchPorts ns n ports) dec w = (r, w')"
  obtain s d x where h: "handle env (ReqPatchPorts ns n ports) (srv w) = (x, s, d)" "view w' = objs s"
    using callObj_run(2) [OF run(1,3)] by blast
  have "P (view w')"
    by (rule assms [OF run(2)]) (use patch [OF _ h(1)] run(1) h(2) in \<open>simp add: sound_def view_def\<close>)
  then show "sound w' \<and> (case r of Ok _ \<Rightarrow> P (view w') | _ \<Rightarrow> P (view w'))"
    using callObj_run(1) [OF run(1,3)] by (cases r) simp_all
qed

lemma ensures_get:
  assumes "object_kind k enc dec"
  shows "ensures P (callObj env (ReqGet k ns n) dec)
    (\<lambda>x v. P v \<and> keyOf (enc x) = (k, ns, n) \<and> v (k, ns, n) = Some (enc x)) P"
proof (rule ensuresI)
  fix w r w' assume run: "sound w" "P (view w)" "callObj env (ReqGet k ns n) dec w = (r, w')"
  from readsD [OF reads_get run(1), of k ns n dec] run(3) have
    r: "case view w (k, ns, n) of None \<Rightarrow> \<exists>msg. r = Err (StatusError NotFound msg)
       | Some ob \<Rightarrow> (case dec ob of Some x \<Rightarrow> r = Ok x | None \<Rightarrow> r = Err decodeError)" and
    s: "view w' = view w" "sound w'" by auto
  show "sound w' \<and> (case r of
      Ok x \<Rightarrow> P (view w') \<and> keyOf (enc x) = (k, ns, n) \<and> view w' (k, ns, n) = Some (enc x) | _ \<Rightarrow> P (view w'))"
  proof (cases "view w (k, ns, n)")
    case (Some ob)
    have "keyOf ob = (k, ns, n)" using storeOk_view [OF run(1)] Some by (auto simp: storeOk_def)
    moreover from this obtain x where "dec ob = Some x" "ob = enc x"
      using object_kind.dec_kindE [OF assms, of ob] by (auto simp: keyOf_def)
    ultimately show ?thesis using r s run(2) Some by simp
  qed (use r s run(2) in auto)
qed

section \<open>The steps of the upgrade\<close>

text \<open>
  The invariant of the steps: the frame and, if \<open>fin\<close>, every Portworx daemon set upgraded.
\<close>

definition steady :: "bool \<Rightarrow> string \<Rightarrow> string list \<Rightarrow> store \<Rightarrow> store \<Rightarrow> bool" where
  "steady fin img nss v0 v \<longleftrightarrow> upgradeFrame nss v0 v \<and> (fin \<longrightarrow> upgraded img nss v)"

lemma steady_other:
  assumes "steady fin img nss v0 v" "k \<noteq> DaemonSetKind" "(k, ns, n) \<in> upgradeKeys v0 nss"
    "\<And>key. key \<noteq> (k, ns, n) \<Longrightarrow> v' key = v key"
  shows "steady fin img nss v0 v'"
  using assms(1) frame_other [OF _ assms(2,3), of v v'] assms(4) unfolding steady_def by blast

lemma ensures_update_other:
  assumes "kindOf ob \<noteq> DaemonSetKind" "keyOf ob \<in> upgradeKeys v0 nss"
  shows "ensures (steady fin img nss v0) (callDone env (ReqUpdate ob)) (\<lambda>_. steady fin img nss v0)
    (steady fin img nss v0)"
  using assms by (intro ensures_update) (erule steady_other [where k = "kindOf ob"], auto simp: keyOf_def)

lemma ensures_create_other:
  assumes "kindOf ob \<noteq> DaemonSetKind" "keyOf ob \<in> upgradeKeys v0 nss" "wellScoped ob"
  shows "ensures (steady fin img nss v0) (callDone env (ReqCreate ob)) (\<lambda>_. steady fin img nss v0)
    (steady fin img nss v0)"
  using assms by (intro ensures_create) (assumption, erule steady_other [where k = "kindOf ob"], auto simp: keyOf_def)

lemma ensures_createOrUpdate:
  assumes "kindOf ob \<noteq> DaemonSetKind" "keyOf ob \<in> upgradeKeys v0 nss" "wellScoped ob"
  shows "ensures (steady fin img nss v0) (createOrUpdate env ob) (\<lambda>_. steady fin img nss v0)
    (steady fin img nss v0)"
proof -
  let ?P = "steady fin img nss v0"
  have 1: "ensures ?P (tryE (callDone env (ReqCreate ob))) (\<lambda>_. ?P) ?P"
    by (rule ensures_weaken [OF ensures_tryE [OF ensures_create_other [OF assms]]]) (auto split: sum.splits)
  show ?thesis unfolding createOrUpdate_def
    by (rule ensures_bindE [OF 1])
       (use ensures_update_other [OF assms(1,2)] ensures_quiet [OF quiet_returnE] ensures_quiet [OF quiet_raiseE]
        in \<open>auto split: sum.split\<close>)
qed

lemma ensures_permissions:
  "ensures (steady fin img nss v0) (updatePxSecretsPermissions env ops) (\<lambda>_. steady fin img nss v0)
    (steady fin img nss v0)"
proof -
  let ?P = "steady fin img nss v0"
  have keys: "keyOf (KNamespace (metaNamed [] pxSecretsNamespace None)) \<in> upgradeKeys v0 nss"
    "keyOf (KRole pxSecretsRole) \<in> upgradeKeys v0 nss"
    "keyOf (KRoleBinding (pxSecretsRoleBinding ns)) \<in> upgradeKeys v0 nss" for ns
    by (simp_all add: upgradeKeys_def keyOf_def metaNamed_def pxSecretsRole_def pxSecretsRoleBinding_def)
  have scoped: "wellScoped (KNamespace (metaNamed [] pxSecretsNamespace None))"
    "wellScoped (KRole pxSecretsRole)" "wellScoped (KRoleBinding (pxSecretsRoleBinding ns))" for ns
    by (simp_all add: wellScoped_def metaNamed_def)
  have n0: "ensures ?P (tryE (callDone env (ReqCreate (KNamespace (metaNamed [] pxSecretsNamespace None))))) (\<lambda>_. ?P) ?P"
    by (rule ensures_weaken [OF ensures_tryE [OF ensures_create_other [OF _ keys(1) scoped(1)]]])
       (auto split: sum.splits)
  have n: "ensures ?P (ensureNamespace env pxSecretsNamespace) (\<lambda>_. ?P) ?P"
    unfolding ensureNamespace_def
    by (rule ensures_bindE [OF n0])
       (use ensures_quiet [OF quiet_returnE] ensures_quiet [OF quiet_raiseE] in \<open>auto split: sum.split\<close>)
  have b: "ensures ?P (case installedNamespaces ops of [] \<Rightarrow> panicE indexPanic
      | ns # _ \<Rightarrow> createOrUpdateRoleBinding env (pxSecretsRoleBinding ns)) (\<lambda>_. ?P) ?P"
    using ensures_quiet [OF quiet_panicE] ensures_createOrUpdate [OF _ keys(3) scoped(3)]
    by (auto simp: createOrUpdateRoleBinding_def split: list.split)
  show ?thesis
    unfolding updatePxSecretsPermissions_def createOrUpdateRole_def
    by (rule ensures_bindE [OF n ensures_bindE [OF ensures_createOrUpdate [OF _ keys(2) scoped(2)] b]]) simp
qed

text \<open>The loop over the listed daemon sets, which are the Portworx daemon sets of the store.\<close>

lemma plan_target:
  assumes "planDaemonSet img ds = DsUpdate ds' g"
  shows "dsKey ds' = dsKey ds" "Labels (dsMeta ds') = Labels (dsMeta ds)" "runsImage img ds'"
proof -
  show "dsKey ds' = dsKey ds" "Labels (dsMeta ds') = Labels (dsMeta ds)"
    using assms
    by (auto simp: planDaemonSet_def setChangeCause_def setAnnotations_def keyOf_def Let_def
        split: option.splits if_splits)
  show "runsImage img ds'"
    using assms
    by (auto simp: planDaemonSet_def runsImage_def pxContainer_updated Let_def split: option.splits if_splits)
qed

lemma plan_skip: "planDaemonSet img ds = DsSkip g \<Longrightarrow> runsImage img ds"
  by (auto simp: planDaemonSet_def runsImage_def Let_def split: option.splits if_splits)

lemma accepted_ds:
  assumes "accepted (KDaemonSet d) ob"
  obtains d' where "ob = KDaemonSet d'" "dsKey d' = dsKey d" "Labels (dsMeta d') = Labels (dsMeta d)"
    "runsImage img d' \<longleftrightarrow> runsImage img d"
  using assms by (auto simp: accepted_def keyOf_def runsImage_def pxContainer_def)

lemma update_ds_run:
  assumes "sound w" "callObj env (ReqUpdate (KDaemonSet ds')) asDaemonSet w = (r, w')"
    and frame: "upgradeFrame nss v0 (view w)" and ds: "ds \<in> pxDaemonSets (view w) nss"
    and ds': "dsKey ds' = dsKey ds" "Labels (dsMeta ds') = Labels (dsMeta ds)" "runsImage img ds'"
  shows "sound w' \<and> upgradeFrame nss v0 (view w') \<and>
    (\<forall>d. d \<noteq> ds \<longrightarrow> d \<in> pxDaemonSets (view w) nss \<longrightarrow> d \<in> pxDaemonSets (view w') nss) \<and>
    (\<forall>d \<in> pxDaemonSets (view w') nss. d \<in> pxDaemonSets (view w) nss - {ds} \<or> runsImage img d)"
proof -
  have key: "view w (dsKey ds) = Some (KDaemonSet ds)" using ds by (simp add: pxDaemonSets_def)
  obtain s d x where h: "handle env (ReqUpdate (KDaemonSet ds')) (srv w) = (x, s, d)" "view w' = objs s"
    using callObj_run(2) [OF assms(1,2)] by blast
  obtain ob' where ob': "accepted (KDaemonSet ds') ob'" "view w' = (view w)(dsKey ds \<mapsto> ob')"
    using update [of "srv w" "KDaemonSet ds'" "KDaemonSet ds" x s d] assms(1) h key ds'(1)
    by (auto simp: sound_def view_def)
  obtain d' where d': "ob' = KDaemonSet d'" "dsKey d' = dsKey ds'" "Labels (dsMeta d') = Labels (dsMeta ds')"
    "runsImage img d' \<longleftrightarrow> runsImage img ds'" by (rule accepted_ds [OF ob'(1)])
  have k: "dsKey d' = dsKey ds" "Labels (dsMeta d') = Labels (dsMeta ds)" using d' ds' by simp_all
  have px: "pxDaemonSets (view w') nss = insert d' (pxDaemonSets (view w) nss - {ds})"
    unfolding ob'(2) d'(1) by (rule pxDaemonSets_update [OF ds k])
  have "upgradeFrame nss v0 (view w')" unfolding ob'(2) d'(1) by (rule frame_px [OF frame ds k])
  then show ?thesis using callObj_run(1) [OF assms(1,2)] px d'(4) ds'(3) by auto
qed

lemma upgradeLoop_run:
  assumes "sound w" "upgradeLoop env img dss (l, w) = (r, l', w')" "upgradeFrame nss v0 (view w)" "distinct dss"
    and "set dss \<subseteq> pxDaemonSets (view w) nss"
    and "\<forall>d \<in> pxDaemonSets (view w) nss. d \<in> set dss \<or> runsImage img d"
  shows "sound w' \<and> upgradeFrame nss v0 (view w') \<and> uvDss l' = uvDss l \<and>
    (r = Ok (Inr ()) \<longrightarrow> upgraded img nss (view w'))"
  using assms
proof (induction dss arbitrary: l w)
  case Nil
  then show ?case by (auto simp: returnE_def upgraded_def)
next
  case (Cons ds dss)
  show ?case
  proof (cases "planDaemonSet img ds")
    case (DsSkip g)
    have run: "upgradeLoop env img dss (expect (UID (dsMeta ds)) g l, w) = (r, l', w')"
      using Cons.prems(2) DsSkip by (simp add: bindE_def modifyVars_def)
    have "\<forall>d \<in> pxDaemonSets (view w) nss. d \<in> set dss \<or> runsImage img d"
      using Cons.prems(6) plan_skip [OF DsSkip] by auto
    from Cons.IH [OF Cons.prems(1) run Cons.prems(3) _ _ this] Cons.prems(4,5)
    show ?thesis by (simp add: expect_def)
  next
    case (DsUpdate ds' gen)
    let ?f = "case gen of Some g \<Rightarrow> expect (UID (dsMeta ds)) g | None \<Rightarrow> (\<lambda>v. v)"
    have f: "uvDss (?f l) = uvDss l" by (simp add: expect_def split: option.split)
    obtain r1 w1 where u: "callObj env (ReqUpdate (KDaemonSet ds')) asDaemonSet w = (r1, w1)"
      by (cases "callObj env (ReqUpdate (KDaemonSet ds')) asDaemonSet w")
    have ds: "ds \<in> pxDaemonSets (view w) nss" using Cons.prems(5) by simp
    note step = update_ds_run [OF Cons.prems(1) u Cons.prems(3) ds plan_target [OF DsUpdate]]
    show ?thesis
    proof (cases r1)
      case (Ok d)
      have run: "upgradeLoop env img dss (?f l, w1) = (r, l', w')"
        using Cons.prems(2) DsUpdate u Ok by (simp add: bindE_def modifyVars_def onWorld_def)
      have sub: "set dss \<subseteq> pxDaemonSets (view w1) nss"
        using step Cons.prems(4,5) by auto
      have rest: "\<forall>d \<in> pxDaemonSets (view w1) nss. d \<in> set dss \<or> runsImage img d"
        using step Cons.prems(6) by auto
      from Cons.IH [OF _ run _ _ sub rest] step Cons.prems(4) f show ?thesis by simp
    qed (use Cons.prems(2) DsUpdate u step f in \<open>auto simp: bindE_def modifyVars_def onWorld_def\<close>)
  qed (use Cons.prems in \<open>auto simp: returnE_def panicE_def\<close>)
qed

text \<open>The retried task, as an instance of the retry contract.\<close>

definition taskInv :: "pxClusterOps \<Rightarrow> store \<Rightarrow> upgradeVars \<Rightarrow> 's world \<Rightarrow> bool" where
  "taskInv ops v0 l w \<longleftrightarrow> sound w \<and> upgradeFrame (installedNamespaces ops) v0 (view w) \<and>
     (\<forall>ds \<in> set (uvDss l). Namespace (dsMeta ds) \<in> set (installedNamespaces ops))"

lemma upgradeTask_run:
  assumes nss: "distinct (installedNamespaces ops)" "[] \<notin> set (installedNamespaces ops)"
    and inv: "taskInv ops v0 l w" and run: "upgradeTask env ops img (l, w) = (r, l', w')"
  shows "taskInv ops v0 l' w' \<and> (r = Ok (Inr ()) \<longrightarrow> upgraded img (installedNamespaces ops) (view w'))"
proof -
  let ?nss = "installedNamespaces ops"
  from readsD [OF yields_getPXDaemonsets [OF nss], of w] inv obtain dss w1 where
    1: "getPXDaemonsets env ops w = (Ok dss, w1)" "view w1 = view w" "sound w1" "distinct dss"
      "set dss = pxDaemonSets (view w) ?nss"
    by (auto simp: taskInv_def getPXDaemonsets_def)
  have ns: "\<forall>ds \<in> set dss. Namespace (dsMeta ds) \<in> set ?nss" using 1(5) by (auto simp: pxDaemonSets_def)
  have eq: "upgradeTask env ops img (l, w) =
      (if dss = [] then raiseE ErrNoPXDaemonset else upgradeLoop env img dss) (l\<lparr>uvDss := dss\<rparr>, w1)"
    using 1(1) by (simp add: upgradeTask_def bindE_def tryE_def onWorld_def modifyVars_def)
  show ?thesis
  proof (cases "dss = []")
    case True
    then show ?thesis using run inv 1(2,3) unfolding eq by (auto simp: raiseE_def taskInv_def)
  next
    case False
    then have "upgradeLoop env img dss (l\<lparr>uvDss := dss\<rparr>, w1) = (r, l', w')" using run unfolding eq by simp
    from upgradeLoop_run [OF 1(3) this _ 1(4), of ?nss v0] inv 1(2,5) ns
    show ?thesis by (auto simp: taskInv_def)
  qed
qed

lemma upgradeTask_retry:
  assumes "distinct (installedNamespaces ops)" "[] \<notin> set (installedNamespaces ops)"
  shows "retry_task env (asTask (upgradeTask env ops img)) (taskInv ops v0)
    (\<lambda>l w. taskInv ops v0 l w \<and> upgraded img (installedNamespaces ops) (view w))"
proof
  fix l l' w w' a since d
  assume inv: "taskInv ops v0 l w"
  obtain r l1 w1 where run: "upgradeTask env ops img (l, w) = (r, l1, w1)" by (metis surj_pair)
  note step = upgradeTask_run [OF assms inv run]
  show "taskInv ops v0 l' w'" if "asTask (upgradeTask env ops img) l w = (a, l', w')"
    using that step run by (auto simp: asTask_def split: outcome.splits sum.splits)
  show "taskInv ops v0 l' w' \<and> upgraded img (installedNamespaces ops) (view w')"
    if "asTask (upgradeTask env ops img) l w = (Done, l', w')"
    using that step run by (auto simp: asTask_def split: outcome.splits sum.splits)
  show "taskInv ops v0 l (sleep env since d w)"
    using inv quiet_sleep [of w since d] by (simp add: taskInv_def)
qed

lemma ensures_updates:
  assumes "distinct (installedNamespaces ops)" "[] \<notin> set (installedNamespaces ops)"
  shows "ensures (steady False img (installedNamespaces ops) v0)
    (DoRetryWithTimeout env (asTask (upgradeTask env ops img)) timeout pause \<lparr>uvDss = [], uvExpected = Map.empty\<rparr>)
    (\<lambda>vars v. steady True img (installedNamespaces ops) v0 v \<and>
       (\<forall>ds \<in> set (uvDss vars). Namespace (dsMeta ds) \<in> set (installedNamespaces ops)))
    (steady False img (installedNamespaces ops) v0)"
proof (rule ensuresI)
  fix w r w' let ?l = "\<lparr>uvDss = [], uvExpected = Map.empty\<rparr>"
  assume w: "sound w" "steady False img (installedNamespaces ops) v0 (view w)"
    and run: "DoRetryWithTimeout env (asTask (upgradeTask env ops img)) timeout pause ?l w = (r, w')"
  note R = upgradeTask_retry [OF assms, of img v0]
  have inv: "taskInv ops v0 ?l w" using w by (simp add: taskInv_def steady_def)
  from retry_task.retry_keeps [OF R inv run] have k: "sound w' \<and> upgradeFrame (installedNamespaces ops) v0 (view w')"
    by (auto simp: taskInv_def)
  show "sound w' \<and> (case r of
      Ok vars \<Rightarrow> steady True img (installedNamespaces ops) v0 (view w') \<and>
        (\<forall>ds \<in> set (uvDss vars). Namespace (dsMeta ds) \<in> set (installedNamespaces ops))
    | _ \<Rightarrow> steady False img (installedNamespaces ops) v0 (view w'))"
    using k retry_task.retry_post [OF R inv, of timeout pause _ w'] run
    by (cases r) (auto simp: steady_def taskInv_def)
qed

text \<open>After the update: waiting reads only; the services and the API daemon set are in the frame.\<close>

lemma quiet_ready: "quiet (readyDaemonSet env opts vars ds)"
  unfolding readyDaemonSet_def generationTask_def GetDaemonSet_def getDaemonSetReadyTimeout_def
  by (intro quiet_bindE quiet_retry quiet_get)
     (auto intro!: quiet_intro quiet_panicE quiet_ValidateDaemonSet split: option.split)

lemma ensures_PatchService:
  assumes "(ServiceKind, ns, name) \<in> upgradeKeys v0 nss"
  shows "ensures (steady fin img nss v0) (PatchService env name ns ports) (\<lambda>_. steady fin img nss v0)
    (steady fin img nss v0)"
proof -
  let ?P = "steady fin img nss v0"
  have g: "ensures ?P (GetService env name ns) (\<lambda>x v. ?P v \<and> keyOf (KService x) = (ServiceKind, ns, name)) ?P"
  proof (cases "name = []")
    case True
    show ?thesis unfolding GetService_def if_P [OF True]
      by (rule ensuresI) (auto simp: raiseE_def)
  next
    case False
    show ?thesis unfolding GetService_def if_not_P [OF False]
      by (rule ensures_weaken [OF ensures_get [OF services.object_kind_axioms]]) auto
  qed
  have p: "ensures (\<lambda>v. ?P v \<and> keyOf (KService x) = (ServiceKind, ns, name))
      (callObj env (ReqPatchPorts (Namespace (svcMeta x)) (Name (svcMeta x)) ports) asService) (\<lambda>_. ?P) ?P" for x
  proof (cases "keyOf (KService x) = (ServiceKind, ns, name)")
    case True
    then have "Namespace (svcMeta x) = ns" "Name (svcMeta x) = name" by (simp_all add: keyOf_def)
    then have "ensures ?P (callObj env (ReqPatchPorts (Namespace (svcMeta x)) (Name (svcMeta x)) ports) asService)
        (\<lambda>_. ?P) ?P"
      by (intro ensures_patch) (erule steady_other [OF _ _ assms], auto)
    then show ?thesis by (rule ensures_weaken) auto
  next
    case False
    then show ?thesis by (intro ensuresI) blast
  qed
  show ?thesis unfolding PatchService_def by (rule ensures_bindE [OF g p])
qed

lemma ensures_finish:
  assumes "Namespace (dsMeta ds) \<in> set nss"
  shows "ensures (steady fin img nss v0) (finishDaemonSet env ds) (\<lambda>_. steady fin img nss v0)
    (steady fin img nss v0)"
proof -
  let ?P = "steady fin img nss v0" and ?ns = "Namespace (dsMeta ds)"
  have keys: "(ServiceKind, ?ns, pxServiceName) \<in> upgradeKeys v0 nss"
    "(ServiceKind, ?ns, pxAPIServiceName) \<in> upgradeKeys v0 nss"
    using assms by (auto simp: upgradeKeys_def)
  note stay = ensures_quiet [OF quiet_returnE] ensures_quiet [OF quiet_raiseE]
  have get: "ensures ?P (GetService env n ?ns) (\<lambda>_. ?P) ?P"
    "ensures ?P (tryE (GetService env n ?ns)) (\<lambda>_. ?P) ?P"
    "ensures ?P (tryE (GetDaemonSet env pxAPIDaemonset ?ns)) (\<lambda>_. ?P) ?P" for n
    unfolding GetService_def GetDaemonSet_def
    by (rule ensures_quiet, auto intro!: quiet_intro)+
  have "ensures ?P (callDone env (ReqCreate (KDaemonSet (apiDaemonSet ?ns aff)))) (\<lambda>_. ?P) ?P" for aff
  proof (rule ensures_create)
    have k: "keyOf (KDaemonSet (apiDaemonSet ?ns aff)) = (DaemonSetKind, ?ns, pxAPIDaemonset)"
      by (simp add: keyOf_def apiDaemonSet_def metaNamed_def)
    show "?P (v(keyOf (KDaemonSet (apiDaemonSet ?ns aff)) \<mapsto> KDaemonSet (apiDaemonSet ?ns aff)))"
      if "?P v" "v (keyOf (KDaemonSet (apiDaemonSet ?ns aff))) = None" for v
      using that frame_api [of nss v0 v ?ns _ aff, OF _ assms _ refl] unfolding k steady_def by blast
  qed (simp add: wellScoped_def)
  then have ds: "ensures ?P (checkAPIDaemonset env ?ns aff) (\<lambda>_. ?P) ?P" for aff
    unfolding checkAPIDaemonset_def
    by (intro ensures_bindE [OF get(3)]) (auto simp: stay split: sum.split)
  have "ensures ?P (callDone env (ReqCreate (KService (apiService ?ns m)))) (\<lambda>_. ?P) ?P" for m
    by (rule ensures_create_other) (use keys(2) in \<open>simp_all add: keyOf_def apiService_def metaNamed_def wellScoped_def\<close>)
  moreover have "ensures ?P (bindE (PatchService env pxAPIServiceName ?ns ports) (\<lambda>_. returnE ())) (\<lambda>_. ?P) ?P" for ports
    by (rule ensures_bindE [OF ensures_PatchService [OF keys(2)] stay(1)])
  ultimately have svc: "ensures ?P (checkAPIService env ?ns m) (\<lambda>_. ?P) ?P" for m
    unfolding checkAPIService_def
    by (intro ensures_bindE [OF get(2)]) (auto simp: stay split: sum.split)
  show ?thesis
    unfolding finishDaemonSet_def Let_def
    by (intro ensures_bindE [OF get(1)] ensures_bindE [OF ensures_PatchService [OF keys(1)]] ensures_bindE [OF ds] svc)
qed

lemma steady_start: "steady False img nss v v"
  by (simp add: steady_def upgradeFrame_refl)

lemma ensures_upgradePX:
  assumes "distinct (installedNamespaces ops)" "[] \<notin> set (installedNamespaces ops)"
  shows "ensures (steady False (ociImageOf spec) (installedNamespaces ops) v0) (upgradePX env ops spec opts)
    (\<lambda>_. steady True (ociImageOf spec) (installedNamespaces ops) v0)
    (steady False (ociImageOf spec) (installedNamespaces ops) v0)"
proof -
  let ?nss = "installedNamespaces ops" and ?img = "ociImageOf spec"
  let ?P = "\<lambda>fin. steady fin ?img ?nss v0"
  have role: "ensures (?P False) (callDone env (ReqUpdate (KClusterRole pxClusterRole))) (\<lambda>_. ?P False) (?P False)"
    by (rule ensures_update_other) (simp_all add: upgradeKeys_def keyOf_def pxClusterRole_def metaNamed_def)
  have one: "ensures (?P True) (bindE (readyDaemonSet env opts vars ds) (\<lambda>_. finishDaemonSet env ds))
      (\<lambda>_. ?P True) (?P True)" if "Namespace (dsMeta ds) \<in> set ?nss" for vars ds
    by (rule ensures_bindE [OF ensures_quiet [OF quiet_ready] ensures_finish [OF that]])
  have rest: "ensures (\<lambda>v. ?P True v \<and> (\<forall>ds \<in> set (uvDss vars). Namespace (dsMeta ds) \<in> set ?nss))
      (forE (\<lambda>ds. bindE (readyDaemonSet env opts vars ds) (\<lambda>_. finishDaemonSet env ds)) (uvDss vars))
      (\<lambda>_. ?P True) (?P False)" for vars
  proof (cases "\<forall>ds \<in> set (uvDss vars). Namespace (dsMeta ds) \<in> set ?nss")
    case True
    show ?thesis
      by (rule ensures_weaken [OF ensures_forE [where P = "?P True" and E = "?P True"]])
         (use one True in \<open>auto simp: steady_def\<close>)
  next
    case False
    then show ?thesis by (intro ensuresI) blast
  qed
  show ?thesis
    unfolding upgradePX_def
    by (rule ensures_bindE [OF role], rule ensures_bindE [OF ensures_permissions],
        rule ensures_bindE [OF ensures_updates [OF assms] rest])
qed

section \<open>Upgrade\<close>

lemma quiet_yields: "reads m R \<Longrightarrow> quiet m"
  unfolding quiet_def by (rule reads_weaken) simp_all

lemma quiet_sharedVolumes: "quiet (sharedVolumes env)"
  unfolding sharedVolumes_def GetPVCsUsingStorageClass_def GetVolumeForPersistentVolumeClaim_def
    GetPersistentVolumeClaim_def
  by (intro quiet_bindE quiet_yields [OF yields_sharedSCs] quiet_collectE quiet_list quiet_get
      quiet_yields [OF computes_isClass] quiet_returnE)

lemma quiet_waitDetached: "quiet (waitTillPXSharedVolumesDetached env)"
  unfolding waitTillPXSharedVolumesDetached_def detachedTask_def Inspect_def
  by (intro quiet_bindE quiet_sharedVolumes quiet_retry)
     (auto intro!: quiet_intro quiet_call split: reply.split option.split)

lemma quiet_anyE: "(\<And>x. quiet (f x)) \<Longrightarrow> quiet (anyE f xs)"
  by (induction xs) (auto intro!: quiet_intro)

lemma quiet_forE: "(\<And>x. quiet (f x)) \<Longrightarrow> quiet (forE f xs)"
  by (induction xs) (auto intro!: quiet_intro)

lemma quiet_unmanaged: "quiet (IsAnyPXAppPodUnmanaged env)"
  unfolding IsAnyPXAppPodUnmanaged_def getPodsUsingPX_def isPodUsingPxVolume_def volumeIsPx_def
    GetPersistentVolumeClaim_def GetPersistentVolume_def GetStorageProvisionerForPVC_def GetStorageClassForPVC_def Let_def
  by (intro quiet_bindE quiet_tryE quiet_list quiet_collectE quiet_anyE)
     (auto intro!: quiet_intro split: option.split sum.split)

lemma quiet_setPlatform: "quiet (setPlatform p)"
  by (auto simp: quiet_def reads_def setPlatform_def view_def sound_def)

lemma quiet_drain: "quiet (isUpgradeAppDrainRequired env spec)"
  unfolding isUpgradeAppDrainRequired_def isAnyNodeRunningVersionWithPrefix_def Enumerate_def
  by (intro quiet_bindE)
     (auto intro!: quiet_intro quiet_call split: reply.split list.split sum.split)

lemma quiet_preFlight: "quiet (preFlightChecks env ops spec)"
  unfolding preFlightChecks_def getPXDaemonsets_def ListDaemonSets_def
  by (auto intro!: quiet_intro quiet_collectE quiet_forE quiet_ValidateDaemonSet split: sum.split)

lemma quiet_checks: "quiet (upgradeChecks env ops spec)"
  unfolding upgradeChecks_def getPXDriver_def GetService_def Let_def
  by (auto intro!: quiet_intro quiet_callDone quiet_preFlight quiet_drain quiet_unmanaged quiet_parseConfig
      quiet_setPlatform split: list.split sum.split option.split)

lemma restoreDeferred_run:
  "RestoreScaledAppsReplicas env w = (Ok (), w') \<Longrightarrow> restoreDeferred env w = (Ok (), w')"
  by (simp add: restoreDeferred_def bindE_def tryE_def returnE_def)

text \<open>Steps 2 and 3 with the scale-down: the applications are restored unless the process crashes.\<close>

lemma scaledSteps_run:
  assumes w: "sound w" and nss: "distinct (installedNamespaces ops)" "[] \<notin> set (installedNamespaces ops)"
    and one: "oneClassEach (view w)"
    and P: "\<And>d. d \<in> sharedDeployments (view w) \<Longrightarrow> depReplicas d \<noteq> None \<and> freshMeta (depMeta d)"
    and Q: "\<And>s. s \<in> sharedStatefulSets (view w) \<Longrightarrow> ssReplicas s \<noteq> None \<and> freshMeta (ssMeta s)"
    and run: "deferE (restoreDeferred env) (scaledUpgrade env ops spec opts) w = (r, w')" and nc: "\<And>p. r \<noteq> Crash p"
  shows "sound w' \<and> upgradeFrame (installedNamespaces ops) (view w) (view w') \<and>
    (r = Ok () \<longrightarrow> upgraded (ociImageOf spec) (installedNamespaces ops) (view w'))"
proof -
  let ?nss = "installedNamespaces ops" and ?img = "ociImageOf spec"
  have "readyDeployment d" if "d \<in> sharedDeployments (view w)" for d
    using P [OF that] by (auto simp: readyDeployment_def freshMeta_def)
  moreover have "readyStatefulSet s" if "s \<in> sharedStatefulSets (view w)" for s
    using Q [OF that] by (auto simp: readyStatefulSet_def freshMeta_def)
  ultimately obtain w2 where 2: "ScaleSharedAppsToZero env w = (Ok (), w2)" "sound w2"
      "view w2 = scaledStore (view w)"
    using scale_run [OF w one] by blast
  let ?rest = "bindE (waitTillPXSharedVolumesDetached env) (\<lambda>_. upgradePX env ops spec opts)"
  have ens: "ensures (steady False ?img ?nss (view w2)) ?rest (\<lambda>_. steady True ?img ?nss (view w2))
      (steady False ?img ?nss (view w2))"
    by (rule ensures_bindE [OF ensures_quiet [OF quiet_waitDetached] ensures_upgradePX [OF nss]])
  obtain r3 w3 where 3: "?rest w2 = (r3, w3)" by (cases "?rest w2")
  note d = ensuresD [OF ens 2(2) steady_start 3]
  have frame: "upgradeFrame ?nss (scaledStore (view w)) (view w3)"
    using d(2,3) by (cases r3) (auto simp: steady_def 2(3))
  have restored: "upgradeFrame ?nss (view w) (restoredStore (view w3))"
    "upgraded ?img ?nss (restoredStore (view w3)) \<longleftrightarrow> upgraded ?img ?nss (view w3)"
    "sharedDeployments (view w3) = sharedDeployments (scaledStore (view w))"
    "sharedStatefulSets (view w3) = sharedStatefulSets (scaledStore (view w))"
    by (rule frame_restored [OF _ _ frame]; use P Q in blast)+
  have scaled: "scaledUpgrade env ops spec opts w = (r3, w3)" using 2(1) 3 by (simp add: scaledUpgrade_def bindE_def)
  have "parses (depMeta d)" if "d \<in> sharedDeployments (view w3)" for d
    using that P scaled_parses(1) unfolding restored(3) scaled_sharedDeployments by blast
  moreover have "parses (ssMeta s)" if "s \<in> sharedStatefulSets (view w3)" for s
    using that Q scaled_parses(2) unfolding restored(4) scaled_sharedStatefulSets by blast
  ultimately obtain w4 where 4: "RestoreScaledAppsReplicas env w3 = (Ok (), w4)" "sound w4"
      "view w4 = restoredStore (view w3)"
    using restore_run [OF d(1)] by blast
  have fin: "r = r3 \<and> w' = w4"
    using run nc scaled restoreDeferred_run [OF 4(1)] by (cases r3) (auto simp: deferE_def)
  have "r = Ok () \<Longrightarrow> upgraded ?img ?nss (view w3)" using d(2) fin by (auto simp: steady_def)
  with restored(1,2) 4(2,3) fin show ?thesis by simp
qed

lemma Upgrade_run:
  assumes w: "sound w" and nss: "distinct (installedNamespaces ops)" "[] \<notin> set (installedNamespaces ops)"
    and one: "oneClassEach (view w)"
    and P: "\<And>d. d \<in> sharedDeployments (view w) \<Longrightarrow> depReplicas d \<noteq> None \<and> freshMeta (depMeta d)"
    and Q: "\<And>s. s \<in> sharedStatefulSets (view w) \<Longrightarrow> ssReplicas s \<noteq> None \<and> freshMeta (ssMeta s)"
    and run: "Upgrade env ops (Some c) opts w = (r, w')" and nc: "\<And>p. r \<noteq> Crash p"
  shows "sound w' \<and> upgradeFrame (installedNamespaces ops) (view w) (view w') \<and>
    (r = Ok () \<longrightarrow> upgraded (ociImageOf (clSpec c)) (installedNamespaces ops) (view w'))"
proof -
  obtain r1 w1 where 1: "upgradeChecks env ops (clSpec c) w = (r1, w1)"
    by (cases "upgradeChecks env ops (clSpec c) w")
  have q: "sound w1" "view w1 = view w" using quietD [OF quiet_checks w 1] by auto
  show ?thesis
  proof (cases r1)
    case (Ok a)
    obtain spec drain where a: "a = (spec, drain)" by (cases a)
    have ok: "upgradeChecks env ops (clSpec c) w = (Ok (spec, drain), w1)" using 1 Ok a by simp
    have img: "ociImageOf spec = ociImageOf (clSpec c)" using upgradeChecks_passed [OF ok] by simp
    have steps: "upgradeSteps env ops spec opts drain w1 = (r, w')" using run Upgrade_checked [OF ok] by simp
    show ?thesis
    proof (cases "isScaleDownOfSharedAppsRequired drain opts")
      case True
      then have "deferE (restoreDeferred env) (scaledUpgrade env ops spec opts) w1 = (r, w')"
        using steps by (simp add: upgradeSteps_scaled)
      from scaledSteps_run [OF q(1) nss _ _ _ this nc] one P Q show ?thesis unfolding q(2) img by blast
    next
      case False
      then have px: "upgradePX env ops spec opts w1 = (r, w')" using steps by (simp add: upgradeSteps_def)
      note d = ensuresD [OF ensures_upgradePX [OF nss, of spec "view w1" opts] q(1) steady_start px]
      show ?thesis using d by (cases r) (auto simp: steady_def q(2) img)
    qed
  qed (use run 1 q upgradeFrame_refl in \<open>auto simp: Upgrade_def bindE_def\<close>)
qed

end

end
