(* ===== verification/UpgradeMain.thy ===== *)
theory UpgradeMain
  imports Talisman UpgradeStore
begin

text \<open>
  The upgrade from the command line to the cluster: what \<open>talisman -operation upgrade\<close> leaves behind on an
  API server with a daemon set controller.
\<close>

section \<open>The provider and the upgrade, end to end\<close>

context object_server
begin

lemma quiet_provider: "quiet (NewPXClusterProvider env secret kubeconfig)"
  unfolding NewPXClusterProvider_def ListDaemonSets_def
  by (auto intro!: quiet_intro quiet_New quiet_collectE quiet_setPlatform split: list.split)

lemma provider_Ok_New:
  "NewPXClusterProvider env secret kubeconfig w = (Ok inst, w1) \<Longrightarrow> \<exists>w0. New env kubeconfig w = (Ok (), w0)"
  by (auto simp: NewPXClusterProvider_def bindE_Ok_iff)

lemma orFatal_run:
  "orFatal msg m w = (case m w of (Err e, w') \<Rightarrow> (Err (ErrorString (msg @ errorText e)), w') | x \<Rightarrow> x)"
  by (auto simp: orFatal_def bindE_def tryE_def Fatalf_def raiseE_def returnE_def
      split: prod.split outcome.split)

lemma doUpgrade_run:
  assumes w: "sound w" and named: "view w (NamespaceKind, [], []) = None"
    and one: "oneClassEach (view w)"
    and P: "\<And>d. d \<in> sharedDeployments (view w) \<Longrightarrow> depReplicas d \<noteq> None \<and> freshMeta (depMeta d)"
    and Q: "\<And>s. s \<in> sharedStatefulSets (view w) \<Longrightarrow> ssReplicas s \<noteq> None \<and> freshMeta (ssMeta s)"
    and run: "doUpgrade env fl w = (r, w')" and nc: "\<And>p. r \<noteq> Crash p"
  shows "\<exists>nss. set nss \<subseteq> pxNamespaces (view w) \<and> upgradeFrame nss (view w) (view w') \<and>
    (r = Ok () \<longrightarrow> (\<exists>ns. nss = [ns] \<and> pxNamespaces (view w) = {ns}) \<and>
       upgraded (newOCIMonImage fl @ '':'' @ newOCIMonTag fl) nss (view w'))"
proof -
  let ?new = "NewPXClusterProvider env (dockerRegSecret fl) (kubeconfigPath fl)"
  let ?c = "clusterOfImages (newOCIMonImage fl) (newOCIMonTag fl) (newPXImage fl) (newPXTag fl)"
  let ?opts = "Some \<lparr>SharedAppsScaleDown = sharedAppsScaleDown fl, TimeoutPerNode = upgradeTimeoutPerNode fl\<rparr>"
  have img: "ociImageOf (clSpec ?c) = newOCIMonImage fl @ '':'' @ newOCIMonTag fl"
    by (simp add: ociImageOf_def clusterOfImages_def)
  obtain r1 w1 where 1: "?new w = (r1, w1)" by (cases "?new w")
  have q: "sound w1" "view w1 = view w" using quietD [OF quiet_provider w 1] by auto
  have none: ?thesis if "view w' = view w" "r \<noteq> Ok ()"
    using that upgradeFrame_refl by (intro exI [of _ "[]"]) simp
  show ?thesis
  proof (cases r1)
    case (Ok inst)
    obtain w0 where "New env (kubeconfigPath fl) w = (Ok (), w0)" using provider_Ok_New 1 Ok by blast
    from provider_run [OF w this named, of "dockerRegSecret fl"] 1 Ok
    have inst: "distinct (installedNamespaces inst)" "set (installedNamespaces inst) = pxNamespaces (view w)"
      by (auto split: if_splits)
    have ns: "[] \<notin> set (installedNamespaces inst)" using named inst(2) by (simp add: pxNamespaces_def)
    show ?thesis
    proof (cases "newOCIMonTag fl = []")
      case True
      then show ?thesis using run by (intro none) (auto simp: doUpgrade_def Fatalf_def raiseE_def)
    next
      case False
      obtain r2 w2 where 2: "Upgrade env inst (Some ?c) ?opts w1 = (r2, w2)"
        by (cases "Upgrade env inst (Some ?c) ?opts w1")
      have r: "w' = w2" "(r = Ok () \<longleftrightarrow> r2 = Ok ())" "r2 \<noteq> Crash p" for p
        using run 1 2 Ok False nc [of p] by (cases r2; auto simp: doUpgrade_def bindE_def orFatal_run)+
      have u: "upgradeFrame (installedNamespaces inst) (view w) (view w2) \<and>
          (r2 = Ok () \<longrightarrow> upgraded (ociImageOf (clSpec ?c)) (installedNamespaces inst) (view w2))"
        using Upgrade_run [OF q(1) inst(1) ns _ _ _ 2 r(3)] one P Q unfolding q(2) by blast
      have "\<exists>ns. installedNamespaces inst = [ns]" if ok: "r2 = Ok ()"
      proof -
        obtain v w3 where "upgradeChecks env inst (clSpec ?c) w1 = (Ok v, w3)"
          using 2 ok by (auto simp: Upgrade_def bindE_Ok_iff)
        then show ?thesis using upgradeChecks_passed by (cases v) blast
      qed
      with u r(1,2) inst(2) img show ?thesis by (intro exI [of _ "installedNamespaces inst"]) auto
    qed
  qed (rule none; use 1 q run in \<open>auto simp: doUpgrade_def bindE_def orFatal_run Fatalf_def raiseE_def
        split: if_splits\<close>)+
qed

end


text \<open>The example installation is upgraded, with its shared application scaled down in between.\<close>

lemma exInstall_apps:
  "lookupOb (exInstall a) (keyOf (KDeployment d)) = Some (KDeployment d) \<Longrightarrow> d = exDeployment a 3"
  "lookupOb (exInstall a) (keyOf (KStatefulSet s)) \<noteq> Some (KStatefulSet s)"
  "sharedClass (lookupOb (exInstall a)) sc \<Longrightarrow> sc = ''px-shared''"
proof -
  show "d = exDeployment a 3" if "lookupOb (exInstall a) (keyOf (KDeployment d)) = Some (KDeployment d)"
    using lookupOb_member [OF that] by (simp add: exInstall_def)
  show "lookupOb (exInstall a) (keyOf (KStatefulSet s)) \<noteq> Some (KStatefulSet s)"
    using lookupOb_member [of "exInstall a" "keyOf (KStatefulSet s)" "KStatefulSet s"] by (auto simp: exInstall_def)
  show "sc = ''px-shared''" if "sharedClass (lookupOb (exInstall a)) sc"
    using that lookupOb_member [of "exInstall a" "(StorageClassKind, [], sc)"]
    by (fastforce simp: sharedClass_def exInstall_def keyOf_def ex_defs split: option.splits kobject.splits)
qed


end
