(* ===== verification/RetryProps.thy ===== *)
theory RetryProps
  imports RolloutProps
begin

text \<open>Properties of the retry loop, of the validation built on it, and of the version parser.\<close>

section \<open>Helper lemmas\<close>

text \<open>Counting the runs of a task does not change what the loop does.\<close>

lemma counted_same:
  "retryLoop env (counted t) deadline pause (n, l) w = (r, (m, l'), w') \<Longrightarrow>
     retryLoop env t deadline pause l w = (r, l', w')"
proof (induction "nat (deadline - clock w)" arbitrary: n l w rule: less_induct)
  case less
  obtain a l1 w1 where t: "t l w = (a, l1, w1)" by (cases "t l w") auto
  let ?w2 = "sleep env (clock w) pause w1"
  have dec: "nat (deadline - clock ?w2) < nat (deadline - clock w)" if "\<not> deadline \<le> clock w"
    using sleep_clock [of "clock w" env pause w1] that by simp
  show ?case
    using less.prems less.hyps [OF dec] t
    unfolding retryLoop.simps [of env "counted t" deadline pause "(n, l)" w]
      retryLoop.simps [of env t deadline pause l w] counted_def
    by (cases a) (auto split: if_splits)
qed

text \<open>What a successful validation has seen.\<close>

definition seenReady :: "'s env \<Rightarrow> string \<Rightarrow> string \<Rightarrow> 's world \<Rightarrow> bool" where
  "seenReady env name ns w' \<longleftrightarrow>
     (\<exists>v v1 ds pods. GetDaemonSet env name ns v = (Ok ds, v1) \<and>
        GetPodsByOwner env (UID (dsMeta ds)) (Namespace (dsMeta ds)) v1 = (Ok pods, w') \<and>
        (let st = dsStatus ds in
           ObservedGeneration st \<noteq> 0 \<and> UpdatedNumberScheduled st = DesiredNumberScheduled st \<and>
           NumberReady st = DesiredNumberScheduled st \<and> sint (NumberUnavailable st) \<le> 0 \<and>
           of_nat (length (filter IsPodReady pods)) = DesiredNumberScheduled st))"

lemma validateTask_ready:
  assumes "validateDaemonSetTask env name ns w = (Ok x, w')"
  shows "seenReady env name ns w'"
proof -
  from assms obtain ds w1 where ds: "GetDaemonSet env name ns w = (Ok ds, w1)"
    and gen: "ObservedGeneration (dsStatus ds) \<noteq> 0"
    and rest: "bindE (tryE (GetPodsByOwner env (UID (dsMeta ds)) (Namespace (dsMeta ds)))) (\<lambda>r. case r of
       Inl e \<Rightarrow> raiseE (errAppNotReady (Name (dsMeta ds))
                  (''Failed to get pods for daemonset. Err: '' @ errorText e))
     | Inr pods \<Rightarrow>
         if pods = [] then raiseE (errAppNotReady (Name (dsMeta ds)) ''DaemonSet has 0 pods'')
         else (case daemonSetVerdict name ds pods of
                 Some e \<Rightarrow> raiseE e
               | None \<Rightarrow> returnE (Inr ()))) w1 = (Ok x, w')"
    unfolding validateDaemonSetTask_def bindE_Ok_iff [of "GetDaemonSet env name ns"]
    by (auto simp: raiseE_def split: if_splits)
  from rest obtain pods w2 where "GetPodsByOwner env (UID (dsMeta ds)) (Namespace (dsMeta ds)) w1 = (Ok pods, w2)"
    and "daemonSetVerdict name ds pods = None" and "w2 = w'"
    unfolding bindE_Ok_iff tryE_Ok_iff by (auto simp: raiseE_def returnE_def split: if_splits option.splits)
  with ds gen show ?thesis
    unfolding seenReady_def daemonSetVerdict_def Let_def
    by (metis (no_types, lifting) linorder_not_le option.distinct(1))
qed

interpretation validation: retry_task env "plainTask (validateDaemonSetTask env name ns)" "\<lambda>_ _. True"
    "\<lambda>_. seenReady env name ns" for env :: "'s env" and name ns
  by unfold_locales (auto dest: plainTask_done validateTask_ready)

section \<open>Properties\<close>

text \<open>
  A task is never started more than \<open>k\<close> times when the timeout is at most \<open>k\<close> pauses, however long
  its runs take and whatever they return; the loop that counts the starts is the loop itself.
\<close>

lemma retry_attempts_bounded:
  assumes "retryLoop env (counted t) (clock w + timeout) pause (0, l) w = (r, (n, l'), w')"
    and "0 < pause" and "timeout \<le> int k * pause"
  shows "n \<le> k \<and> retryLoop env t (clock w + timeout) pause l w = (r, l', w')"
proof
  show "retryLoop env t (clock w + timeout) pause l w = (r, l', w')" by (rule counted_same [OF assms(1)])
  show "n \<le> k"
  proof (cases n)
    case (Suc m)
    then have "int m * pause < int k * pause" using counted_runs [OF assms(1)] assms(3) by simp
    with assms(2) have "int m < int k" by (simp add: mult_less_cancel_right)
    with Suc show ?thesis by simp
  qed simp
qed

definition exNever :: "(unit, tracker) task" where
  "exNever l w = (TryAgain ErrNoPXDaemonset, l, w)"

definition exEmpty :: "tracker world" where
  "exEmpty = exWorld []"

lemma retry_attempts_bounded_witness:
  "\<exists>r n l w'. retryLoop exEnv (counted exNever) (clock exEmpty + 30) 10 (0, ()) exEmpty = (r, (n, l), w') \<and>
     n \<le> 3"
proof -
  obtain r y w' where y: "retryLoop exEnv (counted exNever) (clock exEmpty + 30) 10 (0, ()) exEmpty = (r, y, w')"
    by (metis surj_pair)
  obtain n l where "y = (n, l)" by (cases y)
  with y have "retryLoop exEnv (counted exNever) (clock exEmpty + 30) 10 (0, ()) exEmpty = (r, (n, l), w')"
    by simp
  with retry_attempts_bounded [OF this, of 3] show ?thesis by auto
qed

text \<open>
  A validation that succeeds has seen the daemon set ready: \<open>ValidateDaemonSet\<close> returns without
  error only if, in its last two answers, the API server showed the set observed, all its pods updated,
  ready and available, and as many of the pods it owns ready as it wants.
\<close>

lemma validate_daemonset_ready:
  assumes "ValidateDaemonSet env name ns timeout w = (Ok (), w')"
  shows "\<exists>v v1 ds pods. GetDaemonSet env name ns v = (Ok ds, v1) \<and>
    GetPodsByOwner env (UID (dsMeta ds)) (Namespace (dsMeta ds)) v1 = (Ok pods, w') \<and>
    ObservedGeneration (dsStatus ds) \<noteq> 0 \<and>
    UpdatedNumberScheduled (dsStatus ds) = DesiredNumberScheduled (dsStatus ds) \<and>
    NumberReady (dsStatus ds) = DesiredNumberScheduled (dsStatus ds) \<and>
    sint (NumberUnavailable (dsStatus ds)) \<le> 0 \<and>
    of_nat (length (filter IsPodReady pods)) = DesiredNumberScheduled (dsStatus ds)"
  using validation.retry_post [OF _ assms [unfolded ValidateDaemonSet_def]]
  unfolding seenReady_def Let_def by simp

lemma validate_daemonset_ready_witness:
  "\<exists>v v1 ds. GetDaemonSet exEnv ''portworx'' ''kube-system'' v = (Ok ds, v1) \<and> ObservedGeneration (dsStatus ds) \<noteq> 0"
proof -
  have "okAnd (\<lambda>a w. True) (ValidateDaemonSet exEnv ''portworx'' ''kube-system'' Minute exStart)" by code_simp
  then obtain w' where "ValidateDaemonSet exEnv ''portworx'' ''kube-system'' Minute exStart = (Ok (), w')"
    by (auto simp: okAnd_iff)
  from validate_daemonset_ready [OF this] show ?thesis by blast
qed

text \<open>
  \<open>parsePXVersion\<close> returns exactly the leading version of a tag: it succeeds on the texts that
  begin with three groups of digits separated by dots, returns these with the third group as long as
  possible, and fails on every other text.
\<close>

lemma px_version_spec:
  "parsePXVersion v = Inr r \<longleftrightarrow>
     (\<exists>a b c rest. v = a @ ''.'' @ b @ ''.'' @ c @ rest \<and> r = a @ ''.'' @ b @ ''.'' @ c \<and>
        digitsOnly a \<and> digitsOnly b \<and> digitsOnly c \<and> (rest = [] \<or> \<not> isDigit (hd rest)))"
proof
  assume "parsePXVersion v = Inr r"
  then show "\<exists>a b c rest. v = a @ ''.'' @ b @ ''.'' @ c @ rest \<and> r = a @ ''.'' @ b @ ''.'' @ c \<and>
      digitsOnly a \<and> digitsOnly b \<and> digitsOnly c \<and> (rest = [] \<or> \<not> isDigit (hd rest))"
    by (rule parsePXVersion_sound) blast
qed (use parsePXVersion_complete in blast)

lemma px_version_spec_witness: "parsePXVersion ''2.1.1-rc3'' = Inr ''2.1.1''"
proof -
  have "\<exists>a b c rest. ''2.1.1-rc3'' = a @ ''.'' @ b @ ''.'' @ c @ rest \<and> ''2.1.1'' = a @ ''.'' @ b @ ''.'' @ c \<and>
      digitsOnly a \<and> digitsOnly b \<and> digitsOnly c \<and> (rest = [] \<or> \<not> isDigit (hd rest))"
    by (rule exI [of _ "''2''"], rule exI [of _ "''1''"], rule exI [of _ "''1''"], rule exI [of _ "''-rc3''"])
       (simp add: digitsOnly_def isDigit_def)
  then show ?thesis by (rule iffD2 [OF px_version_spec])
qed

end
