(* ===== verification/Crd.thy ===== *)
theory Crd
  imports Retry
begin

text \<open>
  \<open>pkg/crd/crd.go\<close>: creating custom resource definitions and waiting until the API server has
  established them, with \<open>wait.Poll\<close> of the Kubernetes API machinery.  A poll with timeout zero may
  wait forever, so what waits returns an option: None is not returning.
\<close>

section \<open>Resources\<close>

record CustomResource =
  resName :: string
  resPlural :: string
  resGroup :: string
  resVersion :: string
  resScope :: string
  resKind :: string

text \<open>\<open>Context\<close>: the two clientsets are the environment.\<close>

record CrdContext =
  Interval :: int
  Timeout :: int

definition crdName :: "CustomResource \<Rightarrow> string" where
  "crdName r = resPlural r @ ''.'' @ resGroup r"

definition crdOf :: "CustomResource \<Rightarrow> CustomResourceDefinition" where
  "crdOf r =
     \<lparr>crdMeta = metaNamed [] (crdName r) None, crdGroup = resGroup r, crdVersion = resVersion r,
      crdScope = resScope r, crdSingular = resName r, crdPlural = resPlural r, crdKind = resKind r,
      crdConditions = []\<rparr>"

section \<open>Creation\<close>

definition createCRD :: "'s env \<Rightarrow> CustomResource \<Rightarrow> ('s world, unit) go" where
  "createCRD env r =
     bindE (tryE (callDone env (ReqCreate (KCRD (crdOf r))))) (\<lambda>res. case res of
        Inr _ \<Rightarrow> returnE ()
      | Inl err \<Rightarrow>
          if IsAlreadyExists err then returnE ()
          else raiseE (ErrorString (''failed to create '' @ resName r @ '' CRD: '' @ errorText err)))"

section \<open>Polling\<close>

definition ErrWaitTimeout :: goerror where
  "ErrWaitTimeout = ErrorString ''timed out waiting for the condition''"

definition tickerPanic :: string where
  "tickerPanic = ''non-positive interval for NewTicker''"

text \<open>
  The poller's goroutine signals at the ticks of its ticker, which started at \<open>start\<close>, and drops a
  tick nobody waits for; when its timer fires it closes the channel, and the condition is checked a
  last time.  A tick and the end of the timer that are due together count as the end.
\<close>

definition nextTick :: "int \<Rightarrow> int \<Rightarrow> int \<Rightarrow> int" where
  "nextTick start interval now = start + ((now - start) div interval + 1) * interval"

definition wakeAt :: "int \<Rightarrow> int \<Rightarrow> int option \<Rightarrow> int \<Rightarrow> int" where
  "wakeAt start interval deadline now =
     (case deadline of
        None \<Rightarrow> nextTick start interval now
      | Some d \<Rightarrow> min d (nextTick start interval now))"

definition timerFired :: "int option \<Rightarrow> int \<Rightarrow> bool" where
  "timerFired deadline now = (case deadline of None \<Rightarrow> False | Some d \<Rightarrow> d \<le> now)"

definition await :: "'s env \<Rightarrow> int \<Rightarrow> int \<Rightarrow> int option \<Rightarrow> 's world \<Rightarrow> 's world" where
  "await env start interval deadline w =
     sleep env (clock w) (wakeAt start interval deadline (clock w) - clock w) w"

text \<open>
  One turn of the loop of \<open>WaitFor\<close>: the condition says that it holds, that it does not hold yet, or
  an error; None is to wait for the next signal.
\<close>

definition pollCheck ::
  "('s world, bool) go \<Rightarrow> int option \<Rightarrow> 's world \<Rightarrow> unit outcome option \<times> 's world" where
  "pollCheck cond deadline w =
     (case cond w of
        (Ok ok, w') \<Rightarrow>
          (if ok then Some (Ok ())
           else if timerFired deadline (clock w) then Some (Err ErrWaitTimeout) else None, w')
      | (Err e, w') \<Rightarrow> (Some (Err e), w')
      | (Panic p, w') \<Rightarrow> (Some (Panic p), w')
      | (Crash p, w') \<Rightarrow> (Some (Crash p), w'))"

partial_function (option) pollLoop ::
  "'s env \<Rightarrow> ('s world, bool) go \<Rightarrow> int \<Rightarrow> int \<Rightarrow> int option \<Rightarrow> 's world \<Rightarrow> (unit outcome \<times> 's world) option" where
  "pollLoop env cond start interval deadline w =
     (case pollCheck cond deadline (await env start interval deadline w) of
        (Some res, w') \<Rightarrow> Some (res, w')
      | (None, w') \<Rightarrow> pollLoop env cond start interval deadline w')"

declare pollLoop.simps [code]

text \<open>\<open>time.NewTicker\<close> panics in the poller's goroutine for an interval that is not positive.\<close>

definition Poll :: "'s env \<Rightarrow> int \<Rightarrow> int \<Rightarrow> ('s world, bool) go \<Rightarrow> 's world \<Rightarrow> (unit outcome \<times> 's world) option" where
  "Poll env interval timeout cond w =
     (if interval \<le> 0 then Some (Crash tickerPanic, w)
      else pollLoop env cond (clock w) interval
             (if timeout = 0 then None else Some (clock w + timeout)) w)"

section \<open>Waiting for a definition\<close>

fun crdVerdict :: "CRDCondition list \<Rightarrow> goerror + bool" where
  "crdVerdict [] = Inr False"
| "crdVerdict (c # cs) =
     (if condType c = ''Established'' \<and> condStatus c = ''True'' then Inr True
      else if condType c = ''NamesAccepted'' \<and> condStatus c = ''False''
        then Inl (ErrorString (''name conflict: '' @ condReason c))
      else crdVerdict cs)"

definition crdReady :: "'s env \<Rightarrow> CustomResource \<Rightarrow> ('s world, bool) go" where
  "crdReady env r =
     bindE (callObj env (ReqGet CustomResourceDefinitionKind [] (crdName r)) asCRD) (\<lambda>crd.
     case crdVerdict (crdConditions crd) of Inl e \<Rightarrow> raiseE e | Inr b \<Rightarrow> returnE b)"

definition waitForCRDInit ::
  "'s env \<Rightarrow> CrdContext \<Rightarrow> CustomResource \<Rightarrow> 's world \<Rightarrow> (unit outcome \<times> 's world) option" where
  "waitForCRDInit env ctx r = Poll env (Interval ctx) (Timeout ctx) (crdReady env r)"

section \<open>CreateCRD\<close>

text \<open>Both loops go on after an error and remember the last one.\<close>

fun createAll :: "'s env \<Rightarrow> CustomResource list \<Rightarrow> goerror option \<Rightarrow> ('s world, goerror option) go" where
  "createAll env [] lastErr = returnE lastErr"
| "createAll env (r # rs) lastErr =
     bindE (tryE (createCRD env r)) (\<lambda>res.
       createAll env rs (case res of Inl e \<Rightarrow> Some e | Inr _ \<Rightarrow> lastErr))"

fun waitAll ::
  "'s env \<Rightarrow> CrdContext \<Rightarrow> CustomResource list \<Rightarrow> goerror option \<Rightarrow> 's world \<Rightarrow>
     (goerror option outcome \<times> 's world) option" where
  "waitAll env ctx [] lastErr w = Some (Ok lastErr, w)"
| "waitAll env ctx (r # rs) lastErr w =
     (case waitForCRDInit env ctx r w of
        None \<Rightarrow> None
      | Some (Ok _, w') \<Rightarrow> waitAll env ctx rs lastErr w'
      | Some (Err e, w') \<Rightarrow> waitAll env ctx rs (Some e) w'
      | Some (Panic p, w') \<Rightarrow> Some (Panic p, w')
      | Some (Crash p, w') \<Rightarrow> Some (Crash p, w'))"

definition returnLast :: "goerror option outcome \<times> 'w \<Rightarrow> unit outcome \<times> 'w" where
  "returnLast res =
     (case res of
        (Ok None, w) \<Rightarrow> (Ok (), w)
      | (Ok (Some e), w) \<Rightarrow> (Err e, w)
      | (Err e, w) \<Rightarrow> (Err e, w)
      | (Panic p, w) \<Rightarrow> (Panic p, w)
      | (Crash p, w) \<Rightarrow> (Crash p, w))"

definition CreateCRD ::
  "'s env \<Rightarrow> CrdContext \<Rightarrow> CustomResource list \<Rightarrow> 's world \<Rightarrow> (unit outcome \<times> 's world) option" where
  "CreateCRD env ctx resources w =
     (case createAll env resources None w of
        (Ok lastErr, w1) \<Rightarrow> map_option returnLast (waitAll env ctx resources lastErr w1)
      | (Err e, w1) \<Rightarrow> Some (Err e, w1)
      | (Panic p, w1) \<Rightarrow> Some (Panic p, w1)
      | (Crash p, w1) \<Rightarrow> Some (Crash p, w1))"

section \<open>The wait ends\<close>

lemma await_clock: "clock w < clock (await env start interval deadline w)"
  unfolding await_def by (rule sleep_clock)

lemma sleep_reaches: "clock w + d \<le> clock (sleep env (clock w) d w)"
  using sleep_clock_ge [of "clock w" d env w] by simp

text \<open>Code that never turns the clock back.\<close>

definition forward :: "('s world, 'a) go \<Rightarrow> bool" where
  "forward m \<longleftrightarrow> (\<forall>w. clock w \<le> clock (snd (m w)))"

lemma forward_crdReady: "forward (crdReady env r)"
  by (auto simp: forward_def crdReady_def callObj_def call_def bindE_def go_run
      split: prod.splits reply.splits option.splits sum.splits)

lemma pollCheck_forward: "forward cond \<Longrightarrow> pollCheck cond deadline w = (r, w') \<Longrightarrow> clock w \<le> clock w'"
  unfolding forward_def pollCheck_def
  by (drule spec [of _ w]) (auto split: prod.splits outcome.splits)

lemma pollCheck_fired: "timerFired deadline (clock w) \<Longrightarrow> pollCheck cond deadline w \<noteq> (None, w')"
  by (auto simp: pollCheck_def split: prod.splits outcome.splits)

lemma pollLoop_returns:
  assumes "forward cond"
  shows "\<exists>res. pollLoop env cond start interval (Some d) w = Some res"
proof (induction "nat (d - clock w)" arbitrary: w rule: less_induct)
  case less
  let ?w1 = "await env start interval (Some d) w"
  obtain r w2 where c: "pollCheck cond (Some d) ?w1 = (r, w2)" by (cases "pollCheck cond (Some d) ?w1")
  show ?case
  proof (cases r)
    case None
    then have "\<not> timerFired (Some d) (clock ?w1)" using c pollCheck_fired by metis
    moreover have "clock w < clock ?w1" by (rule await_clock)
    moreover have "clock ?w1 \<le> clock w2" using pollCheck_forward [OF assms c] .
    ultimately have "nat (d - clock w2) < nat (d - clock w)" by (simp add: timerFired_def)
    from less.hyps [OF this] c None show ?thesis by (subst pollLoop.simps) simp
  next
    case (Some res)
    with c show ?thesis by (subst pollLoop.simps) simp
  qed
qed

lemma waitForCRDInit_returns:
  "Timeout ctx \<noteq> 0 \<Longrightarrow> \<exists>res. waitForCRDInit env ctx r w = Some res"
  using pollLoop_returns [OF forward_crdReady, of env env r "clock w" "Interval ctx" "clock w + Timeout ctx" w]
  by (auto simp: waitForCRDInit_def Poll_def)

lemma waitAll_returns: "Timeout ctx \<noteq> 0 \<Longrightarrow> \<exists>res. waitAll env ctx rs e w = Some res"
proof (induction rs arbitrary: e w)
  case (Cons r rs)
  obtain x w' where "waitForCRDInit env ctx r w = Some (x, w')"
    using waitForCRDInit_returns [OF Cons.prems] by (metis surj_pair)
  with Cons show ?case by (cases x) simp_all
qed simp

section \<open>What the wait keeps and establishes\<close>

text \<open>
  An invariant of the loop: what waiting and the condition keep holds in the end, and what the
  condition establishes when it says yes holds when the loop ends without error.
\<close>

locale poll_condition =
  fixes env :: "'s env" and cond :: "('s world, bool) go"
    and Inv :: "'s world \<Rightarrow> bool" and Post :: "'s world \<Rightarrow> bool"
  assumes cond_keeps: "Inv w \<Longrightarrow> cond w = (r, w') \<Longrightarrow> Inv w'"
    and sleep_keeps: "Inv w \<Longrightarrow> Inv (sleep env since d w)"
    and cond_post: "Inv w \<Longrightarrow> cond w = (Ok True, w') \<Longrightarrow> Post w'"
    and cond_calm: "calm cond"
begin

lemma check_rule:
  assumes "Inv w" and "pollCheck cond deadline w = (r, w')"
  shows "Inv w'" and "r = Some (Ok ()) \<Longrightarrow> Post w'" and "r \<noteq> Some (Panic p)" and "r \<noteq> Some (Crash p)"
proof -
  obtain x w1 where c: "cond w = (x, w1)" by (cases "cond w")
  have w1: "w1 = w'" using assms(2) c by (auto simp: pollCheck_def split: outcome.splits)
  show "Inv w'" using cond_keeps [OF assms(1) c] w1 by simp
  show "r = Some (Ok ()) \<Longrightarrow> Post w'"
    using assms c w1 cond_post by (auto simp: pollCheck_def split: outcome.splits if_splits)
  show "r \<noteq> Some (Panic p)" "r \<noteq> Some (Crash p)"
    using assms(2) c calmD [OF cond_calm c] by (auto simp: pollCheck_def split: outcome.splits if_splits)
qed

lemma loop_rule:
  assumes ret: "pollLoop env cond start interval deadline w = Some res" and inv: "Inv w"
  shows "Inv (snd res) \<and> (fst res = Ok () \<longrightarrow> Post (snd res)) \<and> (\<forall>p. fst res \<noteq> Panic p \<and> fst res \<noteq> Crash p)"
proof -
  let ?P = "\<lambda>env' cond' start interval deadline w res. env' = env \<longrightarrow> cond' = cond \<longrightarrow> Inv w \<longrightarrow>
      Inv (snd res) \<and> (fst res = Ok () \<longrightarrow> Post (snd res)) \<and> (\<forall>p. fst res \<noteq> Panic p \<and> fst res \<noteq> Crash p)"
  have "?P env cond start interval deadline w res"
  proof (rule pollLoop.raw_induct [where P = ?P, OF _ ret])
    fix f and env' :: "'s env" and cond' start interval deadline w res
    assume IH: "\<And>env' cond' start interval deadline w res.
        f env' cond' start interval deadline w = Some res \<Longrightarrow> ?P env' cond' start interval deadline w res"
      and eq: "(case pollCheck cond' deadline (await env' start interval deadline w) of
          (None, w') \<Rightarrow> f env' cond' start interval deadline w'
        | (Some res, w') \<Rightarrow> Some (res, w')) = Some res"
    show "?P env' cond' start interval deadline w res"
    proof (intro impI)
      assume e: "env' = env" "cond' = cond" and w: "Inv w"
      obtain r w2 where c: "pollCheck cond deadline (await env start interval deadline w) = (r, w2)"
        by (cases "pollCheck cond deadline (await env start interval deadline w)")
      have w1: "Inv (await env start interval deadline w)" unfolding await_def using sleep_keeps w .
      note rule = check_rule [OF w1 c]
      show "Inv (snd res) \<and> (fst res = Ok () \<longrightarrow> Post (snd res)) \<and> (\<forall>p. fst res \<noteq> Panic p \<and> fst res \<noteq> Crash p)"
      proof (cases r)
        case None
        then have "f env cond start interval deadline w2 = Some res" using eq c e by simp
        from IH [OF this] rule(1) show ?thesis by simp
      next
        case (Some x)
        then have "res = (x, w2)" using eq c e by simp
        with rule Some show ?thesis by auto
      qed
    qed
  qed
  with inv show ?thesis by simp
qed

end

text \<open>An answer of the API server in which the definition is established.\<close>

definition established :: "'s env \<Rightarrow> CustomResource \<Rightarrow> bool" where
  "established env r \<longleftrightarrow>
     (\<exists>v v' crd. callObj env (ReqGet CustomResourceDefinitionKind [] (crdName r)) asCRD v = (Ok crd, v') \<and>
        (\<exists>c\<in>set (crdConditions crd). condType c = ''Established'' \<and> condStatus c = ''True''))"

lemma crdVerdict_True:
  "crdVerdict cs = Inr True \<Longrightarrow> \<exists>c\<in>set cs. condType c = ''Established'' \<and> condStatus c = ''True''"
  by (induction cs) (auto split: if_splits)

lemma issues_crdReady: "issues isRead (crdReady env r)"
  unfolding crdReady_def by (intro issues_intro) simp

lemma crdReady_established:
  assumes "crdReady env r w = (Ok True, w')" shows "established env r"
proof -
  from assms obtain crd w1 where
    get: "callObj env (ReqGet CustomResourceDefinitionKind [] (crdName r)) asCRD w = (Ok crd, w1)"
    and v: "(case crdVerdict (crdConditions crd) of Inl e \<Rightarrow> raiseE e | Inr b \<Rightarrow> returnE b) w1 = (Ok True, w')"
    unfolding crdReady_def bindE_Ok_iff by blast
  from v have "crdVerdict (crdConditions crd) = Inr True"
    by (cases "crdVerdict (crdConditions crd)") (simp_all add: raiseE_def returnE_def)
  with get crdVerdict_True show ?thesis unfolding established_def by blast
qed

interpretation crdWait: poll_condition env "crdReady env r"
  "\<lambda>w. \<exists>l. reqs w = rs @ l \<and> list_all isRead l" "\<lambda>w. established env r"
  for env :: "'s env" and r rs
proof
  fix w w' x
  assume w: "\<exists>l. reqs w = rs @ l \<and> list_all isRead l" and run: "crdReady env r w = (x, w')"
  have "reqs w' = reqs w @ trace (crdReady env r) w" using issues_reqs [OF issues_crdReady, of env r w] run by simp
  with w issues_trace [OF issues_crdReady, of env r w]
  show "\<exists>l. reqs w' = rs @ l \<and> list_all isRead l" by auto
next
  show "calm (crdReady env r)" unfolding crdReady_def by (intro calm_intro)
qed (use crdReady_established in auto)

lemma waitForCRDInit_rule:
  assumes "0 < Interval ctx" and "waitForCRDInit env ctx r w = Some (x, w')"
  shows "\<exists>l. reqs w' = reqs w @ l \<and> list_all isRead l" and "x = Ok () \<Longrightarrow> established env r"
    and "x \<noteq> Panic p" and "x \<noteq> Crash p"
proof -
  have "pollLoop env (crdReady env r) (clock w) (Interval ctx)
      (if Timeout ctx = 0 then None else Some (clock w + Timeout ctx)) w = Some (x, w')"
    using assms by (simp add: waitForCRDInit_def Poll_def)
  from crdWait.loop_rule [OF this, of "reqs w"]
  show "\<exists>l. reqs w' = reqs w @ l \<and> list_all isRead l" "x = Ok () \<Longrightarrow> established env r"
    "x \<noteq> Panic p" "x \<noteq> Crash p"
    by auto
qed

lemma waitAll_rule:
  "0 < Interval ctx \<Longrightarrow> waitAll env ctx rs e w = Some (x, w') \<Longrightarrow>
     (\<exists>l. reqs w' = reqs w @ l \<and> list_all isRead l) \<and> (\<exists>e'. x = Ok e') \<and>
     (x = Ok None \<longrightarrow> e = None \<and> (\<forall>r\<in>set rs. established env r))"
proof (induction rs arbitrary: e w)
  case (Cons r rs)
  obtain y w1 where y: "waitForCRDInit env ctx r w = Some (y, w1)"
    using Cons.prems(2) by (cases "waitForCRDInit env ctx r w") auto
  note rule = waitForCRDInit_rule [OF Cons.prems(1) y]
  obtain l where l: "reqs w1 = reqs w @ l" "list_all isRead l" using rule(1) by blast
  obtain e1 where rest: "waitAll env ctx rs e1 w1 = Some (x, w')" "y = Ok () \<and> e1 = e \<or> e1 \<noteq> None"
    using Cons.prems(2) y rule(3,4) by (cases y) auto
  from Cons.IH [OF Cons.prems(1) rest(1)] rest(2) rule(2) l show ?case by auto
qed auto

lemma createAll_rule:
  "\<exists>e' w'. createAll env rs e w = (Ok e', w') \<and>
     (\<exists>l. reqs w' = reqs w @ l \<and> l = map (ReqCreate \<circ> KCRD \<circ> crdOf) rs) \<and>
     (e' = None \<longrightarrow> e = None \<and> (\<forall>r\<in>set rs. \<exists>v v'. createCRD env r v = (Ok (), v')))"
proof (induction rs arbitrary: e w)
  case (Cons r rs)
  obtain y w1 where y: "createCRD env r w = (y, w1)" by (cases "createCRD env r w")
  have l: "reqs w1 = reqs w @ [ReqCreate (KCRD (crdOf r))]" and calm: "y = Ok () \<or> (\<exists>e. y = Err e)"
    using y by (auto simp: createCRD_def callDone_def call_def bindE_def tryE_def go_run
        split: prod.splits reply.splits if_splits)
  have step: "createAll env (r # rs) e w =
      createAll env rs (case y of Err e \<Rightarrow> Some e | _ \<Rightarrow> e) w1"
    using y calm by (auto simp: bindE_def tryE_def)
  from Cons.IH [of "case y of Err e \<Rightarrow> Some e | _ \<Rightarrow> e" w1] obtain e' w' where
    "createAll env (r # rs) e w = (Ok e', w')" "reqs w' = reqs w1 @ map (ReqCreate \<circ> KCRD \<circ> crdOf) rs"
    "e' = None \<longrightarrow> (case y of Err e \<Rightarrow> Some e | _ \<Rightarrow> e) = None \<and> (\<forall>r\<in>set rs. \<exists>v v'. createCRD env r v = (Ok (), v'))"
    unfolding step by blast
  with l calm y show ?case by auto
qed (simp add: returnE_def)

section \<open>Properties\<close>

text \<open>
  An example: a definition that is there already and becomes established while the program sleeps,
  and one the API server establishes when it is created.
\<close>

definition exResource :: "string \<Rightarrow> CustomResource" where
  "exResource n = \<lparr>resName = n, resPlural = n @ ''s'', resGroup = ''portworx.io'', resVersion = ''v1beta1'',
                   resScope = ''Namespaced'', resKind = ''Cluster''\<rparr>"

definition exDefined :: "bool \<Rightarrow> CustomResource \<Rightarrow> CustomResourceDefinition" where
  "exDefined ready r = (crdOf r)\<lparr>crdConditions :=
     [\<lparr>condType = ''NamesAccepted'', condStatus = ''True'', condReason = []\<rparr>,
      \<lparr>condType = ''Established'', condStatus = if ready then ''True'' else ''False'', condReason = []\<rparr>]\<rparr>"

fun exCrdHandle :: "request \<Rightarrow> bool \<Rightarrow> reply \<times> bool \<times> nat" where
  "exCrdHandle (ReqCreate (KCRD c)) s =
     (if crdSingular c = ''old'' then RErr (StatusError AlreadyExists ''exists'') else RObj (KCRD c), s, 0)"
| "exCrdHandle (ReqGet k ns n) s =
     (RObj (KCRD (if n = crdName (exResource ''old'') then exDefined s (exResource ''old'')
                  else exDefined True (exResource ''cluster''))), s, 0)"
| "exCrdHandle q s = (RDone, s, 0)"

definition exCrdEnv :: "bool env" where
  "exCrdEnv = \<lparr>handle = exCrdHandle, idle = (\<lambda>d s. (True, 0)), debugLevel = False\<rparr>"

definition exCrdStart :: "bool world" where
  "exCrdStart = \<lparr>srv = False, clock = 0, reqs = [], platform = platformTypeDefault, cores = []\<rparr>"

definition exContext :: CrdContext where
  "exContext = \<lparr>Interval = Second, Timeout = Minute\<rparr>"

abbreviation exResources :: "CustomResource list" where
  "exResources \<equiv> [exResource ''cluster'', exResource ''old'']"

lemma exCrd_run: "map_option fst (CreateCRD exCrdEnv exContext exResources exCrdStart) = Some (Ok ())"
  by code_simp

text \<open>
  Success means that every definition is in place: if \<open>CreateCRD\<close> returns without error then
  every resource was created or existed already, and for each the API server has shown it established.
\<close>

lemma create_crd_established:
  assumes "0 < Interval ctx" and "CreateCRD env ctx resources w = Some (Ok (), w')" and "r \<in> set resources"
  shows "(\<exists>v v'. createCRD env r v = (Ok (), v')) \<and> established env r"
proof -
  obtain e1 w1 where 1: "createAll env resources None w = (Ok e1, w1)"
    "e1 = None \<longrightarrow> (\<forall>r\<in>set resources. \<exists>v v'. createCRD env r v = (Ok (), v'))"
    using createAll_rule [of env resources None w] by blast
  then obtain x w2 where 2: "waitAll env ctx resources e1 w1 = Some (x, w2)" "returnLast (x, w2) = (Ok (), w')"
    using assms(2) by (auto simp: CreateCRD_def)
  have "x = Ok None" using 2(2) by (auto simp: returnLast_def split: outcome.splits option.splits)
  with waitAll_rule [OF assms(1) 2(1)] 1(2) assms(3) show ?thesis by blast
qed

lemma create_crd_established_witness: "established exCrdEnv (exResource ''old'')"
proof -
  obtain w' where "CreateCRD exCrdEnv exContext exResources exCrdStart = Some (Ok (), w')"
    using exCrd_run by (auto simp: map_option_eq_Some)
  then show ?thesis
    using create_crd_established [of exContext exCrdEnv exResources exCrdStart w' "exResource ''old''"]
    by (simp add: exContext_def durations)
qed

text \<open>
  C29.  With a positive interval and a timeout other than zero, \<open>CreateCRD\<close> always returns, without
  panicking, whatever the API server answers and however long it takes: with an error, or without one,
  and then every definition was created or existed already, and for each the API server has shown it
  established.
\<close>

theorem create_crd_returns:
  assumes "0 < Interval ctx" and "Timeout ctx \<noteq> 0"
  shows "\<exists>r w'. CreateCRD env ctx resources w = Some (r, w') \<and>
    (r = Ok () \<and> (\<forall>x \<in> set resources. (\<exists>v v'. createCRD env x v = (Ok (), v')) \<and> established env x) \<or>
     (\<exists>e. r = Err e))"
proof -
  obtain e1 w1 where 1: "createAll env resources None w = (Ok e1, w1)"
    using createAll_rule [of env resources None w] by blast
  obtain x w2 where 2: "waitAll env ctx resources e1 w1 = Some (x, w2)"
    using waitAll_returns [OF assms(2)] by (metis surj_pair)
  obtain e2 where "x = Ok e2" using waitAll_rule [OF assms(1) 2] by blast
  with 1 2 obtain r w' where "CreateCRD env ctx resources w = Some (r, w')" "r = Ok () \<or> (\<exists>e. r = Err e)"
    by (cases e2) (simp_all add: CreateCRD_def returnLast_def)
  then show ?thesis using create_crd_established [OF assms(1)] by blast
qed

theorem create_crd_returns_witness:
  "\<exists>r w'. CreateCRD exCrdEnv exContext exResources exCrdStart = Some (r, w') \<and>
    (r = Ok () \<and> (\<forall>x \<in> set exResources. (\<exists>v v'. createCRD exCrdEnv x v = (Ok (), v')) \<and> established exCrdEnv x) \<or>
     (\<exists>e. r = Err e))"
  by (rule create_crd_returns) (simp_all add: exContext_def durations)

text \<open>
  An error does not stop \<open>CreateCRD\<close>: however the creations end, it requests the creation of
  every definition, once and in order, before it waits, and nothing else changes anything.
\<close>

lemma create_crd_requests:
  assumes "0 < Interval ctx" and "CreateCRD env ctx resources w = Some (r, w')"
  shows "\<exists>l. reqs w' = reqs w @ map (\<lambda>r. ReqCreate (KCRD (crdOf r))) resources @ l \<and> list_all isRead l"
proof -
  obtain e1 w1 where 1: "createAll env resources None w = (Ok e1, w1)"
    "reqs w1 = reqs w @ map (\<lambda>r. ReqCreate (KCRD (crdOf r))) resources"
    using createAll_rule [of env resources None w] by (auto simp: comp_def)
  then obtain x w2 where 2: "waitAll env ctx resources e1 w1 = Some (x, w2)" "returnLast (x, w2) = (r, w')"
    using assms(2) by (auto simp: CreateCRD_def)
  have "w' = w2" using 2(2) by (auto simp: returnLast_def split: outcome.splits option.splits)
  with waitAll_rule [OF assms(1) 2(1)] 1(2) show ?thesis by auto
qed

lemma create_crd_requests_witness:
  "\<exists>l w'. map_option snd (CreateCRD exCrdEnv exContext exResources exCrdStart) = Some w' \<and>
     reqs w' = map (\<lambda>r. ReqCreate (KCRD (crdOf r))) exResources @ l \<and> list_all isRead l"
proof -
  obtain w' where run: "CreateCRD exCrdEnv exContext exResources exCrdStart = Some (Ok (), w')"
    using exCrd_run by (auto simp: map_option_eq_Some)
  have "0 < Interval exContext" by (simp add: exContext_def durations)
  from create_crd_requests [OF this run] run show ?thesis by (auto simp: exCrdStart_def)
qed

end
