(* ===== verification/RestClient.thy ===== *)
theory RestClient
  imports ApiTypes GoStrings
begin

text \<open>
  The request builder of the vendored REST client (\<open>client-go/rest/request.go\<close>) on which the generated
  clients of \<open>pkg/client/clientset/versioned\<close> are built: how a chain of setters becomes a path, which
  names it refuses, and when a request is sent at all.  What happens after a request is sent (the
  network, throttling, retries on \<open>Retry-After\<close>, decoding of the answer) is a parameter, the transport.
\<close>

section \<open>Paths\<close>

text \<open>\<open>path.Clean\<close> and \<open>path.Join\<close> of the standard library, on the segments between slashes.\<close>

definition cleanStep :: "bool \<Rightarrow> string list \<Rightarrow> string \<Rightarrow> string list" where
  "cleanStep rooted out s =
     (if s = [] \<or> s = ''.'' then out
      else if s = ''..'' then
        (if out \<noteq> [] \<and> last out \<noteq> ''..'' then butlast out else if rooted then out else out @ [s])
      else out @ [s])"

definition rootedPath :: "string list \<Rightarrow> string" where
  "rootedPath ss = CHR ''/'' # Join ss (CHR ''/'')"

definition Clean :: "string \<Rightarrow> string" where
  "Clean p =
     (let rooted = HasPrefix p ''/''; ss = foldl (cleanStep rooted) [] (Split p (CHR ''/'')) in
      if rooted then rootedPath ss else if ss = [] then ''.'' else Join ss (CHR ''/''))"

definition pathJoin :: "string list \<Rightarrow> string" where
  "pathJoin elems =
     (let es = filter (\<lambda>e. e \<noteq> []) elems in if es = [] then [] else Clean (Join es (CHR ''/'')))"

definition IsValidPathSegmentName :: "string \<Rightarrow> bool" where
  "IsValidPathSegmentName name \<longleftrightarrow>
     name \<noteq> ''.'' \<and> name \<noteq> ''..'' \<and> CHR ''/'' \<notin> set name \<and> CHR ''%'' \<notin> set name"

section \<open>Requests\<close>

record GetOptions =
  goResourceVersion :: string

record ListOptions =
  loLabelSelector :: string
  loFieldSelector :: string
  loWatch :: bool
  loResourceVersion :: string
  loTimeoutSeconds :: "int64 option"
  loLimit :: int64
  loContinue :: string

text \<open>\<open>metav1.DeleteOptions\<close>, as far as a caller of the clients can set it.\<close>

record MetaDeleteOptions =
  mdGracePeriodSeconds :: "int64 option"
  mdPropagationPolicy :: "string option"

datatype apiObject =
    OCluster Cluster
  | OClusterList ClusterList
  | OStrategy VolumePlacementStrategy
  | OStrategyList VolumePlacementStrategyList
  | OStrategy2 VolumePlacementStrategy2
  | OStrategyList2 VolumePlacementStrategyList2

text \<open>Query parameters and bodies are the values they encode.\<close>

datatype params = NoParams | GetParams GetOptions | ListParams ListOptions

datatype body = NoBody | ObjectBody apiObject | OptionsBody MetaDeleteOptions | RawBody string

record restClient =
  rcBasePath :: string
  rcVersionedAPIPath :: string
  rcContentType :: string

record Request =
  rVerb :: string
  rPathPrefix :: string
  rParams :: params
  rContentType :: string
  rNamespace :: string
  rNamespaceSet :: bool
  rResource :: string
  rResourceName :: string
  rSubresource :: string
  rErr :: "goerror option"
  rBody :: body

definition NewRequest :: "restClient \<Rightarrow> string \<Rightarrow> Request" where
  "NewRequest c verb =
     \<lparr>rVerb = verb, rPathPrefix = pathJoin [''/'', rcBasePath c, rcVersionedAPIPath c],
      rParams = NoParams, rContentType = [], rNamespace = [], rNamespaceSet = False, rResource = [],
      rResourceName = [], rSubresource = [], rErr = None, rBody = NoBody\<rparr>"

definition restGet :: "restClient \<Rightarrow> Request" where
  "restGet c = NewRequest c ''GET''"

definition restPost :: "restClient \<Rightarrow> Request" where
  "restPost c = NewRequest c ''POST''"

definition restPut :: "restClient \<Rightarrow> Request" where
  "restPut c = NewRequest c ''PUT''"

definition restDelete :: "restClient \<Rightarrow> Request" where
  "restDelete c = NewRequest c ''DELETE''"

definition restPatch :: "restClient \<Rightarrow> string \<Rightarrow> Request" where
  "restPatch c pt = (NewRequest c ''PATCH'')\<lparr>rContentType := pt\<rparr>"

text \<open>Setters are chained: \<^verbatim>\<open>r.f().g()\<close> is \<open>chain r [f, g]\<close>.\<close>

definition chain :: "Request \<Rightarrow> (Request \<Rightarrow> Request) list \<Rightarrow> Request" where
  "chain r fs = foldl (\<lambda>r f. f r) r fs"

text \<open>The setters: an error sticks, and the first one wins.\<close>

definition reqFail :: "string \<Rightarrow> Request \<Rightarrow> Request" where
  "reqFail msg r = r\<lparr>rErr := Some (ErrorString msg)\<rparr>"

definition reqNamespace :: "string \<Rightarrow> Request \<Rightarrow> Request" where
  "reqNamespace ns r =
     (if rErr r \<noteq> None then r
      else if rNamespaceSet r then reqFail (''namespace already set, cannot change to '' @ ns) r
      else if \<not> IsValidPathSegmentName ns then reqFail (''invalid namespace '' @ ns) r
      else r\<lparr>rNamespaceSet := True, rNamespace := ns\<rparr>)"

definition reqResource :: "string \<Rightarrow> Request \<Rightarrow> Request" where
  "reqResource resource r =
     (if rErr r \<noteq> None then r
      else if rResource r \<noteq> [] then reqFail (''resource already set, cannot change to '' @ resource) r
      else if \<not> IsValidPathSegmentName resource then reqFail (''invalid resource '' @ resource) r
      else r\<lparr>rResource := resource\<rparr>)"

definition reqName :: "string \<Rightarrow> Request \<Rightarrow> Request" where
  "reqName resourceName r =
     (if rErr r \<noteq> None then r
      else if resourceName = [] then reqFail ''resource name may not be empty'' r
      else if rResourceName r \<noteq> []
        then reqFail (''resource name already set, cannot change to '' @ resourceName) r
      else if \<not> IsValidPathSegmentName resourceName
        then reqFail (''invalid resource name '' @ resourceName) r
      else r\<lparr>rResourceName := resourceName\<rparr>)"

definition reqSubResource :: "string list \<Rightarrow> Request \<Rightarrow> Request" where
  "reqSubResource subresources r =
     (if rErr r \<noteq> None then r
      else if rSubresource r \<noteq> [] then reqFail ''subresource already set'' r
      else case find (\<lambda>s. \<not> IsValidPathSegmentName s) subresources of
        Some s \<Rightarrow> reqFail (''invalid subresource '' @ s) r
      | None \<Rightarrow> r\<lparr>rSubresource := pathJoin subresources\<rparr>)"

definition reqVersionedParams :: "params \<Rightarrow> Request \<Rightarrow> Request" where
  "reqVersionedParams ps r = (if rErr r \<noteq> None then r else r\<lparr>rParams := ps\<rparr>)"

text \<open>
  \<open>Body\<close>: bytes go out as they are, an object is encoded and sets the content type, and a nil
  pointer leaves the request without a body.
\<close>

definition reqBody :: "restClient \<Rightarrow> body \<Rightarrow> Request \<Rightarrow> Request" where
  "reqBody c b r =
     (if rErr r \<noteq> None then r
      else case b of
        NoBody \<Rightarrow> r
      | RawBody data \<Rightarrow> r\<lparr>rBody := b\<rparr>
      | _ \<Rightarrow> r\<lparr>rBody := b, rContentType := rcContentType c\<rparr>)"

definition reqURL :: "Request \<Rightarrow> string" where
  "reqURL r =
     (let p0 = rPathPrefix r;
          p1 = (if rNamespaceSet r \<and> rNamespace r \<noteq> [] then pathJoin [p0, ''namespaces'', rNamespace r] else p0);
          p2 = (if rResource r \<noteq> [] then pathJoin [p1, ToLower (rResource r)] else p1) in
      if rResourceName r \<noteq> [] \<or> rSubresource r \<noteq> []
      then pathJoin [p2, rResourceName r, rSubresource r] else p2)"

definition requestPreflightCheck :: "Request \<Rightarrow> goerror option" where
  "requestPreflightCheck r =
     (if \<not> rNamespaceSet r \<or> rNamespace r \<noteq> [] then None
      else if rVerb r = ''POST''
        then Some (ErrorString ''an empty namespace may not be set during creation'')
      else if rVerb r \<in> {''GET'', ''PUT'', ''DELETE''} \<and> rResourceName r \<noteq> []
        then Some (ErrorString ''an empty namespace may not be set when a resource name is provided'')
      else None)"

section \<open>Sending\<close>

record httpRequest =
  hVerb :: string
  hPath :: string
  hParams :: params
  hContentType :: string
  hBody :: body

text \<open>What the transport delivers: an object, a success without one, or a stream of events.\<close>

datatype apiReply = GotObject apiObject | GotStatus | GotWatch nat

type_synonym 's transport = "httpRequest \<Rightarrow> 's \<Rightarrow> (goerror + apiReply) \<times> 's"

text \<open>The far side of the wire, and the requests that went out, oldest first.\<close>

record 's wire =
  sent :: "httpRequest list"
  remote :: 's

text \<open>A call that talks over the wire.\<close>

type_synonym ('s, 'a) wired = "'s wire \<Rightarrow> 'a \<times> 's wire"

definition toHttp :: "Request \<Rightarrow> httpRequest" where
  "toHttp r = \<lparr>hVerb = rVerb r, hPath = reqURL r, hParams = rParams r,
               hContentType = rContentType r, hBody = rBody r\<rparr>"

definition send :: "'s transport \<Rightarrow> Request \<Rightarrow> 's wire \<Rightarrow> (goerror + apiReply) \<times> 's wire" where
  "send tr r w =
     (case tr (toHttp r) (remote w) of
        (res, s') \<Rightarrow> (res, \<lparr>sent = sent w @ [toHttp r], remote = s'\<rparr>))"

definition reqDo :: "'s transport \<Rightarrow> Request \<Rightarrow> 's wire \<Rightarrow> (goerror + apiReply) \<times> 's wire" where
  "reqDo tr r w =
     (case rErr r of
        Some e \<Rightarrow> (Inl e, w)
      | None \<Rightarrow>
          (case requestPreflightCheck r of
             Some e \<Rightarrow> (Inl e, w)
           | None \<Rightarrow> send tr r w))"

text \<open>\<open>Watch\<close> has no preflight check.\<close>

definition reqWatch :: "'s transport \<Rightarrow> Request \<Rightarrow> 's wire \<Rightarrow> (goerror + nat) \<times> 's wire" where
  "reqWatch tr r w =
     (case rErr r of
        Some e \<Rightarrow> (Inl e, w)
      | None \<Rightarrow>
          (case send tr r w of
             (Inl e, w') \<Rightarrow> (Inl e, w')
           | (Inr (GotWatch i), w') \<Rightarrow> (Inr i, w')
           | (Inr _, w') \<Rightarrow> (Inl (ErrorString ''for request, got status''), w')))"

text \<open>
  \<open>Into(result)\<close>: the decoded object, or the zero value \<open>result\<close> points to together with the error.
  \<open>Error()\<close> only looks at the error.
\<close>

definition resInto ::
  "(apiObject \<Rightarrow> 'a option) \<Rightarrow> 'a \<Rightarrow> (goerror + apiReply) \<times> 's wire \<Rightarrow> ('a \<times> goerror option) \<times> 's wire" where
  "resInto dec zero res =
     (case res of
        (Inl e, w) \<Rightarrow> ((zero, Some e), w)
      | (Inr (GotObject ob), w) \<Rightarrow>
          (case dec ob of
             Some x \<Rightarrow> ((x, None), w)
           | None \<Rightarrow> ((zero, Some (ErrorString ''unable to decode the response'')), w))
      | (Inr _, w) \<Rightarrow> ((zero, Some (ErrorString ''0-length response'')), w))"

definition resError :: "(goerror + apiReply) \<times> 's wire \<Rightarrow> goerror option \<times> 's wire" where
  "resError res = (case res of (Inl e, w) \<Rightarrow> (Some e, w) | (Inr _, w) \<Rightarrow> (None, w))"

section \<open>The path of a request\<close>

text \<open>A segment that stays one segment of the path.\<close>

definition segment :: "string \<Rightarrow> bool" where
  "segment s \<longleftrightarrow> s \<noteq> [] \<and> s \<noteq> ''.'' \<and> s \<noteq> ''..'' \<and> CHR ''/'' \<notin> set s"

lemma segment_valid: "IsValidPathSegmentName s \<Longrightarrow> s \<noteq> [] \<Longrightarrow> segment s"
  by (simp add: segment_def IsValidPathSegmentName_def)

lemma clean_segments: "list_all segment ss \<Longrightarrow> foldl (cleanStep rooted) out ss = out @ ss"
  by (induction ss arbitrary: out) (auto simp: cleanStep_def segment_def)

lemma clean_keeps_segments:
  "\<forall>s\<in>set ss. CHR ''/'' \<notin> set s \<Longrightarrow> list_all segment out \<Longrightarrow>
     list_all segment (foldl (cleanStep True) out ss)"
proof (induction ss arbitrary: out)
  case (Cons s ss)
  have "list_all segment (cleanStep True out s)" using Cons.prems
    by (auto simp: cleanStep_def segment_def list_all_iff dest: in_set_butlastD)
  with Cons show ?case by simp
qed simp

lemma Split_Join_slash:
  "ss \<noteq> [] \<Longrightarrow> list_all segment ss \<Longrightarrow> Split (Join ss (CHR ''/'')) (CHR ''/'') = ss"
  by (rule Split_Join) (auto simp: list_all_iff segment_def)

lemma Split_rooted: "Split (CHR ''/'' # s) (CHR ''/'') = [] # Split s (CHR ''/'')"
  using Split_append [of "CHR ''/''" "[]" s] by simp

lemma Join_append_slash:
  "xs \<noteq> [] \<Longrightarrow> ys \<noteq> [] \<Longrightarrow> Join (xs @ ys) c = Join xs c @ c # Join ys c"
proof (induction xs)
  case (Cons x xs)
  then show ?case by (cases "xs = []") (simp_all add: Join_Cons)
qed simp

lemma pathJoin_segments:
  assumes "ss \<noteq> []" "list_all segment ss" "list_all segment xs"
  shows "pathJoin (rootedPath ss # xs) = rootedPath (ss @ xs)"
proof -
  have "filter (\<lambda>e. e \<noteq> []) xs = xs" using assms(3)
    by (auto simp: filter_id_conv list_all_iff segment_def)
  moreover have "Join (rootedPath ss # xs) (CHR ''/'') = rootedPath (ss @ xs)" using assms(1)
    by (cases "xs = []") (simp_all add: rootedPath_def Join_Cons Join_append_slash)
  ultimately have "pathJoin (rootedPath ss # xs) = Clean (rootedPath (ss @ xs))"
    by (simp add: pathJoin_def rootedPath_def)
  also have "\<dots> = rootedPath (ss @ xs)" using assms
    by (simp add: Clean_def rootedPath_def Split_rooted Split_Join_slash clean_segments cleanStep_def)
  finally show ?thesis .
qed

lemma pathJoin_keep: "pathJoin (x # filter (\<lambda>s. s \<noteq> []) xs) = pathJoin (x # xs)"
  by (simp add: pathJoin_def)

lemma pathJoin_relative:
  assumes "list_all IsValidPathSegmentName subs"
  shows "pathJoin subs = Join (filter (\<lambda>s. s \<noteq> []) subs) (CHR ''/'')"
proof (cases "filter (\<lambda>s. s \<noteq> []) subs")
  case Nil
  then show ?thesis by (simp add: pathJoin_def)
next
  case (Cons x xs)
  have segs: "list_all segment (x # xs)" unfolding Cons [symmetric] using assms
    by (auto simp: list_all_iff intro: segment_valid)
  then have "\<not> HasPrefix (Join (x # xs) (CHR ''/'')) ''/''"
    by (cases x; cases xs) (auto simp: segment_def)
  moreover have "foldl (cleanStep False) [] (x # xs) = x # xs"
    using clean_segments [OF segs, of False "[]"] by simp
  ultimately show ?thesis using Split_Join_slash [OF _ segs]
    by (simp add: pathJoin_def Cons Clean_def del: foldl.simps)
qed

lemma pathJoin_Join_last:
  assumes "list_all segment xs" "list_all segment ys"
  shows "pathJoin (p # xs @ [Join ys (CHR ''/'')]) = pathJoin (p # xs @ ys)"
proof (cases "ys = []")
  case False
  have "filter (\<lambda>e. e \<noteq> []) xs = xs" "filter (\<lambda>e. e \<noteq> []) ys = ys" using assms
    by (auto simp: filter_id_conv list_all_iff segment_def)
  moreover have "Join ys (CHR ''/'') \<noteq> []" using False assms(2)
    by (cases ys; cases "tl ys") (auto simp: segment_def)
  moreover have "Join (zs @ [Join ys (CHR ''/'')]) (CHR ''/'') = Join (zs @ ys) (CHR ''/'')" for zs
    using False by (cases "zs = []") (simp_all add: Join_append_slash)
  note this [of xs] this [of "p # xs"]
  ultimately show ?thesis using False by (simp add: pathJoin_def)
qed (simp add: pathJoin_def)

text \<open>The segments of the path below the prefix.\<close>

definition requestSegments :: "Request \<Rightarrow> string list \<Rightarrow> string list" where
  "requestSegments r subs =
     (if rNamespaceSet r \<and> rNamespace r \<noteq> [] then [''namespaces'', rNamespace r] else []) @
     [rResource r] @ (if rResourceName r = [] then [] else rResourceName r # subs)"

lemma reqURL_segments:
  assumes prefix: "rPathPrefix r = rootedPath pre" "pre \<noteq> []" "list_all segment pre"
    and ns: "rNamespaceSet r \<Longrightarrow> IsValidPathSegmentName (rNamespace r)"
    and res: "segment (rResource r)" "ToLower (rResource r) = rResource r"
    and name: "rResourceName r \<noteq> [] \<Longrightarrow> segment (rResourceName r)"
    and subs: "rSubresource r = Join subs (CHR ''/'')" "list_all segment subs"
    and named: "rResourceName r = [] \<Longrightarrow> subs = []"
  shows "reqURL r = rootedPath (pre @ requestSegments r subs)"
proof -
  let ?ns = "if rNamespaceSet r \<and> rNamespace r \<noteq> [] then [''namespaces'', rNamespace r] else []"
  have ns_seg: "list_all segment ?ns" using ns by (auto intro: segment_valid) (simp add: segment_def)
  have res_ne: "rResource r \<noteq> []" using res(1) by (auto simp: segment_def)
  have p1: "(if rNamespaceSet r \<and> rNamespace r \<noteq> [] then pathJoin [rPathPrefix r, ''namespaces'', rNamespace r]
      else rPathPrefix r) = rootedPath (pre @ ?ns)"
    using pathJoin_segments [OF prefix(2,3) ns_seg] prefix(1) by auto
  have p2: "pathJoin [rootedPath (pre @ ?ns), rResource r] = rootedPath (pre @ ?ns @ [rResource r])"
    using pathJoin_segments [of "pre @ ?ns" "[rResource r]"] prefix(2,3) ns_seg res(1) by simp
  have p3: "rResourceName r \<noteq> [] \<Longrightarrow>
      pathJoin [rootedPath (pre @ ?ns @ [rResource r]), rResourceName r, rSubresource r] =
      rootedPath (pre @ requestSegments r subs)"
    using pathJoin_Join_last [of "[rResourceName r]" subs] subs name prefix ns_seg res(1)
      pathJoin_segments [of "pre @ ?ns @ [rResource r]" "rResourceName r # subs"]
    by (simp add: requestSegments_def)
  show ?thesis
  proof (cases "rResourceName r = []")
    case True
    then have "rSubresource r = []" using named subs(1) by simp
    with True p1 p2 res_ne show ?thesis
      by (simp add: reqURL_def Let_def res(2) requestSegments_def)
  next
    case False
    with p1 p2 p3 res_ne show ?thesis by (simp add: reqURL_def Let_def res(2))
  qed
qed

text \<open>The prefix: the segments of the host's path, then those of the API path.\<close>

definition baseSegments :: "string \<Rightarrow> string list" where
  "baseSegments base = foldl (cleanStep True) [] (Split base (CHR ''/''))"

lemma Split_at: "Split (a @ c # b) c = Split a c @ Split b c"
  by (induction a) (auto split: list.splits)

lemma segments_baseSegments: "list_all segment (baseSegments base)"
  unfolding baseSegments_def by (rule clean_keeps_segments) (auto dest: Split_pieces)

lemma prefix_segments:
  assumes "base \<noteq> []" "api \<noteq> []" "list_all segment api"
  shows "pathJoin [''/'', base, rootedPath api] = rootedPath (baseSegments base @ api)"
proof -
  have "Split (rootedPath api) (CHR ''/'') = [] # api"
    using assms(2,3) by (simp add: rootedPath_def Split_rooted Split_Join_slash)
  then have "Split (''/'' @ CHR ''/'' # base @ CHR ''/'' # rootedPath api) (CHR ''/'') =
      [] # [] # Split base (CHR ''/'') @ [] # api"
    using Split_at [of base "CHR ''/''" "rootedPath api"] by (simp add: Split_rooted)
  then have "foldl (cleanStep True) [] (Split (''/'' @ CHR ''/'' # base @ CHR ''/'' # rootedPath api) (CHR ''/'')) =
      baseSegments base @ api"
    using clean_segments [OF assms(3), of True] by (simp add: baseSegments_def cleanStep_def)
  then show ?thesis using assms(1)
    by (simp add: pathJoin_def Clean_def rootedPath_def)
qed

end
