(* ===== verification/Clients.thy ===== *)
theory Clients
  imports RestClient
begin

text \<open>
  The generated clients of \<open>pkg/client/clientset/versioned\<close>: the clientset with its two group versions,
  and the typed clients for clusters (\<open>v1beta1\<close>) and volume placement strategies (\<open>v1beta1\<close> and
  \<open>v1beta2\<close>), every operation as the chain of builder calls it is in the source.  Object arguments are
  non-nil pointers.
\<close>

section \<open>The group and its versions\<close>

record groupVersion =
  gvGroup :: string
  gvVersion :: string

definition GroupName :: string where
  "GroupName = ''portworx.io''"

definition SchemeGroupVersion1 :: groupVersion where
  "SchemeGroupVersion1 = \<lparr>gvGroup = GroupName, gvVersion = ''v1beta1''\<rparr>"

definition SchemeGroupVersion2 :: groupVersion where
  "SchemeGroupVersion2 = \<lparr>gvGroup = GroupName, gvVersion = ''v1beta2''\<rparr>"

text \<open>\<open>Kind\<close> and \<open>Resource\<close> of the two \<open>register.go\<close>: a kind or resource qualified with the group.\<close>

record groupKind =
  gkGroup :: string
  gkKind :: string

record groupResource =
  grGroup :: string
  grResource :: string

definition Kind1 :: "string \<Rightarrow> groupKind" where
  "Kind1 kind = \<lparr>gkGroup = gvGroup SchemeGroupVersion1, gkKind = kind\<rparr>"

definition Resource1 :: "string \<Rightarrow> groupResource" where
  "Resource1 resource = \<lparr>grGroup = gvGroup SchemeGroupVersion1, grResource = resource\<rparr>"

definition Kind2 :: "string \<Rightarrow> groupKind" where
  "Kind2 kind = \<lparr>gkGroup = gvGroup SchemeGroupVersion2, gkKind = kind\<rparr>"

definition Resource2 :: "string \<Rightarrow> groupResource" where
  "Resource2 resource = \<lparr>grGroup = gvGroup SchemeGroupVersion2, grResource = resource\<rparr>"

text \<open>
  \<open>errors.NewNotFound\<close> and \<open>errors.NewAlreadyExists\<close>; \<open>%q\<close> prints the names that objects can have between quotes as they are.
\<close>

definition groupResourceString :: "groupResource \<Rightarrow> string" where
  "groupResourceString gr =
     (if grGroup gr = [] then grResource gr else grResource gr @ ''.'' @ grGroup gr)"

definition NewNotFound :: "groupResource \<Rightarrow> string \<Rightarrow> goerror" where
  "NewNotFound gr name =
     StatusError NotFound (groupResourceString gr @ '' \"'' @ name @ ''\" not found'')"

definition NewAlreadyExists :: "groupResource \<Rightarrow> string \<Rightarrow> goerror" where
  "NewAlreadyExists gr name =
     StatusError AlreadyExists (groupResourceString gr @ '' \"'' @ name @ ''\" already exists'')"

text \<open>A value of an interface type: nil, or a pointer, possibly nil, of the type that implements it.\<close>

datatype 'a iface = NilIface | Holding "'a option"

section \<open>Building a client\<close>

record restConfig =
  rfHost :: string
  rfAPIPath :: string
  rfGroupVersion :: "groupVersion option"
  rfSerializer :: bool
  rfContentType :: string

text \<open>
  \<open>RESTClientFor\<close>, as far as it decides about paths.  \<open>host\<close> stands for the parsing of the host into a
  URL and for the set-up of the HTTP transport: it gives the path of the URL or an error.
\<close>

definition DefaultVersionedAPIPath :: "string \<Rightarrow> groupVersion \<Rightarrow> string" where
  "DefaultVersionedAPIPath apiPath gv =
     (let p = pathJoin [''/'', apiPath] in
      if gvGroup gv \<noteq> [] then pathJoin [p, gvGroup gv, gvVersion gv] else pathJoin [p, gvVersion gv])"

definition NewRESTClient :: "string \<Rightarrow> string \<Rightarrow> string \<Rightarrow> restClient" where
  "NewRESTClient basePath apiPath contentType =
     \<lparr>rcBasePath = (if basePath \<noteq> [] \<and> last basePath = CHR ''/'' then basePath else basePath @ ''/''),
      rcVersionedAPIPath = apiPath,
      rcContentType = (if contentType = [] then ''application/json'' else contentType)\<rparr>"

definition RESTClientFor :: "(string \<Rightarrow> goerror + string) \<Rightarrow> restConfig \<Rightarrow> goerror + restClient" where
  "RESTClientFor host config =
     (case rfGroupVersion config of
        None \<Rightarrow> Inl (ErrorString ''GroupVersion is required when initializing a RESTClient'')
      | Some gv \<Rightarrow>
          if \<not> rfSerializer config
          then Inl (ErrorString ''NegotiatedSerializer is required when initializing a RESTClient'')
          else case host (if rfHost config = [] then ''localhost'' else rfHost config) of
            Inl e \<Rightarrow> Inl e
          | Inr basePath \<Rightarrow>
              Inr (NewRESTClient basePath (DefaultVersionedAPIPath (rfAPIPath config) gv) (rfContentType config)))"

text \<open>The user agent, which only goes into a header, is left out.\<close>

definition setConfigDefaults :: "groupVersion \<Rightarrow> restConfig \<Rightarrow> restConfig" where
  "setConfigDefaults gv config =
     config\<lparr>rfGroupVersion := Some gv, rfAPIPath := ''/apis'', rfSerializer := True\<rparr>"

definition NewV1beta1ForConfig :: "(string \<Rightarrow> goerror + string) \<Rightarrow> restConfig \<Rightarrow> goerror + restClient" where
  "NewV1beta1ForConfig host c = RESTClientFor host (setConfigDefaults SchemeGroupVersion1 c)"

definition NewV1beta2ForConfig :: "(string \<Rightarrow> goerror + string) \<Rightarrow> restConfig \<Rightarrow> goerror + restClient" where
  "NewV1beta2ForConfig host c = RESTClientFor host (setConfigDefaults SchemeGroupVersion2 c)"

record Clientset =
  csPortworxV1beta1 :: restClient
  csPortworxV1beta2 :: restClient

definition ClientsetNewForConfig :: "(string \<Rightarrow> goerror + string) \<Rightarrow> restConfig \<Rightarrow> goerror + Clientset" where
  "ClientsetNewForConfig host c =
     (case NewV1beta1ForConfig host c of
        Inl e \<Rightarrow> Inl e
      | Inr v1 \<Rightarrow>
          (case NewV1beta2ForConfig host c of
             Inl e \<Rightarrow> Inl e
           | Inr v2 \<Rightarrow> Inr \<lparr>csPortworxV1beta1 = v1, csPortworxV1beta2 = v2\<rparr>))"

section \<open>Zero values and decoders\<close>

definition zeroCluster :: Cluster where
  "zeroCluster = clusterOfImages [] [] [] []"

definition zeroListMeta :: ListMeta where
  "zeroListMeta = \<lparr>lmSelfLink = [], lmResourceVersion = [], lmContinue = [], lmRemainingItemCount = None\<rparr>"

definition zeroClusterList :: ClusterList where
  "zeroClusterList = \<lparr>cllTypeMeta = zeroTypeMeta, cllListMeta = zeroListMeta, cllItems = []\<rparr>"

definition zeroStrategy :: VolumePlacementStrategy where
  "zeroStrategy = \<lparr>vpsTypeMeta = zeroTypeMeta, vpsMeta = metaNamed [] [] None, vpsSpec = \<lparr>vpRules = []\<rparr>\<rparr>"

definition zeroStrategyList :: VolumePlacementStrategyList where
  "zeroStrategyList = \<lparr>vpslTypeMeta = zeroTypeMeta, vpslListMeta = zeroListMeta, vpslItems = []\<rparr>"

definition zeroStrategy2 :: VolumePlacementStrategy2 where
  "zeroStrategy2 = \<lparr>vps2TypeMeta = zeroTypeMeta, vps2Meta = metaNamed [] [] None,
     vps2Spec = \<lparr>vp2ReplicaAffinity = [], vp2ReplicaAntiAffinity = [], vp2VolumeAffinity = [],
                 vp2VolumeAntiAffinity = []\<rparr>\<rparr>"

definition zeroStrategyList2 :: VolumePlacementStrategyList2 where
  "zeroStrategyList2 = \<lparr>vpsl2TypeMeta = zeroTypeMeta, vpsl2ListMeta = zeroListMeta, vpsl2Items = []\<rparr>"

fun asCluster :: "apiObject \<Rightarrow> Cluster option" where
  "asCluster (OCluster x) = Some x"
| "asCluster _ = None"

fun asClusterList :: "apiObject \<Rightarrow> ClusterList option" where
  "asClusterList (OClusterList x) = Some x"
| "asClusterList _ = None"

fun asStrategy :: "apiObject \<Rightarrow> VolumePlacementStrategy option" where
  "asStrategy (OStrategy x) = Some x"
| "asStrategy _ = None"

fun asStrategyList :: "apiObject \<Rightarrow> VolumePlacementStrategyList option" where
  "asStrategyList (OStrategyList x) = Some x"
| "asStrategyList _ = None"

fun asStrategy2 :: "apiObject \<Rightarrow> VolumePlacementStrategy2 option" where
  "asStrategy2 (OStrategy2 x) = Some x"
| "asStrategy2 _ = None"

fun asStrategyList2 :: "apiObject \<Rightarrow> VolumePlacementStrategyList2 option" where
  "asStrategyList2 (OStrategyList2 x) = Some x"
| "asStrategyList2 _ = None"

section \<open>The typed clients\<close>

record clusters =
  clClient :: restClient
  clNs :: string

definition newClusters :: "restClient \<Rightarrow> string \<Rightarrow> clusters" where
  "newClusters c namespace = \<lparr>clClient = c, clNs = namespace\<rparr>"

definition optionsBody :: "MetaDeleteOptions option \<Rightarrow> body" where
  "optionsBody opts = (case opts of None \<Rightarrow> NoBody | Some o' \<Rightarrow> OptionsBody o')"

subsection \<open>Clusters\<close>

definition clustersGet ::
  "'s transport \<Rightarrow> clusters \<Rightarrow> string \<Rightarrow> GetOptions \<Rightarrow> ('s, Cluster \<times> goerror option) wired" where
  "clustersGet tr c name options w =
     resInto asCluster zeroCluster (reqDo tr
       (chain (restGet (clClient c))
         [reqNamespace (clNs c), reqResource ''clusters'', reqName name,
          reqVersionedParams (GetParams options)]) w)"

definition clustersList ::
  "'s transport \<Rightarrow> clusters \<Rightarrow> ListOptions \<Rightarrow> ('s, ClusterList \<times> goerror option) wired" where
  "clustersList tr c opts w =
     resInto asClusterList zeroClusterList (reqDo tr
       (chain (restGet (clClient c))
         [reqNamespace (clNs c), reqResource ''clusters'',
          reqVersionedParams (ListParams opts)]) w)"

definition clustersWatch ::
  "'s transport \<Rightarrow> clusters \<Rightarrow> ListOptions \<Rightarrow> ('s, goerror + nat) wired" where
  "clustersWatch tr c opts w =
     reqWatch tr
       (chain (restGet (clClient c))
         [reqNamespace (clNs c), reqResource ''clusters'',
          reqVersionedParams (ListParams (opts\<lparr>loWatch := True\<rparr>))]) w"

definition clustersCreate ::
  "'s transport \<Rightarrow> clusters \<Rightarrow> Cluster \<Rightarrow> ('s, Cluster \<times> goerror option) wired" where
  "clustersCreate tr c cluster w =
     resInto asCluster zeroCluster (reqDo tr
       (chain (restPost (clClient c))
         [reqNamespace (clNs c), reqResource ''clusters'',
          reqBody (clClient c) (ObjectBody (OCluster cluster))]) w)"

definition clustersUpdate ::
  "'s transport \<Rightarrow> clusters \<Rightarrow> Cluster \<Rightarrow> ('s, Cluster \<times> goerror option) wired" where
  "clustersUpdate tr c cluster w =
     resInto asCluster zeroCluster (reqDo tr
       (chain (restPut (clClient c))
         [reqNamespace (clNs c), reqResource ''clusters'',
          reqName (Name (clMeta cluster)),
          reqBody (clClient c) (ObjectBody (OCluster cluster))]) w)"

definition clustersDelete ::
  "'s transport \<Rightarrow> clusters \<Rightarrow> string \<Rightarrow> MetaDeleteOptions option \<Rightarrow> ('s, goerror option) wired" where
  "clustersDelete tr c name options w =
     resError (reqDo tr
       (chain (restDelete (clClient c))
         [reqNamespace (clNs c), reqResource ''clusters'', reqName name,
          reqBody (clClient c) (optionsBody options)]) w)"

definition clustersDeleteCollection ::
  "'s transport \<Rightarrow> clusters \<Rightarrow> MetaDeleteOptions option \<Rightarrow> ListOptions \<Rightarrow> ('s, goerror option) wired" where
  "clustersDeleteCollection tr c options listOptions w =
     resError (reqDo tr
       (chain (restDelete (clClient c))
         [reqNamespace (clNs c), reqResource ''clusters'',
          reqVersionedParams (ListParams listOptions),
          reqBody (clClient c) (optionsBody options)]) w)"

definition clustersPatch ::
  "'s transport \<Rightarrow> clusters \<Rightarrow> string \<Rightarrow> string \<Rightarrow> string \<Rightarrow> string list \<Rightarrow> ('s, Cluster \<times> goerror option) wired" where
  "clustersPatch tr c name pt data subresources w =
     resInto asCluster zeroCluster (reqDo tr
       (chain (restPatch (clClient c) pt)
         [reqNamespace (clNs c), reqResource ''clusters'',
          reqSubResource subresources, reqName name,
          reqBody (clClient c) (RawBody data)]) w)"

subsection \<open>Volume placement strategies, v1beta1\<close>

definition strategiesGet ::
  "'s transport \<Rightarrow> restClient \<Rightarrow> string \<Rightarrow> GetOptions \<Rightarrow> ('s, VolumePlacementStrategy \<times> goerror option) wired" where
  "strategiesGet tr c name options w =
     resInto asStrategy zeroStrategy (reqDo tr
       (chain (restGet c)
         [reqResource ''volumeplacementstrategies'', reqName name,
          reqVersionedParams (GetParams options)]) w)"

definition strategiesList ::
  "'s transport \<Rightarrow> restClient \<Rightarrow> ListOptions \<Rightarrow> ('s, VolumePlacementStrategyList \<times> goerror option) wired" where
  "strategiesList tr c opts w =
     resInto asStrategyList zeroStrategyList (reqDo tr
       (chain (restGet c)
         [reqResource ''volumeplacementstrategies'',
          reqVersionedParams (ListParams opts)]) w)"

definition strategiesWatch ::
  "'s transport \<Rightarrow> restClient \<Rightarrow> ListOptions \<Rightarrow> ('s, goerror + nat) wired" where
  "strategiesWatch tr c opts w =
     reqWatch tr
       (chain (restGet c)
         [reqResource ''volumeplacementstrategies'',
          reqVersionedParams (ListParams (opts\<lparr>loWatch := True\<rparr>))]) w"

definition strategiesCreate ::
  "'s transport \<Rightarrow> restClient \<Rightarrow> VolumePlacementStrategy \<Rightarrow> ('s, VolumePlacementStrategy \<times> goerror option) wired" where
  "strategiesCreate tr c strategy w =
     resInto asStrategy zeroStrategy (reqDo tr
       (chain (restPost c)
         [reqResource ''volumeplacementstrategies'',
          reqBody c (ObjectBody (OStrategy strategy))]) w)"

definition strategiesUpdate ::
  "'s transport \<Rightarrow> restClient \<Rightarrow> VolumePlacementStrategy \<Rightarrow> ('s, VolumePlacementStrategy \<times> goerror option) wired" where
  "strategiesUpdate tr c strategy w =
     resInto asStrategy zeroStrategy (reqDo tr
       (chain (restPut c)
         [reqResource ''volumeplacementstrategies'',
          reqName (Name (vpsMeta strategy)),
          reqBody c (ObjectBody (OStrategy strategy))]) w)"

definition strategiesDelete ::
  "'s transport \<Rightarrow> restClient \<Rightarrow> string \<Rightarrow> MetaDeleteOptions option \<Rightarrow> ('s, goerror option) wired" where
  "strategiesDelete tr c name options w =
     resError (reqDo tr
       (chain (restDelete c)
         [reqResource ''volumeplacementstrategies'', reqName name,
          reqBody c (optionsBody options)]) w)"

definition strategiesDeleteCollection ::
  "'s transport \<Rightarrow> restClient \<Rightarrow> MetaDeleteOptions option \<Rightarrow> ListOptions \<Rightarrow> ('s, goerror option) wired" where
  "strategiesDeleteCollection tr c options listOptions w =
     resError (reqDo tr
       (chain (restDelete c)
         [reqResource ''volumeplacementstrategies'',
          reqVersionedParams (ListParams listOptions),
          reqBody c (optionsBody options)]) w)"

definition strategiesPatch ::
  "'s transport \<Rightarrow> restClient \<Rightarrow> string \<Rightarrow> string \<Rightarrow> string \<Rightarrow> string list \<Rightarrow> ('s, VolumePlacementStrategy \<times> goerror option) wired" where
  "strategiesPatch tr c name pt data subresources w =
     resInto asStrategy zeroStrategy (reqDo tr
       (chain (restPatch c pt)
         [reqResource ''volumeplacementstrategies'', reqSubResource subresources,
          reqName name, reqBody c (RawBody data)]) w)"

subsection \<open>Volume placement strategies, v1beta2\<close>

definition strategies2Get ::
  "'s transport \<Rightarrow> restClient \<Rightarrow> string \<Rightarrow> GetOptions \<Rightarrow> ('s, VolumePlacementStrategy2 \<times> goerror option) wired" where
  "strategies2Get tr c name options w =
     resInto asStrategy2 zeroStrategy2 (reqDo tr
       (chain (restGet c)
         [reqResource ''volumeplacementstrategies'', reqName name,
          reqVersionedParams (GetParams options)]) w)"

definition strategies2List ::
  "'s transport \<Rightarrow> restClient \<Rightarrow> ListOptions \<Rightarrow> ('s, VolumePlacementStrategyList2 \<times> goerror option) wired" where
  "strategies2List tr c opts w =
     resInto asStrategyList2 zeroStrategyList2 (reqDo tr
       (chain (restGet c)
         [reqResource ''volumeplacementstrategies'',
          reqVersionedParams (ListParams opts)]) w)"

definition strategies2Watch ::
  "'s transport \<Rightarrow> restClient \<Rightarrow> ListOptions \<Rightarrow> ('s, goerror + nat) wired" where
  "strategies2Watch tr c opts w =
     reqWatch tr
       (chain (restGet c)
         [reqResource ''volumeplacementstrategies'',
          reqVersionedParams (ListParams (opts\<lparr>loWatch := True\<rparr>))]) w"

definition strategies2Create ::
  "'s transport \<Rightarrow> restClient \<Rightarrow> VolumePlacementStrategy2 \<Rightarrow> ('s, VolumePlacementStrategy2 \<times> goerror option) wired" where
  "strategies2Create tr c strategy w =
     resInto asStrategy2 zeroStrategy2 (reqDo tr
       (chain (restPost c)
         [reqResource ''volumeplacementstrategies'',
          reqBody c (ObjectBody (OStrategy2 strategy))]) w)"

definition strategies2Update ::
  "'s transport \<Rightarrow> restClient \<Rightarrow> VolumePlacementStrategy2 \<Rightarrow> ('s, VolumePlacementStrategy2 \<times> goerror option) wired" where
  "strategies2Update tr c strategy w =
     resInto asStrategy2 zeroStrategy2 (reqDo tr
       (chain (restPut c)
         [reqResource ''volumeplacementstrategies'',
          reqName (Name (vps2Meta strategy)),
          reqBody c (ObjectBody (OStrategy2 strategy))]) w)"

definition strategies2Delete ::
  "'s transport \<Rightarrow> restClient \<Rightarrow> string \<Rightarrow> MetaDeleteOptions option \<Rightarrow> ('s, goerror option) wired" where
  "strategies2Delete tr c name options w =
     resError (reqDo tr
       (chain (restDelete c)
         [reqResource ''volumeplacementstrategies'', reqName name,
          reqBody c (optionsBody options)]) w)"

definition strategies2DeleteCollection ::
  "'s transport \<Rightarrow> restClient \<Rightarrow> MetaDeleteOptions option \<Rightarrow> ListOptions \<Rightarrow> ('s, goerror option) wired" where
  "strategies2DeleteCollection tr c options listOptions w =
     resError (reqDo tr
       (chain (restDelete c)
         [reqResource ''volumeplacementstrategies'',
          reqVersionedParams (ListParams listOptions),
          reqBody c (optionsBody options)]) w)"

definition strategies2Patch ::
  "'s transport \<Rightarrow> restClient \<Rightarrow> string \<Rightarrow> string \<Rightarrow> string \<Rightarrow> string list \<Rightarrow> ('s, VolumePlacementStrategy2 \<times> goerror option) wired" where
  "strategies2Patch tr c name pt data subresources w =
     resInto asStrategy2 zeroStrategy2 (reqDo tr
       (chain (restPatch c pt)
         [reqResource ''volumeplacementstrategies'', reqSubResource subresources,
          reqName name, reqBody c (RawBody data)]) w)"

section \<open>Calls\<close>

text \<open>The operations of a typed client on objects of type \<open>'a\<close>, with their arguments.\<close>

datatype 'a apiCall =
    CallGet string GetOptions
  | CallList ListOptions
  | CallWatch ListOptions
  | CallCreate 'a
  | CallUpdate 'a
  | CallDelete string "MetaDeleteOptions option"
  | CallDeleteCollection "MetaDeleteOptions option" ListOptions
  | CallPatch string string string "string list"

datatype clientCall =
    OnClusters string "Cluster apiCall"
  | OnStrategies "VolumePlacementStrategy apiCall"
  | OnStrategies2 "VolumePlacementStrategy2 apiCall"

definition errOf :: "('a \<times> goerror option) \<times> 's wire \<Rightarrow> goerror option \<times> 's wire" where
  "errOf r = (snd (fst r), snd r)"

definition watchErr :: "(goerror + nat) \<times> 's wire \<Rightarrow> goerror option \<times> 's wire" where
  "watchErr r = ((case fst r of Inl e \<Rightarrow> Some e | Inr _ \<Rightarrow> None), snd r)"

fun runClusters :: "'s transport \<Rightarrow> clusters \<Rightarrow> Cluster apiCall \<Rightarrow> ('s, goerror option) wired" where
  "runClusters tr c (CallGet name opts) w = errOf (clustersGet tr c name opts w)"
| "runClusters tr c (CallList opts) w = errOf (clustersList tr c opts w)"
| "runClusters tr c (CallWatch opts) w = watchErr (clustersWatch tr c opts w)"
| "runClusters tr c (CallCreate x) w = errOf (clustersCreate tr c x w)"
| "runClusters tr c (CallUpdate x) w = errOf (clustersUpdate tr c x w)"
| "runClusters tr c (CallDelete name opts) w = clustersDelete tr c name opts w"
| "runClusters tr c (CallDeleteCollection opts lopts) w = clustersDeleteCollection tr c opts lopts w"
| "runClusters tr c (CallPatch name pt data subs) w = errOf (clustersPatch tr c name pt data subs w)"

fun runStrategies :: "'s transport \<Rightarrow> restClient \<Rightarrow> VolumePlacementStrategy apiCall \<Rightarrow> ('s, goerror option) wired" where
  "runStrategies tr c (CallGet name opts) w = errOf (strategiesGet tr c name opts w)"
| "runStrategies tr c (CallList opts) w = errOf (strategiesList tr c opts w)"
| "runStrategies tr c (CallWatch opts) w = watchErr (strategiesWatch tr c opts w)"
| "runStrategies tr c (CallCreate x) w = errOf (strategiesCreate tr c x w)"
| "runStrategies tr c (CallUpdate x) w = errOf (strategiesUpdate tr c x w)"
| "runStrategies tr c (CallDelete name opts) w = strategiesDelete tr c name opts w"
| "runStrategies tr c (CallDeleteCollection opts lopts) w = strategiesDeleteCollection tr c opts lopts w"
| "runStrategies tr c (CallPatch name pt data subs) w = errOf (strategiesPatch tr c name pt data subs w)"

fun runStrategies2 :: "'s transport \<Rightarrow> restClient \<Rightarrow> VolumePlacementStrategy2 apiCall \<Rightarrow> ('s, goerror option) wired" where
  "runStrategies2 tr c (CallGet name opts) w = errOf (strategies2Get tr c name opts w)"
| "runStrategies2 tr c (CallList opts) w = errOf (strategies2List tr c opts w)"
| "runStrategies2 tr c (CallWatch opts) w = watchErr (strategies2Watch tr c opts w)"
| "runStrategies2 tr c (CallCreate x) w = errOf (strategies2Create tr c x w)"
| "runStrategies2 tr c (CallUpdate x) w = errOf (strategies2Update tr c x w)"
| "runStrategies2 tr c (CallDelete name opts) w = strategies2Delete tr c name opts w"
| "runStrategies2 tr c (CallDeleteCollection opts lopts) w = strategies2DeleteCollection tr c opts lopts w"
| "runStrategies2 tr c (CallPatch name pt data subs) w = errOf (strategies2Patch tr c name pt data subs w)"

fun runCall :: "'s transport \<Rightarrow> Clientset \<Rightarrow> clientCall \<Rightarrow> ('s, goerror option) wired" where
  "runCall tr cs (OnClusters ns call) = runClusters tr (newClusters (csPortworxV1beta1 cs) ns) call"
| "runCall tr cs (OnStrategies call) = runStrategies tr (csPortworxV1beta1 cs) call"
| "runCall tr cs (OnStrategies2 call) = runStrategies2 tr (csPortworxV1beta2 cs) call"

end
