(* ===== verification/FakeClients.thy ===== *)
theory FakeClients
  imports Clients "HOL-Library.List_Lexorder" "HOL-Library.Char_ord" "HOL-Library.Product_Lexorder"
begin

text \<open>
  The generated fake clientset (\<open>pkg/client/clientset/versioned/fake\<close> and the \<open>fake\<close> packages of the typed
  clients) on the object tracker of \<open>client-go/testing\<close>: the scheme with the registered kinds, the
  tracker with its watchers, the reaction to actions, and every operation of the fake typed clients.
\<close>

section \<open>Actions\<close>

record groupVersionResource =
  gvrGV :: groupVersion
  gvrResource :: string

record groupVersionKind =
  gvkGV :: groupVersion
  gvkKind :: string

definition clustersResource :: groupVersionResource where
  "clustersResource = \<lparr>gvrGV = SchemeGroupVersion1, gvrResource = ''clusters''\<rparr>"

definition clustersKind :: groupVersionKind where
  "clustersKind = \<lparr>gvkGV = SchemeGroupVersion1, gvkKind = ''Cluster''\<rparr>"

definition strategiesResource :: groupVersionResource where
  "strategiesResource = \<lparr>gvrGV = SchemeGroupVersion1, gvrResource = ''volumeplacementstrategies''\<rparr>"

definition strategiesKind :: groupVersionKind where
  "strategiesKind = \<lparr>gvkGV = SchemeGroupVersion1, gvkKind = ''VolumePlacementStrategy''\<rparr>"

definition strategies2Resource :: groupVersionResource where
  "strategies2Resource = \<lparr>gvrGV = SchemeGroupVersion2, gvrResource = ''volumeplacementstrategies''\<rparr>"

definition strategies2Kind :: groupVersionKind where
  "strategies2Kind = \<lparr>gvkGV = SchemeGroupVersion2, gvkKind = ''VolumePlacementStrategy''\<rparr>"

text \<open>A root action, of a resource without namespaces, has the empty namespace.\<close>

datatype action =
    GetAction groupVersionResource string string
  | ListAction groupVersionResource groupVersionKind string ListOptions
  | WatchAction groupVersionResource string ListOptions
  | CreateAction groupVersionResource string apiObject
  | UpdateAction groupVersionResource string apiObject
  | DeleteAction groupVersionResource string string
  | DeleteCollectionAction groupVersionResource string ListOptions
  | PatchAction groupVersionResource string string string string string

section \<open>The scheme\<close>

text \<open>\<open>addKnownTypes\<close> of the two versions.\<close>

definition addKnownTypes1 :: "groupVersionKind list" where
  "addKnownTypes1 =
     map (\<lambda>k. \<lparr>gvkGV = SchemeGroupVersion1, gvkKind = k\<rparr>)
       [''Cluster'', ''ClusterList'', ''VolumePlacementStrategy'']"

definition addKnownTypes2 :: "groupVersionKind list" where
  "addKnownTypes2 =
     map (\<lambda>k. \<lparr>gvkGV = SchemeGroupVersion2, gvkKind = k\<rparr>) [''VolumePlacementStrategy'']"

definition fakeScheme :: "groupVersionKind list" where
  "fakeScheme = addKnownTypes1 @ addKnownTypes2"

text \<open>The scheme of the real clients is built in the same way.\<close>

definition clientScheme :: "groupVersionKind list" where
  "clientScheme = addKnownTypes1 @ addKnownTypes2"

text \<open>\<open>scheme.New\<close>: an empty object of a registered kind.\<close>

definition schemeNew :: "groupVersionKind \<Rightarrow> goerror + apiObject" where
  "schemeNew gvk =
     (if gvk \<notin> set fakeScheme
      then Inl (ErrorString (''no kind '' @ gvkKind gvk @ '' is registered for version '' @
                  gvGroup (gvkGV gvk) @ ''/'' @ gvVersion (gvkGV gvk)))
      else if gvkKind gvk = ''Cluster'' then Inr (OCluster zeroCluster)
      else if gvkKind gvk = ''ClusterList'' then Inr (OClusterList zeroClusterList)
      else if gvkGV gvk = SchemeGroupVersion1 then Inr (OStrategy zeroStrategy)
      else Inr (OStrategy2 zeroStrategy2))"

section \<open>The tracker\<close>

fun objMeta :: "apiObject \<Rightarrow> ObjectMeta option" where
  "objMeta (OCluster x) = Some (clMeta x)"
| "objMeta (OStrategy x) = Some (vpsMeta x)"
| "objMeta (OStrategy2 x) = Some (vps2Meta x)"
| "objMeta _ = None"

fun setMeta :: "ObjectMeta \<Rightarrow> apiObject \<Rightarrow> apiObject" where
  "setMeta m (OCluster x) = OCluster (x\<lparr>clMeta := m\<rparr>)"
| "setMeta m (OStrategy x) = OStrategy (x\<lparr>vpsMeta := m\<rparr>)"
| "setMeta m (OStrategy2 x) = OStrategy2 (x\<lparr>vps2Meta := m\<rparr>)"
| "setMeta m ob = ob"

datatype event = Added apiObject | Modified apiObject | Deleted apiObject

record watcher =
  wResource :: groupVersionResource
  wNamespace :: string
  wEvents :: "event list"

type_synonym objKey = "groupVersionResource \<times> string \<times> string"

text \<open>The objects under their keys, every key once, and the watchers in the order they were opened.\<close>

record objTracker =
  otObjects :: "(objKey \<times> apiObject) list"
  otWatchers :: "watcher list"

definition NewObjectTracker :: objTracker where
  "NewObjectTracker = \<lparr>otObjects = [], otWatchers = []\<rparr>"

definition lookupKey :: "objTracker \<Rightarrow> objKey \<rightharpoonup> apiObject" where
  "lookupKey t = map_of (otObjects t)"

definition putKey :: "objKey \<Rightarrow> apiObject \<Rightarrow> objTracker \<Rightarrow> objTracker" where
  "putKey key ob t =
     t\<lparr>otObjects := (if lookupKey t key = None then otObjects t @ [(key, ob)]
                     else map (\<lambda>(k, x). if k = key then (k, ob) else (k, x)) (otObjects t))\<rparr>"

definition dropKey :: "objKey \<Rightarrow> objTracker \<Rightarrow> objTracker" where
  "dropKey key t = t\<lparr>otObjects := filter (\<lambda>(k, x). k \<noteq> key) (otObjects t)\<rparr>"

text \<open>
  The watchers an event goes to: those of the namespace, then those of all namespaces.  A watcher's
  channel holds 100 events, and an event for a full one panics.
\<close>

definition getWatches :: "objTracker \<Rightarrow> groupVersionResource \<Rightarrow> string \<Rightarrow> nat list" where
  "getWatches t gvr ns =
     (let at = (\<lambda>n. filter (\<lambda>i. wResource (otWatchers t ! i) = gvr \<and> wNamespace (otWatchers t ! i) = n)
                      [0..<length (otWatchers t)]) in
      at ns @ (if ns \<noteq> [] then at [] else []))"

definition pushEvent :: "event \<Rightarrow> nat \<Rightarrow> (objTracker, unit) go" where
  "pushEvent ev i t =
     (let w = otWatchers t ! i in
      if 100 \<le> length (wEvents w) then (Panic ''channel full'', t)
      else (Ok (), t\<lparr>otWatchers := (otWatchers t)[i := w\<lparr>wEvents := wEvents w @ [ev]\<rparr>]\<rparr>))"

definition notifyE :: "groupVersionResource \<Rightarrow> string \<Rightarrow> event \<Rightarrow> (objTracker, unit) go" where
  "notifyE gvr ns ev t = forE (pushEvent ev) (getWatches t gvr ns) t"

definition modifyE :: "('w \<Rightarrow> 'w) \<Rightarrow> ('w, unit) go" where
  "modifyE f w = (Ok (), f w)"

definition readE :: "('w \<Rightarrow> 'a) \<Rightarrow> ('w, 'a) go" where
  "readE f w = (Ok (f w), w)"

definition trkNotFound :: "groupVersionResource \<Rightarrow> string \<Rightarrow> goerror" where
  "trkNotFound gvr name =
     NewNotFound \<lparr>grGroup = gvGroup (gvrGV gvr), grResource = gvrResource gvr\<rparr> name"

definition trkExists :: "groupVersionResource \<Rightarrow> string \<Rightarrow> goerror" where
  "trkExists gvr name =
     NewAlreadyExists \<lparr>grGroup = gvGroup (gvrGV gvr), grResource = gvrResource gvr\<rparr> name"

definition namespaceMismatch :: "string \<Rightarrow> string \<Rightarrow> goerror" where
  "namespaceMismatch request object =
     StatusError BadRequest
       (''request namespace does not match object namespace, request: \"'' @ request @
        ''\" object: \"'' @ object @ ''\"'')"

definition trkGet :: "groupVersionResource \<Rightarrow> string \<Rightarrow> string \<Rightarrow> (objTracker, apiObject) go" where
  "trkGet gvr ns name t =
     (case lookupKey t (gvr, ns, name) of
        Some ob \<Rightarrow> (Ok ob, t)
      | None \<Rightarrow> (Err (trkNotFound gvr name), t))"

text \<open>\<open>add\<close>, which fills in the namespace; \<open>replaceExisting\<close> tells an update from a creation.\<close>

definition trkAdd :: "groupVersionResource \<Rightarrow> apiObject \<Rightarrow> string \<Rightarrow> bool \<Rightarrow> (objTracker, unit) go" where
  "trkAdd gvr obj ns replaceExisting =
     (case objMeta obj of
        None \<Rightarrow> raiseE (ErrorString ''object does not implement the Object interfaces'')
      | Some m0 \<Rightarrow>
          let m = (if Namespace m0 = [] then m0\<lparr>Namespace := ns\<rparr> else m0);
              obj' = setMeta m obj; key = (gvr, Namespace m, Name m) in
          if ns \<noteq> Namespace m
          then raiseE (namespaceMismatch ns (Namespace m))
          else bindE (readE (\<lambda>t. lookupKey t key)) (\<lambda>old.
            case old of
              Some _ \<Rightarrow>
                if replaceExisting
                then bindE (notifyE gvr ns (Modified obj')) (\<lambda>_. modifyE (putKey key obj'))
                else raiseE (trkExists gvr (Name m))
            | None \<Rightarrow>
                if replaceExisting then raiseE (trkNotFound gvr (Name m))
                else bindE (modifyE (putKey key obj')) (\<lambda>_. notifyE gvr ns (Added obj'))))"

definition trkDelete :: "groupVersionResource \<Rightarrow> string \<Rightarrow> string \<Rightarrow> (objTracker, unit) go" where
  "trkDelete gvr ns name =
     bindE (readE (\<lambda>t. lookupKey t (gvr, ns, name))) (\<lambda>old.
       case old of
         None \<Rightarrow> raiseE (trkNotFound gvr name)
       | Some ob \<Rightarrow>
           bindE (modifyE (dropKey (gvr, ns, name))) (\<lambda>_. notifyE gvr ns (Deleted ob)))"

text \<open>\<open>filterByNamespace\<close>: the empty namespace keeps all objects; sorted by namespace and name.\<close>

definition filterByNamespace :: "objTracker \<Rightarrow> groupVersionResource \<Rightarrow> string \<Rightarrow> apiObject list" where
  "filterByNamespace t gvr ns =
     map snd (sort_key (\<lambda>(key, ob). snd key)
       (filter (\<lambda>(key, ob). fst key = gvr \<and> (ns = [] \<or> fst (snd key) = ns)) (otObjects t)))"

text \<open>\<open>meta.SetList\<close>: the items have to be of the list's item type.\<close>

definition setList :: "apiObject \<Rightarrow> apiObject list \<Rightarrow> goerror + apiObject" where
  "setList l obs =
     (case l of
        OClusterList cl \<Rightarrow>
          (case those (map asCluster obs) of
             Some xs \<Rightarrow> Inr (OClusterList (cl\<lparr>cllItems := xs\<rparr>))
           | None \<Rightarrow> Inl (ErrorString ''item type does not match the list''))
      | OStrategyList sl \<Rightarrow>
          (case those (map asStrategy obs) of
             Some xs \<Rightarrow> Inr (OStrategyList (sl\<lparr>vpslItems := xs\<rparr>))
           | None \<Rightarrow> Inl (ErrorString ''item type does not match the list''))
      | OStrategyList2 sl \<Rightarrow>
          (case those (map asStrategy2 obs) of
             Some xs \<Rightarrow> Inr (OStrategyList2 (sl\<lparr>vpsl2Items := xs\<rparr>))
           | None \<Rightarrow> Inl (ErrorString ''item type does not match the list''))
      | _ \<Rightarrow> Inl (ErrorString ''not a list type''))"

definition trkList :: "groupVersionResource \<Rightarrow> groupVersionKind \<Rightarrow> string \<Rightarrow> (objTracker, apiObject) go" where
  "trkList gvr gvk ns =
     (case schemeNew (gvk\<lparr>gvkKind := gvkKind gvk @ ''List''\<rparr>) of
        Inl e \<Rightarrow> raiseE e
      | Inr l \<Rightarrow>
          bindE (readE (\<lambda>t. filterByNamespace t gvr ns)) (\<lambda>obs.
          case setList l obs of Inl e \<Rightarrow> raiseE e | Inr l' \<Rightarrow> returnE l'))"

definition trkWatch :: "groupVersionResource \<Rightarrow> string \<Rightarrow> (objTracker, nat) go" where
  "trkWatch gvr ns t =
     (Ok (length (otWatchers t)),
      t\<lparr>otWatchers := otWatchers t @ [\<lparr>wResource = gvr, wNamespace = ns, wEvents = []\<rparr>]\<rparr>)"

section \<open>The reaction to actions\<close>

text \<open>
  Library code the fakes call: \<open>labels.Parse\<close> with \<open>Matches\<close>, where an invalid selector is \<open>None\<close>,
  whether \<open>fields.ParseSelector\<close> accepts a field selector, and the JSON patch functions with the
  marshalling around them.
\<close>

record lib =
  libSelector :: "string \<Rightarrow> (strmap \<Rightarrow> bool) option"
  libFieldSelector :: "string \<Rightarrow> bool"
  libPatch :: "string \<Rightarrow> string \<Rightarrow> apiObject \<Rightarrow> goerror + apiObject"

definition JSONPatchType :: string where
  "JSONPatchType = ''application/json-patch+json''"

definition MergePatchType :: string where
  "MergePatchType = ''application/merge-patch+json''"

definition StrategicMergePatchType :: string where
  "StrategicMergePatchType = ''application/strategic-merge-patch+json''"

text \<open>\<open>ExtractFromListOptions\<close>, which the constructors of actions on collections call.\<close>

definition ExtractFromListOptions :: "lib \<Rightarrow> ListOptions \<Rightarrow> ('w, strmap \<Rightarrow> bool) go" where
  "ExtractFromListOptions lib opts =
     (case libSelector lib (loLabelSelector opts) of
        None \<Rightarrow> panicE ''invalid selector''
      | Some matches \<Rightarrow>
          if libFieldSelector lib (loFieldSelector opts) then returnE matches
          else panicE ''invalid selector'')"

text \<open>
  \<open>ObjectReaction\<close>: \<open>None\<close> when the action is not handled, otherwise the object, which may be nil, and
  the error.
\<close>

definition asReaction :: "('w, apiObject option) go \<Rightarrow> ('w, (apiObject option \<times> goerror option) option) go" where
  "asReaction m =
     bindE (tryE m) (\<lambda>r. returnE (Some (case r of Inl e \<Rightarrow> (None, Some e) | Inr ob \<Rightarrow> (ob, None))))"

definition addThenGet :: "groupVersionResource \<Rightarrow> string \<Rightarrow> apiObject \<Rightarrow> bool \<Rightarrow> (objTracker, apiObject option) go" where
  "addThenGet gvr ns obj replaceExisting =
     bindE (trkAdd gvr obj ns replaceExisting) (\<lambda>_.
     bindE (trkGet gvr ns (case objMeta obj of Some m \<Rightarrow> Name m | None \<Rightarrow> [])) (\<lambda>ob. returnE (Some ob)))"

definition patchReaction ::
  "lib \<Rightarrow> groupVersionResource \<Rightarrow> string \<Rightarrow> string \<Rightarrow> string \<Rightarrow> string \<Rightarrow> (objTracker, apiObject option) go" where
  "patchReaction lib gvr ns name pt patch =
     bindE (trkGet gvr ns name) (\<lambda>ob.
     if pt \<notin> {JSONPatchType, MergePatchType, StrategicMergePatchType}
     then raiseE (ErrorString ''PatchType is not supported'')
     else case libPatch lib pt patch ob of
       Inl e \<Rightarrow> raiseE e
     | Inr ob' \<Rightarrow> bindE (trkAdd gvr ob' ns True) (\<lambda>_. returnE (Some ob')))"

fun ObjectReaction :: "lib \<Rightarrow> action \<Rightarrow> (objTracker, (apiObject option \<times> goerror option) option) go" where
  "ObjectReaction lib (ListAction gvr gvk ns opts) = asReaction (bindE (trkList gvr gvk ns) (\<lambda>ob. returnE (Some ob)))"
| "ObjectReaction lib (GetAction gvr ns name) = asReaction (bindE (trkGet gvr ns name) (\<lambda>ob. returnE (Some ob)))"
| "ObjectReaction lib (CreateAction gvr ns obj) = asReaction (addThenGet gvr ns obj False)"
| "ObjectReaction lib (UpdateAction gvr ns obj) = asReaction (addThenGet gvr ns obj True)"
| "ObjectReaction lib (DeleteAction gvr ns name) = asReaction (bindE (trkDelete gvr ns name) (\<lambda>_. returnE None))"
| "ObjectReaction lib (PatchAction gvr ns name pt patch sub) = asReaction (patchReaction lib gvr ns name pt patch)"
| "ObjectReaction lib (DeleteCollectionAction gvr ns opts) = returnE None"
| "ObjectReaction lib (WatchAction gvr ns opts) = returnE None"

section \<open>The fake clientset\<close>

record fake =
  fkActions :: "action list"
  fkTracker :: objTracker

text \<open>Running on the tracker of the fake.\<close>

definition onTracker :: "(objTracker, 'a) go \<Rightarrow> (fake, 'a) go" where
  "onTracker m f = (case m (fkTracker f) of (r, t) \<Rightarrow> (r, f\<lparr>fkTracker := t\<rparr>))"

text \<open>
  \<open>Invokes\<close>, with the one reactor \<open>NewSimpleClientset\<close> installs: an action it does not handle gets the
  default object and no error.
\<close>

definition Invokes :: "lib \<Rightarrow> action \<Rightarrow> apiObject \<Rightarrow> (fake, apiObject option \<times> goerror option) go" where
  "Invokes lib a defaultReturnObj =
     bindE (modifyE (\<lambda>f. f\<lparr>fkActions := fkActions f @ [a]\<rparr>)) (\<lambda>_.
     bindE (onTracker (ObjectReaction lib a)) (\<lambda>r.
     returnE (case r of None \<Rightarrow> (Some defaultReturnObj, None) | Some res \<Rightarrow> res)))"

fun InvokesWatch :: "action \<Rightarrow> (fake, nat) go" where
  "InvokesWatch a =
     bindE (modifyE (\<lambda>f. f\<lparr>fkActions := fkActions f @ [a]\<rparr>)) (\<lambda>_.
       case a of
         WatchAction gvr ns opts \<Rightarrow> onTracker (trkWatch gvr ns)
       | _ \<Rightarrow> raiseE (ErrorString ''unhandled watch''))"

text \<open>\<^verbatim>\<open>if obj == nil { return nil, err }; return obj.(*T), err\<close>\<close>

definition fakeResult ::
  "(apiObject \<Rightarrow> 'a option) \<Rightarrow> apiObject option \<times> goerror option \<Rightarrow> ('w, 'a option \<times> goerror option) go" where
  "fakeResult dec r =
     (case r of
        (None, err) \<Rightarrow> returnE (None, err)
      | (Some ob, err) \<Rightarrow>
          (case dec ob of
             Some x \<Rightarrow> returnE (Some x, err)
           | None \<Rightarrow> panicE ''interface conversion''))"

definition labelSet :: "ObjectMeta \<Rightarrow> strmap" where
  "labelSet m = (case Labels m of Some l \<Rightarrow> l | None \<Rightarrow> Map.empty)"

text \<open>
  \<open>NewSimpleClientset\<close>: the objects are added under the resource guessed from their kind, and an error
  panics.
\<close>

fun guessResource :: "apiObject \<Rightarrow> groupVersionResource option" where
  "guessResource (OCluster x) = Some clustersResource"
| "guessResource (OStrategy x) = Some strategiesResource"
| "guessResource (OStrategy2 x) = Some strategies2Resource"
| "guessResource _ = None"

text \<open>A list is added item by item.\<close>

fun extractList :: "apiObject \<Rightarrow> apiObject list" where
  "extractList (OClusterList l) = map OCluster (cllItems l)"
| "extractList (OStrategyList l) = map OStrategy (vpslItems l)"
| "extractList (OStrategyList2 l) = map OStrategy2 (vpsl2Items l)"
| "extractList ob = [ob]"

fun trkAddAll :: "apiObject list \<Rightarrow> (objTracker, unit) go" where
  "trkAddAll [] = returnE ()"
| "trkAddAll (ob # obs) =
     (case (guessResource ob, objMeta ob) of
        (Some gvr, Some m) \<Rightarrow>
          bindE (tryE (trkAdd gvr ob (Namespace m) False)) (\<lambda>r.
          case r of Inl e \<Rightarrow> panicE (errorText e) | Inr _ \<Rightarrow> trkAddAll obs)
      | _ \<Rightarrow> panicE ''no registered kinds'')"

definition NewSimpleClientset :: "apiObject list \<Rightarrow> unit outcome \<times> fake" where
  "NewSimpleClientset objects =
     (case trkAddAll (concat (map extractList objects)) NewObjectTracker of
        (r, t) \<Rightarrow> (r, \<lparr>fkActions = [], fkTracker = t\<rparr>))"

subsection \<open>Clusters\<close>

definition fakeClustersGet ::
  "lib \<Rightarrow> string \<Rightarrow> string \<Rightarrow> GetOptions \<Rightarrow> (fake, Cluster option \<times> goerror option) go" where
  "fakeClustersGet lib ns name options =
     bindE (Invokes lib (GetAction clustersResource ns name) (OCluster zeroCluster)) (fakeResult asCluster)"

definition fakeClustersList ::
  "lib \<Rightarrow> string \<Rightarrow> ListOptions \<Rightarrow> (fake, ClusterList option \<times> goerror option) go" where
  "fakeClustersList lib ns opts =
     bindE (ExtractFromListOptions lib opts) (\<lambda>matches.
     bindE (Invokes lib (ListAction clustersResource clustersKind ns opts) (OClusterList zeroClusterList)) (\<lambda>r.
     bindE (fakeResult asClusterList r) (\<lambda>(res, err).
     returnE (map_option (\<lambda>l. zeroClusterList\<lparr>cllListMeta := cllListMeta l,
              cllItems := filter (\<lambda>item. matches (labelSet (clMeta item))) (cllItems l)\<rparr>) res, err))))"

definition fakeClustersWatch ::
  "lib \<Rightarrow> string \<Rightarrow> ListOptions \<Rightarrow> (fake, nat) go" where
  "fakeClustersWatch lib ns opts =
     bindE (ExtractFromListOptions lib opts) (\<lambda>_. InvokesWatch (WatchAction clustersResource ns opts))"

definition fakeClustersCreate ::
  "lib \<Rightarrow> string \<Rightarrow> Cluster \<Rightarrow> (fake, Cluster option \<times> goerror option) go" where
  "fakeClustersCreate lib ns cluster =
     bindE (Invokes lib (CreateAction clustersResource ns (OCluster cluster)) (OCluster zeroCluster)) (fakeResult asCluster)"

definition fakeClustersUpdate ::
  "lib \<Rightarrow> string \<Rightarrow> Cluster \<Rightarrow> (fake, Cluster option \<times> goerror option) go" where
  "fakeClustersUpdate lib ns cluster =
     bindE (Invokes lib (UpdateAction clustersResource ns (OCluster cluster)) (OCluster zeroCluster)) (fakeResult asCluster)"

definition fakeClustersDelete ::
  "lib \<Rightarrow> string \<Rightarrow> string \<Rightarrow> MetaDeleteOptions option \<Rightarrow> (fake, goerror option) go" where
  "fakeClustersDelete lib ns name options =
     bindE (Invokes lib (DeleteAction clustersResource ns name) (OCluster zeroCluster)) (\<lambda>(_, err). returnE err)"

definition fakeClustersDeleteCollection ::
  "lib \<Rightarrow> string \<Rightarrow> MetaDeleteOptions option \<Rightarrow> ListOptions \<Rightarrow> (fake, goerror option) go" where
  "fakeClustersDeleteCollection lib ns options listOptions =
     bindE (ExtractFromListOptions lib listOptions) (\<lambda>_.
     bindE (Invokes lib (DeleteCollectionAction clustersResource ns listOptions) (OClusterList zeroClusterList))
       (\<lambda>(_, err). returnE err))"

definition fakeClustersPatch ::
  "lib \<Rightarrow> string \<Rightarrow> string \<Rightarrow> string \<Rightarrow> string \<Rightarrow> string list \<Rightarrow> (fake, Cluster option \<times> goerror option) go" where
  "fakeClustersPatch lib ns name pt data subresources =
     bindE (Invokes lib (PatchAction clustersResource ns name MergePatchType data (pathJoin subresources)) (OCluster zeroCluster))
       (fakeResult asCluster)"

subsection \<open>Volume placement strategies, v1beta1\<close>

definition fakeStrategiesGet ::
  "lib \<Rightarrow> string \<Rightarrow> GetOptions \<Rightarrow> (fake, VolumePlacementStrategy option \<times> goerror option) go" where
  "fakeStrategiesGet lib name options =
     bindE (Invokes lib (GetAction strategiesResource [] name) (OStrategy zeroStrategy)) (fakeResult asStrategy)"

definition fakeStrategiesList ::
  "lib \<Rightarrow> ListOptions \<Rightarrow> (fake, VolumePlacementStrategyList option \<times> goerror option) go" where
  "fakeStrategiesList lib opts =
     bindE (ExtractFromListOptions lib opts) (\<lambda>matches.
     bindE (Invokes lib (ListAction strategiesResource strategiesKind [] opts) (OStrategyList zeroStrategyList)) (\<lambda>r.
     bindE (fakeResult asStrategyList r) (\<lambda>(res, err).
     returnE (map_option (\<lambda>l. zeroStrategyList\<lparr>vpslListMeta := vpslListMeta l,
              vpslItems := filter (\<lambda>item. matches (labelSet (vpsMeta item))) (vpslItems l)\<rparr>) res, err))))"

definition fakeStrategiesWatch ::
  "lib \<Rightarrow> ListOptions \<Rightarrow> (fake, nat) go" where
  "fakeStrategiesWatch lib opts =
     bindE (ExtractFromListOptions lib opts) (\<lambda>_. InvokesWatch (WatchAction strategiesResource [] opts))"

definition fakeStrategiesCreate ::
  "lib \<Rightarrow> VolumePlacementStrategy \<Rightarrow> (fake, VolumePlacementStrategy option \<times> goerror option) go" where
  "fakeStrategiesCreate lib strategy =
     bindE (Invokes lib (CreateAction strategiesResource [] (OStrategy strategy)) (OStrategy zeroStrategy)) (fakeResult asStrategy)"

definition fakeStrategiesUpdate ::
  "lib \<Rightarrow> VolumePlacementStrategy \<Rightarrow> (fake, VolumePlacementStrategy option \<times> goerror option) go" where
  "fakeStrategiesUpdate lib strategy =
     bindE (Invokes lib (UpdateAction strategiesResource [] (OStrategy strategy)) (OStrategy zeroStrategy)) (fakeResult asStrategy)"

definition fakeStrategiesDelete ::
  "lib \<Rightarrow> string \<Rightarrow> MetaDeleteOptions option \<Rightarrow> (fake, goerror option) go" where
  "fakeStrategiesDelete lib name options =
     bindE (Invokes lib (DeleteAction strategiesResource [] name) (OStrategy zeroStrategy)) (\<lambda>(_, err). returnE err)"

definition fakeStrategiesDeleteCollection ::
  "lib \<Rightarrow> MetaDeleteOptions option \<Rightarrow> ListOptions \<Rightarrow> (fake, goerror option) go" where
  "fakeStrategiesDeleteCollection lib options listOptions =
     bindE (ExtractFromListOptions lib listOptions) (\<lambda>_.
     bindE (Invokes lib (DeleteCollectionAction strategiesResource [] listOptions) (OStrategyList zeroStrategyList))
       (\<lambda>(_, err). returnE err))"

definition fakeStrategiesPatch ::
  "lib \<Rightarrow> string \<Rightarrow> string \<Rightarrow> string \<Rightarrow> string list \<Rightarrow> (fake, VolumePlacementStrategy option \<times> goerror option) go" where
  "fakeStrategiesPatch lib name pt data subresources =
     bindE (Invokes lib (PatchAction strategiesResource [] name MergePatchType data (pathJoin subresources)) (OStrategy zeroStrategy))
       (fakeResult asStrategy)"

subsection \<open>Volume placement strategies, v1beta2\<close>

definition fakeStrategies2Get ::
  "lib \<Rightarrow> string \<Rightarrow> GetOptions \<Rightarrow> (fake, VolumePlacementStrategy2 option \<times> goerror option) go" where
  "fakeStrategies2Get lib name options =
     bindE (Invokes lib (GetAction strategies2Resource [] name) (OStrategy2 zeroStrategy2)) (fakeResult asStrategy2)"

definition fakeStrategies2List ::
  "lib \<Rightarrow> ListOptions \<Rightarrow> (fake, VolumePlacementStrategyList2 option \<times> goerror option) go" where
  "fakeStrategies2List lib opts =
     bindE (ExtractFromListOptions lib opts) (\<lambda>matches.
     bindE (Invokes lib (ListAction strategies2Resource strategies2Kind [] opts) (OStrategyList2 zeroStrategyList2)) (\<lambda>r.
     bindE (fakeResult asStrategyList2 r) (\<lambda>(res, err).
     returnE (map_option (\<lambda>l. zeroStrategyList2\<lparr>vpsl2ListMeta := vpsl2ListMeta l,
              vpsl2Items := filter (\<lambda>item. matches (labelSet (vps2Meta item))) (vpsl2Items l)\<rparr>) res, err))))"

definition fakeStrategies2Watch ::
  "lib \<Rightarrow> ListOptions \<Rightarrow> (fake, nat) go" where
  "fakeStrategies2Watch lib opts =
     bindE (ExtractFromListOptions lib opts) (\<lambda>_. InvokesWatch (WatchAction strategies2Resource [] opts))"

definition fakeStrategies2Create ::
  "lib \<Rightarrow> VolumePlacementStrategy2 \<Rightarrow> (fake, VolumePlacementStrategy2 option \<times> goerror option) go" where
  "fakeStrategies2Create lib strategy =
     bindE (Invokes lib (CreateAction strategies2Resource [] (OStrategy2 strategy)) (OStrategy2 zeroStrategy2)) (fakeResult asStrategy2)"

definition fakeStrategies2Update ::
  "lib \<Rightarrow> VolumePlacementStrategy2 \<Rightarrow> (fake, VolumePlacementStrategy2 option \<times> goerror option) go" where
  "fakeStrategies2Update lib strategy =
     bindE (Invokes lib (UpdateAction strategies2Resource [] (OStrategy2 strategy)) (OStrategy2 zeroStrategy2)) (fakeResult asStrategy2)"

definition fakeStrategies2Delete ::
  "lib \<Rightarrow> string \<Rightarrow> MetaDeleteOptions option \<Rightarrow> (fake, goerror option) go" where
  "fakeStrategies2Delete lib name options =
     bindE (Invokes lib (DeleteAction strategies2Resource [] name) (OStrategy2 zeroStrategy2)) (\<lambda>(_, err). returnE err)"

definition fakeStrategies2DeleteCollection ::
  "lib \<Rightarrow> MetaDeleteOptions option \<Rightarrow> ListOptions \<Rightarrow> (fake, goerror option) go" where
  "fakeStrategies2DeleteCollection lib options listOptions =
     bindE (ExtractFromListOptions lib listOptions) (\<lambda>_.
     bindE (Invokes lib (DeleteCollectionAction strategies2Resource [] listOptions) (OStrategyList2 zeroStrategyList2))
       (\<lambda>(_, err). returnE err))"

definition fakeStrategies2Patch ::
  "lib \<Rightarrow> string \<Rightarrow> string \<Rightarrow> string \<Rightarrow> string list \<Rightarrow> (fake, VolumePlacementStrategy2 option \<times> goerror option) go" where
  "fakeStrategies2Patch lib name pt data subresources =
     bindE (Invokes lib (PatchAction strategies2Resource [] name MergePatchType data (pathJoin subresources)) (OStrategy2 zeroStrategy2))
       (fakeResult asStrategy2)"

section \<open>The group clients of the fake\<close>

text \<open>
  \<open>RESTClient\<close> of the fake group clients returns a nil \<open>*rest.RESTClient\<close> as an interface: the
  interface is not nil.
\<close>

definition FakeV1beta1RESTClient :: "restClient iface" where
  "FakeV1beta1RESTClient = Holding None"

definition FakeV1beta2RESTClient :: "restClient iface" where
  "FakeV1beta2RESTClient = Holding None"

end
