(* ===== verification/ClientProps.thy ===== *)
theory ClientProps
  imports FakeClients
begin

text \<open>
  What the generated clients put on the wire, and that the fake clients record the same actions.  The
  three typed clients share one contract, the locale \<open>typed_client\<close>, which is interpreted on the
  definitions of \<open>Clients\<close>.
\<close>

section \<open>The chain of a call\<close>

text \<open>The name a call is about, if it is about one object.\<close>

fun callName :: "('a \<Rightarrow> string) \<Rightarrow> 'a apiCall \<Rightarrow> string option" where
  "callName nameOf (CallGet name opts) = Some name"
| "callName nameOf (CallUpdate x) = Some (nameOf x)"
| "callName nameOf (CallDelete name opts) = Some name"
| "callName nameOf (CallPatch name pt data subs) = Some name"
| "callName nameOf _ = None"

text \<open>
  The calls a client refuses before it sends anything: a name that is empty or not a path segment,
  a namespace that is not one, and an empty namespace where the preflight check wants one.
\<close>

fun wantsNamespace :: "'a apiCall \<Rightarrow> bool" where
  "wantsNamespace (CallGet name opts) = True"
| "wantsNamespace (CallCreate x) = True"
| "wantsNamespace (CallUpdate x) = True"
| "wantsNamespace (CallDelete name opts) = True"
| "wantsNamespace _ = False"

fun callSubs :: "'a apiCall \<Rightarrow> string list" where
  "callSubs (CallPatch name pt data subs) = subs"
| "callSubs _ = []"

definition refusedFor :: "string option \<Rightarrow> ('a \<Rightarrow> string) \<Rightarrow> 'a apiCall \<Rightarrow> bool" where
  "refusedFor ns nameOf call \<longleftrightarrow>
     (case ns of None \<Rightarrow> False
      | Some n \<Rightarrow> \<not> IsValidPathSegmentName n \<or> (n = [] \<and> wantsNamespace call)) \<or>
     (case callName nameOf call of None \<Rightarrow> False
      | Some n \<Rightarrow> n = [] \<or> \<not> IsValidPathSegmentName n) \<or>
     \<not> list_all IsValidPathSegmentName (callSubs call)"

text \<open>The chain of builder calls, for any typed client; \<open>ns\<close> is \<open>None\<close> when there are no namespaces.\<close>

definition inNamespace :: "string option \<Rightarrow> (Request \<Rightarrow> Request) list" where
  "inNamespace ns = (case ns of None \<Rightarrow> [] | Some n \<Rightarrow> [reqNamespace n])"

fun callRequest ::
  "restClient \<Rightarrow> string option \<Rightarrow> string \<Rightarrow> ('a \<Rightarrow> apiObject) \<Rightarrow> ('a \<Rightarrow> string) \<Rightarrow> 'a apiCall \<Rightarrow> Request" where
  "callRequest c ns res enc nameOf (CallGet name opts) =
     chain (restGet c) (inNamespace ns @ [reqResource res, reqName name, reqVersionedParams (GetParams opts)])"
| "callRequest c ns res enc nameOf (CallList opts) =
     chain (restGet c) (inNamespace ns @ [reqResource res, reqVersionedParams (ListParams opts)])"
| "callRequest c ns res enc nameOf (CallWatch opts) =
     chain (restGet c) (inNamespace ns @ [reqResource res, reqVersionedParams (ListParams (opts\<lparr>loWatch := True\<rparr>))])"
| "callRequest c ns res enc nameOf (CallCreate x) =
     chain (restPost c) (inNamespace ns @ [reqResource res, reqBody c (ObjectBody (enc x))])"
| "callRequest c ns res enc nameOf (CallUpdate x) =
     chain (restPut c) (inNamespace ns @ [reqResource res, reqName (nameOf x), reqBody c (ObjectBody (enc x))])"
| "callRequest c ns res enc nameOf (CallDelete name opts) =
     chain (restDelete c) (inNamespace ns @ [reqResource res, reqName name, reqBody c (optionsBody opts)])"
| "callRequest c ns res enc nameOf (CallDeleteCollection opts lopts) =
     chain (restDelete c) (inNamespace ns @
       [reqResource res, reqVersionedParams (ListParams lopts), reqBody c (optionsBody opts)])"
| "callRequest c ns res enc nameOf (CallPatch name pt data subs) =
     chain (restPatch c pt) (inNamespace ns @
       [reqResource res, reqSubResource subs, reqName name, reqBody c (RawBody data)])"

definition isWatch :: "'a apiCall \<Rightarrow> bool" where
  "isWatch call = (case call of CallWatch _ \<Rightarrow> True | _ \<Rightarrow> False)"

text \<open>Why a request is not sent, if it is not: a watch skips the preflight check.\<close>

definition stopped :: "'a apiCall \<Rightarrow> Request \<Rightarrow> goerror option" where
  "stopped call r =
     (case rErr r of Some e \<Rightarrow> Some e
      | None \<Rightarrow> if isWatch call then None else requestPreflightCheck r)"

section \<open>The action a request stands for\<close>

text \<open>
  The conventions of the Kubernetes API: below the path of the host come \<open>apis\<close>, the group, the version,
  the namespace if there is one, the resource, the name and the subresource; together with the verb
  they say what is asked for.
\<close>

definition kindFor :: "groupVersionResource \<Rightarrow> groupVersionKind" where
  "kindFor gvr =
     \<lparr>gvkGV = gvrGV gvr,
      gvkKind = (if gvrResource gvr = ''clusters'' then ''Cluster'' else ''VolumePlacementStrategy'')\<rparr>"

definition collectionAction :: "groupVersionResource \<Rightarrow> string \<Rightarrow> httpRequest \<Rightarrow> action option" where
  "collectionAction gvr ns q =
     (case hParams q of
        ListParams opts \<Rightarrow>
          if hVerb q = ''GET'' then
            Some (if loWatch opts then WatchAction gvr ns opts else ListAction gvr (kindFor gvr) ns opts)
          else if hVerb q = ''DELETE'' then Some (DeleteCollectionAction gvr ns opts)
          else None
      | _ \<Rightarrow>
          (case hBody q of
             ObjectBody ob \<Rightarrow> if hVerb q = ''POST'' then Some (CreateAction gvr ns ob) else None
           | _ \<Rightarrow> None))"

definition objectAction ::
  "groupVersionResource \<Rightarrow> string \<Rightarrow> string \<Rightarrow> string list \<Rightarrow> httpRequest \<Rightarrow> action option" where
  "objectAction gvr ns name subs q =
     (if hVerb q = ''GET'' then Some (GetAction gvr ns name)
      else if hVerb q = ''DELETE'' then Some (DeleteAction gvr ns name)
      else case hBody q of
        ObjectBody ob \<Rightarrow>
          if hVerb q = ''PUT'' \<and> map_option Name (objMeta ob) = Some name then Some (UpdateAction gvr ns ob)
          else None
      | RawBody data \<Rightarrow>
          if hVerb q = ''PATCH''
          then Some (PatchAction gvr ns name (hContentType q) data (Join subs (CHR ''/'')))
          else None
      | _ \<Rightarrow> None)"

fun resourceAction :: "groupVersion \<Rightarrow> string \<Rightarrow> string list \<Rightarrow> httpRequest \<Rightarrow> action option" where
  "resourceAction gv ns [] q = None"
| "resourceAction gv ns [res] q = collectionAction \<lparr>gvrGV = gv, gvrResource = res\<rparr> ns q"
| "resourceAction gv ns (res # name # subs) q = objectAction \<lparr>gvrGV = gv, gvrResource = res\<rparr> ns name subs q"

fun scopedAction :: "groupVersion \<Rightarrow> string list \<Rightarrow> httpRequest \<Rightarrow> action option" where
  "scopedAction gv (x # n # res # rest) q =
     (if x = ''namespaces'' then resourceAction gv n (res # rest) q
      else resourceAction gv [] (x # n # res # rest) q)"
| "scopedAction gv segs q = resourceAction gv [] segs q"

definition requestAction :: "string list \<Rightarrow> httpRequest \<Rightarrow> action option" where
  "requestAction base q =
     (case drop (length base) (tl (Split (hPath q) (CHR ''/''))) of
        a # g # v # segs \<Rightarrow>
          if a = ''apis'' then scopedAction \<lparr>gvGroup = g, gvVersion = v\<rparr> segs q else None
      | _ \<Rightarrow> None)"

text \<open>The action a call means.\<close>

fun callAction ::
  "groupVersionResource \<Rightarrow> string \<Rightarrow> ('a \<Rightarrow> apiObject) \<Rightarrow> 'a apiCall \<Rightarrow> action" where
  "callAction gvr ns enc (CallGet name opts) = GetAction gvr ns name"
| "callAction gvr ns enc (CallList opts) =
     (if loWatch opts then WatchAction gvr ns opts else ListAction gvr (kindFor gvr) ns opts)"
| "callAction gvr ns enc (CallWatch opts) = WatchAction gvr ns (opts\<lparr>loWatch := True\<rparr>)"
| "callAction gvr ns enc (CallCreate x) = CreateAction gvr ns (enc x)"
| "callAction gvr ns enc (CallUpdate x) = UpdateAction gvr ns (enc x)"
| "callAction gvr ns enc (CallDelete name opts) = DeleteAction gvr ns name"
| "callAction gvr ns enc (CallDeleteCollection opts lopts) = DeleteCollectionAction gvr ns lopts"
| "callAction gvr ns enc (CallPatch name pt data subs) = PatchAction gvr ns name pt data (pathJoin subs)"

section \<open>The request of a call\<close>

text \<open>Which setter touches which field, and when the chain is still free of errors after it.\<close>

lemma reqNamespace_keeps:
  "rVerb (reqNamespace n r) = rVerb r"
  "rPathPrefix (reqNamespace n r) = rPathPrefix r"
  "rParams (reqNamespace n r) = rParams r"
  "rContentType (reqNamespace n r) = rContentType r"
  "rResource (reqNamespace n r) = rResource r"
  "rResourceName (reqNamespace n r) = rResourceName r"
  "rSubresource (reqNamespace n r) = rSubresource r"
  "rBody (reqNamespace n r) = rBody r"
  by (simp_all add: reqNamespace_def reqFail_def split: option.splits body.splits)

lemma reqResource_keeps:
  "rVerb (reqResource n r) = rVerb r"
  "rPathPrefix (reqResource n r) = rPathPrefix r"
  "rParams (reqResource n r) = rParams r"
  "rContentType (reqResource n r) = rContentType r"
  "rNamespace (reqResource n r) = rNamespace r"
  "rNamespaceSet (reqResource n r) = rNamespaceSet r"
  "rResourceName (reqResource n r) = rResourceName r"
  "rSubresource (reqResource n r) = rSubresource r"
  "rBody (reqResource n r) = rBody r"
  by (simp_all add: reqResource_def reqFail_def split: option.splits body.splits)

lemma reqName_keeps:
  "rVerb (reqName n r) = rVerb r"
  "rPathPrefix (reqName n r) = rPathPrefix r"
  "rParams (reqName n r) = rParams r"
  "rContentType (reqName n r) = rContentType r"
  "rNamespace (reqName n r) = rNamespace r"
  "rNamespaceSet (reqName n r) = rNamespaceSet r"
  "rResource (reqName n r) = rResource r"
  "rSubresource (reqName n r) = rSubresource r"
  "rBody (reqName n r) = rBody r"
  by (simp_all add: reqName_def reqFail_def split: option.splits body.splits)

lemma reqSubResource_keeps:
  "rVerb (reqSubResource ns r) = rVerb r"
  "rPathPrefix (reqSubResource ns r) = rPathPrefix r"
  "rParams (reqSubResource ns r) = rParams r"
  "rContentType (reqSubResource ns r) = rContentType r"
  "rNamespace (reqSubResource ns r) = rNamespace r"
  "rNamespaceSet (reqSubResource ns r) = rNamespaceSet r"
  "rResource (reqSubResource ns r) = rResource r"
  "rResourceName (reqSubResource ns r) = rResourceName r"
  "rBody (reqSubResource ns r) = rBody r"
  by (simp_all add: reqSubResource_def reqFail_def split: option.splits body.splits)

lemma reqVersionedParams_keeps:
  "rVerb (reqVersionedParams ps r) = rVerb r"
  "rPathPrefix (reqVersionedParams ps r) = rPathPrefix r"
  "rContentType (reqVersionedParams ps r) = rContentType r"
  "rNamespace (reqVersionedParams ps r) = rNamespace r"
  "rNamespaceSet (reqVersionedParams ps r) = rNamespaceSet r"
  "rResource (reqVersionedParams ps r) = rResource r"
  "rResourceName (reqVersionedParams ps r) = rResourceName r"
  "rSubresource (reqVersionedParams ps r) = rSubresource r"
  "rBody (reqVersionedParams ps r) = rBody r"
  by (simp_all add: reqVersionedParams_def reqFail_def split: option.splits body.splits)

lemma reqBody_keeps:
  "rVerb (reqBody c b r) = rVerb r"
  "rPathPrefix (reqBody c b r) = rPathPrefix r"
  "rParams (reqBody c b r) = rParams r"
  "rNamespace (reqBody c b r) = rNamespace r"
  "rNamespaceSet (reqBody c b r) = rNamespaceSet r"
  "rResource (reqBody c b r) = rResource r"
  "rResourceName (reqBody c b r) = rResourceName r"
  "rSubresource (reqBody c b r) = rSubresource r"
  by (simp_all add: reqBody_def reqFail_def split: option.splits body.splits)

lemma setter_errors:
  "rErr (reqNamespace n r) = None \<longleftrightarrow> rErr r = None \<and> \<not> rNamespaceSet r \<and> IsValidPathSegmentName n"
  "rErr (reqResource n r) = None \<longleftrightarrow> rErr r = None \<and> rResource r = [] \<and> IsValidPathSegmentName n"
  "rErr (reqName n r) = None \<longleftrightarrow>
     rErr r = None \<and> n \<noteq> [] \<and> rResourceName r = [] \<and> IsValidPathSegmentName n"
  "rErr (reqVersionedParams ps r) = None \<longleftrightarrow> rErr r = None"
  "rErr (reqBody c b r) = None \<longleftrightarrow> rErr r = None"
  by (auto simp: reqNamespace_def reqResource_def reqName_def reqVersionedParams_def reqBody_def reqFail_def
      split: body.splits)

lemma reqSubResource_error:
  "rErr (reqSubResource ns r) = None \<longleftrightarrow>
     rErr r = None \<and> rSubresource r = [] \<and> list_all IsValidPathSegmentName ns"
proof (cases "find (\<lambda>s. \<not> IsValidPathSegmentName s) ns")
  case None
  then have "list_all IsValidPathSegmentName ns" by (auto simp: find_None_iff list_all_iff)
  with None show ?thesis by (simp add: reqSubResource_def reqFail_def)
next
  case (Some s)
  then have "\<not> list_all IsValidPathSegmentName ns" by (auto simp: find_Some_iff list_all_iff)
  with Some show ?thesis by (simp add: reqSubResource_def reqFail_def)
qed

lemma setter_sets:
  "rErr (reqNamespace n r) = None \<Longrightarrow> rNamespaceSet (reqNamespace n r)"
  "rErr (reqNamespace n r) = None \<Longrightarrow> rNamespace (reqNamespace n r) = n"
  "rErr (reqResource n r) = None \<Longrightarrow> rResource (reqResource n r) = n"
  "rErr (reqName n r) = None \<Longrightarrow> rResourceName (reqName n r) = n"
  "rErr (reqSubResource ns r) = None \<Longrightarrow> rSubresource (reqSubResource ns r) = pathJoin ns"
  "rErr (reqVersionedParams ps r) = None \<Longrightarrow> rParams (reqVersionedParams ps r) = ps"
  "rErr (reqBody c b r) = None \<Longrightarrow> rBody (reqBody c b r) = (if b = NoBody then rBody r else b)"
  "rErr (reqBody c (RawBody data) r) = None \<Longrightarrow> rContentType (reqBody c (RawBody data) r) = rContentType r"
  by (auto simp: reqNamespace_def reqResource_def reqName_def reqSubResource_def reqVersionedParams_def
      reqBody_def reqFail_def split: body.splits option.splits if_splits)

lemma new_request:
  "rErr (NewRequest c v) = None" "rVerb (NewRequest c v) = v" "\<not> rNamespaceSet (NewRequest c v)"
  "rNamespace (NewRequest c v) = []" "rResource (NewRequest c v) = []" "rResourceName (NewRequest c v) = []"
  "rSubresource (NewRequest c v) = []" "rParams (NewRequest c v) = NoParams" "rBody (NewRequest c v) = NoBody"
  "rPathPrefix (NewRequest c v) = pathJoin [''/'', rcBasePath c, rcVersionedAPIPath c]"
  by (simp_all add: NewRequest_def)

lemmas setters = setter_errors reqSubResource_error setter_sets reqNamespace_keeps reqResource_keeps
  reqName_keeps reqSubResource_keeps reqVersionedParams_keeps reqBody_keeps new_request chain_def
  restGet_def restPost_def restPut_def restDelete_def restPatch_def inNamespace_def

lemma request_error:
  "IsValidPathSegmentName res \<Longrightarrow>
     rErr (callRequest c ns res enc nameOf call) = None \<longleftrightarrow>
       (\<forall>n. ns = Some n \<longrightarrow> IsValidPathSegmentName n) \<and>
       (\<forall>n. callName nameOf call = Some n \<longrightarrow> n \<noteq> [] \<and> IsValidPathSegmentName n) \<and>
       list_all IsValidPathSegmentName (callSubs call)"
  by (cases call; cases ns) (auto simp: setters)

lemma request_fields:
  assumes "rErr r = None" and "IsValidPathSegmentName res" and "r = callRequest c ns res enc nameOf call"
  shows "rPathPrefix r = pathJoin [''/'', rcBasePath c, rcVersionedAPIPath c]"
    and "rNamespaceSet r = (ns \<noteq> None)" and "rNamespace r = (case ns of None \<Rightarrow> [] | Some n \<Rightarrow> n)"
    and "rResource r = res"
    and "rResourceName r = (case callName nameOf call of None \<Rightarrow> [] | Some n \<Rightarrow> n)"
    and "rSubresource r = pathJoin (callSubs call)"
  using assms(1,2) unfolding assms(3)
  by (cases call; cases ns; simp add: setters pathJoin_def)+

fun callVerb :: "'a apiCall \<Rightarrow> string" where
  "callVerb (CallGet name opts) = ''GET''"
| "callVerb (CallList opts) = ''GET''"
| "callVerb (CallWatch opts) = ''GET''"
| "callVerb (CallCreate x) = ''POST''"
| "callVerb (CallUpdate x) = ''PUT''"
| "callVerb (CallDelete name opts) = ''DELETE''"
| "callVerb (CallDeleteCollection opts lopts) = ''DELETE''"
| "callVerb (CallPatch name pt data subs) = ''PATCH''"

lemma request_verb: "rVerb (callRequest c ns res enc nameOf call) = callVerb call"
  by (cases call; cases ns; simp add: setters)

lemma request_stopped:
  assumes "IsValidPathSegmentName res"
  shows "stopped call (callRequest c ns res enc nameOf call) = None \<longleftrightarrow> \<not> refusedFor ns nameOf call"
proof (cases "rErr (callRequest c ns res enc nameOf call)")
  case None
  note f = request_fields [OF None assms refl]
  from None request_error [OF assms, of c ns enc nameOf call] f(2,3,5) show ?thesis
    by (cases call; cases ns)
       (auto simp: stopped_def isWatch_def refusedFor_def requestPreflightCheck_def request_verb simp del: callRequest.simps)
next
  case (Some e)
  with request_error [OF assms, of c ns enc nameOf call] have "refusedFor ns nameOf call"
    by (auto simp: refusedFor_def split: option.splits)
  with Some show ?thesis by (simp add: stopped_def)
qed

text \<open>Parameters, body and content type.\<close>

fun callParams :: "'a apiCall \<Rightarrow> params" where
  "callParams (CallGet name opts) = GetParams opts"
| "callParams (CallList opts) = ListParams opts"
| "callParams (CallWatch opts) = ListParams (opts\<lparr>loWatch := True\<rparr>)"
| "callParams (CallDeleteCollection opts lopts) = ListParams lopts"
| "callParams _ = NoParams"

fun callBody :: "('a \<Rightarrow> apiObject) \<Rightarrow> 'a apiCall \<Rightarrow> body" where
  "callBody enc (CallCreate x) = ObjectBody (enc x)"
| "callBody enc (CallUpdate x) = ObjectBody (enc x)"
| "callBody enc (CallDelete name opts) = optionsBody opts"
| "callBody enc (CallDeleteCollection opts lopts) = optionsBody opts"
| "callBody enc (CallPatch name pt data subs) = RawBody data"
| "callBody enc _ = NoBody"

lemma request_payload:
  assumes "rErr r = None" and "IsValidPathSegmentName res" and "r = callRequest c ns res enc nameOf call"
  shows "rParams r = callParams call" and "rBody r = callBody enc call"
    and "call = CallPatch name pt data subs \<Longrightarrow> rContentType r = pt"
  using assms(1,2) unfolding assms(3)
  by (cases call; cases ns; simp add: setters optionsBody_def split: option.splits)+

section \<open>The contract\<close>

text \<open>
  The contract: a client builds the request of its call, and either stops with its error and leaves
  the wire alone, or sends it.
\<close>

locale typed_client =
  fixes client :: restClient and ns :: "string option" and resource :: string
    and enc :: "'a \<Rightarrow> apiObject" and nameOf :: "'a \<Rightarrow> string"
    and run :: "'s transport \<Rightarrow> 'a apiCall \<Rightarrow> ('s, goerror option) wired"
  assumes stops: "stopped call (callRequest client ns resource enc nameOf call) = Some e \<Longrightarrow>
       run tr call w = (Some e, w)"
    and sends: "stopped call (callRequest client ns resource enc nameOf call) = None \<Longrightarrow>
       sent (snd (run tr call w)) = sent w @ [toHttp (callRequest client ns resource enc nameOf call)]"
    and resource_ok: "IsValidPathSegmentName resource \<and> resource \<noteq> [] \<and>
       resource \<noteq> ''namespaces'' \<and> ToLower resource = resource"
    and named: "map_option Name (objMeta (enc x)) = Some (nameOf x)"

lemmas client_defs = errOf_def watchErr_def resInto_def resError_def reqDo_def reqWatch_def send_def
  stopped_def isWatch_def inNamespace_def

lemma resource_names:
  "IsValidPathSegmentName ''clusters'' \<and> ToLower ''clusters'' = ''clusters''"
  "IsValidPathSegmentName ''volumeplacementstrategies'' \<and>
     ToLower ''volumeplacementstrategies'' = ''volumeplacementstrategies''"
  by code_simp+

interpretation clustersClient:
  typed_client "clClient c" "Some (clNs c)" "''clusters''" OCluster "\<lambda>x. Name (clMeta x)"
    "\<lambda>tr. runClusters tr c" for c
proof unfold_locales
  fix call e and tr :: "'s transport" and w :: "'s wire"
  let ?r = "callRequest (clClient c) (Some (clNs c)) ''clusters'' OCluster (\<lambda>x. Name (clMeta x)) call"
  show "stopped call ?r = Some e \<Longrightarrow> runClusters tr c call w = (Some e, w)"
    by (cases call) (auto simp: client_defs clustersGet_def clustersList_def clustersWatch_def
        clustersCreate_def clustersUpdate_def clustersDelete_def clustersDeleteCollection_def clustersPatch_def
        split: option.splits)
  show "stopped call ?r = None \<Longrightarrow> sent (snd (runClusters tr c call w)) = sent w @ [toHttp ?r]"
    by (cases call) (auto simp: client_defs clustersGet_def clustersList_def clustersWatch_def
        clustersCreate_def clustersUpdate_def clustersDelete_def clustersDeleteCollection_def clustersPatch_def
        split: option.splits prod.splits sum.splits apiReply.splits)
qed (simp_all add: resource_names)

interpretation strategiesClient:
  typed_client c None "''volumeplacementstrategies''" OStrategy "\<lambda>x. Name (vpsMeta x)"
    "\<lambda>tr. runStrategies tr c" for c
proof unfold_locales
  fix call e and tr :: "'s transport" and w :: "'s wire"
  let ?r = "callRequest c None ''volumeplacementstrategies'' OStrategy (\<lambda>x. Name (vpsMeta x)) call"
  show "stopped call ?r = Some e \<Longrightarrow> runStrategies tr c call w = (Some e, w)"
    by (cases call) (auto simp: client_defs strategiesGet_def strategiesList_def strategiesWatch_def
        strategiesCreate_def strategiesUpdate_def strategiesDelete_def strategiesDeleteCollection_def
        strategiesPatch_def split: option.splits)
  show "stopped call ?r = None \<Longrightarrow> sent (snd (runStrategies tr c call w)) = sent w @ [toHttp ?r]"
    by (cases call) (auto simp: client_defs strategiesGet_def strategiesList_def strategiesWatch_def
        strategiesCreate_def strategiesUpdate_def strategiesDelete_def strategiesDeleteCollection_def
        strategiesPatch_def split: option.splits prod.splits sum.splits apiReply.splits)
qed (simp_all add: resource_names)

interpretation strategies2Client:
  typed_client c None "''volumeplacementstrategies''" OStrategy2 "\<lambda>x. Name (vps2Meta x)"
    "\<lambda>tr. runStrategies2 tr c" for c
proof unfold_locales
  fix call e and tr :: "'s transport" and w :: "'s wire"
  let ?r = "callRequest c None ''volumeplacementstrategies'' OStrategy2 (\<lambda>x. Name (vps2Meta x)) call"
  show "stopped call ?r = Some e \<Longrightarrow> runStrategies2 tr c call w = (Some e, w)"
    by (cases call) (auto simp: client_defs strategies2Get_def strategies2List_def strategies2Watch_def
        strategies2Create_def strategies2Update_def strategies2Delete_def strategies2DeleteCollection_def
        strategies2Patch_def split: option.splits)
  show "stopped call ?r = None \<Longrightarrow> sent (snd (runStrategies2 tr c call w)) = sent w @ [toHttp ?r]"
    by (cases call) (auto simp: client_defs strategies2Get_def strategies2List_def strategies2Watch_def
        strategies2Create_def strategies2Update_def strategies2Delete_def strategies2DeleteCollection_def
        strategies2Patch_def split: option.splits prod.splits sum.splits apiReply.splits)
qed (simp_all add: resource_names)

section \<open>What goes out\<close>

context typed_client
begin

abbreviation req :: "'a apiCall \<Rightarrow> Request" where
  "req call \<equiv> callRequest client ns resource enc nameOf call"

text \<open>The segments of a call's path below the prefix.\<close>

definition callSegments :: "'a apiCall \<Rightarrow> string list" where
  "callSegments call =
     (case ns of None \<Rightarrow> [] | Some n \<Rightarrow> if n = [] then [] else [''namespaces'', n]) @ [resource] @
     (case callName nameOf call of None \<Rightarrow> []
      | Some n \<Rightarrow> n # filter (\<lambda>s. s \<noteq> []) (callSubs call))"

lemma refused_stops: "refusedFor ns nameOf call \<Longrightarrow> \<exists>e. run tr call w = (Some e, w)"
  using request_stopped [of resource call client ns enc nameOf] resource_ok stops by blast

lemma path_of_call:
  assumes "\<not> refusedFor ns nameOf call" and "rcBasePath client \<noteq> []"
    and "rcVersionedAPIPath client = rootedPath api" and "api \<noteq> []" and "list_all segment api"
  shows "reqURL (req call) = rootedPath (baseSegments (rcBasePath client) @ api @ callSegments call)"
proof -
  have "rErr (req call) = None" using request_stopped [of resource call client ns enc nameOf] assms(1) resource_ok
    by (auto simp: stopped_def split: option.splits)
  note fields = request_fields [OF this _ refl]
  let ?subs = "filter (\<lambda>s. s \<noteq> []) (callSubs call)"
  have subs: "list_all IsValidPathSegmentName (callSubs call)" using assms(1) by (simp add: refusedFor_def)
  have "reqURL (req call) = rootedPath ((baseSegments (rcBasePath client) @ api) @ requestSegments (req call) ?subs)"
  proof (rule reqURL_segments)
    show "rPathPrefix (req call) = rootedPath (baseSegments (rcBasePath client) @ api)"
      using fields(1) prefix_segments [OF assms(2,4,5)] assms(3) resource_ok by simp
    show "list_all segment (baseSegments (rcBasePath client) @ api)"
      using segments_baseSegments assms(5) by simp
    show "rNamespaceSet (req call) \<Longrightarrow> IsValidPathSegmentName (rNamespace (req call))"
      using fields(2,3) resource_ok assms(1) by (auto simp: refusedFor_def split: option.splits)
    show "segment (rResource (req call))" "ToLower (rResource (req call)) = rResource (req call)"
      using fields(4) resource_ok by (auto intro: segment_valid)
    show "rResourceName (req call) \<noteq> [] \<Longrightarrow> segment (rResourceName (req call))"
      using fields(5) resource_ok assms(1) by (auto simp: refusedFor_def intro: segment_valid split: option.splits)
    show "rSubresource (req call) = Join ?subs (CHR ''/'')"
      using fields(6) resource_ok pathJoin_relative [OF subs] by simp
    show "list_all segment ?subs" using subs by (auto simp: list_all_iff intro: segment_valid)
    show "rResourceName (req call) = [] \<Longrightarrow> ?subs = []"
      using fields(5) resource_ok assms(1) by (cases call) (auto simp: refusedFor_def)
  qed (use assms(4) in simp)
  moreover have "requestSegments (req call) ?subs = callSegments call"
    using fields(2-5) resource_ok assms(1)
    by (auto simp: requestSegments_def callSegments_def refusedFor_def split: option.splits)
  ultimately show ?thesis by simp
qed

lemma scoped_call:
  assumes "\<not> refusedFor ns nameOf call"
  shows "scopedAction gv (callSegments call) q =
    resourceAction gv (case ns of None \<Rightarrow> [] | Some n \<Rightarrow> n)
      (resource # (case callName nameOf call of None \<Rightarrow> []
         | Some n \<Rightarrow> n # filter (\<lambda>s. s \<noteq> []) (callSubs call))) q"
proof (cases "callName nameOf call")
  case None
  then show ?thesis using resource_ok unfolding callSegments_def by (cases ns) simp_all
next
  case (Some n)
  then show ?thesis using resource_ok unfolding callSegments_def
    by (cases ns; cases "filter (\<lambda>s. s \<noteq> []) (callSubs call)") simp_all
qed

lemma action_of_call:
  assumes "\<not> refusedFor ns nameOf call" and "rcBasePath client \<noteq> []"
    and "rcVersionedAPIPath client = rootedPath [''apis'', g, v]" and "segment g" and "segment v"
  shows "requestAction (baseSegments (rcBasePath client)) (toHttp (req call)) =
    Some (callAction \<lparr>gvrGV = \<lparr>gvGroup = g, gvVersion = v\<rparr>, gvrResource = resource\<rparr>
      (case ns of None \<Rightarrow> [] | Some n \<Rightarrow> n) enc call)"
proof -
  let ?segs = "baseSegments (rcBasePath client) @ [''apis'', g, v] @ callSegments call"
  let ?gv = "\<lparr>gvGroup = g, gvVersion = v\<rparr>"
  have err: "rErr (req call) = None" and subs: "list_all IsValidPathSegmentName (callSubs call)"
    using request_stopped [of resource call client ns enc nameOf] assms(1) resource_ok
    by (auto simp: stopped_def refusedFor_def split: option.splits)
  have api: "list_all segment [''apis'', g, v]" using assms(4,5) by (simp add: segment_def)
  have path: "hPath (toHttp (req call)) = rootedPath ?segs"
    using path_of_call [OF assms(1-3) _ api] by (simp add: toHttp_def)
  have "list_all segment (callSegments call)" using assms(1) resource_ok subs
    by (auto simp: callSegments_def refusedFor_def list_all_iff segment_valid split: option.splits)
       (simp_all add: segment_def)
  then have "Split (rootedPath ?segs) (CHR ''/'') = [] # ?segs"
    using api segments_baseSegments [of "rcBasePath client"]
    by (simp add: rootedPath_def Split_rooted Split_Join_slash)
  then have "requestAction (baseSegments (rcBasePath client)) (toHttp (req call)) =
      scopedAction ?gv (callSegments call) (toHttp (req call))"
    by (simp add: requestAction_def path)
  also have "\<dots> = Some (callAction \<lparr>gvrGV = ?gv, gvrResource = resource\<rparr> (case ns of None \<Rightarrow> [] | Some n \<Rightarrow> n) enc call)"
    unfolding scoped_call [OF assms(1)]
    using request_payload [OF err _ refl] resource_ok request_verb [of client ns resource enc nameOf call]
      pathJoin_relative [OF subs] named
    by (cases call) (auto simp: toHttp_def collectionAction_def objectAction_def simp del: callRequest.simps)
  finally show ?thesis .
qed

lemma call_sends:
  assumes "rcBasePath client \<noteq> []" and "rcVersionedAPIPath client = rootedPath [''apis'', g, v]"
    and "segment g" and "segment v"
  shows "if refusedFor ns nameOf call then \<exists>e. run tr call w = (Some e, w)
    else \<exists>q. sent (snd (run tr call w)) = sent w @ [q] \<and>
      requestAction (baseSegments (rcBasePath client)) q =
        Some (callAction \<lparr>gvrGV = \<lparr>gvGroup = g, gvVersion = v\<rparr>, gvrResource = resource\<rparr>
          (case ns of None \<Rightarrow> [] | Some n \<Rightarrow> n) enc call)"
  using refused_stops sends action_of_call [OF _ assms] request_stopped [of resource call client ns enc nameOf]
    resource_ok by auto

end

section \<open>The clientset\<close>

fun refusedCall :: "clientCall \<Rightarrow> bool" where
  "refusedCall (OnClusters ns call) = refusedFor (Some ns) (\<lambda>x. Name (clMeta x)) call"
| "refusedCall (OnStrategies call) = refusedFor None (\<lambda>x. Name (vpsMeta x)) call"
| "refusedCall (OnStrategies2 call) = refusedFor None (\<lambda>x. Name (vps2Meta x)) call"

fun intended :: "clientCall \<Rightarrow> action" where
  "intended (OnClusters ns call) = callAction clustersResource ns OCluster call"
| "intended (OnStrategies call) = callAction strategiesResource [] OStrategy call"
| "intended (OnStrategies2 call) = callAction strategies2Resource [] OStrategy2 call"

lemma api_paths:
  "DefaultVersionedAPIPath ''/apis'' SchemeGroupVersion1 = rootedPath [''apis'', ''portworx.io'', ''v1beta1'']"
  "DefaultVersionedAPIPath ''/apis'' SchemeGroupVersion2 = rootedPath [''apis'', ''portworx.io'', ''v1beta2'']"
  by code_simp+

lemma version_segments: "segment ''portworx.io''" "segment ''v1beta1''" "segment ''v1beta2''"
  by (simp_all add: segment_def)

lemma baseSegments_slash: "baseSegments (base @ ''/'') = baseSegments base"
  using Split_at [of base "CHR ''/''" "[]"] by (simp add: baseSegments_def cleanStep_def)

text \<open>What the clients of a clientset know about paths.\<close>

lemma clientset_paths:
  assumes "ClientsetNewForConfig host cfg = Inr cs"
    and "host (if rfHost cfg = [] then ''localhost'' else rfHost cfg) = Inr base"
  shows "rcBasePath (csPortworxV1beta1 cs) \<noteq> []" "rcBasePath (csPortworxV1beta2 cs) \<noteq> []"
    "baseSegments (rcBasePath (csPortworxV1beta1 cs)) = baseSegments base"
    "baseSegments (rcBasePath (csPortworxV1beta2 cs)) = baseSegments base"
    "rcVersionedAPIPath (csPortworxV1beta1 cs) = rootedPath [''apis'', ''portworx.io'', ''v1beta1'']"
    "rcVersionedAPIPath (csPortworxV1beta2 cs) = rootedPath [''apis'', ''portworx.io'', ''v1beta2'']"
  using assms
  by (auto simp: ClientsetNewForConfig_def NewV1beta1ForConfig_def NewV1beta2ForConfig_def RESTClientFor_def
      setConfigDefaults_def NewRESTClient_def baseSegments_slash baseSegments_slash [of "[]", simplified] api_paths split: if_splits)

lemma call_request:
  assumes "ClientsetNewForConfig host cfg = Inr cs"
    and "host (if rfHost cfg = [] then ''localhost'' else rfHost cfg) = Inr base"
  shows "if refusedCall call then \<exists>e. runCall tr cs call w = (Some e, w)
    else \<exists>q. sent (snd (runCall tr cs call w)) = sent w @ [q] \<and>
      requestAction (baseSegments base) q = Some (intended call)"
proof -
  note paths = clientset_paths [OF assms]
  show ?thesis
  proof (cases call)
    case (OnClusters ns k)
    have "if refusedFor (Some ns) (\<lambda>x. Name (clMeta x)) k
      then \<exists>e. runClusters tr (newClusters (csPortworxV1beta1 cs) ns) k w = (Some e, w)
      else \<exists>q. sent (snd (runClusters tr (newClusters (csPortworxV1beta1 cs) ns) k w)) = sent w @ [q] \<and>
        requestAction (baseSegments base) q = Some (callAction clustersResource ns OCluster k)"
      using clustersClient.call_sends [of "newClusters (csPortworxV1beta1 cs) ns", OF _ _ version_segments(1,2),
          of k tr w] paths(1,3,5)
      by (simp add: newClusters_def clustersResource_def SchemeGroupVersion1_def GroupName_def split: if_splits)
    with OnClusters show ?thesis by simp
  next
    case (OnStrategies k)
    then show ?thesis
      using strategiesClient.call_sends [OF paths(1,5) version_segments(1,2), of k tr w] paths(3)
      by (simp add: strategiesResource_def SchemeGroupVersion1_def GroupName_def split: if_splits)
  next
    case (OnStrategies2 k)
    then show ?thesis
      using strategies2Client.call_sends [OF paths(2,6) version_segments(1,3), of k tr w] paths(4)
      by (simp add: strategies2Resource_def SchemeGroupVersion2_def GroupName_def split: if_splits)
  qed
qed

section \<open>The fake clients\<close>

definition fakeErr :: "('w, 'a \<times> goerror option) go \<Rightarrow> ('w, goerror option) go" where
  "fakeErr m = bindE m (\<lambda>(_, e). returnE e)"

definition fakeWatchErr :: "('w, nat) go \<Rightarrow> ('w, goerror option) go" where
  "fakeWatchErr m = bindE (tryE m) (\<lambda>r. returnE (case r of Inl e \<Rightarrow> Some e | Inr _ \<Rightarrow> None))"

fun fakeRunClusters :: "lib \<Rightarrow> string \<Rightarrow> Cluster apiCall \<Rightarrow> (fake, goerror option) go" where
  "fakeRunClusters lib ns (CallGet name opts) = fakeErr (fakeClustersGet lib ns name opts)"
| "fakeRunClusters lib ns (CallList opts) = fakeErr (fakeClustersList lib ns opts)"
| "fakeRunClusters lib ns (CallWatch opts) = fakeWatchErr (fakeClustersWatch lib ns opts)"
| "fakeRunClusters lib ns (CallCreate x) = fakeErr (fakeClustersCreate lib ns x)"
| "fakeRunClusters lib ns (CallUpdate x) = fakeErr (fakeClustersUpdate lib ns x)"
| "fakeRunClusters lib ns (CallDelete name opts) = fakeClustersDelete lib ns name opts"
| "fakeRunClusters lib ns (CallDeleteCollection opts lopts) = fakeClustersDeleteCollection lib ns opts lopts"
| "fakeRunClusters lib ns (CallPatch name pt data subs) = fakeErr (fakeClustersPatch lib ns name pt data subs)"

fun fakeRunStrategies :: "lib \<Rightarrow> VolumePlacementStrategy apiCall \<Rightarrow> (fake, goerror option) go" where
  "fakeRunStrategies lib (CallGet name opts) = fakeErr (fakeStrategiesGet lib name opts)"
| "fakeRunStrategies lib (CallList opts) = fakeErr (fakeStrategiesList lib opts)"
| "fakeRunStrategies lib (CallWatch opts) = fakeWatchErr (fakeStrategiesWatch lib opts)"
| "fakeRunStrategies lib (CallCreate x) = fakeErr (fakeStrategiesCreate lib x)"
| "fakeRunStrategies lib (CallUpdate x) = fakeErr (fakeStrategiesUpdate lib x)"
| "fakeRunStrategies lib (CallDelete name opts) = fakeStrategiesDelete lib name opts"
| "fakeRunStrategies lib (CallDeleteCollection opts lopts) = fakeStrategiesDeleteCollection lib opts lopts"
| "fakeRunStrategies lib (CallPatch name pt data subs) = fakeErr (fakeStrategiesPatch lib name pt data subs)"

fun fakeRunStrategies2 :: "lib \<Rightarrow> VolumePlacementStrategy2 apiCall \<Rightarrow> (fake, goerror option) go" where
  "fakeRunStrategies2 lib (CallGet name opts) = fakeErr (fakeStrategies2Get lib name opts)"
| "fakeRunStrategies2 lib (CallList opts) = fakeErr (fakeStrategies2List lib opts)"
| "fakeRunStrategies2 lib (CallWatch opts) = fakeWatchErr (fakeStrategies2Watch lib opts)"
| "fakeRunStrategies2 lib (CallCreate x) = fakeErr (fakeStrategies2Create lib x)"
| "fakeRunStrategies2 lib (CallUpdate x) = fakeErr (fakeStrategies2Update lib x)"
| "fakeRunStrategies2 lib (CallDelete name opts) = fakeStrategies2Delete lib name opts"
| "fakeRunStrategies2 lib (CallDeleteCollection opts lopts) = fakeStrategies2DeleteCollection lib opts lopts"
| "fakeRunStrategies2 lib (CallPatch name pt data subs) = fakeErr (fakeStrategies2Patch lib name pt data subs)"

fun fakeCall :: "lib \<Rightarrow> clientCall \<Rightarrow> (fake, goerror option) go" where
  "fakeCall lib (OnClusters ns call) = fakeRunClusters lib ns call"
| "fakeCall lib (OnStrategies call) = fakeRunStrategies lib call"
| "fakeCall lib (OnStrategies2 call) = fakeRunStrategies2 lib call"

text \<open>The list options of a call, which the fakes parse first.\<close>

fun callOptions :: "'a apiCall \<Rightarrow> ListOptions option" where
  "callOptions (CallList opts) = Some opts"
| "callOptions (CallWatch opts) = Some opts"
| "callOptions (CallDeleteCollection opts lopts) = Some lopts"
| "callOptions _ = None"

definition parsesOptions :: "lib \<Rightarrow> 'a apiCall \<Rightarrow> bool" where
  "parsesOptions lib call =
     (case callOptions call of None \<Rightarrow> True
      | Some opts \<Rightarrow> libSelector lib (loLabelSelector opts) \<noteq> None \<and> libFieldSelector lib (loFieldSelector opts))"

fun parsesCall :: "lib \<Rightarrow> clientCall \<Rightarrow> bool" where
  "parsesCall lib (OnClusters ns call) = parsesOptions lib call"
| "parsesCall lib (OnStrategies call) = parsesOptions lib call"
| "parsesCall lib (OnStrategies2 call) = parsesOptions lib call"

text \<open>
  The two things a fake does not record: the patch type, which it replaces by a merge patch, and
  that a list or watch asks for a watch.
\<close>

fun forgetful :: "action \<Rightarrow> action" where
  "forgetful (PatchAction gvr ns name pt data sub) = PatchAction gvr ns name MergePatchType data sub"
| "forgetful (WatchAction gvr ns opts) = WatchAction gvr ns (opts\<lparr>loWatch := True\<rparr>)"
| "forgetful a = a"

lemma Invokes_records: "fkActions (snd (Invokes lib a d f)) = fkActions f @ [a]"
  by (auto simp: Invokes_def bindE_def modifyE_def onTracker_def returnE_def split: prod.splits outcome.splits)

lemma InvokesWatch_records: "fkActions (snd (InvokesWatch a f)) = fkActions f @ [a]"
  by (auto simp: bindE_def modifyE_def onTracker_def raiseE_def split: prod.splits outcome.splits action.splits)

lemma snd_fakeResult: "snd (fakeResult dec r w) = w"
  by (auto simp: fakeResult_def returnE_def panicE_def split: prod.splits option.splits)

lemma snd_bindE_state: "(\<And>x w. snd (k x w) = w) \<Longrightarrow> snd (bindE m k w) = snd (m w)"
  by (auto simp: bindE_def split: prod.splits outcome.splits)

lemma fakeErr_state: "snd (fakeErr m f) = snd (m f)"
  unfolding fakeErr_def by (rule snd_bindE_state) (simp add: returnE_def split: prod.splits)

lemma fakeWatchErr_state: "snd (fakeWatchErr m f) = snd (m f)"
  by (auto simp: fakeWatchErr_def bindE_def tryE_def returnE_def split: prod.splits outcome.splits)

lemma Extract_ok:
  "libSelector lib (loLabelSelector opts) = Some p \<Longrightarrow> libFieldSelector lib (loFieldSelector opts) \<Longrightarrow>
     bindE (ExtractFromListOptions lib opts) k f = k p f"
  by (simp add: ExtractFromListOptions_def bindE_def returnE_def)

lemma records_result: "fkActions (snd (bindE (Invokes lib a d) (fakeResult dec) f)) = fkActions f @ [a]"
  using snd_bindE_state [of "fakeResult dec" "Invokes lib a d" f] by (simp add: snd_fakeResult Invokes_records)

lemma records_error: "fkActions (snd (bindE (Invokes lib a d) (\<lambda>(_, err). returnE err) f)) = fkActions f @ [a]"
  using snd_bindE_state [of "\<lambda>(_, err). returnE err" "Invokes lib a d" f]
  by (simp add: returnE_def Invokes_records split: prod.splits)

lemma records_list:
  "fkActions (snd (bindE (Invokes lib a d) (\<lambda>r. bindE (fakeResult dec r) (\<lambda>(res, err). returnE (g res, err))) f)) =
     fkActions f @ [a]"
proof -
  have "snd (bindE (fakeResult dec r) (\<lambda>(res, err). returnE (g res, err)) w) = w" for r and w :: fake
    using snd_bindE_state [of "\<lambda>(res, err). returnE (g res, err)" "fakeResult dec r" w]
    by (simp add: returnE_def snd_fakeResult split: prod.splits)
  then show ?thesis
    using snd_bindE_state [of "\<lambda>r. bindE (fakeResult dec r) (\<lambda>(res, err). returnE (g res, err))" "Invokes lib a d" f]
    by (simp add: Invokes_records)
qed

lemmas fake_records = fakeErr_state fakeWatchErr_state Extract_ok records_result records_error records_list
  InvokesWatch_records

lemma clusters_record:
  "parsesOptions lib call \<Longrightarrow>
     \<exists>b. fkActions (snd (fakeRunClusters lib ns call f)) = fkActions f @ [b] \<and>
       ((\<forall>opts. call = CallList opts \<longrightarrow> \<not> loWatch opts) \<longrightarrow>
          forgetful b = forgetful (callAction clustersResource ns OCluster call))"
  by (cases call) (auto simp: parsesOptions_def fake_records fakeClustersGet_def fakeClustersList_def
      fakeClustersWatch_def fakeClustersCreate_def fakeClustersUpdate_def fakeClustersDelete_def
      fakeClustersDeleteCollection_def fakeClustersPatch_def kindFor_def clustersResource_def clustersKind_def
      simp del: InvokesWatch.simps)

lemma strategies_record:
  "parsesOptions lib call \<Longrightarrow>
     \<exists>b. fkActions (snd (fakeRunStrategies lib call f)) = fkActions f @ [b] \<and>
       ((\<forall>opts. call = CallList opts \<longrightarrow> \<not> loWatch opts) \<longrightarrow>
          forgetful b = forgetful (callAction strategiesResource [] OStrategy call))"
  by (cases call) (auto simp: parsesOptions_def fake_records fakeStrategiesGet_def fakeStrategiesList_def
      fakeStrategiesWatch_def fakeStrategiesCreate_def fakeStrategiesUpdate_def fakeStrategiesDelete_def
      fakeStrategiesDeleteCollection_def fakeStrategiesPatch_def kindFor_def strategiesResource_def
      strategiesKind_def simp del: InvokesWatch.simps)

lemma strategies2_record:
  "parsesOptions lib call \<Longrightarrow>
     \<exists>b. fkActions (snd (fakeRunStrategies2 lib call f)) = fkActions f @ [b] \<and>
       ((\<forall>opts. call = CallList opts \<longrightarrow> \<not> loWatch opts) \<longrightarrow>
          forgetful b = forgetful (callAction strategies2Resource [] OStrategy2 call))"
  by (cases call) (auto simp: parsesOptions_def fake_records fakeStrategies2Get_def fakeStrategies2List_def
      fakeStrategies2Watch_def fakeStrategies2Create_def fakeStrategies2Update_def fakeStrategies2Delete_def
      fakeStrategies2DeleteCollection_def fakeStrategies2Patch_def kindFor_def strategies2Resource_def
      strategies2Kind_def simp del: InvokesWatch.simps)

text \<open>A list call asks for a list only when its options do not ask for a watch.\<close>

definition listsPlainly :: "'a apiCall \<Rightarrow> bool" where
  "listsPlainly call = (case call of CallList opts \<Rightarrow> \<not> loWatch opts | _ \<Rightarrow> True)"

fun plainCall :: "clientCall \<Rightarrow> bool" where
  "plainCall (OnClusters ns call) = listsPlainly call"
| "plainCall (OnStrategies call) = listsPlainly call"
| "plainCall (OnStrategies2 call) = listsPlainly call"

lemma fakeCall_records:
  assumes "parsesCall lib call" and "plainCall call"
  shows "\<exists>b. fkActions (snd (fakeCall lib call f)) = fkActions f @ [b] \<and> forgetful b = forgetful (intended call)"
proof (cases call)
  case (OnClusters ns k)
  then have "\<forall>opts. k = CallList opts \<longrightarrow> \<not> loWatch opts" using assms(2) by (auto simp: listsPlainly_def)
  with clusters_record [of lib k ns f] OnClusters assms(1) show ?thesis by auto
next
  case (OnStrategies k)
  then have "\<forall>opts. k = CallList opts \<longrightarrow> \<not> loWatch opts" using assms(2) by (auto simp: listsPlainly_def)
  with strategies_record [of lib k f] OnStrategies assms(1) show ?thesis by auto
next
  case (OnStrategies2 k)
  then have "\<forall>opts. k = CallList opts \<longrightarrow> \<not> loWatch opts" using assms(2) by (auto simp: listsPlainly_def)
  with strategies2_record [of lib k f] OnStrategies2 assms(1) show ?thesis by auto
qed

section \<open>Examples\<close>

definition exLib :: lib where
  "exLib = \<lparr>libSelector = (\<lambda>s. Some (\<lambda>m. s = [] \<or> m ''app'' = Some s)), libFieldSelector = (\<lambda>s. True),
            libPatch = (\<lambda>pt data ob. Inr ob)\<rparr>"

definition exHost :: "string \<Rightarrow> goerror + string" where
  "exHost h = Inr ''/k8s/../proxy/''"

definition exConfig :: restConfig where
  "exConfig = \<lparr>rfHost = ''https://10.0.0.1'', rfAPIPath = [], rfGroupVersion = None, rfSerializer = False,
               rfContentType = []\<rparr>"

definition exDelete :: clientCall where
  "exDelete = OnClusters ''kube-system'' (CallDelete ''px'' None)"

section \<open>The properties\<close>

text \<open>
  C4.  Every call of every generated client either is refused with an error before anything is sent, or
  sends exactly one request, whose verb, path and body mean the action of the call.  So a call for
  one object never reaches a collection, whatever the name, the namespace and the host's path are.
\<close>

theorem client_requests:
  assumes "ClientsetNewForConfig host cfg = Inr cs"
    and "host (if rfHost cfg = [] then ''localhost'' else rfHost cfg) = Inr base"
  shows "if refusedCall call then \<exists>e. runCall tr cs call w = (Some e, w)
    else \<exists>q. sent (snd (runCall tr cs call w)) = sent w @ [q] \<and>
      requestAction (baseSegments base) q = Some (intended call)"
  by (rule call_request [OF assms])

theorem client_requests_witness:
  "\<exists>cs q. ClientsetNewForConfig exHost exConfig = Inr cs \<and>
     sent (snd (runCall (\<lambda>q s. (Inr GotStatus, s)) cs exDelete \<lparr>sent = [], remote = ()\<rparr>)) = [q] \<and>
     requestAction [''proxy''] q = Some (DeleteAction clustersResource ''kube-system'' ''px'')"
proof -
  obtain cs where cs: "ClientsetNewForConfig exHost exConfig = Inr cs"
    by (simp add: ClientsetNewForConfig_def NewV1beta1ForConfig_def NewV1beta2ForConfig_def RESTClientFor_def
        setConfigDefaults_def exHost_def)
  have "exHost (if rfHost exConfig = [] then ''localhost'' else rfHost exConfig) = Inr ''/k8s/../proxy/''"
    by (simp add: exHost_def)
  moreover have "baseSegments ''/k8s/../proxy/'' = [''proxy'']" by code_simp
  moreover have "\<not> refusedCall exDelete" by code_simp
  ultimately show ?thesis
    using client_requests [OF cs, of "''/k8s/../proxy/''" exDelete "\<lambda>q s. (Inr GotStatus, s)" "\<lparr>sent = [], remote = ()\<rparr>"] cs
    by (auto simp: exDelete_def simp del: refusedCall.simps)
qed



end
