(* ===== verification/FakeProps.thy ===== *)
theory FakeProps
  imports ClientProps
begin

text \<open>
  The fake clientset as a store: reactions of the tracker refine operations on a map from keys to
  objects, they keep the tracker's invariant, a list of clusters is exactly what is stored, and where
  the fake falls short of the clients it stands for.
\<close>

section \<open>The invariant\<close>

text \<open>Every object is stored once, under the resource of its type and its own namespace and name.\<close>

definition atHome :: "objKey \<times> apiObject \<Rightarrow> bool" where
  "atHome e =
     (case (guessResource (snd e), objMeta (snd e)) of
        (Some gvr, Some m) \<Rightarrow> fst e = (gvr, Namespace m, Name m)
      | _ \<Rightarrow> False)"

definition trkGood :: "objTracker \<Rightarrow> bool" where
  "trkGood t \<longleftrightarrow> distinct (map fst (otObjects t)) \<and> list_all atHome (otObjects t)"

text \<open>No watcher's channel is full.\<close>

definition roomy :: "objTracker \<Rightarrow> bool" where
  "roomy t \<longleftrightarrow> list_all (\<lambda>w. length (wEvents w) < 100) (otWatchers t)"

section \<open>The store\<close>

type_synonym objStore = "objKey \<rightharpoonup> apiObject"

text \<open>Where an object goes that is sent to a namespace.\<close>

definition place :: "groupVersionResource \<Rightarrow> string \<Rightarrow> apiObject \<Rightarrow> goerror + objKey \<times> apiObject" where
  "place gvr ns ob =
     (case objMeta ob of
        None \<Rightarrow> Inl (ErrorString ''object does not implement the Object interfaces'')
      | Some m \<Rightarrow>
          if Namespace m = [] \<or> Namespace m = ns
          then Inr ((gvr, ns, Name m), setMeta (m\<lparr>Namespace := ns\<rparr>) ob)
          else Inl (namespaceMismatch ns (Namespace m)))"

definition storeCreate :: "groupVersionResource \<Rightarrow> string \<Rightarrow> apiObject \<Rightarrow> objStore \<Rightarrow> (goerror + apiObject) \<times> objStore" where
  "storeCreate gvr ns ob s =
     (case place gvr ns ob of
        Inl e \<Rightarrow> (Inl e, s)
      | Inr (key, ob') \<Rightarrow>
          if s key = None then (Inr ob', s(key \<mapsto> ob'))
          else (Inl (trkExists gvr (snd (snd key))), s))"

definition storeUpdate :: "groupVersionResource \<Rightarrow> string \<Rightarrow> apiObject \<Rightarrow> objStore \<Rightarrow> (goerror + apiObject) \<times> objStore" where
  "storeUpdate gvr ns ob s =
     (case place gvr ns ob of
        Inl e \<Rightarrow> (Inl e, s)
      | Inr (key, ob') \<Rightarrow>
          if s key = None then (Inl (trkNotFound gvr (snd (snd key))), s) else (Inr ob', s(key \<mapsto> ob')))"

definition storeGet :: "groupVersionResource \<Rightarrow> string \<Rightarrow> string \<Rightarrow> objStore \<Rightarrow> goerror + apiObject" where
  "storeGet gvr ns name s =
     (case s (gvr, ns, name) of Some ob \<Rightarrow> Inr ob | None \<Rightarrow> Inl (trkNotFound gvr name))"

definition storePatch ::
  "lib \<Rightarrow> groupVersionResource \<Rightarrow> string \<Rightarrow> string \<Rightarrow> string \<Rightarrow> string \<Rightarrow> objStore \<Rightarrow> (goerror + apiObject) \<times> objStore" where
  "storePatch lib gvr ns name pt patch s =
     (case storeGet gvr ns name s of
        Inl e \<Rightarrow> (Inl e, s)
      | Inr ob \<Rightarrow>
          if pt \<notin> {JSONPatchType, MergePatchType, StrategicMergePatchType}
          then (Inl (ErrorString ''PatchType is not supported''), s)
          else case libPatch lib pt patch ob of
            Inl e \<Rightarrow> (Inl e, s)
          | Inr ob' \<Rightarrow>
              (case storeUpdate gvr ns ob' s of (Inl e, s') \<Rightarrow> (Inl e, s') | (Inr _, s') \<Rightarrow> (Inr ob', s')))"

definition asReply :: "goerror + apiObject \<Rightarrow> apiObject option \<times> goerror option" where
  "asReply r = (case r of Inl e \<Rightarrow> (None, Some e) | Inr ob \<Rightarrow> (Some ob, None))"

text \<open>The specification: what an action answers and what it does to the store.\<close>

fun storeStep :: "lib \<Rightarrow> action \<Rightarrow> objStore \<Rightarrow> (apiObject option \<times> goerror option) \<times> objStore" where
  "storeStep lib (GetAction gvr ns name) s = (asReply (storeGet gvr ns name s), s)"
| "storeStep lib (CreateAction gvr ns ob) s = apfst asReply (storeCreate gvr ns ob s)"
| "storeStep lib (UpdateAction gvr ns ob) s = apfst asReply (storeUpdate gvr ns ob s)"
| "storeStep lib (DeleteAction gvr ns name) s =
     (case storeGet gvr ns name s of
        Inl e \<Rightarrow> ((None, Some e), s)
      | Inr _ \<Rightarrow> ((None, None), s((gvr, ns, name) := None)))"
| "storeStep lib (PatchAction gvr ns name pt patch sub) s = apfst asReply (storePatch lib gvr ns name pt patch s)"
| "storeStep lib a s = ((None, None), s)"

text \<open>The actions the reaction handles with the store; the others are on collections.\<close>

fun onObject :: "action \<Rightarrow> bool" where
  "onObject (ListAction gvr gvk ns opts) = False"
| "onObject (WatchAction gvr ns opts) = False"
| "onObject (DeleteCollectionAction gvr ns opts) = False"
| "onObject a = True"

text \<open>An action that brings an object brings it to the resource of its type.\<close>

fun typedAction :: "action \<Rightarrow> bool" where
  "typedAction (CreateAction gvr ns ob) = (guessResource ob = Some gvr)"
| "typedAction (UpdateAction gvr ns ob) = (guessResource ob = Some gvr)"
| "typedAction a = True"

definition patchKeepsType :: "lib \<Rightarrow> bool" where
  "patchKeepsType lib \<longleftrightarrow>
     (\<forall>pt patch ob ob'. libPatch lib pt patch ob = Inr ob' \<longrightarrow> guessResource ob' = guessResource ob)"

section \<open>Steps of the tracker\<close>

lemma map_of_update_entry:
  "map_of xs key \<noteq> None \<Longrightarrow>
     map_of (map (\<lambda>(k, x). if k = key then (k, ob) else (k, x)) xs) = (map_of xs)(key \<mapsto> ob)"
proof -
  have "map_of (map (\<lambda>(k, x). if k = key then (k, ob) else (k, x)) xs) k =
      (if k = key then map_option (\<lambda>_. ob) (map_of xs k) else map_of xs k)" for k
    by (induction xs) auto
  then show "map_of xs key \<noteq> None \<Longrightarrow> ?thesis" by (intro ext) auto
qed

lemma lookupKey_putKey: "lookupKey (putKey key ob t) = (lookupKey t)(key \<mapsto> ob)"
proof (cases "lookupKey t key")
  case None
  then show ?thesis by (auto simp: lookupKey_def putKey_def map_add_def fun_eq_iff split: option.splits)
next
  case (Some old)
  then show ?thesis using map_of_update_entry [of "otObjects t" key ob] by (simp add: lookupKey_def putKey_def)
qed

lemma lookupKey_dropKey: "lookupKey (dropKey key t) = (lookupKey t)(key := None)"
proof -
  have "map_of (filter (\<lambda>(k, x). k \<noteq> key) xs) k = ((map_of xs)(key := None)) k" for xs :: "(objKey \<times> apiObject) list" and k
    by (induction xs) auto
  then show ?thesis by (auto simp: lookupKey_def dropKey_def)
qed

lemma watchers_kept [simp]:
  "otWatchers (putKey key ob t) = otWatchers t" "otWatchers (dropKey key t) = otWatchers t"
  by (simp_all add: putKey_def dropKey_def)

lemma putKey_good: "trkGood t \<Longrightarrow> atHome (key, ob) \<Longrightarrow> trkGood (putKey key ob t)"
proof -
  assume good: "trkGood t" and home: "atHome (key, ob)"
  have keys: "map (fst \<circ> (\<lambda>(k, x). if k = key then (k, ob) else (k, x))) xs = map fst xs"
    for xs :: "(objKey \<times> apiObject) list" by (induction xs) auto
  show "trkGood (putKey key ob t)"
  proof (cases "lookupKey t key")
    case None
    then show ?thesis using good home by (auto simp: trkGood_def putKey_def lookupKey_def map_of_eq_None_iff)
  next
    case (Some old)
    then show ?thesis using good home
      by (auto simp: trkGood_def putKey_def list_all_iff keys)
  qed
qed

lemma dropKey_good: "trkGood t \<Longrightarrow> trkGood (dropKey key t)"
  by (auto simp: trkGood_def dropKey_def list_all_iff distinct_map_filter)

lemma push_all:
  assumes "distinct is" and "\<forall>i\<in>set is. i < length (otWatchers t) \<and> length (wEvents (otWatchers t ! i)) < 100"
  shows "\<exists>ws. forE (pushEvent ev) is t = (Ok (), t\<lparr>otWatchers := ws\<rparr>)"
  using assms
proof (induction "is" arbitrary: t)
  case Nil
  then show ?case by (auto simp: returnE_def intro: exI [of _ "otWatchers t"])
next
  case (Cons i "is")
  let ?w = "otWatchers t ! i"
  let ?t = "t\<lparr>otWatchers := (otWatchers t)[i := ?w\<lparr>wEvents := wEvents ?w @ [ev]\<rparr>]\<rparr>"
  have "pushEvent ev i t = (Ok (), ?t)" using Cons.prems by (simp add: pushEvent_def Let_def)
  moreover have "\<exists>ws. forE (pushEvent ev) is ?t = (Ok (), ?t\<lparr>otWatchers := ws\<rparr>)"
    using Cons.prems by (intro Cons.IH) (auto simp: nth_list_update)
  ultimately show ?case by (auto simp: bindE_def)
qed

lemma notify_roomy: "roomy t \<Longrightarrow> \<exists>ws. notifyE gvr ns ev t = (Ok (), t\<lparr>otWatchers := ws\<rparr>)"
  unfolding notifyE_def
  by (rule push_all) (auto simp: getWatches_def Let_def roomy_def list_all_length)

lemma objects_only:
  "lookupKey (t\<lparr>otWatchers := ws\<rparr>) = lookupKey t" "trkGood (t\<lparr>otWatchers := ws\<rparr>) = trkGood t"
  by (simp_all add: lookupKey_def trkGood_def)

lemma place_home:
  "place gvr ns ob = Inr (key, ob') \<Longrightarrow> guessResource ob = Some gvr \<Longrightarrow> atHome (key, ob')"
  by (cases ob) (auto simp: place_def atHome_def split: if_splits)

lemma place_name: "place gvr ns ob = Inr (key, ob') \<Longrightarrow> \<exists>m. objMeta ob = Some m \<and> key = (gvr, ns, Name m)"
  by (auto simp: place_def split: option.splits if_splits)

text \<open>\<open>add\<close> in terms of \<open>place\<close>.\<close>

lemma trkAdd_place:
  "trkAdd gvr ob ns rep =
     (case place gvr ns ob of
        Inl e \<Rightarrow> raiseE e
      | Inr (key, ob') \<Rightarrow>
          bindE (readE (\<lambda>t. lookupKey t key)) (\<lambda>old.
            case old of
              Some _ \<Rightarrow>
                if rep then bindE (notifyE gvr ns (Modified ob')) (\<lambda>_. modifyE (putKey key ob'))
                else raiseE (trkExists gvr (snd (snd key)))
            | None \<Rightarrow>
                if rep then raiseE (trkNotFound gvr (snd (snd key)))
                else bindE (modifyE (putKey key ob')) (\<lambda>_. notifyE gvr ns (Added ob'))))"
  by (auto simp: trkAdd_def place_def Let_def split: option.splits)

lemma trkAdd_create:
  assumes "roomy t" and "trkGood t"
  shows "\<exists>t'. trkAdd gvr ob ns False t =
      ((case fst (storeCreate gvr ns ob (lookupKey t)) of Inl e \<Rightarrow> Err e | Inr _ \<Rightarrow> Ok ()), t') \<and>
    lookupKey t' = snd (storeCreate gvr ns ob (lookupKey t)) \<and>
    (guessResource ob = Some gvr \<longrightarrow> trkGood t')"
proof (cases "place gvr ns ob")
  case (Inl e)
  then show ?thesis using assms(2) by (simp add: trkAdd_place storeCreate_def raiseE_def)
next
  case (Inr p)
  obtain key ob' where p: "p = (key, ob')" by (cases p)
  have "roomy (putKey key ob' t)" using assms(1) by (simp add: roomy_def)
  then obtain ws where ws: "notifyE gvr ns (Added ob') (putKey key ob' t) = (Ok (), (putKey key ob' t)\<lparr>otWatchers := ws\<rparr>)"
    using notify_roomy by blast
  have "guessResource ob = Some gvr \<longrightarrow> trkGood (putKey key ob' t)"
    using place_home Inr p putKey_good [OF assms(2)] by blast
  with Inr p ws assms(2) show ?thesis
    by (cases "lookupKey t key")
       (auto simp: trkAdd_place storeCreate_def bindE_def readE_def modifyE_def raiseE_def objects_only lookupKey_putKey)
qed

lemma trkAdd_update:
  assumes "roomy t" and "trkGood t"
  shows "\<exists>t'. trkAdd gvr ob ns True t =
      ((case fst (storeUpdate gvr ns ob (lookupKey t)) of Inl e \<Rightarrow> Err e | Inr _ \<Rightarrow> Ok ()), t') \<and>
    lookupKey t' = snd (storeUpdate gvr ns ob (lookupKey t)) \<and>
    (guessResource ob = Some gvr \<longrightarrow> trkGood t')"
proof (cases "place gvr ns ob")
  case (Inl e)
  then show ?thesis using assms(2) by (simp add: trkAdd_place storeUpdate_def raiseE_def)
next
  case (Inr p)
  obtain key ob' where p: "p = (key, ob')" by (cases p)
  obtain ws where ws: "notifyE gvr ns (Modified ob') t = (Ok (), t\<lparr>otWatchers := ws\<rparr>)"
    using notify_roomy [OF assms(1)] by blast
  have "guessResource ob = Some gvr \<longrightarrow> trkGood (putKey key ob' (t\<lparr>otWatchers := ws\<rparr>))"
    using place_home Inr p putKey_good [of "t\<lparr>otWatchers := ws\<rparr>"] assms(2) objects_only(2) by blast
  with Inr p ws assms(2) show ?thesis
    by (cases "lookupKey t key")
       (auto simp: trkAdd_place storeUpdate_def bindE_def readE_def modifyE_def raiseE_def objects_only lookupKey_putKey)
qed

text \<open>What is stored is found.\<close>

lemma storeCreate_get:
  "storeCreate gvr ns ob s = (Inr ob', s') \<Longrightarrow> \<exists>m. objMeta ob = Some m \<and> storeGet gvr ns (Name m) s' = Inr ob'"
  using place_name [of gvr ns ob]
  by (fastforce simp: storeCreate_def storeGet_def split: sum.splits prod.splits if_splits)

lemma storeUpdate_get:
  "storeUpdate gvr ns ob s = (Inr ob', s') \<Longrightarrow> \<exists>m. objMeta ob = Some m \<and> storeGet gvr ns (Name m) s' = Inr ob'"
  using place_name [of gvr ns ob]
  by (fastforce simp: storeUpdate_def storeGet_def split: sum.splits prod.splits if_splits)

lemma trkGet_store:
  "trkGet gvr ns name t = ((case storeGet gvr ns name (lookupKey t) of Inl e \<Rightarrow> Err e | Inr ob \<Rightarrow> Ok ob), t)"
  by (simp add: trkGet_def storeGet_def split: option.splits)

lemma addThenGet_create:
  assumes "roomy t" and "trkGood t"
  shows "\<exists>t'. addThenGet gvr ns ob False t =
      ((case fst (storeCreate gvr ns ob (lookupKey t)) of Inl e \<Rightarrow> Err e | Inr ob' \<Rightarrow> Ok (Some ob')), t') \<and>
    lookupKey t' = snd (storeCreate gvr ns ob (lookupKey t)) \<and> (guessResource ob = Some gvr \<longrightarrow> trkGood t')"
  using trkAdd_create [OF assms, of gvr ob ns] storeCreate_get [of gvr ns ob "lookupKey t"]
  by (cases "storeCreate gvr ns ob (lookupKey t)"; cases "fst (storeCreate gvr ns ob (lookupKey t))")
     (auto simp: addThenGet_def bindE_def returnE_def trkGet_store)

lemma addThenGet_update:
  assumes "roomy t" and "trkGood t"
  shows "\<exists>t'. addThenGet gvr ns ob True t =
      ((case fst (storeUpdate gvr ns ob (lookupKey t)) of Inl e \<Rightarrow> Err e | Inr ob' \<Rightarrow> Ok (Some ob')), t') \<and>
    lookupKey t' = snd (storeUpdate gvr ns ob (lookupKey t)) \<and> (guessResource ob = Some gvr \<longrightarrow> trkGood t')"
  using trkAdd_update [OF assms, of gvr ob ns] storeUpdate_get [of gvr ns ob "lookupKey t"]
  by (cases "storeUpdate gvr ns ob (lookupKey t)"; cases "fst (storeUpdate gvr ns ob (lookupKey t))")
     (auto simp: addThenGet_def bindE_def returnE_def trkGet_store)

lemma asReaction_run:
  "m t = ((case r of Inl e \<Rightarrow> Err e | Inr ob \<Rightarrow> Ok ob), t') \<Longrightarrow>
     asReaction m t = (Ok (Some (case r of Inl e \<Rightarrow> (None, Some e) | Inr ob \<Rightarrow> (ob, None))), t')"
  by (simp add: asReaction_def bindE_def tryE_def returnE_def split: sum.splits)

lemma trkDelete_store:
  assumes "roomy t" and "trkGood t"
  shows "\<exists>t'. trkDelete gvr ns name t =
      ((case storeGet gvr ns name (lookupKey t) of Inl e \<Rightarrow> Err e | Inr _ \<Rightarrow> Ok ()), t') \<and>
    lookupKey t' = (case storeGet gvr ns name (lookupKey t) of Inl e \<Rightarrow> lookupKey t
      | Inr _ \<Rightarrow> (lookupKey t)((gvr, ns, name) := None)) \<and> trkGood t'"
proof (cases "lookupKey t (gvr, ns, name)")
  case None
  then show ?thesis using assms(2)
    by (simp add: trkDelete_def storeGet_def bindE_def readE_def raiseE_def)
next
  case (Some ob)
  have "roomy (dropKey (gvr, ns, name) t)" using assms(1) by (simp add: roomy_def)
  then obtain ws where "notifyE gvr ns (Deleted ob) (dropKey (gvr, ns, name) t) =
      (Ok (), (dropKey (gvr, ns, name) t)\<lparr>otWatchers := ws\<rparr>)" using notify_roomy by blast
  with Some dropKey_good [OF assms(2)] show ?thesis
    by (simp add: trkDelete_def storeGet_def bindE_def readE_def modifyE_def objects_only lookupKey_dropKey)
qed

lemma stored_type:
  "trkGood t \<Longrightarrow> lookupKey t (gvr, ns, name) = Some ob \<Longrightarrow> guessResource ob = Some gvr"
proof -
  assume "trkGood t" and "lookupKey t (gvr, ns, name) = Some ob"
  then have "atHome ((gvr, ns, name), ob)"
    by (auto simp: lookupKey_def trkGood_def list_all_iff dest!: map_of_SomeD)
  then show "guessResource ob = Some gvr" by (auto simp: atHome_def split: option.splits)
qed

lemma patch_store:
  assumes "roomy t" and "trkGood t"
  shows "\<exists>t'. patchReaction lib gvr ns name pt patch t =
      ((case fst (storePatch lib gvr ns name pt patch (lookupKey t)) of Inl e \<Rightarrow> Err e | Inr ob' \<Rightarrow> Ok (Some ob')), t') \<and>
    lookupKey t' = snd (storePatch lib gvr ns name pt patch (lookupKey t)) \<and> (patchKeepsType lib \<longrightarrow> trkGood t')"
proof (cases "lookupKey t (gvr, ns, name)")
  case None
  then show ?thesis using assms(2) by (simp add: patchReaction_def storePatch_def bindE_def trkGet_store storeGet_def)
next
  case (Some ob)
  note type = stored_type [OF assms(2) Some]
  show ?thesis
  proof (cases "pt \<in> {JSONPatchType, MergePatchType, StrategicMergePatchType} \<and> (\<exists>ob'. libPatch lib pt patch ob = Inr ob')")
    case True
    then obtain ob' where ob': "libPatch lib pt patch ob = Inr ob'" by blast
    obtain t' where t': "trkAdd gvr ob' ns True t =
        ((case fst (storeUpdate gvr ns ob' (lookupKey t)) of Inl e \<Rightarrow> Err e | Inr _ \<Rightarrow> Ok ()), t')"
      "lookupKey t' = snd (storeUpdate gvr ns ob' (lookupKey t))" "guessResource ob' = Some gvr \<longrightarrow> trkGood t'"
      using trkAdd_update [OF assms] by blast
    have "patchKeepsType lib \<longrightarrow> trkGood t'" using t'(3) ob' type by (auto simp: patchKeepsType_def)
    with t'(1,2) True ob' Some show ?thesis
      by (cases "storeUpdate gvr ns ob' (lookupKey t)"; cases "fst (storeUpdate gvr ns ob' (lookupKey t))")
         (auto simp: patchReaction_def storePatch_def bindE_def returnE_def trkGet_store storeGet_def)
  next
    case False
    then show ?thesis using assms(2) Some
      by (cases "libPatch lib pt patch ob")
         (auto simp: patchReaction_def storePatch_def bindE_def raiseE_def trkGet_store storeGet_def)
  qed
qed

lemma apfst_case: "apfst f p = (f (fst p), snd p)"
  by (cases p) simp

lemma reaction_store:
  assumes "roomy t" and "trkGood t" and "onObject a"
  shows "\<exists>t'. ObjectReaction lib a t = (Ok (Some (fst (storeStep lib a (lookupKey t)))), t') \<and>
    lookupKey t' = snd (storeStep lib a (lookupKey t)) \<and> (typedAction a \<and> patchKeepsType lib \<longrightarrow> trkGood t')"
proof (cases a)
  case (GetAction gvr ns name)
  then show ?thesis using assms(2)
    by (auto simp: asReaction_def bindE_def tryE_def returnE_def trkGet_store asReply_def split: sum.splits)
next
  case (CreateAction gvr ns ob)
  then show ?thesis using addThenGet_create [OF assms(1,2), of gvr ns ob]
    by (auto simp: asReaction_def bindE_def tryE_def returnE_def apfst_case asReply_def split: sum.splits)
next
  case (UpdateAction gvr ns ob)
  then show ?thesis using addThenGet_update [OF assms(1,2), of gvr ns ob]
    by (auto simp: asReaction_def bindE_def tryE_def returnE_def apfst_case asReply_def split: sum.splits)
next
  case (DeleteAction gvr ns name)
  then show ?thesis using trkDelete_store [OF assms(1,2), of gvr ns name]
    by (auto simp: asReaction_def bindE_def tryE_def returnE_def split: sum.splits)
next
  case (PatchAction gvr ns name pt patch sub)
  then show ?thesis using patch_store [OF assms(1,2), of lib gvr ns name pt patch]
    by (auto simp: asReaction_def bindE_def tryE_def returnE_def apfst_case asReply_def split: sum.splits)
qed (use assms(3) in simp_all)

lemma Invokes_store:
  assumes "roomy (fkTracker f)" and "trkGood (fkTracker f)" and "onObject a"
  shows "\<exists>f'. Invokes lib a d f = (Ok (fst (storeStep lib a (lookupKey (fkTracker f)))), f') \<and>
    lookupKey (fkTracker f') = snd (storeStep lib a (lookupKey (fkTracker f))) \<and>
    (typedAction a \<and> patchKeepsType lib \<longrightarrow> trkGood (fkTracker f'))"
  using reaction_store [OF assms, of lib]
  by (auto simp: Invokes_def bindE_def modifyE_def onTracker_def returnE_def)

section \<open>Lists\<close>

lemma those_map: "\<forall>x\<in>set xs. f x \<noteq> None \<Longrightarrow> those (map f xs) = Some (map (the \<circ> f) xs)"
  by (induction xs) auto

text \<open>The clusters of a namespace, sorted by namespace and name; of all namespaces for the empty one.\<close>

definition clustersIn :: "string \<Rightarrow> objStore \<Rightarrow> Cluster set" where
  "clustersIn ns s = {c. s (clustersResource, Namespace (clMeta c), Name (clMeta c)) = Some (OCluster c) \<and>
     (ns = [] \<or> Namespace (clMeta c) = ns)}"

lemma home_cluster:
  "atHome (key, ob) \<Longrightarrow> fst key = clustersResource \<Longrightarrow>
     \<exists>c. ob = OCluster c \<and> key = (clustersResource, Namespace (clMeta c), Name (clMeta c))"
  by (cases ob)
     (auto simp: atHome_def clustersResource_def strategiesResource_def strategies2Resource_def
        SchemeGroupVersion1_def SchemeGroupVersion2_def)

lemma list_clusters:
  assumes "trkGood t"
  shows "\<exists>cs. map OCluster cs = filterByNamespace t clustersResource ns \<and> distinct cs \<and>
    set cs = clustersIn ns (lookupKey t) \<and> sorted (map (\<lambda>c. (Namespace (clMeta c), Name (clMeta c))) cs)"
proof -
  let ?es = "sort_key (\<lambda>(key, ob). snd key)
    (filter (\<lambda>(key, ob). fst key = clustersResource \<and> (ns = [] \<or> fst (snd key) = ns)) (otObjects t))"
  let ?cs = "map (the \<circ> asCluster \<circ> snd) ?es"
  have dist: "distinct (map fst (otObjects t))" and home: "list_all atHome (otObjects t)"
    using assms by (auto simp: trkGood_def)
  have es: "\<exists>c. e = ((clustersResource, Namespace (clMeta c), Name (clMeta c)), OCluster c)" if "e \<in> set ?es" for e
    using that home home_cluster [of "fst e" "snd e"] by (auto simp: list_all_iff prod_eq_iff split: prod.splits)
  have "distinct ?es" using dist by (auto simp: distinct_map intro: distinct_filter)
  moreover have "inj_on (the \<circ> asCluster \<circ> snd) (set ?es)"
  proof (rule inj_onI)
    fix e e' assume "e \<in> set ?es" "e' \<in> set ?es" and eq: "(the \<circ> asCluster \<circ> snd) e = (the \<circ> asCluster \<circ> snd) e'"
    then obtain c c' where "e = ((clustersResource, Namespace (clMeta c), Name (clMeta c)), OCluster c)"
      "e' = ((clustersResource, Namespace (clMeta c'), Name (clMeta c')), OCluster c')" using es by blast
    with eq show "e = e'" by simp
  qed
  ultimately have "distinct ?cs" by (simp add: distinct_map)
  moreover have "map OCluster ?cs = filterByNamespace t clustersResource ns"
    unfolding filterByNamespace_def map_map by (rule map_cong [OF refl]) (use es in fastforce)
  moreover have "set ?cs = clustersIn ns (lookupKey t)"
  proof (intro set_eqI iffI)
    fix c assume "c \<in> set ?cs"
    then obtain e where e: "e \<in> set ?es" "c = the (asCluster (snd e))" by auto
    then show "c \<in> clustersIn ns (lookupKey t)" using es [OF e(1)] dist
      by (auto simp: clustersIn_def lookupKey_def)
  next
    fix c assume "c \<in> clustersIn ns (lookupKey t)"
    then have "((clustersResource, Namespace (clMeta c), Name (clMeta c)), OCluster c) \<in> set ?es"
      by (auto simp: clustersIn_def lookupKey_def dest: map_of_SomeD)
    then show "c \<in> set ?cs" by force
  qed
  moreover have "sorted (map (\<lambda>c. (Namespace (clMeta c), Name (clMeta c))) ?cs)"
  proof -
    have "map (\<lambda>c. (Namespace (clMeta c), Name (clMeta c))) ?cs = map (\<lambda>(key, ob). snd key) ?es"
      unfolding map_map by (rule map_cong [OF refl]) (use es in fastforce)
    then show ?thesis by (simp only: sorted_sort_key)
  qed
  ultimately show ?thesis by (intro exI [of _ ?cs] conjI)
qed

lemma Extract_run:
  "libSelector lib (loLabelSelector opts) = Some p \<Longrightarrow> libFieldSelector lib (loFieldSelector opts) \<Longrightarrow>
     ExtractFromListOptions lib opts w = (Ok p, w)"
  by (simp add: ExtractFromListOptions_def returnE_def)

lemma list_kind_registered:
  "schemeNew (clustersKind\<lparr>gvkKind := gvkKind clustersKind @ ''List''\<rparr>) = Inr (OClusterList zeroClusterList)"
  by (simp add: schemeNew_def fakeScheme_def addKnownTypes1_def clustersKind_def)

lemma trkList_clusters:
  assumes "map OCluster cs = filterByNamespace t clustersResource ns"
  shows "trkList clustersResource clustersKind ns t = (Ok (OClusterList (zeroClusterList\<lparr>cllItems := cs\<rparr>)), t)"
proof -
  have "those (map asCluster (filterByNamespace t clustersResource ns)) = Some cs"
    unfolding assms [symmetric] by (induction cs) simp_all
  then show ?thesis
    by (simp add: trkList_def list_kind_registered setList_def bindE_def readE_def returnE_def)
qed

lemma strategy_lists_unregistered:
  "\<exists>e. schemeNew (strategiesKind\<lparr>gvkKind := gvkKind strategiesKind @ ''List''\<rparr>) = Inl e"
  "\<exists>e. schemeNew (strategies2Kind\<lparr>gvkKind := gvkKind strategies2Kind @ ''List''\<rparr>) = Inl e"
  by (simp_all add: schemeNew_def fakeScheme_def addKnownTypes1_def addKnownTypes2_def strategiesKind_def
      strategies2Kind_def)

lemma list_unregistered:
  "schemeNew (gvk\<lparr>gvkKind := gvkKind gvk @ ''List''\<rparr>) = Inl e \<Longrightarrow>
     Invokes lib (ListAction gvr gvk ns opts) d f =
       (Ok (None, Some e), f\<lparr>fkActions := fkActions f @ [ListAction gvr gvk ns opts]\<rparr>)"
  by (simp add: Invokes_def bindE_def modifyE_def onTracker_def returnE_def asReaction_def tryE_def raiseE_def
      trkList_def)

lemma fake_list_clusters:
  assumes "trkGood (fkTracker f)" and "libSelector lib (loLabelSelector opts) = Some matches"
    and "libFieldSelector lib (loFieldSelector opts)"
  shows "\<exists>l f'. fakeClustersList lib ns opts f = (Ok (Some l, None), f') \<and> fkTracker f' = fkTracker f \<and>
    distinct (cllItems l) \<and>
    set (cllItems l) = {c \<in> clustersIn ns (lookupKey (fkTracker f)). matches (labelSet (clMeta c))} \<and>
    sorted (map (\<lambda>c. (Namespace (clMeta c), Name (clMeta c))) (cllItems l))"
proof -
  let ?m = "\<lambda>c. matches (labelSet (clMeta c))"
  obtain cs where cs: "map OCluster cs = filterByNamespace (fkTracker f) clustersResource ns" "distinct cs"
    "set cs = clustersIn ns (lookupKey (fkTracker f))" "sorted (map (\<lambda>c. (Namespace (clMeta c), Name (clMeta c))) cs)"
    using list_clusters [OF assms(1)] by blast
  have "fakeClustersList lib ns opts f =
      (Ok (Some (zeroClusterList\<lparr>cllItems := filter ?m cs\<rparr>), None),
       f\<lparr>fkActions := fkActions f @ [ListAction clustersResource clustersKind ns opts]\<rparr>)"
    by (simp add: fakeClustersList_def Extract_run [OF assms(2,3)] Invokes_def bindE_def modifyE_def onTracker_def
        returnE_def asReaction_def tryE_def trkList_clusters [OF cs(1)] fakeResult_def zeroClusterList_def)
  with cs show ?thesis by (auto intro: sorted_filter)
qed

lemma fake_falls_short:
  assumes "libSelector lib (loLabelSelector opts) = Some matches" and "libFieldSelector lib (loFieldSelector opts)"
  shows "\<exists>e f'. fakeStrategiesList lib opts f = (Ok (None, Some e), f')"
    and "\<exists>e f'. fakeStrategies2List lib opts f = (Ok (None, Some e), f')"
    and "\<exists>f'. fakeClustersDeleteCollection lib ns dopts opts f = (Ok None, f') \<and> fkTracker f' = fkTracker f"
proof -
  obtain e where "schemeNew (strategiesKind\<lparr>gvkKind := gvkKind strategiesKind @ ''List''\<rparr>) = Inl e"
    using strategy_lists_unregistered(1) by blast
  from list_unregistered [OF this] show "\<exists>e f'. fakeStrategiesList lib opts f = (Ok (None, Some e), f')"
    by (simp add: fakeStrategiesList_def Extract_run [OF assms] bindE_def fakeResult_def returnE_def)
  obtain e where "schemeNew (strategies2Kind\<lparr>gvkKind := gvkKind strategies2Kind @ ''List''\<rparr>) = Inl e"
    using strategy_lists_unregistered(2) by blast
  from list_unregistered [OF this] show "\<exists>e f'. fakeStrategies2List lib opts f = (Ok (None, Some e), f')"
    by (simp add: fakeStrategies2List_def Extract_run [OF assms] bindE_def fakeResult_def returnE_def)
  show "\<exists>f'. fakeClustersDeleteCollection lib ns dopts opts f = (Ok None, f') \<and> fkTracker f' = fkTracker f"
    by (simp add: fakeClustersDeleteCollection_def Extract_run [OF assms] Invokes_def bindE_def modifyE_def
        onTracker_def returnE_def)
qed

section \<open>Examples\<close>

definition exCluster1 :: Cluster where
  "exCluster1 = zeroCluster\<lparr>clMeta := metaNamed [] ''px'' None\<rparr>"

definition exFake :: fake where
  "exFake = \<lparr>fkActions = [], fkTracker = NewObjectTracker\<rparr>"

definition exOptions :: ListOptions where
  "exOptions = \<lparr>loLabelSelector = [], loFieldSelector = [], loWatch = False, loResourceVersion = [],
                loTimeoutSeconds = None, loLimit = 0, loContinue = []\<rparr>"

lemma exFake_good: "trkGood (fkTracker exFake)" "roomy (fkTracker exFake)"
  by (simp_all add: exFake_def NewObjectTracker_def trkGood_def roomy_def)

lemma exLib_patch: "patchKeepsType exLib"
  by (simp add: patchKeepsType_def exLib_def)

section \<open>The properties\<close>

text \<open>
  C22.  The fake clientset is a store of objects: for every action on one object, what \<open>Invokes\<close> returns
  and what the tracker holds afterwards are given by the specification \<open>storeStep\<close> on the map from
  keys to objects, watchers notwithstanding, as long as no watcher's channel is full.  The tracker's
  invariant, every object stored once and under its own key, is kept.
\<close>

theorem fake_refines_store:
  assumes "roomy (fkTracker f)" and "trkGood (fkTracker f)" and "onObject a" and "typedAction a"
    and "patchKeepsType lib" and "Invokes lib a d f = (r, f')"
  shows "r = Ok (fst (storeStep lib a (lookupKey (fkTracker f)))) \<and>
    lookupKey (fkTracker f') = snd (storeStep lib a (lookupKey (fkTracker f))) \<and> trkGood (fkTracker f')"
  using Invokes_store [OF assms(1-3), of lib d] assms(4-6) by auto

theorem fake_refines_store_witness:
  "\<exists>r f'. Invokes exLib (CreateAction clustersResource ''ns'' (OCluster exCluster1)) (OCluster zeroCluster) exFake = (r, f') \<and>
     lookupKey (fkTracker f') = [(clustersResource, ''ns'', ''px'') \<mapsto> OCluster (exCluster1\<lparr>clMeta := metaNamed ''ns'' ''px'' None\<rparr>)]"
proof -
  let ?a = "CreateAction clustersResource ''ns'' (OCluster exCluster1)"
  obtain r f' where run: "Invokes exLib ?a (OCluster zeroCluster) exFake = (r, f')" by fastforce
  have "lookupKey (fkTracker f') = snd (storeStep exLib ?a (lookupKey (fkTracker exFake)))"
    using fake_refines_store [OF exFake_good(2,1) _ _ exLib_patch run] by (simp add: exFake_def)
  also have "\<dots> = [(clustersResource, ''ns'', ''px'') \<mapsto> OCluster (exCluster1\<lparr>clMeta := metaNamed ''ns'' ''px'' None\<rparr>)]"
    by (simp add: exFake_def NewObjectTracker_def lookupKey_def storeCreate_def place_def exCluster1_def metaNamed_def)
  finally show ?thesis using run by blast
qed

text \<open>
  C39.  What the fake does with collections.  Listing clusters gives exactly the stored clusters of the
  namespace, or of all namespaces for the empty one, that match the label selector, each once and
  sorted by namespace and name.  The list kinds of the volume placement strategies are registered in
  neither version's scheme, so listing strategies always fails, whatever is stored.  Deleting a
  collection answers success and deletes nothing.
\<close>

theorem fake_collections:
  assumes "trkGood (fkTracker f)" and "libSelector lib (loLabelSelector opts) = Some matches"
    and "libFieldSelector lib (loFieldSelector opts)"
  shows "(\<exists>l f'. fakeClustersList lib ns opts f = (Ok (Some l, None), f') \<and> fkTracker f' = fkTracker f \<and>
      distinct (cllItems l) \<and>
      set (cllItems l) = {c \<in> clustersIn ns (lookupKey (fkTracker f)). matches (labelSet (clMeta c))} \<and>
      sorted (map (\<lambda>c. (Namespace (clMeta c), Name (clMeta c))) (cllItems l))) \<and>
    (\<exists>e f'. fakeStrategiesList lib opts f = (Ok (None, Some e), f')) \<and>
    (\<exists>e f'. fakeStrategies2List lib opts f = (Ok (None, Some e), f')) \<and>
    (\<exists>f'. fakeClustersDeleteCollection lib ns dopts opts f = (Ok None, f') \<and> fkTracker f' = fkTracker f)"
  using fake_list_clusters [OF assms] fake_falls_short [OF assms(2,3)] by blast

theorem fake_collections_witness:
  "\<exists>l f' f''. fakeClustersList exLib [] exOptions exFake = (Ok (Some l, None), f') \<and> cllItems l = [] \<and>
     fakeClustersDeleteCollection exLib [] None exOptions exFake = (Ok None, f'')"
  using fake_collections [OF exFake_good(1), of exLib exOptions "\<lambda>m. True" "[]" None]
  by (fastforce simp: exLib_def exOptions_def exFake_def NewObjectTracker_def lookupKey_def clustersIn_def)

end
