(* ===== verification/Informers.thy ===== *)
theory Informers
  imports FakeClients
begin

text \<open>
  The generated informers (\<open>pkg/client/informers/externalversions\<close>) and listers
  (\<open>pkg/client/listers/portworx\<close>): the shared informer factory as a state that is changed under its
  lock, the informers of the three resources with the calls their list and watch functions make, and
  the listers on an indexer.
\<close>

section \<open>Informers\<close>

text \<open>\<open>reflect.TypeOf\<close> of the three resource types.\<close>

datatype objType = TCluster | TStrategy | TStrategy2

text \<open>An informer, with its identity and the calls its list-watch makes.\<close>

record 'c informer =
  infId :: nat
  infClient :: 'c
  infType :: objType
  infResync :: int
  infIndexers :: "string list"
  infList :: "ListOptions \<Rightarrow> clientCall"
  infWatch :: "ListOptions \<Rightarrow> clientCall"

type_synonym tweak = "(ListOptions \<Rightarrow> ListOptions) option"

record 'c factory =
  facClient :: 'c
  facNamespace :: string
  facTweak :: tweak
  facDefaultResync :: int
  facCustomResync :: "objType \<rightharpoonup> int"
  facInformers :: "(objType \<times> 'c informer) list"
  facStarted :: "objType \<Rightarrow> bool"

text \<open>The factory, the number of informers made so far, and the informers whose \<open>Run\<close> was started.\<close>

record 'c informers =
  fac :: "'c factory"
  made :: nat
  running :: "nat list"

subsection \<open>The factory\<close>

definition WithCustomResyncConfig :: "(objType \<times> int) list \<Rightarrow> 'c factory \<Rightarrow> 'c factory" where
  "WithCustomResyncConfig resyncConfig f =
     foldl (\<lambda>f (k, v). f\<lparr>facCustomResync := (facCustomResync f)(k \<mapsto> v)\<rparr>) f resyncConfig"

definition WithTweakListOptions :: "tweak \<Rightarrow> 'c factory \<Rightarrow> 'c factory" where
  "WithTweakListOptions t f = f\<lparr>facTweak := t\<rparr>"

definition WithNamespace :: "string \<Rightarrow> 'c factory \<Rightarrow> 'c factory" where
  "WithNamespace ns f = f\<lparr>facNamespace := ns\<rparr>"

definition NewSharedInformerFactoryWithOptions ::
  "'c \<Rightarrow> int \<Rightarrow> ('c factory \<Rightarrow> 'c factory) list \<Rightarrow> 'c factory" where
  "NewSharedInformerFactoryWithOptions client defaultResync options =
     foldl (\<lambda>f opt. opt f)
       \<lparr>facClient = client, facNamespace = [], facTweak = None, facDefaultResync = defaultResync,
        facCustomResync = Map.empty, facInformers = [], facStarted = (\<lambda>_. False)\<rparr> options"

definition NewSharedInformerFactory :: "'c \<Rightarrow> int \<Rightarrow> 'c factory" where
  "NewSharedInformerFactory client defaultResync = NewSharedInformerFactoryWithOptions client defaultResync []"

definition NewFilteredSharedInformerFactory :: "'c \<Rightarrow> int \<Rightarrow> string \<Rightarrow> tweak \<Rightarrow> 'c factory" where
  "NewFilteredSharedInformerFactory client defaultResync ns t =
     NewSharedInformerFactoryWithOptions client defaultResync [WithNamespace ns, WithTweakListOptions t]"

text \<open>The loop of \<open>Start\<close>, which holds the lock; the order of a Go map is any order.\<close>

definition startOne :: "'c informers \<Rightarrow> objType \<times> 'c informer \<Rightarrow> 'c informers" where
  "startOne w e =
     (case e of (informerType, informer) \<Rightarrow>
        if facStarted (fac w) informerType then w
        else w\<lparr>running := running w @ [infId informer],
               fac := (fac w)\<lparr>facStarted := (facStarted (fac w))(informerType := True)\<rparr>\<rparr>)"

definition Start :: "'c informers \<Rightarrow> 'c informers" where
  "Start w = foldl startOne w (facInformers (fac w))"

text \<open>\<open>synced\<close> tells which informers' caches fill before the stop channel closes.\<close>

definition WaitForCacheSync :: "(nat \<Rightarrow> bool) \<Rightarrow> 'c informers \<Rightarrow> objType \<rightharpoonup> bool" where
  "WaitForCacheSync synced w =
     map_of (map (\<lambda>(t, i). (t, synced (infId i)))
       (filter (\<lambda>(t, i). facStarted (fac w) t) (facInformers (fac w))))"

type_synonym 'c newInformer = "'c \<Rightarrow> int \<Rightarrow> 'c informers \<Rightarrow> 'c informer \<times> 'c informers"

definition InformerFor :: "objType \<Rightarrow> 'c newInformer \<Rightarrow> 'c informers \<Rightarrow> 'c informer \<times> 'c informers" where
  "InformerFor informerType newFunc w =
     (case map_of (facInformers (fac w)) informerType of
        Some informer \<Rightarrow> (informer, w)
      | None \<Rightarrow>
          let resyncPeriod = (case facCustomResync (fac w) informerType of
                                Some r \<Rightarrow> r | None \<Rightarrow> facDefaultResync (fac w)) in
          case newFunc (facClient (fac w)) resyncPeriod w of
            (informer, w') \<Rightarrow>
              (informer, w'\<lparr>fac := (fac w')\<lparr>facInformers := facInformers (fac w') @ [(informerType, informer)]\<rparr>\<rparr>))"

subsection \<open>The informers of the resources\<close>

definition tweaked :: "tweak \<Rightarrow> ListOptions \<Rightarrow> ListOptions" where
  "tweaked t opts = (case t of None \<Rightarrow> opts | Some f \<Rightarrow> f opts)"

text \<open>\<open>cache.NewSharedIndexInformer\<close>: a new object each time.\<close>

definition NewSharedIndexInformer ::
  "(ListOptions \<Rightarrow> clientCall) \<Rightarrow> (ListOptions \<Rightarrow> clientCall) \<Rightarrow> objType \<Rightarrow> string list \<Rightarrow> 'c newInformer" where
  "NewSharedIndexInformer listFunc watchFunc t indexers client resyncPeriod w =
     (\<lparr>infId = made w, infClient = client, infType = t, infResync = resyncPeriod, infIndexers = indexers,
       infList = listFunc, infWatch = watchFunc\<rparr>,
      w\<lparr>made := Suc (made w)\<rparr>)"

definition NewFilteredClusterInformer :: "string \<Rightarrow> string list \<Rightarrow> tweak \<Rightarrow> 'c newInformer" where
  "NewFilteredClusterInformer ns indexers t =
     NewSharedIndexInformer (\<lambda>opts. OnClusters ns (CallList (tweaked t opts))) (\<lambda>opts. OnClusters ns (CallWatch (tweaked t opts)))
       TCluster indexers"

definition NewFilteredStrategyInformer :: "string list \<Rightarrow> tweak \<Rightarrow> 'c newInformer" where
  "NewFilteredStrategyInformer indexers t =
     NewSharedIndexInformer (\<lambda>opts. OnStrategies (CallList (tweaked t opts))) (\<lambda>opts. OnStrategies (CallWatch (tweaked t opts)))
       TStrategy indexers"

definition NewFilteredStrategy2Informer :: "string list \<Rightarrow> tweak \<Rightarrow> 'c newInformer" where
  "NewFilteredStrategy2Informer indexers t =
     NewSharedIndexInformer (\<lambda>opts. OnStrategies2 (CallList (tweaked t opts))) (\<lambda>opts. OnStrategies2 (CallWatch (tweaked t opts)))
       TStrategy2 indexers"

definition NewClusterInformer :: "string \<Rightarrow> string list \<Rightarrow> 'c newInformer" where
  "NewClusterInformer ns indexers = NewFilteredClusterInformer ns indexers None"

definition NewStrategyInformer :: "string list \<Rightarrow> 'c newInformer" where
  "NewStrategyInformer indexers = NewFilteredStrategyInformer indexers None"

definition NewStrategy2Informer :: "string list \<Rightarrow> 'c newInformer" where
  "NewStrategy2Informer indexers = NewFilteredStrategy2Informer indexers None"

text \<open>
  \<open>clusterInformer\<close> and its siblings, as \<open>Portworx().V1beta1().Clusters()\<close> builds them from the factory: the
  namespace and the tweak are those of the factory.
\<close>

definition defaultClusterInformer :: "string \<Rightarrow> tweak \<Rightarrow> 'c newInformer" where
  "defaultClusterInformer ns t = NewFilteredClusterInformer ns [''namespace''] t"

definition defaultStrategyInformer :: "tweak \<Rightarrow> 'c newInformer" where
  "defaultStrategyInformer t = NewFilteredStrategyInformer [''namespace''] t"

definition defaultStrategy2Informer :: "tweak \<Rightarrow> 'c newInformer" where
  "defaultStrategy2Informer t = NewFilteredStrategy2Informer [''namespace''] t"

definition clusterInformer :: "'c informers \<Rightarrow> 'c informer \<times> 'c informers" where
  "clusterInformer w =
     InformerFor TCluster (defaultClusterInformer (facNamespace (fac w)) (facTweak (fac w))) w"

definition strategyInformer :: "'c informers \<Rightarrow> 'c informer \<times> 'c informers" where
  "strategyInformer w = InformerFor TStrategy (defaultStrategyInformer (facTweak (fac w))) w"

definition strategy2Informer :: "'c informers \<Rightarrow> 'c informer \<times> 'c informers" where
  "strategy2Informer w = InformerFor TStrategy2 (defaultStrategy2Informer (facTweak (fac w))) w"

text \<open>\<open>ForResource\<close>: the generic informer is the shared informer of the resource.\<close>

definition ForResource :: "groupVersionResource \<Rightarrow> 'c informers \<Rightarrow> (goerror + 'c informer) \<times> 'c informers" where
  "ForResource resource w =
     (if resource = clustersResource then apfst Inr (clusterInformer w)
      else if resource = strategiesResource then apfst Inr (strategyInformer w)
      else if resource = strategies2Resource then apfst Inr (strategy2Informer w)
      else (Inl (ErrorString (''no informer found for '' @ gvGroup (gvrGV resource) @ ''/'' @
              gvVersion (gvrGV resource) @ '', Resource='' @ gvrResource resource)), w))"

section \<open>Listers\<close>

text \<open>A label selector: \<open>Empty()\<close> and \<open>Matches\<close>.\<close>

record selector =
  selEmpty :: bool
  selMatches :: "strmap \<Rightarrow> bool"

text \<open>
  The indexer: its objects under their keys, and whether it has the namespace index, which holds for
  every namespace the objects in it.
\<close>

record indexer =
  ixItems :: "(string \<times> apiObject) list"
  ixNamespaceIndex :: bool

definition MetaNamespaceKeyFunc :: "ObjectMeta \<Rightarrow> string" where
  "MetaNamespaceKeyFunc m = (if Namespace m \<noteq> [] then Namespace m @ ''/'' @ Name m else Name m)"

definition inNamespaceOf :: "string \<Rightarrow> apiObject \<Rightarrow> bool" where
  "inNamespaceOf ns ob = (case objMeta ob of Some m \<Rightarrow> Namespace m = ns | None \<Rightarrow> False)"

definition indexByNamespace :: "indexer \<Rightarrow> string \<Rightarrow> goerror + apiObject list" where
  "indexByNamespace ix ns =
     (if ixNamespaceIndex ix then Inr (filter (inNamespaceOf ns) (map snd (ixItems ix)))
      else Inl (ErrorString ''Index with name namespace does not exist''))"

fun ListAll :: "selector \<Rightarrow> apiObject list \<Rightarrow> goerror + apiObject list" where
  "ListAll sel [] = Inr []"
| "ListAll sel (m # ms) =
     (if selEmpty sel then (case ListAll sel ms of Inl e \<Rightarrow> Inl e | Inr r \<Rightarrow> Inr (m # r))
      else case objMeta m of
        None \<Rightarrow> Inl (ErrorString ''object does not implement the Object interfaces'')
      | Some metadata \<Rightarrow>
          (case ListAll sel ms of
             Inl e \<Rightarrow> Inl e
           | Inr r \<Rightarrow> Inr (if selMatches sel (labelSet metadata) then m # r else r)))"

fun slowSearch :: "string \<Rightarrow> selector \<Rightarrow> apiObject list \<Rightarrow> goerror + apiObject list" where
  "slowSearch ns sel [] = Inr []"
| "slowSearch ns sel (m # ms) =
     (case objMeta m of
        None \<Rightarrow> Inl (ErrorString ''object does not implement the Object interfaces'')
      | Some metadata \<Rightarrow>
          (case slowSearch ns sel ms of
             Inl e \<Rightarrow> Inl e
           | Inr r \<Rightarrow> Inr (if Namespace metadata = ns \<and> selMatches sel (labelSet metadata) then m # r else r)))"

definition ListAllByNamespace :: "indexer \<Rightarrow> string \<Rightarrow> selector \<Rightarrow> goerror + apiObject list" where
  "ListAllByNamespace ix ns sel =
     (if ns = [] then ListAll sel (map snd (ixItems ix))
      else case indexByNamespace ix ns of
        Inl e \<Rightarrow> slowSearch ns sel (map snd (ixItems ix))
      | Inr items \<Rightarrow> ListAll sel items)"

text \<open>The append function asserts the type: an object of another type panics.\<close>

definition assertAll :: "(apiObject \<Rightarrow> 'a option) \<Rightarrow> goerror + apiObject list \<Rightarrow> 'a list outcome" where
  "assertAll dec r =
     (case r of
        Inl e \<Rightarrow> Err e
      | Inr obs \<Rightarrow> (case those (map dec obs) of Some xs \<Rightarrow> Ok xs | None \<Rightarrow> Panic ''interface conversion''))"

definition clusterListerList :: "indexer \<Rightarrow> selector \<Rightarrow> Cluster list outcome" where
  "clusterListerList ix sel = assertAll asCluster (ListAll sel (map snd (ixItems ix)))"

definition clusterNamespaceListerList :: "indexer \<Rightarrow> string \<Rightarrow> selector \<Rightarrow> Cluster list outcome" where
  "clusterNamespaceListerList ix ns sel = assertAll asCluster (ListAllByNamespace ix ns sel)"

definition getByKey :: "(apiObject \<Rightarrow> 'a option) \<Rightarrow> groupResource \<Rightarrow> indexer \<Rightarrow> string \<Rightarrow> string \<Rightarrow> 'a outcome" where
  "getByKey dec res ix key name =
     (case map_of (ixItems ix) key of
        None \<Rightarrow> Err (NewNotFound res name)
      | Some ob \<Rightarrow> (case dec ob of Some x \<Rightarrow> Ok x | None \<Rightarrow> Panic ''interface conversion''))"

definition clusterNamespaceListerGet :: "indexer \<Rightarrow> string \<Rightarrow> string \<Rightarrow> Cluster outcome" where
  "clusterNamespaceListerGet ix ns name = getByKey asCluster (Resource1 ''cluster'') ix (ns @ ''/'' @ name) name"

definition strategyListerList :: "indexer \<Rightarrow> selector \<Rightarrow> VolumePlacementStrategy list outcome" where
  "strategyListerList ix sel = assertAll asStrategy (ListAll sel (map snd (ixItems ix)))"

definition strategyListerGet :: "indexer \<Rightarrow> string \<Rightarrow> VolumePlacementStrategy outcome" where
  "strategyListerGet ix name = getByKey asStrategy (Resource1 ''volumeplacementstrategy'') ix name name"

definition strategy2ListerList :: "indexer \<Rightarrow> selector \<Rightarrow> VolumePlacementStrategy2 list outcome" where
  "strategy2ListerList ix sel = assertAll asStrategy2 (ListAll sel (map snd (ixItems ix)))"

definition strategy2ListerGet :: "indexer \<Rightarrow> string \<Rightarrow> VolumePlacementStrategy2 outcome" where
  "strategy2ListerGet ix name = getByKey asStrategy2 (Resource2 ''volumeplacementstrategy'') ix name name"

end
