(* ===== verification/InformerProps.thy ===== *)
theory InformerProps
  imports Informers
begin

text \<open>
  The shared informer factory never runs an informer twice and hands out one informer per type; the
  listers find exactly what the indexer holds, with or without the namespace index.
\<close>

section \<open>The factory as a state machine\<close>

definition startWith :: "'c factory \<Rightarrow> 'c informers" where
  "startWith f = \<lparr>fac = f, made = 0, running = []\<rparr>"

text \<open>What callers do with a factory; each step holds the lock, so steps do not overlap.\<close>

inductive istep :: "'c informers \<Rightarrow> 'c informers \<Rightarrow> bool" where
  requestClusters: "istep w (snd (clusterInformer w))"
| requestStrategies: "istep w (snd (strategyInformer w))"
| requestStrategies2: "istep w (snd (strategy2Informer w))"
| requestResource: "istep w (snd (ForResource r w))"
| startAll: "istep w (Start w)"

inductive_cases istepE: "istep w w'"

text \<open>The resync period of a type, and the calls its informer makes.\<close>

definition resyncFor :: "'c factory \<Rightarrow> objType \<Rightarrow> int" where
  "resyncFor f t = (case facCustomResync f t of Some r \<Rightarrow> r | None \<Rightarrow> facDefaultResync f)"

fun listCall :: "'c factory \<Rightarrow> objType \<Rightarrow> ListOptions \<Rightarrow> clientCall" where
  "listCall f TCluster opts = OnClusters (facNamespace f) (CallList (tweaked (facTweak f) opts))"
| "listCall f TStrategy opts = OnStrategies (CallList (tweaked (facTweak f) opts))"
| "listCall f TStrategy2 opts = OnStrategies2 (CallList (tweaked (facTweak f) opts))"

fun watchCall :: "'c factory \<Rightarrow> objType \<Rightarrow> ListOptions \<Rightarrow> clientCall" where
  "watchCall f TCluster opts = OnClusters (facNamespace f) (CallWatch (tweaked (facTweak f) opts))"
| "watchCall f TStrategy opts = OnStrategies (CallWatch (tweaked (facTweak f) opts))"
| "watchCall f TStrategy2 opts = OnStrategies2 (CallWatch (tweaked (facTweak f) opts))"

text \<open>An informer made for a type by a factory with this configuration.\<close>

definition builtFor :: "'c factory \<Rightarrow> objType \<Rightarrow> 'c informer \<Rightarrow> bool" where
  "builtFor f t i \<longleftrightarrow> infType i = t \<and> infClient i = facClient f \<and> infResync i = resyncFor f t \<and>
     infList i = listCall f t \<and> infWatch i = watchCall f t"

definition sameConfig :: "'c factory \<Rightarrow> 'c factory \<Rightarrow> bool" where
  "sameConfig f g \<longleftrightarrow> facClient f = facClient g \<and> facNamespace f = facNamespace g \<and> facTweak f = facTweak g \<and>
     facDefaultResync f = facDefaultResync g \<and> facCustomResync f = facCustomResync g"

definition startedIds :: "'c informers \<Rightarrow> nat set" where
  "startedIds w = (\<lambda>(t, i). infId i) ` {e \<in> set (facInformers (fac w)). facStarted (fac w) (fst e)}"

text \<open>
  The invariant: one informer per type, no two the same object, each built from the configuration, and
  the running ones are those of the started types, each started once.
\<close>

definition ifInv :: "'c factory \<Rightarrow> 'c informers \<Rightarrow> bool" where
  "ifInv f w \<longleftrightarrow> sameConfig f (fac w) \<and>
     distinct (map fst (facInformers (fac w))) \<and>
     distinct (map (infId \<circ> snd) (facInformers (fac w))) \<and>
     (\<forall>(t, i)\<in>set (facInformers (fac w)). infId i < made w \<and> builtFor f t i) \<and>
     (\<forall>t. facStarted (fac w) t \<longrightarrow> t \<in> fst ` set (facInformers (fac w))) \<and>
     distinct (running w) \<and> set (running w) = startedIds w"

lemma sameConfig_resync: "sameConfig f g \<Longrightarrow> resyncFor g = resyncFor f"
  by (rule ext) (simp add: sameConfig_def resyncFor_def split: option.splits)

section \<open>Sources of informers\<close>

text \<open>
  What the factory relies on of the function it gets informers from: it makes a new object for the
  client and the period it is given, and touches nothing else.
\<close>

locale informer_source =
  fixes f :: "'c factory" and t :: objType and newFunc :: "'c newInformer"
  assumes fresh: "newFunc (facClient f) (resyncFor f t) w = (i, w') \<Longrightarrow>
    infId i = made w \<and> builtFor f t i \<and> w' = w\<lparr>made := Suc (made w)\<rparr>"
begin

lemma InformerFor_cases:
  assumes "ifInv f w" and "InformerFor t newFunc w = (i, w')"
  shows "(map_of (facInformers (fac w)) t = Some i \<and> w' = w) \<or>
    (t \<notin> fst ` set (facInformers (fac w)) \<and> infId i = made w \<and> builtFor f t i \<and>
     w' = w\<lparr>made := Suc (made w), fac := (fac w)\<lparr>facInformers := facInformers (fac w) @ [(t, i)]\<rparr>\<rparr>)"
proof (cases "map_of (facInformers (fac w)) t")
  case None
  have "facClient (fac w) = facClient f" "resyncFor (fac w) t = resyncFor f t"
    using assms(1) sameConfig_resync [of f "fac w"] by (auto simp: ifInv_def sameConfig_def)
  then obtain w1 where new: "newFunc (facClient f) (resyncFor f t) w = (i, w1)"
    "w' = w1\<lparr>fac := (fac w1)\<lparr>facInformers := facInformers (fac w1) @ [(t, i)]\<rparr>\<rparr>"
    using assms(2) None by (auto simp: InformerFor_def resyncFor_def Let_def split: prod.splits)
  with fresh [OF new(1)] None show ?thesis by (auto simp: map_of_eq_None_iff)
qed (use assms(2) in \<open>auto simp: InformerFor_def\<close>)

lemma InformerFor_inv:
  assumes "ifInv f w" and "InformerFor t newFunc w = (i, w')"
  shows "ifInv f w'"
  using InformerFor_cases [OF assms]
proof
  assume new: "t \<notin> fst ` set (facInformers (fac w)) \<and> infId i = made w \<and> builtFor f t i \<and>
     w' = w\<lparr>made := Suc (made w), fac := (fac w)\<lparr>facInformers := facInformers (fac w) @ [(t, i)]\<rparr>\<rparr>"
  then have "\<not> facStarted (fac w) t" using assms(1) by (auto simp: ifInv_def)
  then have "startedIds w' = startedIds w" using new by (auto simp: startedIds_def)
  then show ?thesis using assms(1) new
    by (fastforce simp: ifInv_def sameConfig_def)
qed (use assms(1) in simp)

lemma InformerFor_found:
  assumes "ifInv f w" and "InformerFor t newFunc w = (i, w')"
  shows "map_of (facInformers (fac w')) t = Some i \<and> builtFor f t i \<and>
    (\<forall>t' i'. map_of (facInformers (fac w)) t' = Some i' \<longrightarrow> map_of (facInformers (fac w')) t' = Some i')"
  using InformerFor_cases [OF assms]
proof
  assume old: "map_of (facInformers (fac w)) t = Some i \<and> w' = w"
  then have "(t, i) \<in> set (facInformers (fac w))" by (auto dest: map_of_SomeD)
  with old assms(1) show ?thesis by (auto simp: ifInv_def)
next
  assume "t \<notin> fst ` set (facInformers (fac w)) \<and> infId i = made w \<and> builtFor f t i \<and>
     w' = w\<lparr>made := Suc (made w), fac := (fac w)\<lparr>facInformers := facInformers (fac w) @ [(t, i)]\<rparr>\<rparr>"
  then show ?thesis by (auto simp: map_add_Some_iff map_of_eq_None_iff)
qed

lemma InformerFor_keeps:
  assumes "ifInv f w" and "(i, w') = InformerFor t newFunc w"
  shows "ifInv f w' \<and> (\<forall>t' i'. map_of (facInformers (fac w)) t' = Some i' \<longrightarrow> map_of (facInformers (fac w')) t' = Some i')"
  using InformerFor_inv [OF assms(1)] InformerFor_found [OF assms(1)] assms(2) by metis

end

lemma ifInv_config: "ifInv f w \<Longrightarrow> facNamespace (fac w) = facNamespace f \<and> facTweak (fac w) = facTweak f"
  by (simp add: ifInv_def sameConfig_def)

lemmas informer_makers = NewSharedIndexInformer_def NewFilteredClusterInformer_def NewFilteredStrategyInformer_def
  NewFilteredStrategy2Informer_def defaultClusterInformer_def defaultStrategyInformer_def
  defaultStrategy2Informer_def builtFor_def

interpretation clusterSource:
  informer_source f TCluster "defaultClusterInformer (facNamespace f) (facTweak f)" for f
  by unfold_locales (auto simp: informer_makers)

interpretation strategySource: informer_source f TStrategy "defaultStrategyInformer (facTweak f)" for f
  by unfold_locales (auto simp: informer_makers)

interpretation strategy2Source: informer_source f TStrategy2 "defaultStrategy2Informer (facTweak f)" for f
  by unfold_locales (auto simp: informer_makers)

section \<open>Starting\<close>

lemma started_eq:
  "r = r' \<Longrightarrow> s = s' \<Longrightarrow>
     w\<lparr>running := r, fac := (fac w)\<lparr>facStarted := s\<rparr>\<rparr> = w\<lparr>running := r', fac := (fac w)\<lparr>facStarted := s'\<rparr>\<rparr>"
  by simp

lemma start_loop:
  "distinct (map fst es) \<Longrightarrow>
     foldl startOne w es =
       w\<lparr>running := running w @ map (infId \<circ> snd) (filter (\<lambda>e. \<not> facStarted (fac w) (fst e)) es),
         fac := (fac w)\<lparr>facStarted := (\<lambda>t. facStarted (fac w) t \<or> t \<in> fst ` set es)\<rparr>\<rparr>"
proof (induction es arbitrary: w)
  case (Cons e es)
  obtain t i where e: "e = (t, i)" by (cases e)
  show ?case
  proof (cases "facStarted (fac w) t")
    case True
    then have "foldl startOne w (e # es) = foldl startOne w es" by (simp add: startOne_def e)
    also have "\<dots> = w\<lparr>running := running w @ map (infId \<circ> snd) (filter (\<lambda>e. \<not> facStarted (fac w) (fst e)) es),
         fac := (fac w)\<lparr>facStarted := (\<lambda>t. facStarted (fac w) t \<or> t \<in> fst ` set es)\<rparr>\<rparr>"
      using Cons by simp
    also have "\<dots> = w\<lparr>running := running w @ map (infId \<circ> snd) (filter (\<lambda>e. \<not> facStarted (fac w) (fst e)) (e # es)),
         fac := (fac w)\<lparr>facStarted := (\<lambda>t. facStarted (fac w) t \<or> t \<in> fst ` set (e # es))\<rparr>\<rparr>"
      by (rule started_eq) (use True e in \<open>auto simp: fun_eq_iff\<close>)
    finally show ?thesis .
  next
    case False
    let ?w = "w\<lparr>running := running w @ [infId i], fac := (fac w)\<lparr>facStarted := (facStarted (fac w))(t := True)\<rparr>\<rparr>"
    have "filter (\<lambda>x. \<not> facStarted (fac ?w) (fst x)) es = filter (\<lambda>x. \<not> facStarted (fac w) (fst x)) es"
      using Cons.prems e by (intro filter_cong) auto
    then have r: "running ?w @ map (infId \<circ> snd) (filter (\<lambda>x. \<not> facStarted (fac ?w) (fst x)) es) =
        running w @ map (infId \<circ> snd) (filter (\<lambda>x. \<not> facStarted (fac w) (fst x)) (e # es))"
      using False e by simp
    have s: "(\<lambda>x. facStarted (fac ?w) x \<or> x \<in> fst ` set es) = (\<lambda>x. facStarted (fac w) x \<or> x \<in> fst ` set (e # es))"
      using e by (auto simp: fun_eq_iff)
    have "foldl startOne w (e # es) = foldl startOne ?w es" using False by (simp add: startOne_def e)
    also have "\<dots> = ?w\<lparr>running := running ?w @ map (infId \<circ> snd) (filter (\<lambda>x. \<not> facStarted (fac ?w) (fst x)) es),
         fac := (fac ?w)\<lparr>facStarted := (\<lambda>x. facStarted (fac ?w) x \<or> x \<in> fst ` set es)\<rparr>\<rparr>"
      using Cons by simp
    also have "\<dots> = w\<lparr>running := running w @ map (infId \<circ> snd) (filter (\<lambda>x. \<not> facStarted (fac w) (fst x)) (e # es)),
         fac := (fac w)\<lparr>facStarted := (\<lambda>x. facStarted (fac w) x \<or> x \<in> fst ` set (e # es))\<rparr>\<rparr>"
      unfolding r s by simp
    finally show ?thesis .
  qed
qed simp

lemma Start_eq:
  "ifInv f w \<Longrightarrow>
     Start w =
       w\<lparr>running := running w @ map (infId \<circ> snd) (filter (\<lambda>e. \<not> facStarted (fac w) (fst e)) (facInformers (fac w))),
         fac := (fac w)\<lparr>facStarted := (\<lambda>t. t \<in> fst ` set (facInformers (fac w)))\<rparr>\<rparr>"
proof -
  assume inv: "ifInv f w"
  then have "(\<lambda>t. facStarted (fac w) t \<or> t \<in> fst ` set (facInformers (fac w))) =
      (\<lambda>t. t \<in> fst ` set (facInformers (fac w)))" by (auto simp: ifInv_def fun_eq_iff)
  with inv start_loop [of "facInformers (fac w)" w] show ?thesis by (simp add: Start_def ifInv_def)
qed

lemma running_Start:
  assumes "ifInv f w"
  shows "set (running (Start w)) = (\<lambda>(t, i). infId i) ` set (facInformers (fac w))"
  using assms by (auto simp: Start_eq [OF assms] ifInv_def startedIds_def image_iff) fastforce+

lemma Start_inv:
  assumes "ifInv f w" shows "ifInv f (Start w)"
proof -
  let ?new = "filter (\<lambda>e. \<not> facStarted (fac w) (fst e)) (facInformers (fac w))"
  have "distinct (map (infId \<circ> snd) ?new)" using assms by (auto simp: ifInv_def distinct_map_filter)
  moreover have "set (running w) \<inter> (infId \<circ> snd) ` set ?new = {}"
  proof -
    have "inj_on (infId \<circ> snd) (set (facInformers (fac w)))" using assms by (auto simp: ifInv_def distinct_map)
    then show ?thesis using assms by (auto simp: ifInv_def startedIds_def inj_on_def) fastforce
  qed
  ultimately have "distinct (running (Start w))" using assms
    by (auto simp: Start_eq [OF assms] ifInv_def)
  moreover have "set (running (Start w)) = startedIds (Start w)"
    unfolding running_Start [OF assms] by (auto simp: Start_eq [OF assms] startedIds_def)
  ultimately show ?thesis using assms by (auto simp: Start_eq [OF assms] ifInv_def sameConfig_def)
qed

section \<open>Reachable states\<close>

text \<open>The steps that request an informer.\<close>

definition requests :: "'c informers \<Rightarrow> 'c informer \<times> 'c informers \<Rightarrow> bool" where
  "requests w r \<longleftrightarrow> r = clusterInformer w \<or> r = strategyInformer w \<or> r = strategy2Informer w"

lemma requests_keep:
  assumes "ifInv f w" and "requests w (i, w')"
  shows "ifInv f w' \<and> (\<forall>t' i'. map_of (facInformers (fac w)) t' = Some i' \<longrightarrow> map_of (facInformers (fac w')) t' = Some i')"
  using assms(2) ifInv_config [OF assms(1)] clusterSource.InformerFor_keeps [OF assms(1)]
    strategySource.InformerFor_keeps [OF assms(1)] strategy2Source.InformerFor_keeps [OF assms(1)]
  unfolding requests_def clusterInformer_def strategyInformer_def strategy2Informer_def
  by (elim disjE) simp_all

lemma requests_made:
  "\<exists>i. requests w (i, snd (clusterInformer w))" "\<exists>i. requests w (i, snd (strategyInformer w))"
  "\<exists>i. requests w (i, snd (strategy2Informer w))"
  by (metis requests_def prod.collapse)+

lemma istep_requests:
  assumes "istep w w'"
  shows "w' = Start w \<or> w' = w \<or> (\<exists>i. requests w (i, w'))"
  using assms requests_made [of w]
  by (elim istepE) (auto simp: ForResource_def split: if_splits)

lemma istep_keeps:
  assumes "ifInv f w" and "istep w w'"
  shows "ifInv f w' \<and> (\<forall>t i. map_of (facInformers (fac w)) t = Some i \<longrightarrow> map_of (facInformers (fac w')) t = Some i)"
  using istep_requests [OF assms(2)]
proof (elim disjE exE)
  assume "w' = Start w"
  then show ?thesis using Start_inv [OF assms(1)] by (simp add: Start_eq [OF assms(1)])
next
  fix i assume "requests w (i, w')"
  then show ?thesis using requests_keep [OF assms(1)] by blast
qed (use assms(1) in simp)

lemma isteps_keep:
  assumes "istep\<^sup>*\<^sup>* w w'" and "ifInv f w"
  shows "ifInv f w' \<and> (\<forall>t i. map_of (facInformers (fac w)) t = Some i \<longrightarrow> map_of (facInformers (fac w')) t = Some i)"
  using assms by (induction rule: rtranclp_induct) (auto dest: istep_keeps)

definition factoryOption :: "('c factory \<Rightarrow> 'c factory) \<Rightarrow> bool" where
  "factoryOption opt \<longleftrightarrow>
     (\<exists>ns. opt = WithNamespace ns) \<or> (\<exists>t. opt = WithTweakListOptions t) \<or> (\<exists>c. opt = WithCustomResyncConfig c)"

lemma resync_config_keeps:
  "facInformers (WithCustomResyncConfig c f) = facInformers f \<and> facStarted (WithCustomResyncConfig c f) = facStarted f"
  unfolding WithCustomResyncConfig_def by (induction c arbitrary: f) (auto split: prod.splits)

lemma options_keep:
  "\<forall>opt\<in>set opts. factoryOption opt \<Longrightarrow>
     facInformers (foldl (\<lambda>f opt. opt f) f opts) = facInformers f \<and> facStarted (foldl (\<lambda>f opt. opt f) f opts) = facStarted f"
  by (induction opts arbitrary: f)
     (auto simp: factoryOption_def WithNamespace_def WithTweakListOptions_def resync_config_keeps)

lemma new_factory_inv:
  assumes "\<forall>opt\<in>set opts. factoryOption opt" and "f = NewSharedInformerFactoryWithOptions client resync opts"
  shows "ifInv f (startWith f)"
  using options_keep [OF assms(1)] unfolding assms(2)
  by (auto simp: NewSharedInformerFactoryWithOptions_def ifInv_def startWith_def sameConfig_def startedIds_def)

section \<open>Listers\<close>

text \<open>An indexer of clusters: every cluster under its key, in a namespace without a slash.\<close>

definition clusterHome :: "string \<times> apiObject \<Rightarrow> bool" where
  "clusterHome e =
     (case snd e of
        OCluster c \<Rightarrow> fst e = MetaNamespaceKeyFunc (clMeta c) \<and> Namespace (clMeta c) \<noteq> [] \<and>
          CHR ''/'' \<notin> set (Namespace (clMeta c))
      | _ \<Rightarrow> False)"

definition ixGood :: "indexer \<Rightarrow> bool" where
  "ixGood ix \<longleftrightarrow> distinct (map fst (ixItems ix)) \<and> list_all clusterHome (ixItems ix)"

definition ixClusters :: "indexer \<Rightarrow> Cluster list" where
  "ixClusters ix = map (the \<circ> asCluster \<circ> snd) (ixItems ix)"

lemma clusterHome_cluster: "clusterHome e \<Longrightarrow> snd e = OCluster (the (asCluster (snd e)))"
  by (auto simp: clusterHome_def split: apiObject.splits)

lemma ixClusters_items: "ixGood ix \<Longrightarrow> map snd (ixItems ix) = map OCluster (ixClusters ix)"
  unfolding ixGood_def ixClusters_def by (auto simp: list_all_iff dest: clusterHome_cluster)

lemma key_split:
  "CHR ''/'' \<notin> set ns \<Longrightarrow> CHR ''/'' \<notin> set ns' \<Longrightarrow> ns @ ''/'' @ name = ns' @ ''/'' @ name' \<longleftrightarrow> ns = ns' \<and> name = name'"
  by (auto simp: append_eq_append_conv2 append_eq_Cons_conv Cons_eq_append_conv)

lemma ListAll_clusters:
  "(\<And>m. selEmpty sel \<Longrightarrow> selMatches sel m) \<Longrightarrow>
     ListAll sel (map OCluster cs) = Inr (map OCluster (filter (\<lambda>c. selMatches sel (labelSet (clMeta c))) cs))"
  by (induction cs) auto

lemma slowSearch_clusters:
  "slowSearch ns sel (map OCluster cs) =
     Inr (map OCluster (filter (\<lambda>c. Namespace (clMeta c) = ns \<and> selMatches sel (labelSet (clMeta c))) cs))"
  by (induction cs) auto

lemma assertAll_clusters: "assertAll asCluster (Inr (map OCluster cs)) = Ok cs"
proof -
  have "those (map asCluster (map OCluster cs)) = Some cs" by (induction cs) simp_all
  then show ?thesis by (simp add: assertAll_def)
qed

lemma filter_namespace:
  "filter (inNamespaceOf ns) (map OCluster cs) = map OCluster (filter (\<lambda>c. Namespace (clMeta c) = ns) cs)"
  by (induction cs) (auto simp: inNamespaceOf_def)

lemma lookup_cluster:
  assumes "ixGood ix" and "CHR ''/'' \<notin> set ns"
  shows "map_of (ixItems ix) (ns @ ''/'' @ name) = Some ob \<longleftrightarrow>
    (\<exists>c\<in>set (ixClusters ix). ob = OCluster c \<and> Namespace (clMeta c) = ns \<and> Name (clMeta c) = name)"
proof -
  have dist: "distinct (map fst (ixItems ix))" using assms(1) by (simp add: ixGood_def)
  have entry: "(ns @ ''/'' @ name, ob) \<in> set (ixItems ix) \<longleftrightarrow>
      (\<exists>c\<in>set (ixClusters ix). ob = OCluster c \<and> Namespace (clMeta c) = ns \<and> Name (clMeta c) = name)" for ob
  proof
    assume e: "(ns @ ''/'' @ name, ob) \<in> set (ixItems ix)"
    then have home: "clusterHome (ns @ ''/'' @ name, ob)" using assms(1) by (auto simp: ixGood_def list_all_iff)
    then obtain c where c: "ob = OCluster c" by (auto simp: clusterHome_def split: apiObject.splits)
    with e have "c \<in> set (ixClusters ix)" by (force simp: ixClusters_def)
    then show "\<exists>c\<in>set (ixClusters ix). ob = OCluster c \<and> Namespace (clMeta c) = ns \<and> Name (clMeta c) = name"
      using home c key_split [OF assms(2), of "Namespace (clMeta c)" name "Name (clMeta c)"]
      by (auto simp: clusterHome_def MetaNamespaceKeyFunc_def)
  next
    assume "\<exists>c\<in>set (ixClusters ix). ob = OCluster c \<and> Namespace (clMeta c) = ns \<and> Name (clMeta c) = name"
    then obtain c e where c: "ob = OCluster c" "Namespace (clMeta c) = ns" "Name (clMeta c) = name"
      "e \<in> set (ixItems ix)" "c = the (asCluster (snd e))" by (auto simp: ixClusters_def)
    then have "clusterHome e" using assms(1) by (auto simp: ixGood_def list_all_iff)
    with c have "e = (ns @ ''/'' @ name, ob)"
      by (cases e) (auto simp: clusterHome_def MetaNamespaceKeyFunc_def split: apiObject.splits)
    with c(4) show "(ns @ ''/'' @ name, ob) \<in> set (ixItems ix)" by simp
  qed
  then show ?thesis using map_of_eq_Some_iff [OF dist] by blast
qed

section \<open>The properties\<close>

text \<open>
  C3.  However callers interleave requests for informers and calls of \<open>Start\<close> on a new factory, no informer
  is ever run twice; after \<open>Start\<close> every informer requested so far runs, and \<open>Start\<close> again changes
  nothing.  \<open>WaitForCacheSync\<close> then reports on every requested type.
\<close>

theorem informers_run_once:
  assumes "\<forall>opt\<in>set opts. factoryOption opt"
    and "istep\<^sup>*\<^sup>* (startWith (NewSharedInformerFactoryWithOptions client resync opts)) w"
  shows "distinct (running w) \<and>
    set (running (Start w)) = (\<lambda>(t, i). infId i) ` set (facInformers (fac w)) \<and>
    Start (Start w) = Start w \<and>
    dom (WaitForCacheSync synced (Start w)) = fst ` set (facInformers (fac w))"
proof -
  let ?f = "NewSharedInformerFactoryWithOptions client resync opts"
  have inv: "ifInv ?f w" using isteps_keep [OF assms(2) new_factory_inv [OF assms(1) refl]] by blast
  have started: "facInformers (fac (Start w)) = facInformers (fac w)"
    "facStarted (fac (Start w)) = (\<lambda>t. t \<in> fst ` set (facInformers (fac w)))"
    by (simp_all add: Start_eq [OF inv])
  then have none: "filter (\<lambda>e. \<not> facStarted (fac (Start w)) (fst e)) (facInformers (fac (Start w))) = []"
    by (auto simp: filter_empty_conv)
  have "Start (Start w) = (Start w)\<lparr>running := running (Start w) @ [],
      fac := (fac (Start w))\<lparr>facStarted := facStarted (fac (Start w))\<rparr>\<rparr>"
    using Start_eq [OF Start_inv [OF inv]] unfolding none started by simp
  then have "Start (Start w) = Start w" by simp
  moreover have "dom (WaitForCacheSync synced (Start w)) = fst ` set (facInformers (fac w))"
    unfolding WaitForCacheSync_def dom_map_of_conv_image_fst started by force
  ultimately show ?thesis using running_Start [OF inv] inv by (simp add: ifInv_def)
qed

theorem informers_run_once_witness:
  "\<exists>w. istep\<^sup>*\<^sup>* (startWith (NewSharedInformerFactoryWithOptions () 30 [WithNamespace ''ns''])) w \<and>
     running w = [0, 1] \<and> distinct (running w) \<and> Start (Start w) = Start w"
proof -
  let ?start = "startWith (NewSharedInformerFactoryWithOptions () 30 [WithNamespace ''ns''])"
  let ?w = "Start (snd (strategyInformer (Start (snd (clusterInformer ?start)))))"
  have reach: "istep\<^sup>*\<^sup>* ?start ?w" by (meson istep.intros rtranclp.rtrancl_refl rtranclp.rtrancl_into_rtrancl)
  have "running ?w = [0, 1]"
    by (simp add: startWith_def NewSharedInformerFactoryWithOptions_def WithNamespace_def clusterInformer_def
        strategyInformer_def InformerFor_def informer_makers Start_def startOne_def)
  moreover have "factoryOption (WithNamespace ''ns'' :: unit factory \<Rightarrow> unit factory)" by (auto simp: factoryOption_def)
  ultimately show ?thesis using informers_run_once [OF _ reach] reach by auto
qed

text \<open>
  The factory shares informers: once the informer for clusters was handed out, every later request,
  typed or by resource, and after any steps in between, gets the same one and changes nothing.  It lists
  and watches the clusters of the factory's namespace with the factory's tweak of the options, and
  resyncs with the custom period of the type if there is one.  An unknown resource is an error.
\<close>

lemma informer_shared:
  assumes "\<forall>opt\<in>set opts. factoryOption opt" and "f = NewSharedInformerFactoryWithOptions client resync opts"
    and "istep\<^sup>*\<^sup>* (startWith f) w" and "clusterInformer w = (i, w1)" and "istep\<^sup>*\<^sup>* w1 w2"
  shows "clusterInformer w2 = (i, w2) \<and> ForResource clustersResource w2 = (Inr i, w2) \<and>
    infList i lo = OnClusters (facNamespace f) (CallList (tweaked (facTweak f) lo)) \<and>
    infWatch i lo = OnClusters (facNamespace f) (CallWatch (tweaked (facTweak f) lo)) \<and>
    infResync i = resyncFor f TCluster \<and>
    (r \<notin> {clustersResource, strategiesResource, strategies2Resource} \<longrightarrow> (\<exists>e. ForResource r w2 = (Inl e, w2)))"
proof -
  have inv: "ifInv f w" using isteps_keep [OF assms(3) new_factory_inv [OF assms(1,2)]] by blast
  note request = assms(4) [unfolded clusterInformer_def]
  have "map_of (facInformers (fac w1)) TCluster = Some i" "builtFor f TCluster i" "ifInv f w1"
    using clusterSource.InformerFor_found [OF inv] clusterSource.InformerFor_inv [OF inv] ifInv_config [OF inv] request
    by auto
  moreover from this have "map_of (facInformers (fac w2)) TCluster = Some i"
    using isteps_keep [OF assms(5)] by blast
  ultimately show ?thesis
    by (auto simp: clusterInformer_def InformerFor_def ForResource_def builtFor_def)
qed

lemma informer_shared_witness:
  "\<exists>i w1. clusterInformer (startWith (NewSharedInformerFactory () 30)) = (i, w1) \<and>
     clusterInformer (Start w1) = (i, Start w1) \<and> infResync i = 30"
proof -
  let ?f = "NewSharedInformerFactory () 30"
  obtain i w1 where "clusterInformer (startWith ?f) = (i, w1)" by fastforce
  moreover have "istep\<^sup>*\<^sup>* w1 (Start w1)" by (meson istep.startAll r_into_rtranclp)
  moreover have "?f = NewSharedInformerFactoryWithOptions () 30 []" by (simp add: NewSharedInformerFactory_def)
  moreover have "resyncFor ?f TCluster = 30"
    by (simp add: resyncFor_def NewSharedInformerFactory_def NewSharedInformerFactoryWithOptions_def)
  ultimately show ?thesis using informer_shared [of "[]" ?f "()" 30 "startWith ?f" i w1 "Start w1"] by auto
qed

text \<open>
  C36.  The lister of clusters finds exactly what the indexer holds: \<open>Get\<close> returns the cluster with that
  namespace and name, and a not-found error if there is none; \<open>List\<close> returns the clusters of the
  namespace that match the selector, and it does so whether or not the indexer has the namespace
  index.
\<close>

theorem cluster_lister:
  assumes "ixGood ix" and "ns \<noteq> []" and "CHR ''/'' \<notin> set ns" and "\<And>m. selEmpty sel \<Longrightarrow> selMatches sel m"
  shows "(clusterNamespaceListerGet ix ns name = Ok c \<longleftrightarrow>
      c \<in> set (ixClusters ix) \<and> Namespace (clMeta c) = ns \<and> Name (clMeta c) = name) \<and>
    ((\<forall>c\<in>set (ixClusters ix). Namespace (clMeta c) = ns \<longrightarrow> Name (clMeta c) \<noteq> name) \<longrightarrow>
      (\<exists>msg. clusterNamespaceListerGet ix ns name = Err (StatusError NotFound msg))) \<and>
    clusterNamespaceListerList ix ns sel =
      Ok (filter (\<lambda>c. Namespace (clMeta c) = ns \<and> selMatches sel (labelSet (clMeta c))) (ixClusters ix))"
proof (intro conjI)
  note items = ixClusters_items [OF assms(1)]
  note lookup = lookup_cluster [OF assms(1,3)]
  show "clusterNamespaceListerGet ix ns name = Ok c \<longleftrightarrow>
      c \<in> set (ixClusters ix) \<and> Namespace (clMeta c) = ns \<and> Name (clMeta c) = name"
  proof (cases "map_of (ixItems ix) (ns @ ''/'' @ name)")
    case None
    then show ?thesis using lookup [of name "OCluster c"] by (auto simp: clusterNamespaceListerGet_def getByKey_def)
  next
    case (Some ob)
    then show ?thesis using lookup [of name ob] lookup [of name "OCluster c"]
      by (auto simp: clusterNamespaceListerGet_def getByKey_def)
  qed
  show "(\<forall>c\<in>set (ixClusters ix). Namespace (clMeta c) = ns \<longrightarrow> Name (clMeta c) \<noteq> name) \<longrightarrow>
      (\<exists>msg. clusterNamespaceListerGet ix ns name = Err (StatusError NotFound msg))"
    using lookup by (cases "map_of (ixItems ix) (ns @ ''/'' @ name)")
      (auto simp: clusterNamespaceListerGet_def getByKey_def NewNotFound_def)
  show "clusterNamespaceListerList ix ns sel =
      Ok (filter (\<lambda>c. Namespace (clMeta c) = ns \<and> selMatches sel (labelSet (clMeta c))) (ixClusters ix))"
    using assms(2) unfolding clusterNamespaceListerList_def ListAllByNamespace_def indexByNamespace_def items
    by (simp add: filter_namespace ListAll_clusters [OF assms(4)] slowSearch_clusters assertAll_clusters conj_commute
        del: filter.simps)
qed

theorem cluster_lister_witness:
  "\<exists>ix c. ixGood ix \<and> clusterNamespaceListerGet ix ''ns'' ''px'' = Ok c \<and> \<not> ixNamespaceIndex ix \<and>
     clusterNamespaceListerList ix ''ns'' \<lparr>selEmpty = True, selMatches = (\<lambda>m. True)\<rparr> = Ok [c]"
proof -
  let ?c = "zeroCluster\<lparr>clMeta := metaNamed ''ns'' ''px'' None\<rparr>"
  let ?ix = "\<lparr>ixItems = [(''ns/px'', OCluster ?c)], ixNamespaceIndex = False\<rparr>"
  have good: "ixGood ?ix" by (simp add: ixGood_def clusterHome_def MetaNamespaceKeyFunc_def metaNamed_def)
  have "ixClusters ?ix = [?c]" by (simp add: ixClusters_def)
  with cluster_lister [OF good, of "''ns''" "\<lparr>selEmpty = True, selMatches = (\<lambda>m. True)\<rparr>" "''px''" ?c] good
  show ?thesis by (intro exI [of _ ?ix] exI [of _ ?c]) (simp add: metaNamed_def)
qed

end
