(* ===== verification/InformerAccess.thy ===== *)
theory InformerAccess
  imports Informers
begin

text \<open>
  The accessors that lead from a factory to its informers and listers:
  \<open>informers/externalversions/portworx/interface.go\<close>, \<open>interface.go\<close> of the two versions, the
  \<open>Informer()\<close> and \<open>Lister()\<close> methods, \<open>generic.go\<close>, and the constructors of the listers.  The accessor
  objects hold the factory, which is the state of the model, and the namespace and tweak they were made
  with.  \<open>GetIndexer\<close> of an informer is a parameter: what the reflector behind the informer has put there.
\<close>

section \<open>Groups and versions\<close>

record group =
  grpNamespace :: string
  grpTweak :: tweak

record version =
  verNamespace :: string
  verTweak :: tweak

record namespacedInformer =
  niNamespace :: string
  niTweak :: tweak

record clusterwideInformer =
  ciTweak :: tweak

definition portworxNew :: "string \<Rightarrow> tweak \<Rightarrow> group" where
  "portworxNew ns t = \<lparr>grpNamespace = ns, grpTweak = t\<rparr>"

definition factoryPortworx :: "'c factory \<Rightarrow> group" where
  "factoryPortworx f = portworxNew (facNamespace f) (facTweak f)"

definition v1beta1New :: "string \<Rightarrow> tweak \<Rightarrow> version" where
  "v1beta1New ns t = \<lparr>verNamespace = ns, verTweak = t\<rparr>"

definition v1beta2New :: "string \<Rightarrow> tweak \<Rightarrow> version" where
  "v1beta2New ns t = \<lparr>verNamespace = ns, verTweak = t\<rparr>"

definition groupV1beta1 :: "group \<Rightarrow> version" where
  "groupV1beta1 g = v1beta1New (grpNamespace g) (grpTweak g)"

definition groupV1beta2 :: "group \<Rightarrow> version" where
  "groupV1beta2 g = v1beta2New (grpNamespace g) (grpTweak g)"

definition versionClusters :: "version \<Rightarrow> namespacedInformer" where
  "versionClusters v = \<lparr>niNamespace = verNamespace v, niTweak = verTweak v\<rparr>"

definition versionStrategies :: "version \<Rightarrow> clusterwideInformer" where
  "versionStrategies v = \<lparr>ciTweak = verTweak v\<rparr>"

definition versionStrategies2 :: "version \<Rightarrow> clusterwideInformer" where
  "versionStrategies2 v = \<lparr>ciTweak = verTweak v\<rparr>"

section \<open>Informers and listers\<close>

text \<open>\<open>Informer()\<close> of the three informer types.\<close>

definition clusterInformerInformer :: "namespacedInformer \<Rightarrow> 'c informers \<Rightarrow> 'c informer \<times> 'c informers" where
  "clusterInformerInformer i = InformerFor TCluster (defaultClusterInformer (niNamespace i) (niTweak i))"

definition strategyInformerInformer :: "clusterwideInformer \<Rightarrow> 'c informers \<Rightarrow> 'c informer \<times> 'c informers" where
  "strategyInformerInformer i = InformerFor TStrategy (defaultStrategyInformer (ciTweak i))"

definition strategy2InformerInformer :: "clusterwideInformer \<Rightarrow> 'c informers \<Rightarrow> 'c informer \<times> 'c informers" where
  "strategy2InformerInformer i = InformerFor TStrategy2 (defaultStrategy2Informer (ciTweak i))"

text \<open>The listers: a lister of a type is its indexer, a namespace lister has a namespace too.\<close>

record clusterLister =
  clIndexer :: indexer

record clusterNamespaceLister =
  cnIndexer :: indexer
  cnNamespace :: string

record strategyLister =
  slIndexer :: indexer

definition NewClusterLister :: "indexer \<Rightarrow> clusterLister" where
  "NewClusterLister ix = \<lparr>clIndexer = ix\<rparr>"

definition listerClusters :: "clusterLister \<Rightarrow> string \<Rightarrow> clusterNamespaceLister" where
  "listerClusters s ns = \<lparr>cnIndexer = clIndexer s, cnNamespace = ns\<rparr>"

definition NewVolumePlacementStrategyLister :: "indexer \<Rightarrow> strategyLister" where
  "NewVolumePlacementStrategyLister ix = \<lparr>slIndexer = ix\<rparr>"

definition NewVolumePlacementStrategy2Lister :: "indexer \<Rightarrow> strategyLister" where
  "NewVolumePlacementStrategy2Lister ix = \<lparr>slIndexer = ix\<rparr>"

text \<open>\<open>Lister()\<close> asks for the shared informer first, so it registers it with the factory.\<close>

definition clusterInformerLister ::
    "('c informer \<Rightarrow> indexer) \<Rightarrow> namespacedInformer \<Rightarrow> 'c informers \<Rightarrow> clusterLister \<times> 'c informers" where
  "clusterInformerLister GetIndexer i w =
     apfst (NewClusterLister \<circ> GetIndexer) (clusterInformerInformer i w)"

definition strategyInformerLister ::
    "('c informer \<Rightarrow> indexer) \<Rightarrow> clusterwideInformer \<Rightarrow> 'c informers \<Rightarrow> strategyLister \<times> 'c informers" where
  "strategyInformerLister GetIndexer i w =
     apfst (NewVolumePlacementStrategyLister \<circ> GetIndexer) (strategyInformerInformer i w)"

definition strategy2InformerLister ::
    "('c informer \<Rightarrow> indexer) \<Rightarrow> clusterwideInformer \<Rightarrow> 'c informers \<Rightarrow> strategyLister \<times> 'c informers" where
  "strategy2InformerLister GetIndexer i w =
     apfst (NewVolumePlacementStrategy2Lister \<circ> GetIndexer) (strategy2InformerInformer i w)"

section \<open>The generic informer\<close>

record 'c genericInformer =
  giInformer :: "'c informer"
  giResource :: groupResource

definition genericInformerInformer :: "'c genericInformer \<Rightarrow> 'c informer" where
  "genericInformerInformer f = giInformer f"

text \<open>A \<open>cache.GenericLister\<close>: an indexer and the resource that its errors name.\<close>

definition genericInformerLister ::
    "('c informer \<Rightarrow> indexer) \<Rightarrow> 'c genericInformer \<Rightarrow> indexer \<times> groupResource" where
  "genericInformerLister GetIndexer f = (GetIndexer (genericInformerInformer f), giResource f)"

definition gvrGroupResource :: "groupVersionResource \<Rightarrow> groupResource" where
  "gvrGroupResource gvr = \<lparr>grGroup = gvGroup (gvrGV gvr), grResource = gvrResource gvr\<rparr>"

definition factoryForResource ::
    "groupVersionResource \<Rightarrow> 'c informers \<Rightarrow> (goerror + 'c genericInformer) \<times> 'c informers" where
  "factoryForResource resource w =
     (let generic = (\<lambda>i. Inr \<lparr>giInformer = i, giResource = gvrGroupResource resource\<rparr>);
          px = factoryPortworx (fac w) in
      if resource = clustersResource
      then apfst generic (clusterInformerInformer (versionClusters (groupV1beta1 px)) w)
      else if resource = strategiesResource
      then apfst generic (strategyInformerInformer (versionStrategies (groupV1beta1 px)) w)
      else if resource = strategies2Resource
      then apfst generic (strategy2InformerInformer (versionStrategies2 (groupV1beta2 px)) w)
      else (Inl (ErrorString (''no informer found for '' @ gvGroup (gvrGV resource) @ ''/'' @
              gvVersion (gvrGV resource) @ '', Resource='' @ gvrResource resource)), w))"

section \<open>All ways lead to the shared informer\<close>

text \<open>The chain of accessors ends in the informer of \<open>Informers\<close>, with the factory's namespace and tweak.\<close>

lemma accessors:
  "clusterInformerInformer (versionClusters (groupV1beta1 (factoryPortworx (fac w)))) w = clusterInformer w"
  "strategyInformerInformer (versionStrategies (groupV1beta1 (factoryPortworx (fac w)))) w = strategyInformer w"
  "strategy2InformerInformer (versionStrategies2 (groupV1beta2 (factoryPortworx (fac w)))) w = strategy2Informer w"
  by (simp_all add: clusterInformerInformer_def strategyInformerInformer_def strategy2InformerInformer_def
      versionClusters_def versionStrategies_def versionStrategies2_def groupV1beta1_def groupV1beta2_def
      v1beta1New_def v1beta2New_def factoryPortworx_def portworxNew_def clusterInformer_def
      strategyInformer_def strategy2Informer_def)

lemma forResource_generic:
  "ForResource resource w =
     apfst (map_sum id genericInformerInformer) (factoryForResource resource w)"
  by (simp add: ForResource_def factoryForResource_def accessors genericInformerInformer_def Let_def
      apfst_def map_prod_def split: prod.split)

text \<open>
  A lister got from the typed accessor and a generic lister for the same resource, one after the other
  and in either order, read the same indexer, and the second request registers nothing new.
\<close>

lemma informerFor_again:
  "InformerFor t f w = (i, w') \<Longrightarrow> (\<And>c r v j v'. f c r v = (j, v') \<Longrightarrow> fac v' = fac v) \<Longrightarrow>
     InformerFor t g w' = (i, w')"
  by (auto simp: InformerFor_def Let_def split: option.splits prod.splits)

lemma newClusterInformer_fac:
  "defaultClusterInformer ns t c r v = (j, v') \<Longrightarrow> fac v' = fac v"
  by (auto simp: defaultClusterInformer_def NewFilteredClusterInformer_def NewSharedIndexInformer_def)

lemma cluster_listers_agree:
  assumes "clusterInformerLister GetIndexer (versionClusters (groupV1beta1 (factoryPortworx (fac w)))) w
    = (s, w')"
  shows "\<exists>gi. factoryForResource clustersResource w' = (Inr gi, w') \<and>
    genericInformerLister GetIndexer gi = (clIndexer s, Resource1 ''clusters'')"
proof -
  from assms obtain i where i: "InformerFor TCluster (defaultClusterInformer (facNamespace (fac w)) (facTweak (fac w))) w
      = (i, w')" and s: "s = NewClusterLister (GetIndexer i)"
    by (cases "clusterInformer w") (auto simp: clusterInformerLister_def accessors clusterInformer_def)
  have "clusterInformer w' = (i, w')"
    unfolding clusterInformer_def by (rule informerFor_again [OF i newClusterInformer_fac])
  then show ?thesis
    by (simp add: factoryForResource_def Let_def accessors s NewClusterLister_def genericInformerLister_def
        genericInformerInformer_def gvrGroupResource_def clustersResource_def Resource1_def)
qed

end
