(* ===== verification/Clientsets.thy ===== *)
theory Clientsets
  imports Clients
begin

text \<open>
  How clients and clientsets are made: \<open>pkg/client/clientset/versioned/clientset.go\<close> and
  \<open>portworx_client.go\<close> of both versions, with the rate limiters, which \<open>Clients\<close> leaves out.  A rate
  limiter is an object with a state of its own, so which clients hold the same one matters: the state
  of the model is the list of limiters made so far, and a client holds the index of its limiter.
\<close>

section \<open>Configurations, limiters and clients\<close>

text \<open>
  What the vendored code supplies: the parsing of a host into a URL with the set-up of the HTTP
  transport, as in \<open>Clients\<close>, and \<open>rest.DefaultKubernetesUserAgent()\<close>.  A limiter has the arguments of
  \<open>flowcontrol.NewTokenBucketRateLimiter\<close>; \<open>QPS\<close>, a float that the code compares with zero and 100
  and passes on, is an integer.
\<close>

record restEnv =
  reHost :: "string \<Rightarrow> goerror + string"
  reUserAgent :: string

record limiter =
  limQPS :: int
  limBurst :: int

record clientConfig = restConfig +
  rfUserAgent :: string
  rfQPS :: int
  rfBurst :: int
  rfRateLimiter :: "nat option"

record RESTClient = restClient +
  rcRateLimiter :: "nat option"

definition NewTokenBucketRateLimiter :: "int \<Rightarrow> int \<Rightarrow> (limiter list, nat) go" where
  "NewTokenBucketRateLimiter qps burst ls = (Ok (length ls), ls @ [\<lparr>limQPS = qps, limBurst = burst\<rparr>])"

text \<open>
  \<open>Wait\<close> of a limiter, with which every request begins: a token bucket that can never hold a token
  refuses (\<open>WaitN\<close> of \<open>golang.org/x/time/rate\<close>), any other lets the request through in the end.
\<close>

definition limiterWait :: "limiter \<Rightarrow> goerror option" where
  "limiterWait l =
     (if 1 > limBurst l then Some (ErrorString ''rate: Wait(n=1) exceeds limiter's burst'') else None)"

definition DefaultQPS :: int where
  "DefaultQPS = 5"

definition DefaultBurst :: int where
  "DefaultBurst = 10"

text \<open>The limiter of a new client: the configured one, else one of its own unless \<open>QPS\<close> is negative.\<close>

definition clientLimiter :: "clientConfig \<Rightarrow> (limiter list, nat option) go" where
  "clientLimiter config =
     (case rfRateLimiter config of
        Some l \<Rightarrow> returnE (Some l)
      | None \<Rightarrow>
          let qps = (if rfQPS config = 0 then DefaultQPS else rfQPS config);
              burst = (if rfBurst config = 0 then DefaultBurst else rfBurst config) in
          if qps > 0 then bindE (NewTokenBucketRateLimiter qps burst) (\<lambda>l. returnE (Some l))
          else returnE None)"

definition liftSum :: "goerror + 'a \<Rightarrow> ('w, 'a) go" where
  "liftSum r = (case r of Inl e \<Rightarrow> raiseE e | Inr x \<Rightarrow> returnE x)"

text \<open>
  \<open>rest.RESTClientFor\<close> and \<open>rest.UnversionedRESTClientFor\<close>: the URL and the transport first, then the
  limiter.
\<close>

definition newRESTClient :: "restClient \<Rightarrow> nat option \<Rightarrow> RESTClient" where
  "newRESTClient c l =
     \<lparr>rcBasePath = rcBasePath c, rcVersionedAPIPath = rcVersionedAPIPath c,
      rcContentType = rcContentType c, rcRateLimiter = l\<rparr>"

definition restClientFor :: "restEnv \<Rightarrow> clientConfig \<Rightarrow> (limiter list, RESTClient) go" where
  "restClientFor env config =
     bindE (liftSum (RESTClientFor (reHost env) (restConfig.truncate config))) (\<lambda>c.
     bindE (clientLimiter config) (\<lambda>l. returnE (newRESTClient c l)))"

definition unversionedRESTClientFor ::
    "restEnv \<Rightarrow> clientConfig \<Rightarrow> (limiter list, RESTClient) go" where
  "unversionedRESTClientFor env config =
     (if \<not> rfSerializer config
      then raiseE (ErrorString ''NegotiatedSerializer is required when initializing a RESTClient'')
      else
        bindE (liftSum (reHost env (if rfHost config = [] then ''localhost'' else rfHost config))) (\<lambda>base.
        bindE (clientLimiter config) (\<lambda>l.
          returnE (newRESTClient
            (NewRESTClient base
              (DefaultVersionedAPIPath (rfAPIPath config)
                 (case rfGroupVersion config of Some gv \<Rightarrow> gv | None \<Rightarrow> \<lparr>gvGroup = [], gvVersion = []\<rparr>))
              (rfContentType config)) l))))"

section \<open>The clients of the two versions\<close>

definition V1beta1SetConfigDefaults :: "restEnv \<Rightarrow> clientConfig \<Rightarrow> clientConfig" where
  "V1beta1SetConfigDefaults env config =
     config\<lparr>rfGroupVersion := Some SchemeGroupVersion1, rfAPIPath := ''/apis'', rfSerializer := True,
            rfUserAgent := (if rfUserAgent config = [] then reUserAgent env
                            else rfUserAgent config)\<rparr>"

definition V1beta1NewForConfig :: "restEnv \<Rightarrow> clientConfig \<Rightarrow> (limiter list, RESTClient) go" where
  "V1beta1NewForConfig env c = restClientFor env (V1beta1SetConfigDefaults env c)"

text \<open>\<^verbatim>\<open>client, err := NewForConfig(c); if err != nil { panic(err) }\<close>\<close>

definition orDie :: "('w, 'a) go \<Rightarrow> ('w, 'a) go" where
  "orDie m = bindE (tryE m) (\<lambda>r. case r of Inl e \<Rightarrow> panicE (errorText e) | Inr c \<Rightarrow> returnE c)"

definition V1beta1NewForConfigOrDie ::
    "restEnv \<Rightarrow> clientConfig \<Rightarrow> (limiter list, RESTClient) go" where
  "V1beta1NewForConfigOrDie env c = orDie (V1beta1NewForConfig env c)"

text \<open>
  A \<open>PortworxV1beta1Client\<close> is its REST client; the methods take a pointer that may be nil, and the
  getters dereference it.
\<close>

definition V1beta1New :: "RESTClient \<Rightarrow> RESTClient" where
  "V1beta1New c = c"

definition V1beta1RESTClient :: "RESTClient option \<Rightarrow> RESTClient iface" where
  "V1beta1RESTClient c = (case c of None \<Rightarrow> NilIface | Some r \<Rightarrow> Holding (Some r))"

definition V1beta1Clusters :: "RESTClient \<Rightarrow> string \<Rightarrow> clusters" where
  "V1beta1Clusters c ns = newClusters (restClient.truncate c) ns"

definition V1beta1VolumePlacementStrategies :: "RESTClient \<Rightarrow> restClient" where
  "V1beta1VolumePlacementStrategies c = restClient.truncate c"

definition V1beta2SetConfigDefaults :: "restEnv \<Rightarrow> clientConfig \<Rightarrow> clientConfig" where
  "V1beta2SetConfigDefaults env config =
     config\<lparr>rfGroupVersion := Some SchemeGroupVersion2, rfAPIPath := ''/apis'', rfSerializer := True,
            rfUserAgent := (if rfUserAgent config = [] then reUserAgent env
                            else rfUserAgent config)\<rparr>"

definition V1beta2NewForConfig :: "restEnv \<Rightarrow> clientConfig \<Rightarrow> (limiter list, RESTClient) go" where
  "V1beta2NewForConfig env c = restClientFor env (V1beta2SetConfigDefaults env c)"

definition V1beta2NewForConfigOrDie ::
    "restEnv \<Rightarrow> clientConfig \<Rightarrow> (limiter list, RESTClient) go" where
  "V1beta2NewForConfigOrDie env c = orDie (V1beta2NewForConfig env c)"

definition V1beta2New :: "RESTClient \<Rightarrow> RESTClient" where
  "V1beta2New c = c"

definition V1beta2RESTClient :: "RESTClient option \<Rightarrow> RESTClient iface" where
  "V1beta2RESTClient c = (case c of None \<Rightarrow> NilIface | Some r \<Rightarrow> Holding (Some r))"

definition V1beta2VolumePlacementStrategies :: "RESTClient \<Rightarrow> restClient" where
  "V1beta2VolumePlacementStrategies c = restClient.truncate c"

section \<open>The discovery client\<close>

text \<open>\<open>discovery.NewDiscoveryClientForConfig\<close> (vendored), its timeout left out.\<close>

definition setDiscoveryDefaults :: "restEnv \<Rightarrow> clientConfig \<Rightarrow> clientConfig" where
  "setDiscoveryDefaults env config =
     config\<lparr>rfAPIPath := [], rfGroupVersion := None, rfSerializer := True,
            rfBurst := (if rfBurst config = 0 \<and> rfQPS config < 100 then 100 else rfBurst config),
            rfUserAgent := (if rfUserAgent config = [] then reUserAgent env
                            else rfUserAgent config)\<rparr>"

definition NewDiscoveryClientForConfig ::
    "restEnv \<Rightarrow> clientConfig \<Rightarrow> (limiter list, RESTClient) go" where
  "NewDiscoveryClientForConfig env c = unversionedRESTClientFor env (setDiscoveryDefaults env c)"

section \<open>The clientset\<close>

record ClientSet =
  DiscoveryClient :: RESTClient
  portworxV1beta1 :: RESTClient
  portworxV1beta2 :: RESTClient

definition NewForConfig :: "restEnv \<Rightarrow> clientConfig \<Rightarrow> (limiter list, ClientSet) go" where
  "NewForConfig env c =
     bindE (if rfRateLimiter c = None \<and> rfQPS c > 0
            then bindE (NewTokenBucketRateLimiter (rfQPS c) (rfBurst c)) (\<lambda>l.
                   returnE (c\<lparr>rfRateLimiter := Some l\<rparr>))
            else returnE c) (\<lambda>configShallowCopy.
     bindE (V1beta1NewForConfig env configShallowCopy) (\<lambda>v1.
     bindE (V1beta2NewForConfig env configShallowCopy) (\<lambda>v2.
     bindE (NewDiscoveryClientForConfig env configShallowCopy) (\<lambda>d.
       returnE \<lparr>DiscoveryClient = d, portworxV1beta1 = v1, portworxV1beta2 = v2\<rparr>))))"

definition NewForConfigOrDie :: "restEnv \<Rightarrow> clientConfig \<Rightarrow> (limiter list, ClientSet) go" where
  "NewForConfigOrDie env c =
     bindE (V1beta1NewForConfigOrDie env c) (\<lambda>v1.
     bindE (V1beta2NewForConfigOrDie env c) (\<lambda>v2.
     bindE (orDie (NewDiscoveryClientForConfig env c)) (\<lambda>d.
       returnE \<lparr>DiscoveryClient = d, portworxV1beta1 = v1, portworxV1beta2 = v2\<rparr>)))"

definition NewClientset :: "RESTClient \<Rightarrow> ClientSet" where
  "NewClientset c = \<lparr>DiscoveryClient = c, portworxV1beta1 = V1beta1New c, portworxV1beta2 = V1beta2New c\<rparr>"

definition PortworxV1beta1 :: "ClientSet \<Rightarrow> RESTClient" where
  "PortworxV1beta1 c = portworxV1beta1 c"

definition PortworxV1beta2 :: "ClientSet \<Rightarrow> RESTClient" where
  "PortworxV1beta2 c = portworxV1beta2 c"

definition PortworxClient :: "ClientSet \<Rightarrow> RESTClient" where
  "PortworxClient c = portworxV1beta2 c"

definition Discovery :: "ClientSet option \<Rightarrow> RESTClient iface" where
  "Discovery c = (case c of None \<Rightarrow> NilIface | Some cs \<Rightarrow> Holding (Some (DiscoveryClient cs)))"

end
