(* ===== verification/ClientsetProps.thy ===== *)
theory ClientsetProps
  imports Clientsets
begin

text \<open>
  What the constructors of the clientset promise: the clients address what the model of \<open>Clients\<close> says
  they address, which of them share a rate limiter, and when construction fails.
\<close>

section \<open>The constructors in one step\<close>

definition hostOf :: "clientConfig \<Rightarrow> string" where
  "hostOf c = (if rfHost c = [] then ''localhost'' else rfHost c)"

text \<open>The client a configuration gives for a group version, its limiter aside.\<close>

definition pathClient :: "string \<Rightarrow> string \<Rightarrow> groupVersion \<Rightarrow> clientConfig \<Rightarrow> restClient" where
  "pathClient base api gv c = NewRESTClient base (DefaultVersionedAPIPath api gv) (rfContentType c)"

definition noGroup :: groupVersion where
  "noGroup = \<lparr>gvGroup = [], gvVersion = []\<rparr>"

lemma limiter_cong:
  "rfRateLimiter c' = rfRateLimiter c \<Longrightarrow> rfQPS c' = rfQPS c \<Longrightarrow> rfBurst c' = rfBurst c \<Longrightarrow>
     clientLimiter c' = clientLimiter c"
  unfolding clientLimiter_def by (erule ssubst)+ (rule refl)

lemma limiter_defaults:
  "clientLimiter (V1beta1SetConfigDefaults env c) = clientLimiter c"
  "clientLimiter (V1beta2SetConfigDefaults env c) = clientLimiter c"
  by (rule limiter_cong; simp add: V1beta1SetConfigDefaults_def V1beta2SetConfigDefaults_def)+

lemma paths_defaults:
  "RESTClientFor host (restConfig.truncate (V1beta1SetConfigDefaults env c)) =
     map_sum id (\<lambda>base. pathClient base ''/apis'' SchemeGroupVersion1 c) (host (hostOf c))"
  "RESTClientFor host (restConfig.truncate (V1beta2SetConfigDefaults env c)) =
     map_sum id (\<lambda>base. pathClient base ''/apis'' SchemeGroupVersion2 c) (host (hostOf c))"
  by (simp_all add: RESTClientFor_def V1beta1SetConfigDefaults_def V1beta2SetConfigDefaults_def
        restConfig.truncate_def hostOf_def pathClient_def split: sum.split)

lemma discovery_paths:
  "NewDiscoveryClientForConfig env c =
     bindE (liftSum (reHost env (hostOf c))) (\<lambda>base.
     bindE (clientLimiter (setDiscoveryDefaults env c)) (\<lambda>l.
       returnE (newRESTClient (pathClient base [] noGroup c) l)))"
proof -
  have "rfHost (setDiscoveryDefaults env c) = rfHost c" "rfSerializer (setDiscoveryDefaults env c)"
    "rfAPIPath (setDiscoveryDefaults env c) = []" "rfGroupVersion (setDiscoveryDefaults env c) = None"
    "rfContentType (setDiscoveryDefaults env c) = rfContentType c"
    by (simp_all add: setDiscoveryDefaults_def)
  then show ?thesis
    by (simp add: NewDiscoveryClientForConfig_def unversionedRESTClientFor_def hostOf_def pathClient_def
          noGroup_def)
qed

lemmas constructor_defs = V1beta1NewForConfig_def V1beta2NewForConfig_def restClientFor_def limiter_defaults
  paths_defaults discovery_paths liftSum_def

lemma client_ok:
  assumes "reHost env (hostOf c) = Inr base"
  shows "V1beta1NewForConfig env c =
      bindE (clientLimiter c) (\<lambda>l. returnE (newRESTClient (pathClient base ''/apis'' SchemeGroupVersion1 c) l))"
    and "V1beta2NewForConfig env c =
      bindE (clientLimiter c) (\<lambda>l. returnE (newRESTClient (pathClient base ''/apis'' SchemeGroupVersion2 c) l))"
    and "NewDiscoveryClientForConfig env c =
      bindE (clientLimiter (setDiscoveryDefaults env c)) (\<lambda>l.
        returnE (newRESTClient (pathClient base [] noGroup c) l))"
  using assms by (simp_all add: constructor_defs)

lemma client_err:
  assumes "reHost env (hostOf c) = Inl e"
  shows "V1beta1NewForConfig env c = raiseE e" "V1beta2NewForConfig env c = raiseE e"
    "NewDiscoveryClientForConfig env c = raiseE e"
  using assms by (simp_all add: constructor_defs)

lemma orDie_run [go_run]:
  "orDie (raiseE e) ls = (Panic (errorText e), ls)"
  "m ls = (Ok x, ls') \<Longrightarrow> orDie m ls = (Ok x, ls')"
  by (simp_all add: orDie_def tryE_def raiseE_def bindE_def panicE_def returnE_def)

section \<open>Rate limiters\<close>

text \<open>The three clients of a clientset with the given limiters.\<close>

definition clientSetOf :: "string \<Rightarrow> clientConfig \<Rightarrow> nat option \<Rightarrow> nat option \<Rightarrow> nat option \<Rightarrow> ClientSet" where
  "clientSetOf base c l1 l2 ld =
     \<lparr>DiscoveryClient = newRESTClient (pathClient base [] noGroup c) ld,
      portworxV1beta1 = newRESTClient (pathClient base ''/apis'' SchemeGroupVersion1 c) l1,
      portworxV1beta2 = newRESTClient (pathClient base ''/apis'' SchemeGroupVersion2 c) l2\<rparr>"

lemma limiter_run [go_run]:
  "rfRateLimiter c = Some l \<Longrightarrow> clientLimiter c ls = (Ok (Some l), ls)"
  "rfRateLimiter c = None \<Longrightarrow> rfQPS c < 0 \<Longrightarrow> clientLimiter c ls = (Ok None, ls)"
  "rfRateLimiter c = None \<Longrightarrow> 0 \<le> rfQPS c \<Longrightarrow>
     clientLimiter c ls =
       (Ok (Some (length ls)),
        ls @ [\<lparr>limQPS = (if rfQPS c = 0 then DefaultQPS else rfQPS c),
               limBurst = (if rfBurst c = 0 then DefaultBurst else rfBurst c)\<rparr>])"
  by (auto simp: clientLimiter_def NewTokenBucketRateLimiter_def bindE_def returnE_def DefaultQPS_def)

lemma discovery_limiter [simp]:
  "rfRateLimiter (setDiscoveryDefaults env c) = rfRateLimiter c"
  "rfQPS (setDiscoveryDefaults env c) = rfQPS c"
  "rfBurst (setDiscoveryDefaults env c) = (if rfBurst c = 0 \<and> rfQPS c < 100 then 100 else rfBurst c)"
  by (simp_all add: setDiscoveryDefaults_def)

lemma pathClient_cong [simp]:
  "pathClient base api gv (c\<lparr>rfRateLimiter := l\<rparr>) = pathClient base api gv c"
  "hostOf (c\<lparr>rfRateLimiter := l\<rparr>) = hostOf c"
  by (simp_all add: pathClient_def hostOf_def)

lemmas newForConfig_run = NewForConfig_def NewForConfigOrDie_def V1beta1NewForConfigOrDie_def
  V1beta2NewForConfigOrDie_def clientSetOf_def bindE_def returnE_def

definition defaultBurst :: "int \<Rightarrow> int" where
  "defaultBurst b = (if b = 0 then DefaultBurst else b)"

definition discoveryBurst :: "clientConfig \<Rightarrow> int" where
  "discoveryBurst c = defaultBurst (if rfBurst c = 0 \<and> rfQPS c < 100 then 100 else rfBurst c)"

definition ownLimiters :: "int \<Rightarrow> clientConfig \<Rightarrow> limiter list" where
  "ownLimiters qps c =
     [\<lparr>limQPS = qps, limBurst = defaultBurst (rfBurst c)\<rparr>,
      \<lparr>limQPS = qps, limBurst = defaultBurst (rfBurst c)\<rparr>,
      \<lparr>limQPS = qps, limBurst = discoveryBurst c\<rparr>]"

lemma own_limiters_serve:
  "rfBurst c \<ge> 0 \<Longrightarrow> list_all (\<lambda>l. limiterWait l = None) (ownLimiters qps c)"
  by (simp add: ownLimiters_def limiterWait_def defaultBurst_def discoveryBurst_def DefaultBurst_def)

lemma given_limiter:
  assumes "reHost env (hostOf c) = Inr base" "rfRateLimiter c = Some l"
  shows "NewForConfig env c ls = (Ok (clientSetOf base c (Some l) (Some l) (Some l)), ls)"
    and "NewForConfigOrDie env c ls = (Ok (clientSetOf base c (Some l) (Some l) (Some l)), ls)"
  using assms by (simp_all add: newForConfig_run client_ok go_run)

lemma shared_limiter:
  assumes "reHost env (hostOf c) = Inr base" "rfRateLimiter c = None" "rfQPS c > 0"
  shows "NewForConfig env c ls =
    (Ok (clientSetOf base c (Some (length ls)) (Some (length ls)) (Some (length ls))),
     ls @ [\<lparr>limQPS = rfQPS c, limBurst = rfBurst c\<rparr>])"
  using assms client_ok [of env "c\<lparr>rfRateLimiter := Some (length ls)\<rparr>" base]
  by (simp add: newForConfig_run NewTokenBucketRateLimiter_def go_run)

lemma own_limiters:
  assumes "reHost env (hostOf c) = Inr base" "rfRateLimiter c = None" "rfQPS c \<ge> 0"
  shows "NewForConfigOrDie env c ls =
    (Ok (clientSetOf base c (Some (length ls)) (Some (length ls + 1)) (Some (length ls + 2))),
     ls @ ownLimiters (if rfQPS c = 0 then DefaultQPS else rfQPS c) c)"
  using assms
  by (simp add: newForConfig_run client_ok go_run ownLimiters_def defaultBurst_def discoveryBurst_def)

lemma own_limiters_default:
  assumes "reHost env (hostOf c) = Inr base" "rfRateLimiter c = None" "rfQPS c = 0"
  shows "NewForConfig env c ls = NewForConfigOrDie env c ls"
  using assms
  by (simp add: newForConfig_run client_ok go_run ownLimiters_def defaultBurst_def discoveryBurst_def)

text \<open>
  C30.  Rate limits of a clientset, for a host that can be parsed.  With a limiter in the configuration
  all clients use it.  With a positive \<open>QPS\<close> and no limiter, \<open>NewForConfig\<close> makes one limiter and all
  three clients share it; its burst is the configured one even if that is zero, and then it refuses
  every request.  \<open>NewForConfigOrDie\<close> makes one limiter for each client, with the default burst for
  zero: none of them refuses, and the clientset as a whole may send three times the configured rate.
  With \<open>QPS\<close> zero both give every client a limiter of its own with five requests per second.
\<close>

theorem clientset_rate_limits:
  assumes "reHost env (hostOf c) = Inr base"
  shows "(\<forall>l. rfRateLimiter c = Some l \<longrightarrow>
      NewForConfig env c ls = (Ok (clientSetOf base c (Some l) (Some l) (Some l)), ls) \<and>
      NewForConfigOrDie env c ls = (Ok (clientSetOf base c (Some l) (Some l) (Some l)), ls)) \<and>
    (rfRateLimiter c = None \<and> rfQPS c > 0 \<longrightarrow>
      NewForConfig env c ls =
        (Ok (clientSetOf base c (Some (length ls)) (Some (length ls)) (Some (length ls))),
         ls @ [\<lparr>limQPS = rfQPS c, limBurst = rfBurst c\<rparr>]) \<and>
      (rfBurst c = 0 \<longrightarrow> limiterWait \<lparr>limQPS = rfQPS c, limBurst = rfBurst c\<rparr> \<noteq> None)) \<and>
    (rfRateLimiter c = None \<and> rfQPS c \<ge> 0 \<longrightarrow>
      NewForConfigOrDie env c ls =
        (Ok (clientSetOf base c (Some (length ls)) (Some (length ls + 1)) (Some (length ls + 2))),
         ls @ ownLimiters (if rfQPS c = 0 then 5 else rfQPS c) c) \<and>
      (rfBurst c \<ge> 0 \<longrightarrow>
         list_all (\<lambda>l. limiterWait l = None) (ownLimiters (if rfQPS c = 0 then 5 else rfQPS c) c))) \<and>
    (rfRateLimiter c = None \<and> rfQPS c = 0 \<longrightarrow>
      NewForConfig env c ls = NewForConfigOrDie env c ls)"
  using given_limiter [OF assms] shared_limiter [OF assms] own_limiters [OF assms]
    own_limiters_default [OF assms] own_limiters_serve [of c]
  by (simp add: DefaultQPS_def limiterWait_def)

definition exampleConfig :: clientConfig where
  "exampleConfig = \<lparr>rfHost = ''h'', rfAPIPath = [], rfGroupVersion = None, rfSerializer = False,
     rfContentType = [], rfUserAgent = [], rfQPS = 20, rfBurst = 0, rfRateLimiter = None\<rparr>"

definition exampleEnv :: restEnv where
  "exampleEnv = \<lparr>reHost = (\<lambda>h. Inr ''/''), reUserAgent = ''agent''\<rparr>"

text \<open>A configuration with a rate and no burst: the clientset of \<open>NewForConfig\<close> cannot send.\<close>

theorem clientset_rate_limits_witness:
  "\<exists>cs. NewForConfig exampleEnv exampleConfig [] = (Ok cs, [\<lparr>limQPS = 20, limBurst = 0\<rparr>]) \<and>
     rcRateLimiter (portworxV1beta1 cs) = Some 0 \<and>
     limiterWait \<lparr>limQPS = 20, limBurst = 0\<rparr> \<noteq> None"
  using clientset_rate_limits [of exampleEnv exampleConfig "''/''" "[]"]
  by (simp add: exampleEnv_def exampleConfig_def clientSetOf_def newRESTClient_def)

section \<open>Failure\<close>

text \<open>
  If the host cannot be parsed, \<open>NewForConfig\<close> returns that error, and \<open>NewForConfigOrDie\<close> panics with
  it; both otherwise return, and the clients then differ in their limiters only.
\<close>

lemma construction_failure:
  "reHost env (hostOf c) = Inl e \<Longrightarrow>
     fst (NewForConfig env c ls) = Err e \<and> NewForConfigOrDie env c ls = (Panic (errorText e), ls)"
  using client_err [of env c e] client_err [of env "c\<lparr>rfRateLimiter := l\<rparr>" e for l]
  by (simp add: newForConfig_run NewTokenBucketRateLimiter_def go_run)

text \<open>The clients are those of \<open>Clients\<close>, with limiters.\<close>

lemma new_for_config_refines:
  assumes "NewForConfig env c ls = (Ok cs, ls')"
  shows "ClientsetNewForConfig (reHost env) (restConfig.truncate c) =
    Inr \<lparr>csPortworxV1beta1 = V1beta1VolumePlacementStrategies (PortworxV1beta1 cs),
         csPortworxV1beta2 = V1beta2VolumePlacementStrategies (PortworxV1beta2 cs)\<rparr>"
proof (cases "reHost env (hostOf c)")
  case (Inl e)
  then show ?thesis using construction_failure [of env c e ls] assms by simp
next
  case (Inr base)
  have "\<exists>l1 l2 ld. cs = clientSetOf base c l1 l2 ld"
  proof -
    consider l where "rfRateLimiter c = Some l" | "rfRateLimiter c = None" "rfQPS c > 0"
      | "rfRateLimiter c = None" "rfQPS c = 0" | "rfRateLimiter c = None" "rfQPS c < 0"
      by fastforce
    then show ?thesis
    proof cases
      case 1 then show ?thesis using given_limiter [OF Inr] assms by auto
    next
      case 2 then show ?thesis using shared_limiter [OF Inr] assms by auto
    next
      case 3 then show ?thesis using own_limiters_default [OF Inr 3] own_limiters [OF Inr] assms by auto
    next
      case 4 then show ?thesis using assms Inr by (auto simp: newForConfig_run client_ok go_run)
    qed
  qed
  then show ?thesis using Inr
    by (auto simp: clientSetOf_def ClientsetNewForConfig_def NewV1beta1ForConfig_def NewV1beta2ForConfig_def
        RESTClientFor_def setConfigDefaults_def restConfig.truncate_def hostOf_def pathClient_def
        newRESTClient_def V1beta1VolumePlacementStrategies_def V1beta2VolumePlacementStrategies_def
        PortworxV1beta1_def PortworxV1beta2_def restClient.truncate_def NewRESTClient_def)
qed

end
