(* ===== verification/FakeClientset.thy ===== *)
theory FakeClientset
  imports FakeProps
begin

text \<open>
  The fake clientset as its users reach it: \<open>clientset_generated.go\<close> and the \<open>fake_portworx_client.go\<close> of
  both versions.  Every accessor makes a new struct around the one \<open>testing.Fake\<close> that is embedded in the
  clientset, so what matters is which \<open>Fake\<close> a client points to.  The state is the list of all fakes made
  so far, and a pointer to a fake is its index.
\<close>

section \<open>Clientsets and clients\<close>

record FakeDiscovery =
  fdFake :: nat

record FakeClientset =
  fcFake :: nat
  fcDiscovery :: FakeDiscovery

record FakePortworxV1beta1 =
  fp1Fake :: nat

record FakePortworxV1beta2 =
  fp2Fake :: nat

record FakeClusters =
  fclFake :: FakePortworxV1beta1
  fclNs :: string

record FakeStrategies =
  fvsFake :: FakePortworxV1beta1

record FakeStrategies2 =
  fvs2Fake :: FakePortworxV1beta2

text \<open>\<open>NewSimpleClientset\<close> with its result; it panics before there is a clientset.\<close>

definition NewSimpleClientsetPtr :: "apiObject list \<Rightarrow> (fake list, FakeClientset) go" where
  "NewSimpleClientsetPtr objects fs =
     (case NewSimpleClientset objects of
        (Ok _, f) \<Rightarrow> (Ok \<lparr>fcFake = length fs, fcDiscovery = \<lparr>fdFake = length fs\<rparr>\<rparr>, fs @ [f])
      | (Err e, _) \<Rightarrow> (Err e, fs)
      | (Panic p, _) \<Rightarrow> (Panic p, fs)
      | (Crash p, _) \<Rightarrow> (Crash p, fs))"

definition FakeClientset_Discovery :: "FakeClientset \<Rightarrow> FakeDiscovery" where
  "FakeClientset_Discovery c = fcDiscovery c"

definition FakeClientset_PortworxV1beta1 :: "FakeClientset \<Rightarrow> FakePortworxV1beta1" where
  "FakeClientset_PortworxV1beta1 c = \<lparr>fp1Fake = fcFake c\<rparr>"

definition FakeClientset_PortworxV1beta2 :: "FakeClientset \<Rightarrow> FakePortworxV1beta2" where
  "FakeClientset_PortworxV1beta2 c = \<lparr>fp2Fake = fcFake c\<rparr>"

definition FakeClientset_Portworx :: "FakeClientset \<Rightarrow> FakePortworxV1beta2" where
  "FakeClientset_Portworx c = \<lparr>fp2Fake = fcFake c\<rparr>"

definition FakePortworxV1beta1_Clusters :: "FakePortworxV1beta1 \<Rightarrow> string \<Rightarrow> FakeClusters" where
  "FakePortworxV1beta1_Clusters c namespace = \<lparr>fclFake = c, fclNs = namespace\<rparr>"

definition FakePortworxV1beta1_VolumePlacementStrategies :: "FakePortworxV1beta1 \<Rightarrow> FakeStrategies" where
  "FakePortworxV1beta1_VolumePlacementStrategies c = \<lparr>fvsFake = c\<rparr>"

definition FakePortworxV1beta2_VolumePlacementStrategies :: "FakePortworxV1beta2 \<Rightarrow> FakeStrategies2" where
  "FakePortworxV1beta2_VolumePlacementStrategies c = \<lparr>fvs2Fake = c\<rparr>"

section \<open>Calls through a client\<close>

text \<open>Running on the fake a pointer points to, and the methods of the three resource clients.\<close>

definition onFake :: "nat \<Rightarrow> (fake, 'a) go \<Rightarrow> (fake list, 'a) go" where
  "onFake i m fs = (case m (fs ! i) of (r, f) \<Rightarrow> (r, fs[i := f]))"

definition onClusters :: "FakeClusters \<Rightarrow> (string \<Rightarrow> (fake, 'a) go) \<Rightarrow> (fake list, 'a) go" where
  "onClusters c m = onFake (fp1Fake (fclFake c)) (m (fclNs c))"

definition onStrategies :: "FakeStrategies \<Rightarrow> (fake, 'a) go \<Rightarrow> (fake list, 'a) go" where
  "onStrategies c m = onFake (fp1Fake (fvsFake c)) m"

definition onStrategies2 :: "FakeStrategies2 \<Rightarrow> (fake, 'a) go \<Rightarrow> (fake list, 'a) go" where
  "onStrategies2 c m = onFake (fp2Fake (fvs2Fake c)) m"

lemmas fake_access =
  FakeClientset_PortworxV1beta1_def FakeClientset_PortworxV1beta2_def FakeClientset_Portworx_def
  FakePortworxV1beta1_Clusters_def FakePortworxV1beta1_VolumePlacementStrategies_def
  FakePortworxV1beta2_VolumePlacementStrategies_def onClusters_def onStrategies_def onStrategies2_def

section \<open>All accessors lead to the clientset's fake\<close>

lemma all_clients_on_the_fake:
  "onClusters (FakePortworxV1beta1_Clusters (FakeClientset_PortworxV1beta1 c) ns) m = onFake (fcFake c) (m ns)"
  "onStrategies (FakePortworxV1beta1_VolumePlacementStrategies (FakeClientset_PortworxV1beta1 c)) m' =
     onFake (fcFake c) m'"
  "onStrategies2 (FakePortworxV1beta2_VolumePlacementStrategies (FakeClientset_PortworxV1beta2 c)) m' =
     onFake (fcFake c) m'"
  "onStrategies2 (FakePortworxV1beta2_VolumePlacementStrategies (FakeClientset_Portworx c)) m' =
     onFake (fcFake c) m'"
  by (simp_all add: fake_access)

text \<open>A clientset made by the constructor, and others made before or after it, have fakes of their own.\<close>

lemma clientset_own_fake:
  assumes "NewSimpleClientsetPtr objects fs = (Ok c, fs')"
  shows "fcFake c = length fs" and "fdFake (FakeClientset_Discovery c) = fcFake c"
    and "NewSimpleClientset objects = (Ok (), fs' ! fcFake c)" and "take (length fs) fs' = fs"
  using assms
  by (auto simp: NewSimpleClientsetPtr_def FakeClientset_Discovery_def split: prod.splits outcome.splits)

lemma onFake_others: "j \<noteq> i \<Longrightarrow> snd (onFake i m fs) ! j = fs ! j"
  by (simp add: onFake_def split: prod.split)

lemma onFake_run:
  "i < length fs \<Longrightarrow> m (fs ! i) = (r, f) \<Longrightarrow> onFake i m fs = (r, fs[i := f])"
  by (simp add: onFake_def)

section \<open>What is created is found\<close>

text \<open>The fake's answer to a creation and to a lookup, from the tracker's contract.\<close>

lemma create_get_cluster:
  assumes f: "roomy (fkTracker f)" "trkGood (fkTracker f)"
    and c: "Namespace (clMeta c) = [] \<or> Namespace (clMeta c) = ns"
    and new: "lookupKey (fkTracker f) (clustersResource, ns, Name (clMeta c)) = None"
  shows "\<exists>f'. fakeClustersCreate lib ns c f =
      (Ok (Some (c\<lparr>clMeta := (clMeta c)\<lparr>Namespace := ns\<rparr>\<rparr>), None), f') \<and>
    lookupKey (fkTracker f') =
      (lookupKey (fkTracker f))((clustersResource, ns, Name (clMeta c)) \<mapsto>
        OCluster (c\<lparr>clMeta := (clMeta c)\<lparr>Namespace := ns\<rparr>\<rparr>))"
  using Invokes_store [OF f, of "CreateAction clustersResource ns (OCluster c)" lib "OCluster zeroCluster"] c new
  by (auto simp: fakeClustersCreate_def bindE_def storeCreate_def place_def asReply_def fakeResult_def returnE_def)

lemma get_cluster:
  assumes "lookupKey (fkTracker f) (clustersResource, ns, name) = Some (OCluster c)"
  shows "\<exists>f'. fakeClustersGet lib ns name options f = (Ok (Some c, None), f') \<and> fkTracker f' = fkTracker f"
  using assms
  by (auto simp: fakeClustersGet_def Invokes_def bindE_def modifyE_def onTracker_def returnE_def asReaction_def
      tryE_def trkGet_def fakeResult_def)

text \<open>
  A cluster created through one clientset is found through that clientset, by whatever client of its
  namespace; another clientset does not have it.
\<close>

lemma created_cluster_found:
  assumes i: "fcFake cs < length fs" and j: "fcFake cs' \<noteq> fcFake cs"
    and f: "roomy (fkTracker (fs ! fcFake cs))" "trkGood (fkTracker (fs ! fcFake cs))"
    and c: "Namespace (clMeta c) = [] \<or> Namespace (clMeta c) = ns"
    and new: "lookupKey (fkTracker (fs ! fcFake cs)) (clustersResource, ns, Name (clMeta c)) = None"
  defines "clusters x \<equiv> FakePortworxV1beta1_Clusters (FakeClientset_PortworxV1beta1 x) ns"
  shows "\<exists>fs'. onClusters (clusters cs) (\<lambda>n. fakeClustersCreate lib n c) fs =
      (Ok (Some (c\<lparr>clMeta := (clMeta c)\<lparr>Namespace := ns\<rparr>\<rparr>), None), fs') \<and>
    fst (onClusters (clusters cs) (\<lambda>n. fakeClustersGet lib n (Name (clMeta c)) options) fs') =
      Ok (Some (c\<lparr>clMeta := (clMeta c)\<lparr>Namespace := ns\<rparr>\<rparr>), None) \<and>
    onClusters (clusters cs') m fs' = (case onClusters (clusters cs') m fs of (r, fs2) \<Rightarrow> (r, fs2[fcFake cs := fs' ! fcFake cs]))"
proof -
  let ?c = "c\<lparr>clMeta := (clMeta c)\<lparr>Namespace := ns\<rparr>\<rparr>"
  obtain f1 where
    1: "fakeClustersCreate lib ns c (fs ! fcFake cs) = (Ok (Some ?c, None), f1)"
      "lookupKey (fkTracker f1) (clustersResource, ns, Name (clMeta c)) = Some (OCluster ?c)"
    using create_get_cluster [OF f c new, of lib] by auto
  obtain f2 where 2: "fakeClustersGet lib ns (Name (clMeta c)) options f1 = (Ok (Some ?c, None), f2)"
    using get_cluster [OF 1(2)] by blast
  show ?thesis
    unfolding clusters_def all_clients_on_the_fake
    using i j 1(1) 2 by (auto simp: onFake_def list_update_swap split: prod.splits)
qed

text \<open>
  The versions of the strategies are kept apart: the tracker files objects under the resource of their
  version, so one created through \<open>PortworxV1beta1\<close> is not found through \<open>PortworxV1beta2\<close>, nor through
  \<open>Portworx\<close>, which is the same.  An API server would convert it.
\<close>

lemma strategy_versions_apart:
  assumes i: "fcFake cs < length fs"
    and f: "roomy (fkTracker (fs ! fcFake cs))" "trkGood (fkTracker (fs ! fcFake cs))"
    and none: "lookupKey (fkTracker (fs ! fcFake cs)) (strategies2Resource, [], name) = None"
    and run: "onStrategies (FakePortworxV1beta1_VolumePlacementStrategies (FakeClientset_PortworxV1beta1 cs))
      (fakeStrategiesCreate lib s) fs = (r, fs')"
  shows "fst (onStrategies2 (FakePortworxV1beta2_VolumePlacementStrategies (FakeClientset_Portworx cs))
      (fakeStrategies2Get lib name options) fs') = Ok (None, Some (trkNotFound strategies2Resource name))"
proof -
  obtain f' where
    create: "Invokes lib (CreateAction strategiesResource [] (OStrategy s)) (OStrategy zeroStrategy) (fs ! fcFake cs) =
        (Ok (fst (storeStep lib (CreateAction strategiesResource [] (OStrategy s)) (lookupKey (fkTracker (fs ! fcFake cs))))), f')"
      "lookupKey (fkTracker f') =
        snd (storeStep lib (CreateAction strategiesResource [] (OStrategy s)) (lookupKey (fkTracker (fs ! fcFake cs))))"
    using Invokes_store [OF f, of "CreateAction strategiesResource [] (OStrategy s)" lib "OStrategy zeroStrategy"] by auto
  have kept: "lookupKey (fkTracker f') (strategies2Resource, [], name) = None"
    unfolding create(2) using none
    by (auto simp: storeCreate_def place_def apfst_case strategiesResource_def strategies2Resource_def
        SchemeGroupVersion1_def SchemeGroupVersion2_def split: option.splits)
  have "fakeStrategiesCreate lib s (fs ! fcFake cs) = (r', f'') \<Longrightarrow> f'' = f'" for r' f''
    using create(1) by (auto simp: fakeStrategiesCreate_def bindE_def fakeResult_def returnE_def panicE_def split: prod.splits option.splits)
  then have "fs' ! fcFake cs = f'"
    using run i unfolding all_clients_on_the_fake by (auto simp: onFake_def split: prod.splits)
  then show ?thesis
    unfolding all_clients_on_the_fake using kept
    by (auto simp: onFake_def fakeStrategies2Get_def Invokes_def bindE_def modifyE_def onTracker_def returnE_def
        asReaction_def tryE_def trkGet_def fakeResult_def split: prod.splits)
qed

end
