(* ===== verification/GoMemory.thy ===== *)
theory GoMemory
  imports Prelude
begin

text \<open>
  Go's memory, for the code whose correctness is about aliasing: a heap of cells with an
  allocation limit, pointers and maps as nullable addresses, slices as windows of a backing
  array.  A \<open>gotype\<close> says how a value held in memory is read (deeply, through all its references)
  and which addresses it depends on; the locale \<open>deep_copier\<close> is the contract of a deep copy, and
  the rules below it say that the way deep copies are written (field by field, a pointer through
  \<open>new\<close>, a slice through \<open>make\<close> and a loop) meets the contract.
\<close>

section \<open>The heap\<close>

type_synonym addr = nat

record 'c heap =
  lim :: addr
  cells :: "addr \<Rightarrow> 'c option"

text \<open>Addresses from the limit on are free.\<close>

definition heapOk :: "'c heap \<Rightarrow> bool" where
  "heapOk h \<longleftrightarrow> (\<forall>a. lim h \<le> a \<longrightarrow> cells h a = None)"

text \<open>
  \<open>new(T)\<close> and \<open>make([]T, n)\<close> reserve an address.  The zero value that Go puts there is never read
  by the code below before it is overwritten, so the cell stays empty until the first store.
\<close>

definition allocE :: "('c heap, addr) go" where
  "allocE h = (Ok (lim h), h\<lparr>lim := Suc (lim h)\<rparr>)"

abbreviation writeTo :: "'c heap \<Rightarrow> addr \<Rightarrow> 'c \<Rightarrow> 'c heap" where
  "writeTo h a c \<equiv> h\<lparr>cells := (cells h)(a \<mapsto> c)\<rparr>"

definition storeE :: "addr \<Rightarrow> 'c \<Rightarrow> ('c heap, unit) go" where
  "storeE a c h = (Ok (), writeTo h a c)"

text \<open>Reading a cell as a type: \<open>prj\<close> gives the contents if the cell has that type.\<close>

definition fetch :: "('c \<Rightarrow> 'a option) \<Rightarrow> 'c heap \<Rightarrow> addr \<Rightarrow> 'a option" where
  "fetch prj h a = Option.bind (cells h a) prj"

definition loadE :: "('c \<Rightarrow> 'a option) \<Rightarrow> addr \<Rightarrow> ('c heap, 'a) go" where
  "loadE prj a h =
     (case fetch prj h a of
        Some x \<Rightarrow> (Ok x, h)
      | None \<Rightarrow> (Panic ''invalid memory address or nil pointer dereference'', h))"

text \<open>A slice is nil or a window (offset and length) of a backing array.\<close>

datatype slice = SNil | Slice addr nat nat

section \<open>How values in memory are read\<close>

record ('c, 'm, 'v) gotype =
  readT :: "'c heap \<Rightarrow> 'm \<Rightarrow> 'v option"
  footT :: "'c heap \<Rightarrow> 'm \<Rightarrow> addr list"

text \<open>Values without references: strings, numbers, booleans.\<close>

definition leafT :: "('c, 'm, 'm) gotype" where
  "leafT = \<lparr>readT = \<lambda>h m. Some m, footT = \<lambda>h m. []\<rparr>"

definition pairT :: "('c, 'a, 'v) gotype \<Rightarrow> ('c, 'b, 'w) gotype \<Rightarrow> ('c, 'a \<times> 'b, 'v \<times> 'w) gotype" where
  "pairT A B =
     \<lparr>readT = \<lambda>h m. Option.bind (readT A h (fst m)) (\<lambda>v.
                     map_option (Pair v) (readT B h (snd m))),
      footT = \<lambda>h m. footT A h (fst m) @ footT B h (snd m)\<rparr>"

text \<open>
  A struct is its plain fields (\<open>scal\<close>) and its fields with references (\<open>get\<close>); it reads as the
  plain fields together with what the others read as.
\<close>

definition structT :: "('s \<Rightarrow> 'f) \<Rightarrow> ('s \<Rightarrow> 'k) \<Rightarrow> ('c, 'f, 'v) gotype \<Rightarrow> ('c, 's, 'k \<times> 'v) gotype" where
  "structT get scal T =
     \<lparr>readT = \<lambda>h m. map_option (Pair (scal m)) (readT T h (get m)),
      footT = \<lambda>h m. footT T h (get m)\<rparr>"

text \<open>A pointer (or map) reads as \<open>None\<close> when nil, else as its target.\<close>

definition ptrT :: "('c \<Rightarrow> 'm option) \<Rightarrow> ('c, 'm, 'v) gotype \<Rightarrow> ('c, addr option, 'v option) gotype" where
  "ptrT prj T =
     \<lparr>readT = \<lambda>h p. case p of None \<Rightarrow> Some None
                     | Some a \<Rightarrow> Option.bind (fetch prj h a) (\<lambda>m. map_option Some (readT T h m)),
      footT = \<lambda>h p. case p of None \<Rightarrow> []
                     | Some a \<Rightarrow> a # (case fetch prj h a of None \<Rightarrow> [] | Some m \<Rightarrow> footT T h m)\<rparr>"

fun readAll :: "('c, 'm, 'v) gotype \<Rightarrow> 'c heap \<Rightarrow> 'm list \<Rightarrow> 'v list option" where
  "readAll T h [] = Some []"
| "readAll T h (m # ms) =
     Option.bind (readT T h m) (\<lambda>v. map_option (Cons v) (readAll T h ms))"

definition window :: "('c \<Rightarrow> 'm list option) \<Rightarrow> 'c heap \<Rightarrow> addr \<Rightarrow> nat \<Rightarrow> nat \<Rightarrow> 'm list option" where
  "window prj h a off n =
     Option.bind (fetch prj h a) (\<lambda>xs.
       if off + n \<le> length xs then Some (take n (drop off xs)) else None)"

definition sliceT :: "('c \<Rightarrow> 'm list option) \<Rightarrow> ('c, 'm, 'v) gotype \<Rightarrow>
    ('c, slice, 'v list option) gotype" where
  "sliceT prj T =
     \<lparr>readT = \<lambda>h s. case s of SNil \<Rightarrow> Some None
                     | Slice a off n \<Rightarrow>
                         Option.bind (window prj h a off n) (\<lambda>ms. map_option Some (readAll T h ms)),
      footT = \<lambda>h s. case s of SNil \<Rightarrow> []
                     | Slice a off n \<Rightarrow>
                         a # (case window prj h a off n of None \<Rightarrow> []
                              | Some ms \<Rightarrow> concat (map (footT T h) ms))\<rparr>"

section \<open>How deep copies are written\<close>

text \<open>
  \<^verbatim>\<open>if in.F != nil { in, out := &in.F, &out.F; *out = new(T); (*in).DeepCopyInto(*out) }\<close>
\<close>

definition copyPtr :: "('m \<Rightarrow> 'c) \<Rightarrow> ('c \<Rightarrow> 'm option) \<Rightarrow> ('m \<Rightarrow> ('c heap, 'm) go) \<Rightarrow>
    addr option \<Rightarrow> ('c heap, addr option) go" where
  "copyPtr emb prj cp p =
     (case p of
        None \<Rightarrow> returnE None
      | Some a \<Rightarrow>
          bindE allocE (\<lambda>b.
          bindE (loadE prj a) (\<lambda>m.
          bindE (cp m) (\<lambda>m'.
          bindE (storeE b (emb m')) (\<lambda>_. returnE (Some b))))))"

text \<open>\<^verbatim>\<open>for i := range *in { (*in)[i].DeepCopyInto(&(*out)[i]) }\<close>\<close>

fun copyElems :: "('m \<Rightarrow> ('c heap, 'm) go) \<Rightarrow> 'm list \<Rightarrow> ('c heap, 'm list) go" where
  "copyElems cp [] = returnE []"
| "copyElems cp (m # ms) =
     bindE (cp m) (\<lambda>m'. bindE (copyElems cp ms) (\<lambda>ms'. returnE (m' # ms')))"

definition loadWindow :: "('c \<Rightarrow> 'm list option) \<Rightarrow> addr \<Rightarrow> nat \<Rightarrow> nat \<Rightarrow> ('c heap, 'm list) go" where
  "loadWindow prj a off n h =
     (case window prj h a off n of
        Some ms \<Rightarrow> (Ok ms, h)
      | None \<Rightarrow> (Panic ''index out of range'', h))"

text \<open>
  \<^verbatim>\<open>if in.F != nil { in, out := &in.F, &out.F; *out = make([]T, len(*in)); for i := range *in { ... } }\<close>;
  with \<open>returnE\<close> for the elements it is the form that calls \<^verbatim>\<open>copy(*out, *in)\<close>.
\<close>

definition copySlice :: "('m list \<Rightarrow> 'c) \<Rightarrow> ('c \<Rightarrow> 'm list option) \<Rightarrow> ('m \<Rightarrow> ('c heap, 'm) go) \<Rightarrow>
    slice \<Rightarrow> ('c heap, slice) go" where
  "copySlice emb prj cp s =
     (case s of
        SNil \<Rightarrow> returnE SNil
      | Slice a off n \<Rightarrow>
          bindE allocE (\<lambda>b.
          bindE (loadWindow prj a off n) (\<lambda>ms.
          bindE (copyElems cp ms) (\<lambda>ms'.
          bindE (storeE b (emb ms')) (\<lambda>_. returnE (Slice b 0 n))))))"

section \<open>Heaps that only grow\<close>

definition grows :: "'c heap \<Rightarrow> 'c heap \<Rightarrow> bool" where
  "grows h h' \<longleftrightarrow> heapOk h' \<and> lim h \<le> lim h' \<and> (\<forall>a < lim h. cells h' a = cells h a)"

lemma grows_refl: "heapOk h \<Longrightarrow> grows h h"
  by (simp add: grows_def)

lemma grows_trans: "grows h h' \<Longrightarrow> grows h' h'' \<Longrightarrow> grows h h''"
  by (auto simp: grows_def)

lemma grows_ok: "grows h h' \<Longrightarrow> heapOk h'"
  by (simp add: grows_def)

lemma allocE_run: "allocE h = (Ok (lim h), h\<lparr>lim := Suc (lim h)\<rparr>)"
  by (simp add: allocE_def)

lemma grows_alloc: "heapOk h \<Longrightarrow> grows h (h\<lparr>lim := Suc (lim h)\<rparr>)"
  by (simp add: grows_def heapOk_def)

lemma grows_store:
  "grows h h' \<Longrightarrow> lim h \<le> a \<Longrightarrow> a < lim h' \<Longrightarrow> grows h (writeTo h' a c)"
  by (auto simp: grows_def heapOk_def)

lemma fetch_live: "heapOk h \<Longrightarrow> fetch prj h a = Some x \<Longrightarrow> a < lim h"
  by (rule ccontr) (simp add: heapOk_def fetch_def)

lemma fetch_cong: "cells h' a = cells h a \<Longrightarrow> fetch prj h' a = fetch prj h a"
  by (simp add: fetch_def)

lemma window_cong: "cells h' a = cells h a \<Longrightarrow> window prj h' a off n = window prj h a off n"
  by (simp add: window_def fetch_def)

lemma window_live: "heapOk h \<Longrightarrow> window prj h a off n = Some ms \<Longrightarrow> a < lim h"
  by (auto simp: window_def bind_eq_Some_conv dest: fetch_live)

section \<open>The contract of a readable type and of a deep copy\<close>

text \<open>
  What a value reads as depends on the cells of its footprint only, and those are allocated.
\<close>

locale readable =
  fixes T :: "('c, 'm, 'v) gotype"
  assumes frame: "readT T h m = Some v \<Longrightarrow> (\<And>a. a \<in> set (footT T h m) \<Longrightarrow> cells h' a = cells h a)
      \<Longrightarrow> readT T h' m = Some v \<and> footT T h' m = footT T h m"
    and foot_live: "heapOk h \<Longrightarrow> readT T h m = Some v \<Longrightarrow> a \<in> set (footT T h m) \<Longrightarrow> a < lim h"
begin

lemma frame_grows:
  assumes "heapOk h" "readT T h m = Some v" "grows h h'"
  shows "readT T h' m = Some v" "footT T h' m = footT T h m"
  using assms frame [of h m v h'] foot_live [of h m v] by (auto simp: grows_def)

lemma frame_write:
  assumes "readT T h m = Some v" "a \<notin> set (footT T h m)"
  shows "readT T (writeTo h a c) m = Some v"
  using assms frame [of h m v "writeTo h a c"] by force

end

text \<open>
  A deep copy of a readable value returns, leaves every allocated cell as it is, and its result
  reads as the same value through freshly allocated cells only.
\<close>

definition fresh_copy :: "('c, 'm, 'v) gotype \<Rightarrow> 'c heap \<Rightarrow> 'v \<Rightarrow> 'm outcome \<times> 'c heap \<Rightarrow> bool" where
  "fresh_copy T h v r \<longleftrightarrow>
     (case r of
        (Ok m', h') \<Rightarrow> grows h h' \<and> readT T h' m' = Some v \<and>
                       (\<forall>a \<in> set (footT T h' m'). lim h \<le> a \<and> a < lim h')
      | _ \<Rightarrow> False)"

locale deep_copier = readable T for T :: "('c, 'm, 'v) gotype" +
  fixes cp :: "'m \<Rightarrow> ('c heap, 'm) go"
  assumes copy: "heapOk h \<Longrightarrow> readT T h m = Some v \<Longrightarrow> fresh_copy T h v (cp m h)"
begin

lemma copyE:
  assumes "heapOk h" "readT T h m = Some v"
  obtains m' h' where "cp m h = (Ok m', h')" "grows h h'" "readT T h' m' = Some v"
    "\<And>a. a \<in> set (footT T h' m') \<Longrightarrow> lim h \<le> a \<and> a < lim h'"
  using copy [OF assms] by (auto simp: fresh_copy_def split: prod.splits outcome.splits)

lemma copy_disjoint:
  assumes "heapOk h" "readT T h m = Some v" "cp m h = (Ok m', h')"
  shows "set (footT T h' m') \<inter> set (footT T h' m) = {}"
proof -
  from copy [OF assms(1,2)] assms(3)
  have "grows h h'" and "\<forall>a \<in> set (footT T h' m'). lim h \<le> a" by (auto simp: fresh_copy_def)
  then show ?thesis using frame_grows [OF assms(1,2)] foot_live [OF assms(1,2)] by fastforce
qed

lemma isolated:
  assumes "heapOk h" "readT T h m = Some v" "cp m h = (Ok m', h')"
  shows "a \<in> set (footT T h' m') \<Longrightarrow> readT T (writeTo h' a c) m = Some v"
    and "a \<in> set (footT T h' m) \<Longrightarrow> readT T (writeTo h' a c) m' = Some v"
proof -
  from copy [OF assms(1,2)] assms(3)
  have g: "grows h h'" and r: "readT T h' m' = Some v" by (simp_all add: fresh_copy_def)
  note d = copy_disjoint [OF assms]
  show "readT T (writeTo h' a c) m = Some v" if "a \<in> set (footT T h' m')"
    using that d frame_write [OF frame_grows(1) [OF assms(1,2) g], of a c] by blast
  show "readT T (writeTo h' a c) m' = Some v" if "a \<in> set (footT T h' m)"
    using that d frame_write [OF r, of a c] by blast
qed

end

section \<open>Types built from readable types are readable\<close>

named_theorems readable_intro
named_theorems deep_copy_intro

lemma readable_leaf [readable_intro]: "readable leafT"
  by unfold_locales (simp_all add: leafT_def)

lemma readable_pair [readable_intro]:
  assumes A: "readable A" and B: "readable B"
  shows "readable (pairT A B)"
proof
  fix h h' :: "'a heap" and m v
  assume r: "readT (pairT A B) h m = Some v"
    and c: "\<And>a. a \<in> set (footT (pairT A B) h m) \<Longrightarrow> cells h' a = cells h a"
  from r obtain x y where xy: "readT A h (fst m) = Some x" "readT B h (snd m) = Some y" "v = (x, y)"
    by (auto simp: pairT_def bind_eq_Some_conv)
  from c have ca: "\<And>a. a \<in> set (footT A h (fst m)) \<Longrightarrow> cells h' a = cells h a"
    and cb: "\<And>a. a \<in> set (footT B h (snd m)) \<Longrightarrow> cells h' a = cells h a"
    by (simp_all add: pairT_def)
  from readable.frame [OF A xy(1) ca] readable.frame [OF B xy(2) cb] xy(3)
  show "readT (pairT A B) h' m = Some v \<and> footT (pairT A B) h' m = footT (pairT A B) h m"
    by (simp add: pairT_def)
next
  fix h :: "'a heap" and m v a
  assume "heapOk h" "readT (pairT A B) h m = Some v" "a \<in> set (footT (pairT A B) h m)"
  then show "a < lim h"
    using readable.foot_live [OF A] readable.foot_live [OF B]
    by (auto simp: pairT_def bind_eq_Some_conv)
qed

lemma readable_struct [readable_intro]:
  assumes T: "readable T"
  shows "readable (structT get scal T)"
proof
  fix h h' :: "'a heap" and m v
  assume "readT (structT get scal T) h m = Some v"
    and "\<And>a. a \<in> set (footT (structT get scal T) h m) \<Longrightarrow> cells h' a = cells h a"
  then show "readT (structT get scal T) h' m = Some v \<and>
      footT (structT get scal T) h' m = footT (structT get scal T) h m"
    using readable.frame [OF T, of h "get m" _ h'] by (auto simp: structT_def)
next
  fix h :: "'a heap" and m v a
  assume "heapOk h" "readT (structT get scal T) h m = Some v" "a \<in> set (footT (structT get scal T) h m)"
  then show "a < lim h" using readable.foot_live [OF T] by (auto simp: structT_def)
qed

lemma readable_ptr [readable_intro]:
  assumes T: "readable T"
  shows "readable (ptrT prj T)"
proof
  fix h h' :: "'a heap" and p v
  assume r: "readT (ptrT prj T) h p = Some v"
    and c: "\<And>a. a \<in> set (footT (ptrT prj T) h p) \<Longrightarrow> cells h' a = cells h a"
  show "readT (ptrT prj T) h' p = Some v \<and> footT (ptrT prj T) h' p = footT (ptrT prj T) h p"
  proof (cases p)
    case None
    then show ?thesis using r by (simp add: ptrT_def)
  next
    case (Some a)
    with r obtain m w where m: "fetch prj h a = Some m" "readT T h m = Some w" "v = Some w"
      by (auto simp: ptrT_def bind_eq_Some_conv)
    have c': "\<And>b. b \<in> set (footT T h m) \<Longrightarrow> cells h' b = cells h b" and "cells h' a = cells h a"
      using c m Some by (simp_all add: ptrT_def)
    with readable.frame [OF T m(2) c'] m Some show ?thesis
      by (simp add: ptrT_def fetch_cong [of h' a h])
  qed
next
  fix h :: "'a heap" and p v a
  assume h: "heapOk h" "readT (ptrT prj T) h p = Some v" "a \<in> set (footT (ptrT prj T) h p)"
  then show "a < lim h" using readable.foot_live [OF T h(1)] fetch_live [OF h(1)]
    by (auto simp: ptrT_def bind_eq_Some_conv split: option.splits)
qed

lemma readAll_frame:
  assumes T: "readable T"
  shows "readAll T h ms = Some vs \<Longrightarrow>
    (\<And>a. a \<in> set (concat (map (footT T h) ms)) \<Longrightarrow> cells h' a = cells h a) \<Longrightarrow>
    readAll T h' ms = Some vs \<and> concat (map (footT T h') ms) = concat (map (footT T h) ms)"
proof (induction ms arbitrary: vs)
  case (Cons m ms)
  from Cons.prems(1) obtain w ws
    where w: "readT T h m = Some w" "readAll T h ms = Some ws" "vs = w # ws"
    by (auto simp: bind_eq_Some_conv)
  have "readT T h' m = Some w \<and> footT T h' m = footT T h m"
    by (rule readable.frame [OF T w(1)]) (simp add: Cons.prems(2))
  moreover have "readAll T h' ms = Some ws \<and>
      concat (map (footT T h') ms) = concat (map (footT T h) ms)"
    by (rule Cons.IH [OF w(2)]) (use Cons.prems(2) in auto)
  ultimately show ?case using w(3) by simp
qed simp

lemma readAll_live:
  "readable T \<Longrightarrow> heapOk h \<Longrightarrow> readAll T h ms = Some vs \<Longrightarrow>
   a \<in> set (concat (map (footT T h) ms)) \<Longrightarrow> a < lim h"
  by (induction ms arbitrary: vs) (auto simp: bind_eq_Some_conv dest: readable.foot_live)

lemma readable_slice [readable_intro]:
  assumes T: "readable T"
  shows "readable (sliceT prj T)"
proof
  fix h h' :: "'a heap" and s v
  assume r: "readT (sliceT prj T) h s = Some v"
    and c: "\<And>a. a \<in> set (footT (sliceT prj T) h s) \<Longrightarrow> cells h' a = cells h a"
  show "readT (sliceT prj T) h' s = Some v \<and> footT (sliceT prj T) h' s = footT (sliceT prj T) h s"
  proof (cases s)
    case SNil
    then show ?thesis using r by (simp add: sliceT_def)
  next
    case (Slice a off n)
    with r obtain ms vs where m: "window prj h a off n = Some ms" "readAll T h ms = Some vs" "v = Some vs"
      by (auto simp: sliceT_def bind_eq_Some_conv)
    have c': "\<And>b. b \<in> set (concat (map (footT T h) ms)) \<Longrightarrow> cells h' b = cells h b"
      and "cells h' a = cells h a"
      using c m Slice by (simp_all add: sliceT_def)
    with readAll_frame [OF T m(2) c'] m Slice show ?thesis
      by (simp add: sliceT_def window_cong [of h' a h])
  qed
next
  fix h :: "'a heap" and s v a
  assume h: "heapOk h" "readT (sliceT prj T) h s = Some v" "a \<in> set (footT (sliceT prj T) h s)"
  then show "a < lim h" using readAll_live [OF T h(1)] window_live [OF h(1)]
    by (fastforce simp: sliceT_def bind_eq_Some_conv split: slice.splits option.splits)
qed

section \<open>The ways of writing a deep copy are deep copies\<close>

lemma fresh_copyI:
  assumes "r = (Ok m', h')" "grows h h'" "readT T h' m' = Some v"
    "\<And>a. a \<in> set (footT T h' m') \<Longrightarrow> lim h \<le> a \<and> a < lim h'"
  shows "fresh_copy T h v r"
  using assms by (simp add: fresh_copy_def)

lemma deep_copy_leaf [deep_copy_intro]: "deep_copier leafT returnE"
  by (intro_locales, rule readable_leaf)
     (unfold_locales, simp add: leafT_def fresh_copy_def returnE_def grows_refl)

definition copyPair :: "('a \<Rightarrow> ('c heap, 'a) go) \<Rightarrow> ('b \<Rightarrow> ('c heap, 'b) go) \<Rightarrow>
    'a \<times> 'b \<Rightarrow> ('c heap, 'a \<times> 'b) go" where
  "copyPair ca cb m = bindE (ca (fst m)) (\<lambda>x. bindE (cb (snd m)) (\<lambda>y. returnE (x, y)))"

lemma deep_copy_pair [deep_copy_intro]:
  assumes A: "deep_copier A ca" and B: "deep_copier B cb"
  shows "deep_copier (pairT A B) (copyPair ca cb)"
proof (intro deep_copier.intro deep_copier_axioms.intro readable_pair)
  show RA: "readable A" and RB: "readable B" using A B by (simp_all add: deep_copier_def)
  fix h :: "'a heap" and m v
  assume h: "heapOk h" and r: "readT (pairT A B) h m = Some v"
  from r obtain x y where xy: "readT A h (fst m) = Some x" "readT B h (snd m) = Some y" "v = (x, y)"
    by (auto simp: pairT_def bind_eq_Some_conv)
  obtain m1 h1 where 1: "ca (fst m) h = (Ok m1, h1)" "grows h h1" "readT A h1 m1 = Some x"
    "\<And>a. a \<in> set (footT A h1 m1) \<Longrightarrow> lim h \<le> a \<and> a < lim h1"
    using deep_copier.copyE [OF A h xy(1)] by blast
  obtain m2 h2 where 2: "cb (snd m) h1 = (Ok m2, h2)" "grows h1 h2" "readT B h2 m2 = Some y"
    "\<And>a. a \<in> set (footT B h2 m2) \<Longrightarrow> lim h1 \<le> a \<and> a < lim h2"
    using deep_copier.copyE [OF B grows_ok [OF 1(2)] readable.frame_grows(1) [OF RB h xy(2) 1(2)]]
    by blast
  note 3 = readable.frame_grows [OF RA grows_ok [OF 1(2)] 1(3) 2(2)]
  have le: "lim h \<le> lim h1" "lim h1 \<le> lim h2" using 1(2) 2(2) by (simp_all add: grows_def)
  show "fresh_copy (pairT A B) h v (copyPair ca cb m h)"
  proof (rule fresh_copyI [of _ "(m1, m2)" h2])
    show "grows h h2" by (rule grows_trans [OF 1(2) 2(2)])
    show "readT (pairT A B) h2 (m1, m2) = Some v" using 3 2 xy(3) by (simp add: pairT_def)
    show "lim h \<le> a \<and> a < lim h2" if "a \<in> set (footT (pairT A B) h2 (m1, m2))" for a
      using that 3 1(4) [of a] 2(4) [of a] le by (auto simp: pairT_def)
  qed (simp add: copyPair_def bindE_def returnE_def 1(1) 2(1))
qed

text \<open>
  A struct seen as its plain fields and its fields with references: \<open>put\<close> replaces the latter,
  and the two views together lose nothing.
\<close>

locale go_struct =
  fixes get :: "'s \<Rightarrow> 'f" and put :: "'f \<Rightarrow> 's \<Rightarrow> 's" and scal :: "'s \<Rightarrow> 'k"
  assumes get_put: "get (put f s) = f"
    and scal_put: "scal (put f s) = scal s"
    and complete: "scal s = scal s' \<Longrightarrow> get s = get s' \<Longrightarrow> s = s'"
begin

text \<open>\<^verbatim>\<open>*out = *in\<close>, then the fields with references one by one.\<close>

lemma deep_copy_struct:
  assumes F: "deep_copier F cf"
  shows "deep_copier (structT get scal F) (\<lambda>s. bindE (cf (get s)) (\<lambda>f. returnE (put f s)))"
proof (intro deep_copier.intro deep_copier_axioms.intro readable_struct)
  show "readable F" using F by (simp add: deep_copier_def)
  fix h :: "'a heap" and s v
  assume h: "heapOk h" and r: "readT (structT get scal F) h s = Some v"
  from r obtain w where w: "readT F h (get s) = Some w" "v = (scal s, w)"
    by (auto simp: structT_def)
  obtain f h1 where 1: "cf (get s) h = (Ok f, h1)" "grows h h1" "readT F h1 f = Some w"
    "\<And>a. a \<in> set (footT F h1 f) \<Longrightarrow> lim h \<le> a \<and> a < lim h1"
    using deep_copier.copyE [OF F h w(1)] by blast
  show "fresh_copy (structT get scal F) h v (bindE (cf (get s)) (\<lambda>f. returnE (put f s)) h)"
    by (rule fresh_copyI [of _ "put f s" h1])
       (use 1 w(2) in \<open>simp_all add: bindE_def returnE_def structT_def get_put scal_put\<close>)
qed

lemma put_get: "put (get s) s = s"
  by (rule complete) (simp_all add: get_put scal_put)

end

lemma deep_copier_structI:
  assumes "go_struct get put scal" "deep_copier F cf"
    "cp = (\<lambda>s. bindE (cf (get s)) (\<lambda>f. returnE (put f s)))"
  shows "deep_copier (structT get scal F) cp"
  unfolding assms(3) by (rule go_struct.deep_copy_struct [OF assms(1,2)])

text \<open>The copy of a non-nil pointer: the new cell is the first free one, its contents lie behind it.\<close>

lemma copyPtr_target:
  assumes T: "deep_copier T cp" and prj: "\<And>m. prj (emb m) = Some m"
    and h: "heapOk h" and m: "fetch prj h a = Some m" "readT T h m = Some w"
  shows "\<exists>m' h'. copyPtr emb prj cp (Some a) h = (Ok (Some (lim h)), h') \<and> grows h h' \<and> lim h < lim h' \<and>
    cells h' (lim h) = Some (emb m') \<and> readT T h' m' = Some w \<and>
    (\<forall>b \<in> set (footT T h' m'). lim h < b \<and> b < lim h')"
proof -
  have RT: "readable T" using T by (simp add: deep_copier_def)
  let ?h = "h\<lparr>lim := Suc (lim h)\<rparr>"
  note g = grows_alloc [OF h]
  obtain m' h' where 1: "cp m ?h = (Ok m', h')" "grows ?h h'" "readT T h' m' = Some w"
    "\<And>b. b \<in> set (footT T h' m') \<Longrightarrow> lim ?h \<le> b \<and> b < lim h'"
    using deep_copier.copyE [OF T grows_ok [OF g] readable.frame_grows(1) [OF RT h m(2) g]] by blast
  let ?k = "writeTo h' (lim h) (emb m')"
  have k: "lim h < lim h'" using 1(2) by (simp add: grows_def)
  have n: "lim h \<notin> set (footT T h' m')" using 1(4) by fastforce
  have f: "readT T ?k m' = Some w \<and> footT T ?k m' = footT T h' m'"
    by (rule readable.frame [OF RT 1(3)]) (use n in auto)
  have "copyPtr emb prj cp (Some a) h = (Ok (Some (lim h)), ?k)"
    using m(1) 1(1) fetch_cong [of ?h a h prj]
    by (simp add: copyPtr_def bindE_def allocE_def loadE_def storeE_def returnE_def)
  moreover have "grows h ?k" by (rule grows_store [OF grows_trans [OF g 1(2)]]) (use k in simp_all)
  moreover have "\<forall>b \<in> set (footT T ?k m'). lim h < b \<and> b < lim ?k"
    using f 1(4) by (fastforce simp: Suc_le_eq)
  ultimately show ?thesis using f k by (intro exI [of _ m'] exI [of _ ?k]) simp
qed

lemma deep_copy_ptr [deep_copy_intro]:
  assumes T: "deep_copier T cp" and prj: "\<And>m. prj (emb m) = Some m"
  shows "deep_copier (ptrT prj T) (copyPtr emb prj cp)"
proof (intro deep_copier.intro deep_copier_axioms.intro readable_ptr)
  show RT: "readable T" using T by (simp add: deep_copier_def)
  fix h :: "'a heap" and p v
  assume h: "heapOk h" and r: "readT (ptrT prj T) h p = Some v"
  show "fresh_copy (ptrT prj T) h v (copyPtr emb prj cp p h)"
  proof (cases p)
    case None
    then show ?thesis using h r
      by (auto intro!: fresh_copyI simp: copyPtr_def returnE_def ptrT_def grows_refl)
  next
    case (Some a)
    with r obtain m w where m: "fetch prj h a = Some m" "readT T h m = Some w" "v = Some w"
      by (auto simp: ptrT_def bind_eq_Some_conv)
    from copyPtr_target [OF T prj h m(1,2)] obtain m' h' where
      1: "copyPtr emb prj cp (Some a) h = (Ok (Some (lim h)), h')" "grows h h'" "lim h < lim h'"
        "cells h' (lim h) = Some (emb m')" "readT T h' m' = Some w"
        "\<forall>b \<in> set (footT T h' m'). lim h < b \<and> b < lim h'" by blast
    show ?thesis
    proof (rule fresh_copyI [of _ "Some (lim h)" h'])
      show "readT (ptrT prj T) h' (Some (lim h)) = Some v"
        using 1(4,5) m(3) by (simp add: ptrT_def fetch_def prj)
      show "lim h \<le> b \<and> b < lim h'" if "b \<in> set (footT (ptrT prj T) h' (Some (lim h)))" for b
        using that 1(3,4,6) by (auto simp: ptrT_def fetch_def prj)
    qed (use 1(1,2) Some in simp_all)
  qed
qed

lemma copyElems_deep:
  assumes T: "deep_copier T cp"
  shows "heapOk h \<Longrightarrow> readAll T h ms = Some vs \<Longrightarrow>
    \<exists>ms' h'. copyElems cp ms h = (Ok ms', h') \<and> grows h h' \<and> readAll T h' ms' = Some vs \<and>
      length ms' = length ms \<and>
      (\<forall>a \<in> set (concat (map (footT T h') ms')). lim h \<le> a \<and> a < lim h')"
proof (induction ms arbitrary: h vs)
  case Nil
  then show ?case by (simp add: returnE_def grows_refl)
next
  case (Cons m ms)
  have RT: "readable T" using T by (simp add: deep_copier_def)
  note h = Cons.prems(1)
  from Cons.prems(2) obtain w ws
    where w: "readT T h m = Some w" "readAll T h ms = Some ws" "vs = w # ws"
    by (auto simp: bind_eq_Some_conv)
  obtain m' h1 where 1: "cp m h = (Ok m', h1)" "grows h h1" "readT T h1 m' = Some w"
    "\<And>a. a \<in> set (footT T h1 m') \<Longrightarrow> lim h \<le> a \<and> a < lim h1"
    using deep_copier.copyE [OF T h w(1)] by blast
  have "readAll T h1 ms = Some ws"
    using readAll_frame [OF RT w(2), of h1] readAll_live [OF RT h w(2)] 1(2) by (auto simp: grows_def)
  from Cons.IH [OF grows_ok [OF 1(2)] this] obtain ms' h2 where
    2: "copyElems cp ms h1 = (Ok ms', h2)" "grows h1 h2" "readAll T h2 ms' = Some ws"
      "length ms' = length ms" "\<forall>a \<in> set (concat (map (footT T h2) ms')). lim h1 \<le> a \<and> a < lim h2"
    by blast
  note f = readable.frame_grows [OF RT grows_ok [OF 1(2)] 1(3) 2(2)]
  have le: "lim h \<le> lim h1" "lim h1 \<le> lim h2" using 1(2) 2(2) by (simp_all add: grows_def)
  have "\<forall>a \<in> set (concat (map (footT T h2) (m' # ms'))). lim h \<le> a \<and> a < lim h2"
    using f(2) 1(4) 2(5) le by (fastforce dest: bspec)
  moreover have "copyElems cp (m # ms) h = (Ok (m' # ms'), h2)"
    by (simp add: bindE_def returnE_def 1(1) 2(1))
  moreover have "readAll T h2 (m' # ms') = Some vs" using f(1) 2(3) w(3) by simp
  ultimately show ?case using grows_trans [OF 1(2) 2(2)] 2(4) by (metis length_Cons)
qed

lemma deep_copy_slice [deep_copy_intro]:
  assumes T: "deep_copier T cp" and prj: "\<And>ms. prj (emb ms) = Some ms"
  shows "deep_copier (sliceT prj T) (copySlice emb prj cp)"
proof (intro deep_copier.intro deep_copier_axioms.intro readable_slice)
  show RT: "readable T" using T by (simp add: deep_copier_def)
  fix h :: "'a heap" and s v
  assume h: "heapOk h" and r: "readT (sliceT prj T) h s = Some v"
  show "fresh_copy (sliceT prj T) h v (copySlice emb prj cp s h)"
  proof (cases s)
    case SNil
    then show ?thesis using h r
      by (auto intro!: fresh_copyI simp: copySlice_def returnE_def sliceT_def grows_refl)
  next
    case (Slice a off n)
    let ?h = "h\<lparr>lim := Suc (lim h)\<rparr>"
    from r Slice obtain ms vs
      where m: "window prj h a off n = Some ms" "readAll T h ms = Some vs" "v = Some vs"
      by (auto simp: sliceT_def bind_eq_Some_conv)
    then have len: "length ms = n" by (auto simp: window_def bind_eq_Some_conv split: if_splits)
    note g = grows_alloc [OF h]
    have "readAll T ?h ms = Some vs" using readAll_frame [OF RT m(2), of ?h] by simp
    from copyElems_deep [OF T grows_ok [OF g] this] obtain ms' h' where
      1: "copyElems cp ms ?h = (Ok ms', h')" "grows ?h h'" "readAll T h' ms' = Some vs"
        "length ms' = n" "\<forall>b \<in> set (concat (map (footT T h') ms')). lim ?h \<le> b \<and> b < lim h'"
      using len by blast
    let ?k = "writeTo h' (lim h) (emb ms')"
    have k: "lim h < lim h'" using 1(2) by (simp add: grows_def)
    have n: "lim h \<notin> set (concat (map (footT T h') ms'))" using 1(5) by fastforce
    have f: "readAll T ?k ms' = Some vs \<and>
        concat (map (footT T ?k) ms') = concat (map (footT T h') ms')"
      by (rule readAll_frame [OF RT 1(3)]) (use n in auto)
    have win: "window prj ?k (lim h) 0 n = Some ms'" using 1(4) by (simp add: window_def fetch_def prj)
    show ?thesis
    proof (rule fresh_copyI [of _ "Slice (lim h) 0 n" ?k])
      show "copySlice emb prj cp s h = (Ok (Slice (lim h) 0 n), ?k)"
        using m(1) Slice 1(1) window_cong [of ?h a h prj]
        by (simp add: copySlice_def bindE_def allocE_def loadWindow_def storeE_def returnE_def)
      show "grows h ?k" by (rule grows_store [OF grows_trans [OF g 1(2)]]) (use k in simp_all)
      show "readT (sliceT prj T) ?k (Slice (lim h) 0 n) = Some v"
        using f m(3) win by (simp add: sliceT_def)
      show "lim h \<le> b \<and> b < lim ?k" if "b \<in> set (footT (sliceT prj T) ?k (Slice (lim h) 0 n))" for b
        using that conjunct2 [OF f] k 1(5) win
        by (auto simp: sliceT_def simp del: set_concat dest!: bspec)
    qed
  qed
qed

section \<open>Copies of pointers, and a copy that shares a field\<close>

text \<open>
  What callers of a \<open>DeepCopy\<close> rely on: nil gives nil; otherwise the copy is made, reads as the
  original, no allocated cell changes, and a later write through either of the two leaves what the
  other reads as it was.
\<close>

definition deep_copy_ok :: "('c, addr option, 'v) gotype \<Rightarrow>
    (addr option \<Rightarrow> ('c heap, addr option) go) \<Rightarrow> bool" where
  "deep_copy_ok T dc \<longleftrightarrow>
     dc None = returnE None \<and>
     (\<forall>h p v. heapOk h \<longrightarrow> readT T h (Some p) = Some v \<longrightarrow>
        (\<exists>q h'. dc (Some p) h = (Ok (Some q), h') \<and> grows h h' \<and> readT T h' (Some q) = Some v \<and>
           (\<forall>a \<in> set (footT T h' (Some q)). \<forall>c. readT T (writeTo h' a c) (Some p) = Some v) \<and>
           (\<forall>a \<in> set (footT T h' (Some p)). \<forall>c. readT T (writeTo h' a c) (Some q) = Some v)))"

context deep_copier
begin

lemma pointer_copy_ok:
  assumes prj: "\<And>m. prj (emb m) = Some m"
  shows "deep_copy_ok (ptrT prj T) (copyPtr emb prj cp)"
proof -
  have D: "deep_copier (ptrT prj T) (copyPtr emb prj cp)"
    by (rule deep_copy_ptr [OF deep_copier_axioms prj])
  have "\<exists>q h'. copyPtr emb prj cp (Some p) h = (Ok (Some q), h') \<and> grows h h' \<and>
      readT (ptrT prj T) h' (Some q) = Some v \<and>
      (\<forall>a \<in> set (footT (ptrT prj T) h' (Some q)). \<forall>c. readT (ptrT prj T) (writeTo h' a c) (Some p) = Some v) \<and>
      (\<forall>a \<in> set (footT (ptrT prj T) h' (Some p)). \<forall>c. readT (ptrT prj T) (writeTo h' a c) (Some q) = Some v)"
    if h: "heapOk h" and r: "readT (ptrT prj T) h (Some p) = Some v" for h p v
  proof -
    obtain x h' where 1: "copyPtr emb prj cp (Some p) h = (Ok x, h')" "grows h h'"
      "readT (ptrT prj T) h' x = Some v"
      using deep_copier.copyE [OF D h r] by blast
    moreover from 1(1) obtain q where "x = Some q"
      by (auto simp: copyPtr_def bindE_Ok_iff returnE_def)
    ultimately show ?thesis using deep_copier.isolated [OF D h r 1(1)] by blast
  qed
  then show ?thesis by (simp add: deep_copy_ok_def) (simp add: copyPtr_def)
qed

end

text \<open>
  A copy of a struct that assigns its first field with references (\<open>P\<close>) and deep copies the
  second: it reads as the original, but the addresses of the first field are shared.
\<close>

lemma sharing_copy:
  assumes S: "go_struct get put scal" and P: "readable P" and Q: "deep_copier Q cq"
    and prj: "\<And>m. prj (emb m) = Some m"
    and cp: "cp = (\<lambda>s. bindE (cq (snd (get s))) (\<lambda>q. returnE (put (fst (get s), q) s)))"
    and h: "heapOk h" and l: "fetch prj h p = Some l"
    and r: "readT (structT get scal (pairT P Q)) h l = Some v"
  shows "\<exists>h' l'. copyPtr emb prj cp (Some p) h = (Ok (Some (lim h)), h') \<and> grows h h' \<and>
    fetch prj h' (lim h) = Some l' \<and> get l' = (fst (get l), snd (get l')) \<and>
    readT (structT get scal (pairT P Q)) h' l' = Some v \<and>
    footT P h' (fst (get l)) = footT P h (fst (get l)) \<and>
    (\<forall>a \<in> set (footT Q h' (snd (get l'))). lim h < a \<and> a < lim h')"
proof -
  let ?h = "h\<lparr>lim := Suc (lim h)\<rparr>"
  note g = grows_alloc [OF h]
  have RQ: "readable Q" using Q by (simp add: deep_copier_def)
  from r obtain x y where xy: "readT P h (fst (get l)) = Some x" "readT Q h (snd (get l)) = Some y"
    "v = (scal l, x, y)" by (auto simp: structT_def pairT_def bind_eq_Some_conv)
  obtain q h1 where 1: "cq (snd (get l)) ?h = (Ok q, h1)" "grows ?h h1" "readT Q h1 q = Some y"
    "\<And>a. a \<in> set (footT Q h1 q) \<Longrightarrow> lim ?h \<le> a \<and> a < lim h1"
    using deep_copier.copyE [OF Q grows_ok [OF g] readable.frame_grows(1) [OF RQ h xy(2) g]] by blast
  let ?l = "put (fst (get l), q) l"
  let ?k = "writeTo h1 (lim h) (emb ?l)"
  have k: "lim h < lim h1" using 1(2) by (simp add: grows_def)
  have gk: "grows h ?k" by (rule grows_store [OF grows_trans [OF g 1(2)]]) (use k in simp_all)
  have n: "lim h \<notin> set (footT Q h1 q)" using 1(4) by fastforce
  have fq: "readT Q ?k q = Some y \<and> footT Q ?k q = footT Q h1 q"
    by (rule readable.frame [OF RQ 1(3)]) (use n in auto)
  note fp = readable.frame_grows [OF P h xy(1) gk]
  note gp = go_struct.get_put [OF S] go_struct.scal_put [OF S]
  have "copyPtr emb prj cp (Some p) h = (Ok (Some (lim h)), ?k)"
    using l 1(1) fetch_cong [of ?h p h prj]
    by (simp add: copyPtr_def bindE_def allocE_def loadE_def storeE_def returnE_def cp)
  moreover have "fetch prj ?k (lim h) = Some ?l" by (simp add: fetch_def prj)
  moreover have "readT (structT get scal (pairT P Q)) ?k ?l = Some v"
    using fq fp xy(3) by (simp add: structT_def pairT_def gp)
  moreover have "\<forall>a \<in> set (footT Q ?k (snd (get ?l))). lim h < a \<and> a < lim ?k"
    using fq 1(4) by (fastforce simp: gp)
  moreover have "get ?l = (fst (get l), snd (get ?l))" by (simp add: gp)
  ultimately show ?thesis using gk fp(2) by blast
qed

end
