(* ===== verification/MemTypes.thy ===== *)
theory MemTypes
  imports GoMemory ApiTypes
begin

text \<open>
  The custom resources and the Kubernetes structs inside them as they lie in memory: a pointer or
  map is a nullable address, a slice a window of an array, an embedded struct is part of its
  parent.  \<open>pkg/apis/portworx/v1beta1/types.go\<close>, \<open>pkg/apis/portworx/v1beta2/types.go\<close> and the vendored
  \<open>k8s.io/api/core/v1\<close> and \<open>k8s.io/apimachinery/pkg/apis/meta/v1\<close>.  Types without references
  (\<open>TypeMeta\<close>, \<open>NodeNetwork\<close>, \<open>NodeStatus\<close>, \<open>StatusInfo\<close>) are those of \<open>ApiTypes\<close>.
\<close>

section \<open>Kubernetes\<close>

text \<open>
  \<open>Time\<close> is copied by assignment and is an instant.  \<open>ConfigMapKeySelector\<close> and \<open>SecretKeySelector\<close> have
  the same fields, as have \<open>NodeSelectorRequirement\<close> and the selector requirement of \<open>meta/v1\<close>,
  and \<open>PodAffinity\<close> and \<open>PodAntiAffinity\<close>: one record each.
\<close>

record MObjectFieldSelector =
  mofAPIVersion :: string
  mofFieldPath :: string

record MOwnerReference =
  morAPIVersion :: string
  morKind :: string
  morName :: string
  morUID :: string
  morController :: "addr option"
  morBlockOwnerDeletion :: "addr option"

record MFieldsV1 =
  mfvRaw :: slice

record MManagedFieldsEntry =
  mmfManager :: string
  mmfOperation :: string
  mmfAPIVersion :: string
  mmfFieldsType :: string
  mmfTime :: "addr option"
  mmfFieldsV1 :: "addr option"

record MObjectMeta =
  momName :: string
  momGenerateName :: string
  momNamespace :: string
  momSelfLink :: string
  momUID :: string
  momResourceVersion :: string
  momGeneration :: int64
  momCreationTimestamp :: int
  momClusterName :: string
  momDeletionTimestamp :: "addr option"
  momDeletionGracePeriodSeconds :: "addr option"
  momLabels :: "addr option"
  momAnnotations :: "addr option"
  momOwnerReferences :: slice
  momFinalizers :: slice
  momManagedFields :: slice

record MResourceFieldSelector =
  mrfContainerName :: string
  mrfResource :: string
  mrfDivisorInt :: int
  mrfDivisorFormat :: string
  mrfDivisorDec :: "addr option"

record MKeySelector =
  mksName :: string
  mksKey :: string
  mksOptional :: "addr option"

record MEnvVarSource =
  mesFieldRef :: "addr option"
  mesResourceFieldRef :: "addr option"
  mesConfigMapKeyRef :: "addr option"
  mesSecretKeyRef :: "addr option"

record MEnvVar =
  mevName :: string
  mevValue :: string
  mevValueFrom :: "addr option"

record MToleration =
  mtoKey :: string
  mtoOperator :: string
  mtoValue :: string
  mtoEffect :: string
  mtoTolerationSeconds :: "addr option"

record MSelectorRequirement =
  msrKey :: string
  msrOperator :: string
  msrValues :: slice

record MNodeSelectorTerm =
  mntMatchExpressions :: slice
  mntMatchFields :: slice

record MNodeSelector =
  mnlNodeSelectorTerms :: slice

record MPreferredSchedulingTerm =
  mptWeight :: int32
  mptPreference :: MNodeSelectorTerm

record MNodeAffinity =
  mnaRequired :: "addr option"
  mnaPreferred :: slice

record MLabelSelector =
  mlsMatchLabels :: "addr option"
  mlsMatchExpressions :: slice

record MPodAffinityTerm =
  mpaTopologyKey :: string
  mpaLabelSelector :: "addr option"
  mpaNamespaces :: slice
  mpaNamespaceSelector :: "addr option"

record MWeightedPodAffinityTerm =
  mwtWeight :: int32
  mwtPodAffinityTerm :: MPodAffinityTerm

record MPodAffinity =
  mpfRequired :: slice
  mpfPreferred :: slice

record MListMeta =
  mlmSelfLink :: string
  mlmResourceVersion :: string
  mlmContinue :: string
  mlmRemainingItemCount :: "addr option"

section \<open>v1beta1\<close>

record MKvdbSpec =
  mkvBasicAuthSecret :: string
  mkvCertificateSecret :: string
  mkvACLTokenSecret :: string
  mkvEndpoints :: slice

record MStorageSpec =
  mstZeroStorage :: bool
  mstForce :: bool
  mstUseAll :: bool
  mstUseAllWithParitions :: bool
  mstDevices :: slice

record MPlacement =
  mplTypeMeta :: TypeMeta
  mplNodeAffinity :: "addr option"
  mplPodAffinity :: "addr option"
  mplPodAntiAffinity :: "addr option"
  mplTolerations :: slice

record MPlacementSpec =
  mpsTypeMeta :: TypeMeta
  mpsPX :: MPlacement

record MClusterSpec =
  mcsPXImage :: string
  mcsPXTag :: string
  mcsOCIMonImage :: string
  mcsOCIMonTag :: string
  mcsNetwork :: NodeNetwork
  mcsKvdb :: MKvdbSpec
  mcsStorage :: MStorageSpec
  mcsPlacement :: MPlacementSpec
  mcsEnv :: slice

record MCluster =
  mclTypeMeta :: TypeMeta
  mclObjectMeta :: MObjectMeta
  mclSpec :: MClusterSpec

record MClusterStatus =
  mctStatusInfo :: StatusInfo
  mctName :: string
  mctNodeStatuses :: slice

record MLabelSelectorRequirement =
  mlrKey :: string
  mlrOperator :: LabelSelectorOperator
  mlrValues :: slice

record MVolumePlacementRule =
  mvrAffectedReplicas :: int64
  mvrWeight :: int64
  mvrEnforcement :: EnforcementType
  mvrType :: AffinityRuleType
  mvrMatchExpressions :: slice

record MVolumePlacementSpec =
  mvsRules :: slice

record MVolumePlacementStrategy =
  mvpTypeMeta :: TypeMeta
  mvpObjectMeta :: MObjectMeta
  mvpSpec :: MVolumePlacementSpec

record MClusterList =
  mxlTypeMeta :: TypeMeta
  mxlListMeta :: MListMeta
  mxlItems :: slice

record MVolumePlacementStrategyList =
  mylTypeMeta :: TypeMeta
  mylListMeta :: MListMeta
  mylItems :: slice

section \<open>v1beta2\<close>

record MCommonPlacementSpec =
  mcpWeight :: int64
  mcpEnforcement :: EnforcementType
  mcpTopologyKey :: string
  mcpMatchExpressions :: slice

record MReplicaPlacementSpec =
  mrpAffectedReplicas :: int64
  mrpCommonPlacementSpec :: MCommonPlacementSpec

record MVolumePlacementSpec2 =
  mv2ReplicaAffinity :: slice
  mv2ReplicaAntiAffinity :: slice
  mv2VolumeAffinity :: slice
  mv2VolumeAntiAffinity :: slice

record MVolumePlacementStrategy2 =
  mw2TypeMeta :: TypeMeta
  mw2ObjectMeta :: MObjectMeta
  mw2Spec :: MVolumePlacementSpec2

record MVolumePlacementStrategyList2 =
  mzlTypeMeta :: TypeMeta
  mzlListMeta :: MListMeta
  mzlItems :: slice

section \<open>Cells\<close>

text \<open>What an address can hold: a pointer target, a map, or the backing array of a slice.\<close>

datatype (plugins only: code) cell =
    CInt64 int64
  | CBool bool
  | CTime int
  | CDec int
  | CStrMap strmap
  | CBytes "8 word list"
  | CStrings "string list"
  | CNodeStatuses "NodeStatus list"
  | CObjectFieldSelector MObjectFieldSelector
  | CFieldsV1 MFieldsV1
  | COwnerReferenceArr "MOwnerReference list"
  | CManagedFieldsEntryArr "MManagedFieldsEntry list"
  | CResourceFieldSelector MResourceFieldSelector
  | CKeySelector MKeySelector
  | CEnvVarSource MEnvVarSource
  | CSelectorRequirementArr "MSelectorRequirement list"
  | CNodeSelectorTermArr "MNodeSelectorTerm list"
  | CNodeSelector MNodeSelector
  | CPreferredSchedulingTermArr "MPreferredSchedulingTerm list"
  | CLabelSelector MLabelSelector
  | CPodAffinityTermArr "MPodAffinityTerm list"
  | CWeightedPodAffinityTermArr "MWeightedPodAffinityTerm list"
  | CNodeAffinity MNodeAffinity
  | CPodAffinity MPodAffinity
  | CTolerationArr "MToleration list"
  | CEnvVarArr "MEnvVar list"
  | CLabelSelectorRequirement MLabelSelectorRequirement
  | CLabelSelectorRequirementPtrs "addr option list"
  | CVolumePlacementRuleArr "MVolumePlacementRule list"
  | CReplicaPlacementSpec MReplicaPlacementSpec
  | CReplicaPlacementSpecPtrs "addr option list"
  | CCommonPlacementSpec MCommonPlacementSpec
  | CCommonPlacementSpecPtrs "addr option list"
  | CKvdbSpec MKvdbSpec
  | CStorageSpec MStorageSpec
  | CPlacement MPlacement
  | CPlacementSpec MPlacementSpec
  | CClusterSpec MClusterSpec
  | CCluster MCluster
  | CClusterStatus MClusterStatus
  | CVolumePlacementRule MVolumePlacementRule
  | CVolumePlacementSpec MVolumePlacementSpec
  | CVolumePlacementStrategy MVolumePlacementStrategy
  | CVolumePlacementSpec2 MVolumePlacementSpec2
  | CVolumePlacementStrategy2 MVolumePlacementStrategy2
  | CClusterArr "MCluster list"
  | CClusterList MClusterList
  | CVolumePlacementStrategyArr "MVolumePlacementStrategy list"
  | CVolumePlacementStrategyList MVolumePlacementStrategyList
  | CVolumePlacementStrategy2Arr "MVolumePlacementStrategy2 list"
  | CVolumePlacementStrategyList2 MVolumePlacementStrategyList2
  | CNodeNetwork NodeNetwork
  | CNodeStatus NodeStatus
  | CStatusInfo StatusInfo

type_synonym gheap = "cell heap"

text \<open>Reading a cell as one of the types.\<close>

definition atInt64 :: "cell \<Rightarrow> int64 option" where
  "atInt64 c = (case c of CInt64 x \<Rightarrow> Some x | _ \<Rightarrow> None)"

definition atBool :: "cell \<Rightarrow> bool option" where
  "atBool c = (case c of CBool x \<Rightarrow> Some x | _ \<Rightarrow> None)"

definition atTime :: "cell \<Rightarrow> int option" where
  "atTime c = (case c of CTime x \<Rightarrow> Some x | _ \<Rightarrow> None)"

definition atDec :: "cell \<Rightarrow> int option" where
  "atDec c = (case c of CDec x \<Rightarrow> Some x | _ \<Rightarrow> None)"

definition atStrMap :: "cell \<Rightarrow> strmap option" where
  "atStrMap c = (case c of CStrMap x \<Rightarrow> Some x | _ \<Rightarrow> None)"

definition atBytes :: "cell \<Rightarrow> (8 word list) option" where
  "atBytes c = (case c of CBytes x \<Rightarrow> Some x | _ \<Rightarrow> None)"

definition atStrings :: "cell \<Rightarrow> (string list) option" where
  "atStrings c = (case c of CStrings x \<Rightarrow> Some x | _ \<Rightarrow> None)"

definition atNodeStatuses :: "cell \<Rightarrow> (NodeStatus list) option" where
  "atNodeStatuses c = (case c of CNodeStatuses x \<Rightarrow> Some x | _ \<Rightarrow> None)"

definition atObjectFieldSelector :: "cell \<Rightarrow> MObjectFieldSelector option" where
  "atObjectFieldSelector c = (case c of CObjectFieldSelector x \<Rightarrow> Some x | _ \<Rightarrow> None)"

definition atFieldsV1 :: "cell \<Rightarrow> MFieldsV1 option" where
  "atFieldsV1 c = (case c of CFieldsV1 x \<Rightarrow> Some x | _ \<Rightarrow> None)"

definition atOwnerReferenceArr :: "cell \<Rightarrow> (MOwnerReference list) option" where
  "atOwnerReferenceArr c = (case c of COwnerReferenceArr x \<Rightarrow> Some x | _ \<Rightarrow> None)"

definition atManagedFieldsEntryArr :: "cell \<Rightarrow> (MManagedFieldsEntry list) option" where
  "atManagedFieldsEntryArr c = (case c of CManagedFieldsEntryArr x \<Rightarrow> Some x | _ \<Rightarrow> None)"

definition atResourceFieldSelector :: "cell \<Rightarrow> MResourceFieldSelector option" where
  "atResourceFieldSelector c = (case c of CResourceFieldSelector x \<Rightarrow> Some x | _ \<Rightarrow> None)"

definition atKeySelector :: "cell \<Rightarrow> MKeySelector option" where
  "atKeySelector c = (case c of CKeySelector x \<Rightarrow> Some x | _ \<Rightarrow> None)"

definition atEnvVarSource :: "cell \<Rightarrow> MEnvVarSource option" where
  "atEnvVarSource c = (case c of CEnvVarSource x \<Rightarrow> Some x | _ \<Rightarrow> None)"

definition atSelectorRequirementArr :: "cell \<Rightarrow> (MSelectorRequirement list) option" where
  "atSelectorRequirementArr c = (case c of CSelectorRequirementArr x \<Rightarrow> Some x | _ \<Rightarrow> None)"

definition atNodeSelectorTermArr :: "cell \<Rightarrow> (MNodeSelectorTerm list) option" where
  "atNodeSelectorTermArr c = (case c of CNodeSelectorTermArr x \<Rightarrow> Some x | _ \<Rightarrow> None)"

definition atNodeSelector :: "cell \<Rightarrow> MNodeSelector option" where
  "atNodeSelector c = (case c of CNodeSelector x \<Rightarrow> Some x | _ \<Rightarrow> None)"

definition atPreferredSchedulingTermArr :: "cell \<Rightarrow> (MPreferredSchedulingTerm list) option" where
  "atPreferredSchedulingTermArr c = (case c of CPreferredSchedulingTermArr x \<Rightarrow> Some x | _ \<Rightarrow> None)"

definition atLabelSelector :: "cell \<Rightarrow> MLabelSelector option" where
  "atLabelSelector c = (case c of CLabelSelector x \<Rightarrow> Some x | _ \<Rightarrow> None)"

definition atPodAffinityTermArr :: "cell \<Rightarrow> (MPodAffinityTerm list) option" where
  "atPodAffinityTermArr c = (case c of CPodAffinityTermArr x \<Rightarrow> Some x | _ \<Rightarrow> None)"

definition atWeightedPodAffinityTermArr :: "cell \<Rightarrow> (MWeightedPodAffinityTerm list) option" where
  "atWeightedPodAffinityTermArr c = (case c of CWeightedPodAffinityTermArr x \<Rightarrow> Some x | _ \<Rightarrow> None)"

definition atNodeAffinity :: "cell \<Rightarrow> MNodeAffinity option" where
  "atNodeAffinity c = (case c of CNodeAffinity x \<Rightarrow> Some x | _ \<Rightarrow> None)"

definition atPodAffinity :: "cell \<Rightarrow> MPodAffinity option" where
  "atPodAffinity c = (case c of CPodAffinity x \<Rightarrow> Some x | _ \<Rightarrow> None)"

definition atTolerationArr :: "cell \<Rightarrow> (MToleration list) option" where
  "atTolerationArr c = (case c of CTolerationArr x \<Rightarrow> Some x | _ \<Rightarrow> None)"

definition atEnvVarArr :: "cell \<Rightarrow> (MEnvVar list) option" where
  "atEnvVarArr c = (case c of CEnvVarArr x \<Rightarrow> Some x | _ \<Rightarrow> None)"

definition atLabelSelectorRequirement :: "cell \<Rightarrow> MLabelSelectorRequirement option" where
  "atLabelSelectorRequirement c = (case c of CLabelSelectorRequirement x \<Rightarrow> Some x | _ \<Rightarrow> None)"

definition atLabelSelectorRequirementPtrs :: "cell \<Rightarrow> (addr option list) option" where
  "atLabelSelectorRequirementPtrs c = (case c of CLabelSelectorRequirementPtrs x \<Rightarrow> Some x | _ \<Rightarrow> None)"

definition atVolumePlacementRuleArr :: "cell \<Rightarrow> (MVolumePlacementRule list) option" where
  "atVolumePlacementRuleArr c = (case c of CVolumePlacementRuleArr x \<Rightarrow> Some x | _ \<Rightarrow> None)"

definition atReplicaPlacementSpec :: "cell \<Rightarrow> MReplicaPlacementSpec option" where
  "atReplicaPlacementSpec c = (case c of CReplicaPlacementSpec x \<Rightarrow> Some x | _ \<Rightarrow> None)"

definition atReplicaPlacementSpecPtrs :: "cell \<Rightarrow> (addr option list) option" where
  "atReplicaPlacementSpecPtrs c = (case c of CReplicaPlacementSpecPtrs x \<Rightarrow> Some x | _ \<Rightarrow> None)"

definition atCommonPlacementSpec :: "cell \<Rightarrow> MCommonPlacementSpec option" where
  "atCommonPlacementSpec c = (case c of CCommonPlacementSpec x \<Rightarrow> Some x | _ \<Rightarrow> None)"

definition atCommonPlacementSpecPtrs :: "cell \<Rightarrow> (addr option list) option" where
  "atCommonPlacementSpecPtrs c = (case c of CCommonPlacementSpecPtrs x \<Rightarrow> Some x | _ \<Rightarrow> None)"

definition atKvdbSpec :: "cell \<Rightarrow> MKvdbSpec option" where
  "atKvdbSpec c = (case c of CKvdbSpec x \<Rightarrow> Some x | _ \<Rightarrow> None)"

definition atStorageSpec :: "cell \<Rightarrow> MStorageSpec option" where
  "atStorageSpec c = (case c of CStorageSpec x \<Rightarrow> Some x | _ \<Rightarrow> None)"

definition atPlacement :: "cell \<Rightarrow> MPlacement option" where
  "atPlacement c = (case c of CPlacement x \<Rightarrow> Some x | _ \<Rightarrow> None)"

definition atPlacementSpec :: "cell \<Rightarrow> MPlacementSpec option" where
  "atPlacementSpec c = (case c of CPlacementSpec x \<Rightarrow> Some x | _ \<Rightarrow> None)"

definition atClusterSpec :: "cell \<Rightarrow> MClusterSpec option" where
  "atClusterSpec c = (case c of CClusterSpec x \<Rightarrow> Some x | _ \<Rightarrow> None)"

definition atCluster :: "cell \<Rightarrow> MCluster option" where
  "atCluster c = (case c of CCluster x \<Rightarrow> Some x | _ \<Rightarrow> None)"

definition atClusterStatus :: "cell \<Rightarrow> MClusterStatus option" where
  "atClusterStatus c = (case c of CClusterStatus x \<Rightarrow> Some x | _ \<Rightarrow> None)"

definition atVolumePlacementRule :: "cell \<Rightarrow> MVolumePlacementRule option" where
  "atVolumePlacementRule c = (case c of CVolumePlacementRule x \<Rightarrow> Some x | _ \<Rightarrow> None)"

definition atVolumePlacementSpec :: "cell \<Rightarrow> MVolumePlacementSpec option" where
  "atVolumePlacementSpec c = (case c of CVolumePlacementSpec x \<Rightarrow> Some x | _ \<Rightarrow> None)"

definition atVolumePlacementStrategy :: "cell \<Rightarrow> MVolumePlacementStrategy option" where
  "atVolumePlacementStrategy c = (case c of CVolumePlacementStrategy x \<Rightarrow> Some x | _ \<Rightarrow> None)"

definition atVolumePlacementSpec2 :: "cell \<Rightarrow> MVolumePlacementSpec2 option" where
  "atVolumePlacementSpec2 c = (case c of CVolumePlacementSpec2 x \<Rightarrow> Some x | _ \<Rightarrow> None)"

definition atVolumePlacementStrategy2 :: "cell \<Rightarrow> MVolumePlacementStrategy2 option" where
  "atVolumePlacementStrategy2 c = (case c of CVolumePlacementStrategy2 x \<Rightarrow> Some x | _ \<Rightarrow> None)"

definition atClusterArr :: "cell \<Rightarrow> (MCluster list) option" where
  "atClusterArr c = (case c of CClusterArr x \<Rightarrow> Some x | _ \<Rightarrow> None)"

definition atClusterList :: "cell \<Rightarrow> MClusterList option" where
  "atClusterList c = (case c of CClusterList x \<Rightarrow> Some x | _ \<Rightarrow> None)"

definition atVolumePlacementStrategyArr :: "cell \<Rightarrow> (MVolumePlacementStrategy list) option" where
  "atVolumePlacementStrategyArr c = (case c of CVolumePlacementStrategyArr x \<Rightarrow> Some x | _ \<Rightarrow> None)"

definition atVolumePlacementStrategyList :: "cell \<Rightarrow> MVolumePlacementStrategyList option" where
  "atVolumePlacementStrategyList c = (case c of CVolumePlacementStrategyList x \<Rightarrow> Some x | _ \<Rightarrow> None)"

definition atVolumePlacementStrategy2Arr :: "cell \<Rightarrow> (MVolumePlacementStrategy2 list) option" where
  "atVolumePlacementStrategy2Arr c = (case c of CVolumePlacementStrategy2Arr x \<Rightarrow> Some x | _ \<Rightarrow> None)"

definition atVolumePlacementStrategyList2 :: "cell \<Rightarrow> MVolumePlacementStrategyList2 option" where
  "atVolumePlacementStrategyList2 c = (case c of CVolumePlacementStrategyList2 x \<Rightarrow> Some x | _ \<Rightarrow> None)"

definition atNodeNetwork :: "cell \<Rightarrow> NodeNetwork option" where
  "atNodeNetwork c = (case c of CNodeNetwork x \<Rightarrow> Some x | _ \<Rightarrow> None)"

definition atNodeStatus :: "cell \<Rightarrow> NodeStatus option" where
  "atNodeStatus c = (case c of CNodeStatus x \<Rightarrow> Some x | _ \<Rightarrow> None)"

definition atStatusInfo :: "cell \<Rightarrow> StatusInfo option" where
  "atStatusInfo c = (case c of CStatusInfo x \<Rightarrow> Some x | _ \<Rightarrow> None)"

lemma cell_views [simp]:
  "atInt64 (CInt64 xCInt64) = Some xCInt64"
  "atBool (CBool xCBool) = Some xCBool"
  "atTime (CTime xCTime) = Some xCTime"
  "atDec (CDec xCDec) = Some xCDec"
  "atStrMap (CStrMap xCStrMap) = Some xCStrMap"
  "atBytes (CBytes xCBytes) = Some xCBytes"
  "atStrings (CStrings xCStrings) = Some xCStrings"
  "atNodeStatuses (CNodeStatuses xCNodeStatuses) = Some xCNodeStatuses"
  "atObjectFieldSelector (CObjectFieldSelector xCObjectFieldSelector) = Some xCObjectFieldSelector"
  "atFieldsV1 (CFieldsV1 xCFieldsV1) = Some xCFieldsV1"
  "atOwnerReferenceArr (COwnerReferenceArr xCOwnerReferenceArr) = Some xCOwnerReferenceArr"
  "atManagedFieldsEntryArr (CManagedFieldsEntryArr xCManagedFieldsEntryArr) = Some xCManagedFieldsEntryArr"
  "atResourceFieldSelector (CResourceFieldSelector xCResourceFieldSelector) = Some xCResourceFieldSelector"
  "atKeySelector (CKeySelector xCKeySelector) = Some xCKeySelector"
  "atEnvVarSource (CEnvVarSource xCEnvVarSource) = Some xCEnvVarSource"
  "atSelectorRequirementArr (CSelectorRequirementArr xCSelectorRequirementArr) = Some xCSelectorRequirementArr"
  "atNodeSelectorTermArr (CNodeSelectorTermArr xCNodeSelectorTermArr) = Some xCNodeSelectorTermArr"
  "atNodeSelector (CNodeSelector xCNodeSelector) = Some xCNodeSelector"
  "atPreferredSchedulingTermArr (CPreferredSchedulingTermArr xCPreferredSchedulingTermArr) = Some xCPreferredSchedulingTermArr"
  "atLabelSelector (CLabelSelector xCLabelSelector) = Some xCLabelSelector"
  "atPodAffinityTermArr (CPodAffinityTermArr xCPodAffinityTermArr) = Some xCPodAffinityTermArr"
  "atWeightedPodAffinityTermArr (CWeightedPodAffinityTermArr xCWeightedPodAffinityTermArr) = Some xCWeightedPodAffinityTermArr"
  "atNodeAffinity (CNodeAffinity xCNodeAffinity) = Some xCNodeAffinity"
  "atPodAffinity (CPodAffinity xCPodAffinity) = Some xCPodAffinity"
  "atTolerationArr (CTolerationArr xCTolerationArr) = Some xCTolerationArr"
  "atEnvVarArr (CEnvVarArr xCEnvVarArr) = Some xCEnvVarArr"
  "atLabelSelectorRequirement (CLabelSelectorRequirement xCLabelSelectorRequirement) = Some xCLabelSelectorRequirement"
  "atLabelSelectorRequirementPtrs (CLabelSelectorRequirementPtrs xCLabelSelectorRequirementPtrs) = Some xCLabelSelectorRequirementPtrs"
  "atVolumePlacementRuleArr (CVolumePlacementRuleArr xCVolumePlacementRuleArr) = Some xCVolumePlacementRuleArr"
  "atReplicaPlacementSpec (CReplicaPlacementSpec xCReplicaPlacementSpec) = Some xCReplicaPlacementSpec"
  "atReplicaPlacementSpecPtrs (CReplicaPlacementSpecPtrs xCReplicaPlacementSpecPtrs) = Some xCReplicaPlacementSpecPtrs"
  "atCommonPlacementSpec (CCommonPlacementSpec xCCommonPlacementSpec) = Some xCCommonPlacementSpec"
  "atCommonPlacementSpecPtrs (CCommonPlacementSpecPtrs xCCommonPlacementSpecPtrs) = Some xCCommonPlacementSpecPtrs"
  "atKvdbSpec (CKvdbSpec xCKvdbSpec) = Some xCKvdbSpec"
  "atStorageSpec (CStorageSpec xCStorageSpec) = Some xCStorageSpec"
  "atPlacement (CPlacement xCPlacement) = Some xCPlacement"
  "atPlacementSpec (CPlacementSpec xCPlacementSpec) = Some xCPlacementSpec"
  "atClusterSpec (CClusterSpec xCClusterSpec) = Some xCClusterSpec"
  "atCluster (CCluster xCCluster) = Some xCCluster"
  "atClusterStatus (CClusterStatus xCClusterStatus) = Some xCClusterStatus"
  "atVolumePlacementRule (CVolumePlacementRule xCVolumePlacementRule) = Some xCVolumePlacementRule"
  "atVolumePlacementSpec (CVolumePlacementSpec xCVolumePlacementSpec) = Some xCVolumePlacementSpec"
  "atVolumePlacementStrategy (CVolumePlacementStrategy xCVolumePlacementStrategy) = Some xCVolumePlacementStrategy"
  "atVolumePlacementSpec2 (CVolumePlacementSpec2 xCVolumePlacementSpec2) = Some xCVolumePlacementSpec2"
  "atVolumePlacementStrategy2 (CVolumePlacementStrategy2 xCVolumePlacementStrategy2) = Some xCVolumePlacementStrategy2"
  "atClusterArr (CClusterArr xCClusterArr) = Some xCClusterArr"
  "atClusterList (CClusterList xCClusterList) = Some xCClusterList"
  "atVolumePlacementStrategyArr (CVolumePlacementStrategyArr xCVolumePlacementStrategyArr) = Some xCVolumePlacementStrategyArr"
  "atVolumePlacementStrategyList (CVolumePlacementStrategyList xCVolumePlacementStrategyList) = Some xCVolumePlacementStrategyList"
  "atVolumePlacementStrategy2Arr (CVolumePlacementStrategy2Arr xCVolumePlacementStrategy2Arr) = Some xCVolumePlacementStrategy2Arr"
  "atVolumePlacementStrategyList2 (CVolumePlacementStrategyList2 xCVolumePlacementStrategyList2) = Some xCVolumePlacementStrategyList2"
  "atNodeNetwork (CNodeNetwork xCNodeNetwork) = Some xCNodeNetwork"
  "atNodeStatus (CNodeStatus xCNodeStatus) = Some xCNodeStatus"
  "atStatusInfo (CStatusInfo xCStatusInfo) = Some xCStatusInfo"
  by (simp_all add: atInt64_def atBool_def atTime_def atDec_def atStrMap_def atBytes_def atStrings_def atNodeStatuses_def atObjectFieldSelector_def atFieldsV1_def atOwnerReferenceArr_def atManagedFieldsEntryArr_def atResourceFieldSelector_def atKeySelector_def atEnvVarSource_def atSelectorRequirementArr_def atNodeSelectorTermArr_def atNodeSelector_def atPreferredSchedulingTermArr_def atLabelSelector_def atPodAffinityTermArr_def atWeightedPodAffinityTermArr_def atNodeAffinity_def atPodAffinity_def atTolerationArr_def atEnvVarArr_def atLabelSelectorRequirement_def atLabelSelectorRequirementPtrs_def atVolumePlacementRuleArr_def atReplicaPlacementSpec_def atReplicaPlacementSpecPtrs_def atCommonPlacementSpec_def atCommonPlacementSpecPtrs_def atKvdbSpec_def atStorageSpec_def atPlacement_def atPlacementSpec_def atClusterSpec_def atCluster_def atClusterStatus_def atVolumePlacementRule_def atVolumePlacementSpec_def atVolumePlacementStrategy_def atVolumePlacementSpec2_def atVolumePlacementStrategy2_def atClusterArr_def atClusterList_def atVolumePlacementStrategyArr_def atVolumePlacementStrategyList_def atVolumePlacementStrategy2Arr_def atVolumePlacementStrategyList2_def atNodeNetwork_def atNodeStatus_def atStatusInfo_def)

end
