(* ===== verification/KubeCopies.thy ===== *)
theory KubeCopies
  imports MemTypes
begin

text \<open>
  The deep copies of the Kubernetes structs that the custom resources contain, as
  \<open>zz_generated.deepcopy.go\<close> of \<open>k8s.io/api/core/v1\<close> and \<open>k8s.io/apimachinery/pkg/apis/meta/v1\<close> (vendored)
  write them, how each struct is read, and that each copy is deep.  A \<open>DeepCopyInto\<close> takes the
  struct it reads and returns the struct it leaves in \<open>out\<close>.
\<close>

section \<open>The copies\<close>

definition OwnerReference_DeepCopyInto ::
    "MOwnerReference \<Rightarrow> (gheap, MOwnerReference) go" where
  "OwnerReference_DeepCopyInto i =
     bindE (copyPtr CBool atBool returnE (morController i)) (\<lambda>x1.
     bindE (copyPtr CBool atBool returnE (morBlockOwnerDeletion i)) (\<lambda>x2.
     returnE (i\<lparr>morController := x1, morBlockOwnerDeletion := x2\<rparr>)))"

definition FieldsV1_DeepCopyInto ::
    "MFieldsV1 \<Rightarrow> (gheap, MFieldsV1) go" where
  "FieldsV1_DeepCopyInto i =
     bindE (copySlice CBytes atBytes returnE (mfvRaw i)) (\<lambda>x.
     returnE (i\<lparr>mfvRaw := x\<rparr>))"

definition ManagedFieldsEntry_DeepCopyInto ::
    "MManagedFieldsEntry \<Rightarrow> (gheap, MManagedFieldsEntry) go" where
  "ManagedFieldsEntry_DeepCopyInto i =
     bindE (copyPtr CTime atTime returnE (mmfTime i)) (\<lambda>x1.
     bindE (copyPtr CFieldsV1 atFieldsV1 FieldsV1_DeepCopyInto (mmfFieldsV1 i)) (\<lambda>x2.
     returnE (i\<lparr>mmfTime := x1, mmfFieldsV1 := x2\<rparr>)))"

definition ObjectMeta_DeepCopyInto ::
    "MObjectMeta \<Rightarrow> (gheap, MObjectMeta) go" where
  "ObjectMeta_DeepCopyInto i =
     bindE (copyPtr CTime atTime returnE (momDeletionTimestamp i)) (\<lambda>x1.
     bindE (copyPtr CInt64 atInt64 returnE (momDeletionGracePeriodSeconds i)) (\<lambda>x2.
     bindE (copyPtr CStrMap atStrMap returnE (momLabels i)) (\<lambda>x3.
     bindE (copyPtr CStrMap atStrMap returnE (momAnnotations i)) (\<lambda>x4.
     bindE (copySlice COwnerReferenceArr atOwnerReferenceArr OwnerReference_DeepCopyInto
              (momOwnerReferences i)) (\<lambda>x5.
     bindE (copySlice CStrings atStrings returnE (momFinalizers i)) (\<lambda>x6.
     bindE (copySlice CManagedFieldsEntryArr atManagedFieldsEntryArr ManagedFieldsEntry_DeepCopyInto
              (momManagedFields i)) (\<lambda>x7.
     returnE (i\<lparr>momDeletionTimestamp := x1, momDeletionGracePeriodSeconds := x2,
                 momLabels := x3, momAnnotations := x4, momOwnerReferences := x5,
                 momFinalizers := x6, momManagedFields := x7\<rparr>))))))))"

definition ResourceFieldSelector_DeepCopyInto ::
    "MResourceFieldSelector \<Rightarrow> (gheap, MResourceFieldSelector) go" where
  "ResourceFieldSelector_DeepCopyInto i =
     bindE (copyPtr CDec atDec returnE (mrfDivisorDec i)) (\<lambda>x.
     returnE (i\<lparr>mrfDivisorDec := x\<rparr>))"

definition KeySelector_DeepCopyInto ::
    "MKeySelector \<Rightarrow> (gheap, MKeySelector) go" where
  "KeySelector_DeepCopyInto i =
     bindE (copyPtr CBool atBool returnE (mksOptional i)) (\<lambda>x.
     returnE (i\<lparr>mksOptional := x\<rparr>))"

definition EnvVarSource_DeepCopyInto ::
    "MEnvVarSource \<Rightarrow> (gheap, MEnvVarSource) go" where
  "EnvVarSource_DeepCopyInto i =
     bindE (copyPtr CObjectFieldSelector atObjectFieldSelector returnE (mesFieldRef i)) (\<lambda>x1.
     bindE (copyPtr CResourceFieldSelector atResourceFieldSelector ResourceFieldSelector_DeepCopyInto
              (mesResourceFieldRef i)) (\<lambda>x2.
     bindE (copyPtr CKeySelector atKeySelector KeySelector_DeepCopyInto
              (mesConfigMapKeyRef i)) (\<lambda>x3.
     bindE (copyPtr CKeySelector atKeySelector KeySelector_DeepCopyInto
              (mesSecretKeyRef i)) (\<lambda>x4.
     returnE (i\<lparr>mesFieldRef := x1, mesResourceFieldRef := x2, mesConfigMapKeyRef := x3,
                 mesSecretKeyRef := x4\<rparr>)))))"

definition EnvVar_DeepCopyInto ::
    "MEnvVar \<Rightarrow> (gheap, MEnvVar) go" where
  "EnvVar_DeepCopyInto i =
     bindE (copyPtr CEnvVarSource atEnvVarSource EnvVarSource_DeepCopyInto
              (mevValueFrom i)) (\<lambda>x.
     returnE (i\<lparr>mevValueFrom := x\<rparr>))"

definition Toleration_DeepCopyInto ::
    "MToleration \<Rightarrow> (gheap, MToleration) go" where
  "Toleration_DeepCopyInto i =
     bindE (copyPtr CInt64 atInt64 returnE (mtoTolerationSeconds i)) (\<lambda>x.
     returnE (i\<lparr>mtoTolerationSeconds := x\<rparr>))"

definition SelectorRequirement_DeepCopyInto ::
    "MSelectorRequirement \<Rightarrow> (gheap, MSelectorRequirement) go" where
  "SelectorRequirement_DeepCopyInto i =
     bindE (copySlice CStrings atStrings returnE (msrValues i)) (\<lambda>x.
     returnE (i\<lparr>msrValues := x\<rparr>))"

definition NodeSelectorTerm_DeepCopyInto ::
    "MNodeSelectorTerm \<Rightarrow> (gheap, MNodeSelectorTerm) go" where
  "NodeSelectorTerm_DeepCopyInto i =
     bindE (copySlice CSelectorRequirementArr atSelectorRequirementArr SelectorRequirement_DeepCopyInto
              (mntMatchExpressions i)) (\<lambda>x1.
     bindE (copySlice CSelectorRequirementArr atSelectorRequirementArr SelectorRequirement_DeepCopyInto
              (mntMatchFields i)) (\<lambda>x2.
     returnE (i\<lparr>mntMatchExpressions := x1, mntMatchFields := x2\<rparr>)))"

definition NodeSelector_DeepCopyInto ::
    "MNodeSelector \<Rightarrow> (gheap, MNodeSelector) go" where
  "NodeSelector_DeepCopyInto i =
     bindE (copySlice CNodeSelectorTermArr atNodeSelectorTermArr NodeSelectorTerm_DeepCopyInto
              (mnlNodeSelectorTerms i)) (\<lambda>x.
     returnE (i\<lparr>mnlNodeSelectorTerms := x\<rparr>))"

definition PreferredSchedulingTerm_DeepCopyInto ::
    "MPreferredSchedulingTerm \<Rightarrow> (gheap, MPreferredSchedulingTerm) go" where
  "PreferredSchedulingTerm_DeepCopyInto i =
     bindE (NodeSelectorTerm_DeepCopyInto (mptPreference i)) (\<lambda>x.
     returnE (i\<lparr>mptPreference := x\<rparr>))"

definition NodeAffinity_DeepCopyInto ::
    "MNodeAffinity \<Rightarrow> (gheap, MNodeAffinity) go" where
  "NodeAffinity_DeepCopyInto i =
     bindE (copyPtr CNodeSelector atNodeSelector NodeSelector_DeepCopyInto
              (mnaRequired i)) (\<lambda>x1.
     bindE (copySlice CPreferredSchedulingTermArr atPreferredSchedulingTermArr PreferredSchedulingTerm_DeepCopyInto
              (mnaPreferred i)) (\<lambda>x2.
     returnE (i\<lparr>mnaRequired := x1, mnaPreferred := x2\<rparr>)))"

definition LabelSelector_DeepCopyInto ::
    "MLabelSelector \<Rightarrow> (gheap, MLabelSelector) go" where
  "LabelSelector_DeepCopyInto i =
     bindE (copyPtr CStrMap atStrMap returnE (mlsMatchLabels i)) (\<lambda>x1.
     bindE (copySlice CSelectorRequirementArr atSelectorRequirementArr SelectorRequirement_DeepCopyInto
              (mlsMatchExpressions i)) (\<lambda>x2.
     returnE (i\<lparr>mlsMatchLabels := x1, mlsMatchExpressions := x2\<rparr>)))"

definition PodAffinityTerm_DeepCopyInto ::
    "MPodAffinityTerm \<Rightarrow> (gheap, MPodAffinityTerm) go" where
  "PodAffinityTerm_DeepCopyInto i =
     bindE (copyPtr CLabelSelector atLabelSelector LabelSelector_DeepCopyInto
              (mpaLabelSelector i)) (\<lambda>x1.
     bindE (copySlice CStrings atStrings returnE (mpaNamespaces i)) (\<lambda>x2.
     bindE (copyPtr CLabelSelector atLabelSelector LabelSelector_DeepCopyInto
              (mpaNamespaceSelector i)) (\<lambda>x3.
     returnE (i\<lparr>mpaLabelSelector := x1, mpaNamespaces := x2, mpaNamespaceSelector := x3\<rparr>))))"

definition WeightedPodAffinityTerm_DeepCopyInto ::
    "MWeightedPodAffinityTerm \<Rightarrow> (gheap, MWeightedPodAffinityTerm) go" where
  "WeightedPodAffinityTerm_DeepCopyInto i =
     bindE (PodAffinityTerm_DeepCopyInto (mwtPodAffinityTerm i)) (\<lambda>x.
     returnE (i\<lparr>mwtPodAffinityTerm := x\<rparr>))"

definition PodAffinity_DeepCopyInto ::
    "MPodAffinity \<Rightarrow> (gheap, MPodAffinity) go" where
  "PodAffinity_DeepCopyInto i =
     bindE (copySlice CPodAffinityTermArr atPodAffinityTermArr PodAffinityTerm_DeepCopyInto
              (mpfRequired i)) (\<lambda>x1.
     bindE (copySlice CWeightedPodAffinityTermArr atWeightedPodAffinityTermArr WeightedPodAffinityTerm_DeepCopyInto
              (mpfPreferred i)) (\<lambda>x2.
     returnE (i\<lparr>mpfRequired := x1, mpfPreferred := x2\<rparr>)))"

section \<open>How the structs are read\<close>

definition OwnerReferenceT where
  "OwnerReferenceT = structT
     (\<lambda>s. (morController s, morBlockOwnerDeletion s))
     (\<lambda>s :: MOwnerReference. (morAPIVersion s, morKind s, morName s, morUID s))
     (pairT (ptrT atBool leafT) (ptrT atBool leafT))"

definition FieldsV1T where
  "FieldsV1T = structT
     mfvRaw
     (\<lambda>s :: MFieldsV1. ())
     (sliceT atBytes leafT)"

definition ManagedFieldsEntryT where
  "ManagedFieldsEntryT = structT
     (\<lambda>s. (mmfTime s, mmfFieldsV1 s))
     (\<lambda>s :: MManagedFieldsEntry. (mmfManager s, mmfOperation s, mmfAPIVersion s,
       mmfFieldsType s))
     (pairT (ptrT atTime leafT) (ptrT atFieldsV1 FieldsV1T))"

definition ObjectMetaT where
  "ObjectMetaT = structT
     (\<lambda>s. (momDeletionTimestamp s, momDeletionGracePeriodSeconds s, momLabels s,
       momAnnotations s, momOwnerReferences s, momFinalizers s, momManagedFields s))
     (\<lambda>s :: MObjectMeta. (momName s, momGenerateName s, momNamespace s, momSelfLink s,
       momUID s, momResourceVersion s, momGeneration s, momCreationTimestamp s, momClusterName
       s))
     (pairT (ptrT atTime leafT) (pairT (ptrT atInt64 leafT) (pairT (ptrT atStrMap leafT) (pairT
       (ptrT atStrMap leafT) (pairT (sliceT atOwnerReferenceArr OwnerReferenceT) (pairT (sliceT
       atStrings leafT) (sliceT atManagedFieldsEntryArr ManagedFieldsEntryT)))))))"

definition ResourceFieldSelectorT where
  "ResourceFieldSelectorT = structT
     mrfDivisorDec
     (\<lambda>s :: MResourceFieldSelector. (mrfContainerName s, mrfResource s, mrfDivisorInt s,
       mrfDivisorFormat s))
     (ptrT atDec leafT)"

definition KeySelectorT where
  "KeySelectorT = structT
     mksOptional
     (\<lambda>s :: MKeySelector. (mksName s, mksKey s))
     (ptrT atBool leafT)"

definition EnvVarSourceT where
  "EnvVarSourceT = structT
     (\<lambda>s. (mesFieldRef s, mesResourceFieldRef s, mesConfigMapKeyRef s, mesSecretKeyRef
       s))
     (\<lambda>s :: MEnvVarSource. ())
     (pairT (ptrT atObjectFieldSelector leafT) (pairT (ptrT atResourceFieldSelector
       ResourceFieldSelectorT) (pairT (ptrT atKeySelector KeySelectorT) (ptrT atKeySelector
       KeySelectorT))))"

definition EnvVarT where
  "EnvVarT = structT
     mevValueFrom
     (\<lambda>s :: MEnvVar. (mevName s, mevValue s))
     (ptrT atEnvVarSource EnvVarSourceT)"

definition TolerationT where
  "TolerationT = structT
     mtoTolerationSeconds
     (\<lambda>s :: MToleration. (mtoKey s, mtoOperator s, mtoValue s, mtoEffect s))
     (ptrT atInt64 leafT)"

definition SelectorRequirementT where
  "SelectorRequirementT = structT
     msrValues
     (\<lambda>s :: MSelectorRequirement. (msrKey s, msrOperator s))
     (sliceT atStrings leafT)"

definition NodeSelectorTermT where
  "NodeSelectorTermT = structT
     (\<lambda>s. (mntMatchExpressions s, mntMatchFields s))
     (\<lambda>s :: MNodeSelectorTerm. ())
     (pairT (sliceT atSelectorRequirementArr SelectorRequirementT) (sliceT
       atSelectorRequirementArr SelectorRequirementT))"

definition NodeSelectorT where
  "NodeSelectorT = structT
     mnlNodeSelectorTerms
     (\<lambda>s :: MNodeSelector. ())
     (sliceT atNodeSelectorTermArr NodeSelectorTermT)"

definition PreferredSchedulingTermT where
  "PreferredSchedulingTermT = structT
     mptPreference
     (\<lambda>s :: MPreferredSchedulingTerm. (mptWeight s))
     NodeSelectorTermT"

definition NodeAffinityT where
  "NodeAffinityT = structT
     (\<lambda>s. (mnaRequired s, mnaPreferred s))
     (\<lambda>s :: MNodeAffinity. ())
     (pairT (ptrT atNodeSelector NodeSelectorT) (sliceT atPreferredSchedulingTermArr
       PreferredSchedulingTermT))"

definition LabelSelectorT where
  "LabelSelectorT = structT
     (\<lambda>s. (mlsMatchLabels s, mlsMatchExpressions s))
     (\<lambda>s :: MLabelSelector. ())
     (pairT (ptrT atStrMap leafT) (sliceT atSelectorRequirementArr SelectorRequirementT))"

definition PodAffinityTermT where
  "PodAffinityTermT = structT
     (\<lambda>s. (mpaLabelSelector s, mpaNamespaces s, mpaNamespaceSelector s))
     (\<lambda>s :: MPodAffinityTerm. (mpaTopologyKey s))
     (pairT (ptrT atLabelSelector LabelSelectorT) (pairT (sliceT atStrings leafT) (ptrT
       atLabelSelector LabelSelectorT)))"

definition WeightedPodAffinityTermT where
  "WeightedPodAffinityTermT = structT
     mwtPodAffinityTerm
     (\<lambda>s :: MWeightedPodAffinityTerm. (mwtWeight s))
     PodAffinityTermT"

definition PodAffinityT where
  "PodAffinityT = structT
     (\<lambda>s. (mpfRequired s, mpfPreferred s))
     (\<lambda>s :: MPodAffinity. ())
     (pairT (sliceT atPodAffinityTermArr PodAffinityTermT) (sliceT atWeightedPodAffinityTermArr
       WeightedPodAffinityTermT))"

section \<open>The copies are deep\<close>

lemma OwnerReference_deep [deep_copy_intro]: "deep_copier OwnerReferenceT OwnerReference_DeepCopyInto"
  unfolding OwnerReferenceT_def
proof (rule deep_copier_structI)
  show "go_struct
     (\<lambda>s. (morController s, morBlockOwnerDeletion s))
     (\<lambda>f s. s\<lparr>morController := (fst f), morBlockOwnerDeletion := (snd f)\<rparr>)
     (\<lambda>s :: MOwnerReference. (morAPIVersion s, morKind s, morName s, morUID s))"
    by unfold_locales (auto intro!: MOwnerReference.equality)
  show "deep_copier
     (pairT (ptrT atBool leafT) (ptrT atBool leafT))
     (copyPair (copyPtr CBool atBool returnE) (copyPtr CBool atBool returnE))"
    by (intro deep_copy_intro cell_views)
qed (rule ext, simp add: OwnerReference_DeepCopyInto_def copyPair_def bindE_assoc)

lemma FieldsV1_deep [deep_copy_intro]: "deep_copier FieldsV1T FieldsV1_DeepCopyInto"
  unfolding FieldsV1T_def
proof (rule deep_copier_structI)
  show "go_struct
     mfvRaw
     (\<lambda>f s. s\<lparr>mfvRaw := f\<rparr>)
     (\<lambda>s :: MFieldsV1. ())"
    by unfold_locales (auto intro!: MFieldsV1.equality)
  show "deep_copier
     (sliceT atBytes leafT)
     (copySlice CBytes atBytes returnE)"
    by (intro deep_copy_intro cell_views)
qed (rule ext, simp add: FieldsV1_DeepCopyInto_def copyPair_def bindE_assoc)

lemma ManagedFieldsEntry_deep [deep_copy_intro]: "deep_copier ManagedFieldsEntryT ManagedFieldsEntry_DeepCopyInto"
  unfolding ManagedFieldsEntryT_def
proof (rule deep_copier_structI)
  show "go_struct
     (\<lambda>s. (mmfTime s, mmfFieldsV1 s))
     (\<lambda>f s. s\<lparr>mmfTime := (fst f), mmfFieldsV1 := (snd f)\<rparr>)
     (\<lambda>s :: MManagedFieldsEntry. (mmfManager s, mmfOperation s, mmfAPIVersion s,
       mmfFieldsType s))"
    by unfold_locales (auto intro!: MManagedFieldsEntry.equality)
  show "deep_copier
     (pairT (ptrT atTime leafT) (ptrT atFieldsV1 FieldsV1T))
     (copyPair (copyPtr CTime atTime returnE) (copyPtr CFieldsV1 atFieldsV1
       FieldsV1_DeepCopyInto))"
    by (intro deep_copy_intro cell_views)
qed (rule ext, simp add: ManagedFieldsEntry_DeepCopyInto_def copyPair_def bindE_assoc)

lemma ObjectMeta_deep [deep_copy_intro]: "deep_copier ObjectMetaT ObjectMeta_DeepCopyInto"
  unfolding ObjectMetaT_def
proof (rule deep_copier_structI)
  show "go_struct
     (\<lambda>s. (momDeletionTimestamp s, momDeletionGracePeriodSeconds s, momLabels s,
       momAnnotations s, momOwnerReferences s, momFinalizers s, momManagedFields s))
     (\<lambda>f s. s\<lparr>momDeletionTimestamp := (fst f), momDeletionGracePeriodSeconds :=
       (fst (snd f)), momLabels := (fst (snd (snd f))), momAnnotations := (fst (snd (snd (snd
       f)))), momOwnerReferences := (fst (snd (snd (snd (snd f))))), momFinalizers := (fst (snd
       (snd (snd (snd (snd f)))))), momManagedFields := (snd (snd (snd (snd (snd (snd
       f))))))\<rparr>)
     (\<lambda>s :: MObjectMeta. (momName s, momGenerateName s, momNamespace s, momSelfLink s,
       momUID s, momResourceVersion s, momGeneration s, momCreationTimestamp s, momClusterName
       s))"
    by unfold_locales (auto intro!: MObjectMeta.equality)
  show "deep_copier
     (pairT (ptrT atTime leafT) (pairT (ptrT atInt64 leafT) (pairT (ptrT atStrMap leafT) (pairT
       (ptrT atStrMap leafT) (pairT (sliceT atOwnerReferenceArr OwnerReferenceT) (pairT (sliceT
       atStrings leafT) (sliceT atManagedFieldsEntryArr ManagedFieldsEntryT)))))))
     (copyPair (copyPtr CTime atTime returnE) (copyPair (copyPtr CInt64 atInt64 returnE)
       (copyPair (copyPtr CStrMap atStrMap returnE) (copyPair (copyPtr CStrMap atStrMap returnE)
       (copyPair (copySlice COwnerReferenceArr atOwnerReferenceArr OwnerReference_DeepCopyInto)
       (copyPair (copySlice CStrings atStrings returnE) (copySlice CManagedFieldsEntryArr
       atManagedFieldsEntryArr ManagedFieldsEntry_DeepCopyInto)))))))"
    by (intro deep_copy_intro cell_views)
qed (rule ext, simp add: ObjectMeta_DeepCopyInto_def copyPair_def bindE_assoc)

lemma ResourceFieldSelector_deep [deep_copy_intro]: "deep_copier ResourceFieldSelectorT ResourceFieldSelector_DeepCopyInto"
  unfolding ResourceFieldSelectorT_def
proof (rule deep_copier_structI)
  show "go_struct
     mrfDivisorDec
     (\<lambda>f s. s\<lparr>mrfDivisorDec := f\<rparr>)
     (\<lambda>s :: MResourceFieldSelector. (mrfContainerName s, mrfResource s, mrfDivisorInt s,
       mrfDivisorFormat s))"
    by unfold_locales (auto intro!: MResourceFieldSelector.equality)
  show "deep_copier
     (ptrT atDec leafT)
     (copyPtr CDec atDec returnE)"
    by (intro deep_copy_intro cell_views)
qed (rule ext, simp add: ResourceFieldSelector_DeepCopyInto_def copyPair_def bindE_assoc)

lemma KeySelector_deep [deep_copy_intro]: "deep_copier KeySelectorT KeySelector_DeepCopyInto"
  unfolding KeySelectorT_def
proof (rule deep_copier_structI)
  show "go_struct
     mksOptional
     (\<lambda>f s. s\<lparr>mksOptional := f\<rparr>)
     (\<lambda>s :: MKeySelector. (mksName s, mksKey s))"
    by unfold_locales (auto intro!: MKeySelector.equality)
  show "deep_copier
     (ptrT atBool leafT)
     (copyPtr CBool atBool returnE)"
    by (intro deep_copy_intro cell_views)
qed (rule ext, simp add: KeySelector_DeepCopyInto_def copyPair_def bindE_assoc)

lemma EnvVarSource_deep [deep_copy_intro]: "deep_copier EnvVarSourceT EnvVarSource_DeepCopyInto"
  unfolding EnvVarSourceT_def
proof (rule deep_copier_structI)
  show "go_struct
     (\<lambda>s. (mesFieldRef s, mesResourceFieldRef s, mesConfigMapKeyRef s, mesSecretKeyRef
       s))
     (\<lambda>f s. s\<lparr>mesFieldRef := (fst f), mesResourceFieldRef := (fst (snd f)),
       mesConfigMapKeyRef := (fst (snd (snd f))), mesSecretKeyRef := (snd (snd (snd
       f)))\<rparr>)
     (\<lambda>s :: MEnvVarSource. ())"
    by unfold_locales (auto intro!: MEnvVarSource.equality)
  show "deep_copier
     (pairT (ptrT atObjectFieldSelector leafT) (pairT (ptrT atResourceFieldSelector
       ResourceFieldSelectorT) (pairT (ptrT atKeySelector KeySelectorT) (ptrT atKeySelector
       KeySelectorT))))
     (copyPair (copyPtr CObjectFieldSelector atObjectFieldSelector returnE) (copyPair (copyPtr
       CResourceFieldSelector atResourceFieldSelector ResourceFieldSelector_DeepCopyInto)
       (copyPair (copyPtr CKeySelector atKeySelector KeySelector_DeepCopyInto) (copyPtr
       CKeySelector atKeySelector KeySelector_DeepCopyInto))))"
    by (intro deep_copy_intro cell_views)
qed (rule ext, simp add: EnvVarSource_DeepCopyInto_def copyPair_def bindE_assoc)

lemma EnvVar_deep [deep_copy_intro]: "deep_copier EnvVarT EnvVar_DeepCopyInto"
  unfolding EnvVarT_def
proof (rule deep_copier_structI)
  show "go_struct
     mevValueFrom
     (\<lambda>f s. s\<lparr>mevValueFrom := f\<rparr>)
     (\<lambda>s :: MEnvVar. (mevName s, mevValue s))"
    by unfold_locales (auto intro!: MEnvVar.equality)
  show "deep_copier
     (ptrT atEnvVarSource EnvVarSourceT)
     (copyPtr CEnvVarSource atEnvVarSource EnvVarSource_DeepCopyInto)"
    by (intro deep_copy_intro cell_views)
qed (rule ext, simp add: EnvVar_DeepCopyInto_def copyPair_def bindE_assoc)

lemma Toleration_deep [deep_copy_intro]: "deep_copier TolerationT Toleration_DeepCopyInto"
  unfolding TolerationT_def
proof (rule deep_copier_structI)
  show "go_struct
     mtoTolerationSeconds
     (\<lambda>f s. s\<lparr>mtoTolerationSeconds := f\<rparr>)
     (\<lambda>s :: MToleration. (mtoKey s, mtoOperator s, mtoValue s, mtoEffect s))"
    by unfold_locales (auto intro!: MToleration.equality)
  show "deep_copier
     (ptrT atInt64 leafT)
     (copyPtr CInt64 atInt64 returnE)"
    by (intro deep_copy_intro cell_views)
qed (rule ext, simp add: Toleration_DeepCopyInto_def copyPair_def bindE_assoc)

lemma SelectorRequirement_deep [deep_copy_intro]: "deep_copier SelectorRequirementT SelectorRequirement_DeepCopyInto"
  unfolding SelectorRequirementT_def
proof (rule deep_copier_structI)
  show "go_struct
     msrValues
     (\<lambda>f s. s\<lparr>msrValues := f\<rparr>)
     (\<lambda>s :: MSelectorRequirement. (msrKey s, msrOperator s))"
    by unfold_locales (auto intro!: MSelectorRequirement.equality)
  show "deep_copier
     (sliceT atStrings leafT)
     (copySlice CStrings atStrings returnE)"
    by (intro deep_copy_intro cell_views)
qed (rule ext, simp add: SelectorRequirement_DeepCopyInto_def copyPair_def bindE_assoc)

lemma NodeSelectorTerm_deep [deep_copy_intro]: "deep_copier NodeSelectorTermT NodeSelectorTerm_DeepCopyInto"
  unfolding NodeSelectorTermT_def
proof (rule deep_copier_structI)
  show "go_struct
     (\<lambda>s. (mntMatchExpressions s, mntMatchFields s))
     (\<lambda>f s. s\<lparr>mntMatchExpressions := (fst f), mntMatchFields := (snd f)\<rparr>)
     (\<lambda>s :: MNodeSelectorTerm. ())"
    by unfold_locales (auto intro!: MNodeSelectorTerm.equality)
  show "deep_copier
     (pairT (sliceT atSelectorRequirementArr SelectorRequirementT) (sliceT
       atSelectorRequirementArr SelectorRequirementT))
     (copyPair (copySlice CSelectorRequirementArr atSelectorRequirementArr
       SelectorRequirement_DeepCopyInto) (copySlice CSelectorRequirementArr
       atSelectorRequirementArr SelectorRequirement_DeepCopyInto))"
    by (intro deep_copy_intro cell_views)
qed (rule ext, simp add: NodeSelectorTerm_DeepCopyInto_def copyPair_def bindE_assoc)

lemma NodeSelector_deep [deep_copy_intro]: "deep_copier NodeSelectorT NodeSelector_DeepCopyInto"
  unfolding NodeSelectorT_def
proof (rule deep_copier_structI)
  show "go_struct
     mnlNodeSelectorTerms
     (\<lambda>f s. s\<lparr>mnlNodeSelectorTerms := f\<rparr>)
     (\<lambda>s :: MNodeSelector. ())"
    by unfold_locales (auto intro!: MNodeSelector.equality)
  show "deep_copier
     (sliceT atNodeSelectorTermArr NodeSelectorTermT)
     (copySlice CNodeSelectorTermArr atNodeSelectorTermArr NodeSelectorTerm_DeepCopyInto)"
    by (intro deep_copy_intro cell_views)
qed (rule ext, simp add: NodeSelector_DeepCopyInto_def copyPair_def bindE_assoc)

lemma PreferredSchedulingTerm_deep [deep_copy_intro]: "deep_copier PreferredSchedulingTermT PreferredSchedulingTerm_DeepCopyInto"
  unfolding PreferredSchedulingTermT_def
proof (rule deep_copier_structI)
  show "go_struct
     mptPreference
     (\<lambda>f s. s\<lparr>mptPreference := f\<rparr>)
     (\<lambda>s :: MPreferredSchedulingTerm. (mptWeight s))"
    by unfold_locales (auto intro!: MPreferredSchedulingTerm.equality)
  show "deep_copier
     NodeSelectorTermT
     NodeSelectorTerm_DeepCopyInto"
    by (intro deep_copy_intro cell_views)
qed (rule ext, simp add: PreferredSchedulingTerm_DeepCopyInto_def copyPair_def bindE_assoc)

lemma NodeAffinity_deep [deep_copy_intro]: "deep_copier NodeAffinityT NodeAffinity_DeepCopyInto"
  unfolding NodeAffinityT_def
proof (rule deep_copier_structI)
  show "go_struct
     (\<lambda>s. (mnaRequired s, mnaPreferred s))
     (\<lambda>f s. s\<lparr>mnaRequired := (fst f), mnaPreferred := (snd f)\<rparr>)
     (\<lambda>s :: MNodeAffinity. ())"
    by unfold_locales (auto intro!: MNodeAffinity.equality)
  show "deep_copier
     (pairT (ptrT atNodeSelector NodeSelectorT) (sliceT atPreferredSchedulingTermArr
       PreferredSchedulingTermT))
     (copyPair (copyPtr CNodeSelector atNodeSelector NodeSelector_DeepCopyInto) (copySlice
       CPreferredSchedulingTermArr atPreferredSchedulingTermArr
       PreferredSchedulingTerm_DeepCopyInto))"
    by (intro deep_copy_intro cell_views)
qed (rule ext, simp add: NodeAffinity_DeepCopyInto_def copyPair_def bindE_assoc)

lemma LabelSelector_deep [deep_copy_intro]: "deep_copier LabelSelectorT LabelSelector_DeepCopyInto"
  unfolding LabelSelectorT_def
proof (rule deep_copier_structI)
  show "go_struct
     (\<lambda>s. (mlsMatchLabels s, mlsMatchExpressions s))
     (\<lambda>f s. s\<lparr>mlsMatchLabels := (fst f), mlsMatchExpressions := (snd f)\<rparr>)
     (\<lambda>s :: MLabelSelector. ())"
    by unfold_locales (auto intro!: MLabelSelector.equality)
  show "deep_copier
     (pairT (ptrT atStrMap leafT) (sliceT atSelectorRequirementArr SelectorRequirementT))
     (copyPair (copyPtr CStrMap atStrMap returnE) (copySlice CSelectorRequirementArr
       atSelectorRequirementArr SelectorRequirement_DeepCopyInto))"
    by (intro deep_copy_intro cell_views)
qed (rule ext, simp add: LabelSelector_DeepCopyInto_def copyPair_def bindE_assoc)

lemma PodAffinityTerm_deep [deep_copy_intro]: "deep_copier PodAffinityTermT PodAffinityTerm_DeepCopyInto"
  unfolding PodAffinityTermT_def
proof (rule deep_copier_structI)
  show "go_struct
     (\<lambda>s. (mpaLabelSelector s, mpaNamespaces s, mpaNamespaceSelector s))
     (\<lambda>f s. s\<lparr>mpaLabelSelector := (fst f), mpaNamespaces := (fst (snd f)),
       mpaNamespaceSelector := (snd (snd f))\<rparr>)
     (\<lambda>s :: MPodAffinityTerm. (mpaTopologyKey s))"
    by unfold_locales (auto intro!: MPodAffinityTerm.equality)
  show "deep_copier
     (pairT (ptrT atLabelSelector LabelSelectorT) (pairT (sliceT atStrings leafT) (ptrT
       atLabelSelector LabelSelectorT)))
     (copyPair (copyPtr CLabelSelector atLabelSelector LabelSelector_DeepCopyInto) (copyPair
       (copySlice CStrings atStrings returnE) (copyPtr CLabelSelector atLabelSelector
       LabelSelector_DeepCopyInto)))"
    by (intro deep_copy_intro cell_views)
qed (rule ext, simp add: PodAffinityTerm_DeepCopyInto_def copyPair_def bindE_assoc)

lemma WeightedPodAffinityTerm_deep [deep_copy_intro]: "deep_copier WeightedPodAffinityTermT WeightedPodAffinityTerm_DeepCopyInto"
  unfolding WeightedPodAffinityTermT_def
proof (rule deep_copier_structI)
  show "go_struct
     mwtPodAffinityTerm
     (\<lambda>f s. s\<lparr>mwtPodAffinityTerm := f\<rparr>)
     (\<lambda>s :: MWeightedPodAffinityTerm. (mwtWeight s))"
    by unfold_locales (auto intro!: MWeightedPodAffinityTerm.equality)
  show "deep_copier
     PodAffinityTermT
     PodAffinityTerm_DeepCopyInto"
    by (intro deep_copy_intro cell_views)
qed (rule ext, simp add: WeightedPodAffinityTerm_DeepCopyInto_def copyPair_def bindE_assoc)

lemma PodAffinity_deep [deep_copy_intro]: "deep_copier PodAffinityT PodAffinity_DeepCopyInto"
  unfolding PodAffinityT_def
proof (rule deep_copier_structI)
  show "go_struct
     (\<lambda>s. (mpfRequired s, mpfPreferred s))
     (\<lambda>f s. s\<lparr>mpfRequired := (fst f), mpfPreferred := (snd f)\<rparr>)
     (\<lambda>s :: MPodAffinity. ())"
    by unfold_locales (auto intro!: MPodAffinity.equality)
  show "deep_copier
     (pairT (sliceT atPodAffinityTermArr PodAffinityTermT) (sliceT atWeightedPodAffinityTermArr
       WeightedPodAffinityTermT))
     (copyPair (copySlice CPodAffinityTermArr atPodAffinityTermArr PodAffinityTerm_DeepCopyInto)
       (copySlice CWeightedPodAffinityTermArr atWeightedPodAffinityTermArr
       WeightedPodAffinityTerm_DeepCopyInto))"
    by (intro deep_copy_intro cell_views)
qed (rule ext, simp add: PodAffinity_DeepCopyInto_def copyPair_def bindE_assoc)

end
