(* ===== verification/DeepCopy.thy ===== *)
theory DeepCopy
  imports KubeCopies
begin

text \<open>
  The deep copies of the custom resources: \<open>zz_generated.deepcopy.go\<close> of
  \<open>pkg/apis/portworx/v1beta1\<close> and \<open>pkg/apis/portworx/v1beta2\<close>.  A \<open>DeepCopyInto\<close> takes the struct it
  reads through \<open>in\<close> and returns the struct it leaves in \<open>out\<close>: the first statement of every one of them,
  \<^verbatim>\<open>*out = *in\<close>, overwrites all of \<open>out\<close>, so the statements that only assign a plain field again
  (\<^verbatim>\<open>out.TypeMeta = in.TypeMeta\<close>) change nothing.  \<open>DeepCopy\<close> works on pointers, and
  \<open>DeepCopyObject\<close> returns an interface value, which is nil or holds a typed, possibly nil, pointer.
\<close>

section \<open>\<open>v1beta1\<close>\<close>

datatype robject =
    RCluster "addr option"
  | RClusterList "addr option"
  | RPlacement "addr option"
  | RPlacementSpec "addr option"
  | RVolumePlacementStrategy "addr option"
  | RVolumePlacementStrategyList "addr option"
  | RVolumePlacementStrategy2 "addr option"
  | RVolumePlacementStrategyList2 "addr option"

definition NodeNetwork_DeepCopyInto :: "NodeNetwork \<Rightarrow> (gheap, NodeNetwork) go" where
  "NodeNetwork_DeepCopyInto i = returnE i"

definition NodeNetwork_DeepCopy :: "addr option \<Rightarrow> (gheap, addr option) go" where
  "NodeNetwork_DeepCopy = copyPtr CNodeNetwork atNodeNetwork NodeNetwork_DeepCopyInto"

definition StatusInfo_DeepCopyInto :: "StatusInfo \<Rightarrow> (gheap, StatusInfo) go" where
  "StatusInfo_DeepCopyInto i = returnE i"

definition StatusInfo_DeepCopy :: "addr option \<Rightarrow> (gheap, addr option) go" where
  "StatusInfo_DeepCopy = copyPtr CStatusInfo atStatusInfo StatusInfo_DeepCopyInto"

definition NodeStatus_DeepCopyInto :: "NodeStatus \<Rightarrow> (gheap, NodeStatus) go" where
  "NodeStatus_DeepCopyInto i = returnE (i\<lparr>nsInfo := nsInfo i\<rparr>)"

definition NodeStatus_DeepCopy :: "addr option \<Rightarrow> (gheap, addr option) go" where
  "NodeStatus_DeepCopy = copyPtr CNodeStatus atNodeStatus NodeStatus_DeepCopyInto"

definition KvdbSpec_DeepCopyInto ::
    "MKvdbSpec \<Rightarrow> (gheap, MKvdbSpec) go" where
  "KvdbSpec_DeepCopyInto i =
     bindE (copySlice CStrings atStrings returnE (mkvEndpoints i)) (\<lambda>x.
     returnE (i\<lparr>mkvEndpoints := x\<rparr>))"

definition KvdbSpec_DeepCopy :: "addr option \<Rightarrow> (gheap, addr option) go" where
  "KvdbSpec_DeepCopy = copyPtr CKvdbSpec atKvdbSpec KvdbSpec_DeepCopyInto"

definition StorageSpec_DeepCopyInto ::
    "MStorageSpec \<Rightarrow> (gheap, MStorageSpec) go" where
  "StorageSpec_DeepCopyInto i =
     bindE (copySlice CStrings atStrings returnE (mstDevices i)) (\<lambda>x.
     returnE (i\<lparr>mstDevices := x\<rparr>))"

definition StorageSpec_DeepCopy :: "addr option \<Rightarrow> (gheap, addr option) go" where
  "StorageSpec_DeepCopy = copyPtr CStorageSpec atStorageSpec StorageSpec_DeepCopyInto"

definition Placement_DeepCopyInto ::
    "MPlacement \<Rightarrow> (gheap, MPlacement) go" where
  "Placement_DeepCopyInto i =
     bindE (copyPtr CNodeAffinity atNodeAffinity NodeAffinity_DeepCopyInto
              (mplNodeAffinity i)) (\<lambda>x1.
     bindE (copyPtr CPodAffinity atPodAffinity PodAffinity_DeepCopyInto
              (mplPodAffinity i)) (\<lambda>x2.
     bindE (copyPtr CPodAffinity atPodAffinity PodAffinity_DeepCopyInto
              (mplPodAntiAffinity i)) (\<lambda>x3.
     bindE (copySlice CTolerationArr atTolerationArr Toleration_DeepCopyInto
              (mplTolerations i)) (\<lambda>x4.
     returnE (i\<lparr>mplNodeAffinity := x1, mplPodAffinity := x2, mplPodAntiAffinity := x3,
                 mplTolerations := x4\<rparr>)))))"

definition Placement_DeepCopy :: "addr option \<Rightarrow> (gheap, addr option) go" where
  "Placement_DeepCopy = copyPtr CPlacement atPlacement Placement_DeepCopyInto"

definition Placement_DeepCopyObject :: "addr option \<Rightarrow> (gheap, robject option) go" where
  "Placement_DeepCopyObject p =
     bindE (Placement_DeepCopy p) (\<lambda>c.
       if c \<noteq> None then returnE (Some (RPlacement c)) else returnE None)"

definition PlacementSpec_DeepCopyInto ::
    "MPlacementSpec \<Rightarrow> (gheap, MPlacementSpec) go" where
  "PlacementSpec_DeepCopyInto i =
     bindE (Placement_DeepCopyInto (mpsPX i)) (\<lambda>x.
     returnE (i\<lparr>mpsPX := x\<rparr>))"

definition PlacementSpec_DeepCopy :: "addr option \<Rightarrow> (gheap, addr option) go" where
  "PlacementSpec_DeepCopy = copyPtr CPlacementSpec atPlacementSpec PlacementSpec_DeepCopyInto"

definition PlacementSpec_DeepCopyObject :: "addr option \<Rightarrow> (gheap, robject option) go" where
  "PlacementSpec_DeepCopyObject p =
     bindE (PlacementSpec_DeepCopy p) (\<lambda>c.
       if c \<noteq> None then returnE (Some (RPlacementSpec c)) else returnE None)"

definition ClusterSpec_DeepCopyInto ::
    "MClusterSpec \<Rightarrow> (gheap, MClusterSpec) go" where
  "ClusterSpec_DeepCopyInto i =
     bindE (KvdbSpec_DeepCopyInto (mcsKvdb i)) (\<lambda>x1.
     bindE (StorageSpec_DeepCopyInto (mcsStorage i)) (\<lambda>x2.
     bindE (PlacementSpec_DeepCopyInto (mcsPlacement i)) (\<lambda>x3.
     bindE (copySlice CEnvVarArr atEnvVarArr EnvVar_DeepCopyInto (mcsEnv i)) (\<lambda>x4.
     returnE (i\<lparr>mcsKvdb := x1, mcsStorage := x2, mcsPlacement := x3, mcsEnv := x4\<rparr>)))))"

definition ClusterSpec_DeepCopy :: "addr option \<Rightarrow> (gheap, addr option) go" where
  "ClusterSpec_DeepCopy = copyPtr CClusterSpec atClusterSpec ClusterSpec_DeepCopyInto"

definition Cluster_DeepCopyInto ::
    "MCluster \<Rightarrow> (gheap, MCluster) go" where
  "Cluster_DeepCopyInto i =
     bindE (ObjectMeta_DeepCopyInto (mclObjectMeta i)) (\<lambda>x1.
     bindE (ClusterSpec_DeepCopyInto (mclSpec i)) (\<lambda>x2.
     returnE (i\<lparr>mclObjectMeta := x1, mclSpec := x2\<rparr>)))"

definition Cluster_DeepCopy :: "addr option \<Rightarrow> (gheap, addr option) go" where
  "Cluster_DeepCopy = copyPtr CCluster atCluster Cluster_DeepCopyInto"

definition Cluster_DeepCopyObject :: "addr option \<Rightarrow> (gheap, robject option) go" where
  "Cluster_DeepCopyObject p =
     bindE (Cluster_DeepCopy p) (\<lambda>c.
       if c \<noteq> None then returnE (Some (RCluster c)) else returnE None)"

definition ClusterStatus_DeepCopyInto ::
    "MClusterStatus \<Rightarrow> (gheap, MClusterStatus) go" where
  "ClusterStatus_DeepCopyInto i =
     bindE (copySlice CNodeStatuses atNodeStatuses returnE (mctNodeStatuses i)) (\<lambda>x.
     returnE (i\<lparr>mctNodeStatuses := x\<rparr>))"

definition ClusterStatus_DeepCopy :: "addr option \<Rightarrow> (gheap, addr option) go" where
  "ClusterStatus_DeepCopy = copyPtr CClusterStatus atClusterStatus ClusterStatus_DeepCopyInto"

definition LabelSelectorRequirement_DeepCopyInto ::
    "MLabelSelectorRequirement \<Rightarrow> (gheap, MLabelSelectorRequirement) go" where
  "LabelSelectorRequirement_DeepCopyInto i =
     bindE (copySlice CStrings atStrings returnE (mlrValues i)) (\<lambda>x.
     returnE (i\<lparr>mlrValues := x\<rparr>))"

definition LabelSelectorRequirement_DeepCopy :: "addr option \<Rightarrow> (gheap, addr option) go" where
  "LabelSelectorRequirement_DeepCopy = copyPtr CLabelSelectorRequirement atLabelSelectorRequirement LabelSelectorRequirement_DeepCopyInto"

definition VolumePlacementRule_DeepCopyInto ::
    "MVolumePlacementRule \<Rightarrow> (gheap, MVolumePlacementRule) go" where
  "VolumePlacementRule_DeepCopyInto i =
     bindE (copySlice CLabelSelectorRequirementPtrs atLabelSelectorRequirementPtrs (copyPtr CLabelSelectorRequirement atLabelSelectorRequirement LabelSelectorRequirement_DeepCopyInto)
              (mvrMatchExpressions i)) (\<lambda>x.
     returnE (i\<lparr>mvrMatchExpressions := x\<rparr>))"

definition VolumePlacementRule_DeepCopy :: "addr option \<Rightarrow> (gheap, addr option) go" where
  "VolumePlacementRule_DeepCopy = copyPtr CVolumePlacementRule atVolumePlacementRule VolumePlacementRule_DeepCopyInto"

definition VolumePlacementSpec_DeepCopyInto ::
    "MVolumePlacementSpec \<Rightarrow> (gheap, MVolumePlacementSpec) go" where
  "VolumePlacementSpec_DeepCopyInto i =
     bindE (copySlice CVolumePlacementRuleArr atVolumePlacementRuleArr VolumePlacementRule_DeepCopyInto
              (mvsRules i)) (\<lambda>x.
     returnE (i\<lparr>mvsRules := x\<rparr>))"

definition VolumePlacementSpec_DeepCopy :: "addr option \<Rightarrow> (gheap, addr option) go" where
  "VolumePlacementSpec_DeepCopy = copyPtr CVolumePlacementSpec atVolumePlacementSpec VolumePlacementSpec_DeepCopyInto"

definition VolumePlacementStrategy_DeepCopyInto ::
    "MVolumePlacementStrategy \<Rightarrow> (gheap, MVolumePlacementStrategy) go" where
  "VolumePlacementStrategy_DeepCopyInto i =
     bindE (ObjectMeta_DeepCopyInto (mvpObjectMeta i)) (\<lambda>x1.
     bindE (VolumePlacementSpec_DeepCopyInto (mvpSpec i)) (\<lambda>x2.
     returnE (i\<lparr>mvpObjectMeta := x1, mvpSpec := x2\<rparr>)))"

definition VolumePlacementStrategy_DeepCopy :: "addr option \<Rightarrow> (gheap, addr option) go" where
  "VolumePlacementStrategy_DeepCopy = copyPtr CVolumePlacementStrategy atVolumePlacementStrategy VolumePlacementStrategy_DeepCopyInto"

definition VolumePlacementStrategy_DeepCopyObject :: "addr option \<Rightarrow> (gheap, robject option) go" where
  "VolumePlacementStrategy_DeepCopyObject p =
     bindE (VolumePlacementStrategy_DeepCopy p) (\<lambda>c.
       if c \<noteq> None then returnE (Some (RVolumePlacementStrategy c)) else returnE None)"

definition ClusterList_DeepCopyInto ::
    "MClusterList \<Rightarrow> (gheap, MClusterList) go" where
  "ClusterList_DeepCopyInto i =
     bindE (copySlice CClusterArr atClusterArr Cluster_DeepCopyInto
              (mxlItems i)) (\<lambda>x.
     returnE (i\<lparr>mxlTypeMeta := mxlTypeMeta i, mxlListMeta := mxlListMeta i, mxlItems := x\<rparr>))"

definition ClusterList_DeepCopy :: "addr option \<Rightarrow> (gheap, addr option) go" where
  "ClusterList_DeepCopy = copyPtr CClusterList atClusterList ClusterList_DeepCopyInto"

definition ClusterList_DeepCopyObject :: "addr option \<Rightarrow> (gheap, robject option) go" where
  "ClusterList_DeepCopyObject p =
     bindE (ClusterList_DeepCopy p) (\<lambda>c.
       if c \<noteq> None then returnE (Some (RClusterList c)) else returnE None)"

definition VolumePlacementStrategyList_DeepCopyInto ::
    "MVolumePlacementStrategyList \<Rightarrow> (gheap, MVolumePlacementStrategyList) go" where
  "VolumePlacementStrategyList_DeepCopyInto i =
     bindE (copySlice CVolumePlacementStrategyArr atVolumePlacementStrategyArr VolumePlacementStrategy_DeepCopyInto
              (mylItems i)) (\<lambda>x.
     returnE (i\<lparr>mylTypeMeta := mylTypeMeta i, mylListMeta := mylListMeta i, mylItems := x\<rparr>))"

definition VolumePlacementStrategyList_DeepCopy :: "addr option \<Rightarrow> (gheap, addr option) go" where
  "VolumePlacementStrategyList_DeepCopy = copyPtr CVolumePlacementStrategyList atVolumePlacementStrategyList VolumePlacementStrategyList_DeepCopyInto"

definition VolumePlacementStrategyList_DeepCopyObject :: "addr option \<Rightarrow> (gheap, robject option) go" where
  "VolumePlacementStrategyList_DeepCopyObject p =
     bindE (VolumePlacementStrategyList_DeepCopy p) (\<lambda>c.
       if c \<noteq> None then returnE (Some (RVolumePlacementStrategyList c)) else returnE None)"

section \<open>\<open>v1beta2\<close>\<close>

definition CommonPlacementSpec_DeepCopyInto ::
    "MCommonPlacementSpec \<Rightarrow> (gheap, MCommonPlacementSpec) go" where
  "CommonPlacementSpec_DeepCopyInto i =
     bindE (copySlice CLabelSelectorRequirementPtrs atLabelSelectorRequirementPtrs (copyPtr CLabelSelectorRequirement atLabelSelectorRequirement LabelSelectorRequirement_DeepCopyInto)
              (mcpMatchExpressions i)) (\<lambda>x.
     returnE (i\<lparr>mcpMatchExpressions := x\<rparr>))"

definition CommonPlacementSpec_DeepCopy :: "addr option \<Rightarrow> (gheap, addr option) go" where
  "CommonPlacementSpec_DeepCopy = copyPtr CCommonPlacementSpec atCommonPlacementSpec CommonPlacementSpec_DeepCopyInto"

definition ReplicaPlacementSpec_DeepCopyInto ::
    "MReplicaPlacementSpec \<Rightarrow> (gheap, MReplicaPlacementSpec) go" where
  "ReplicaPlacementSpec_DeepCopyInto i =
     bindE (CommonPlacementSpec_DeepCopyInto (mrpCommonPlacementSpec i)) (\<lambda>x.
     returnE (i\<lparr>mrpCommonPlacementSpec := x\<rparr>))"

definition ReplicaPlacementSpec_DeepCopy :: "addr option \<Rightarrow> (gheap, addr option) go" where
  "ReplicaPlacementSpec_DeepCopy = copyPtr CReplicaPlacementSpec atReplicaPlacementSpec ReplicaPlacementSpec_DeepCopyInto"

definition VolumePlacementSpec2_DeepCopyInto ::
    "MVolumePlacementSpec2 \<Rightarrow> (gheap, MVolumePlacementSpec2) go" where
  "VolumePlacementSpec2_DeepCopyInto i =
     bindE (copySlice CReplicaPlacementSpecPtrs atReplicaPlacementSpecPtrs (copyPtr CReplicaPlacementSpec atReplicaPlacementSpec ReplicaPlacementSpec_DeepCopyInto)
              (mv2ReplicaAffinity i)) (\<lambda>x1.
     bindE (copySlice CReplicaPlacementSpecPtrs atReplicaPlacementSpecPtrs (copyPtr CReplicaPlacementSpec atReplicaPlacementSpec ReplicaPlacementSpec_DeepCopyInto)
              (mv2ReplicaAntiAffinity i)) (\<lambda>x2.
     bindE (copySlice CCommonPlacementSpecPtrs atCommonPlacementSpecPtrs (copyPtr CCommonPlacementSpec atCommonPlacementSpec CommonPlacementSpec_DeepCopyInto)
              (mv2VolumeAffinity i)) (\<lambda>x3.
     bindE (copySlice CCommonPlacementSpecPtrs atCommonPlacementSpecPtrs (copyPtr CCommonPlacementSpec atCommonPlacementSpec CommonPlacementSpec_DeepCopyInto)
              (mv2VolumeAntiAffinity i)) (\<lambda>x4.
     returnE (i\<lparr>mv2ReplicaAffinity := x1, mv2ReplicaAntiAffinity := x2,
                 mv2VolumeAffinity := x3, mv2VolumeAntiAffinity := x4\<rparr>)))))"

definition VolumePlacementSpec2_DeepCopy :: "addr option \<Rightarrow> (gheap, addr option) go" where
  "VolumePlacementSpec2_DeepCopy = copyPtr CVolumePlacementSpec2 atVolumePlacementSpec2 VolumePlacementSpec2_DeepCopyInto"

definition VolumePlacementStrategy2_DeepCopyInto ::
    "MVolumePlacementStrategy2 \<Rightarrow> (gheap, MVolumePlacementStrategy2) go" where
  "VolumePlacementStrategy2_DeepCopyInto i =
     bindE (ObjectMeta_DeepCopyInto (mw2ObjectMeta i)) (\<lambda>x1.
     bindE (VolumePlacementSpec2_DeepCopyInto (mw2Spec i)) (\<lambda>x2.
     returnE (i\<lparr>mw2ObjectMeta := x1, mw2Spec := x2\<rparr>)))"

definition VolumePlacementStrategy2_DeepCopy :: "addr option \<Rightarrow> (gheap, addr option) go" where
  "VolumePlacementStrategy2_DeepCopy = copyPtr CVolumePlacementStrategy2 atVolumePlacementStrategy2 VolumePlacementStrategy2_DeepCopyInto"

definition VolumePlacementStrategy2_DeepCopyObject :: "addr option \<Rightarrow> (gheap, robject option) go" where
  "VolumePlacementStrategy2_DeepCopyObject p =
     bindE (VolumePlacementStrategy2_DeepCopy p) (\<lambda>c.
       if c \<noteq> None then returnE (Some (RVolumePlacementStrategy2 c)) else returnE None)"

definition VolumePlacementStrategyList2_DeepCopyInto ::
    "MVolumePlacementStrategyList2 \<Rightarrow> (gheap, MVolumePlacementStrategyList2) go" where
  "VolumePlacementStrategyList2_DeepCopyInto i =
     bindE (copySlice CVolumePlacementStrategy2Arr atVolumePlacementStrategy2Arr VolumePlacementStrategy2_DeepCopyInto
              (mzlItems i)) (\<lambda>x.
     returnE (i\<lparr>mzlTypeMeta := mzlTypeMeta i, mzlListMeta := mzlListMeta i, mzlItems := x\<rparr>))"

definition VolumePlacementStrategyList2_DeepCopy :: "addr option \<Rightarrow> (gheap, addr option) go" where
  "VolumePlacementStrategyList2_DeepCopy = copyPtr CVolumePlacementStrategyList2 atVolumePlacementStrategyList2 VolumePlacementStrategyList2_DeepCopyInto"

definition VolumePlacementStrategyList2_DeepCopyObject :: "addr option \<Rightarrow> (gheap, robject option) go" where
  "VolumePlacementStrategyList2_DeepCopyObject p =
     bindE (VolumePlacementStrategyList2_DeepCopy p) (\<lambda>c.
       if c \<noteq> None then returnE (Some (RVolumePlacementStrategyList2 c)) else returnE None)"

section \<open>How the resources are read\<close>

definition KvdbSpecT where
  "KvdbSpecT = structT
     mkvEndpoints
     (\<lambda>s :: MKvdbSpec. (mkvBasicAuthSecret s, mkvCertificateSecret s, mkvACLTokenSecret
       s))
     (sliceT atStrings leafT)"

definition StorageSpecT where
  "StorageSpecT = structT
     mstDevices
     (\<lambda>s :: MStorageSpec. (mstZeroStorage s, mstForce s, mstUseAll s,
       mstUseAllWithParitions s))
     (sliceT atStrings leafT)"

definition PlacementT where
  "PlacementT = structT
     (\<lambda>s. (mplNodeAffinity s, mplPodAffinity s, mplPodAntiAffinity s, mplTolerations s))
     (\<lambda>s :: MPlacement. (mplTypeMeta s))
     (pairT (ptrT atNodeAffinity NodeAffinityT) (pairT (ptrT atPodAffinity PodAffinityT) (pairT
       (ptrT atPodAffinity PodAffinityT) (sliceT atTolerationArr TolerationT))))"

definition PlacementSpecT where
  "PlacementSpecT = structT
     mpsPX
     (\<lambda>s :: MPlacementSpec. (mpsTypeMeta s))
     PlacementT"

definition ClusterSpecT where
  "ClusterSpecT = structT
     (\<lambda>s. (mcsKvdb s, mcsStorage s, mcsPlacement s, mcsEnv s))
     (\<lambda>s :: MClusterSpec. (mcsPXImage s, mcsPXTag s, mcsOCIMonImage s, mcsOCIMonTag s,
       mcsNetwork s))
     (pairT KvdbSpecT (pairT StorageSpecT (pairT PlacementSpecT (sliceT atEnvVarArr EnvVarT))))"

definition ClusterT where
  "ClusterT = structT
     (\<lambda>s. (mclObjectMeta s, mclSpec s))
     (\<lambda>s :: MCluster. (mclTypeMeta s))
     (pairT ObjectMetaT ClusterSpecT)"

definition ClusterStatusT where
  "ClusterStatusT = structT
     mctNodeStatuses
     (\<lambda>s :: MClusterStatus. (mctStatusInfo s, mctName s))
     (sliceT atNodeStatuses leafT)"

definition LabelSelectorRequirementT where
  "LabelSelectorRequirementT = structT
     mlrValues
     (\<lambda>s :: MLabelSelectorRequirement. (mlrKey s, mlrOperator s))
     (sliceT atStrings leafT)"

definition VolumePlacementRuleT where
  "VolumePlacementRuleT = structT
     mvrMatchExpressions
     (\<lambda>s :: MVolumePlacementRule. (mvrAffectedReplicas s, mvrWeight s, mvrEnforcement s,
       mvrType s))
     (sliceT atLabelSelectorRequirementPtrs (ptrT atLabelSelectorRequirement
       LabelSelectorRequirementT))"

definition VolumePlacementSpecT where
  "VolumePlacementSpecT = structT
     mvsRules
     (\<lambda>s :: MVolumePlacementSpec. ())
     (sliceT atVolumePlacementRuleArr VolumePlacementRuleT)"

definition VolumePlacementStrategyT where
  "VolumePlacementStrategyT = structT
     (\<lambda>s. (mvpObjectMeta s, mvpSpec s))
     (\<lambda>s :: MVolumePlacementStrategy. (mvpTypeMeta s))
     (pairT ObjectMetaT VolumePlacementSpecT)"

definition CommonPlacementSpecT where
  "CommonPlacementSpecT = structT
     mcpMatchExpressions
     (\<lambda>s :: MCommonPlacementSpec. (mcpWeight s, mcpEnforcement s, mcpTopologyKey s))
     (sliceT atLabelSelectorRequirementPtrs (ptrT atLabelSelectorRequirement
       LabelSelectorRequirementT))"

definition ReplicaPlacementSpecT where
  "ReplicaPlacementSpecT = structT
     mrpCommonPlacementSpec
     (\<lambda>s :: MReplicaPlacementSpec. (mrpAffectedReplicas s))
     CommonPlacementSpecT"

definition VolumePlacementSpec2T where
  "VolumePlacementSpec2T = structT
     (\<lambda>s. (mv2ReplicaAffinity s, mv2ReplicaAntiAffinity s, mv2VolumeAffinity s,
       mv2VolumeAntiAffinity s))
     (\<lambda>s :: MVolumePlacementSpec2. ())
     (pairT (sliceT atReplicaPlacementSpecPtrs (ptrT atReplicaPlacementSpec
       ReplicaPlacementSpecT)) (pairT (sliceT atReplicaPlacementSpecPtrs (ptrT
       atReplicaPlacementSpec ReplicaPlacementSpecT)) (pairT (sliceT atCommonPlacementSpecPtrs
       (ptrT atCommonPlacementSpec CommonPlacementSpecT)) (sliceT atCommonPlacementSpecPtrs
       (ptrT atCommonPlacementSpec CommonPlacementSpecT)))))"

definition VolumePlacementStrategy2T where
  "VolumePlacementStrategy2T = structT
     (\<lambda>s. (mw2ObjectMeta s, mw2Spec s))
     (\<lambda>s :: MVolumePlacementStrategy2. (mw2TypeMeta s))
     (pairT ObjectMetaT VolumePlacementSpec2T)"

text \<open>Of a list, \<open>RemainingItemCount\<close> is the reference inside the embedded \<open>ListMeta\<close>.\<close>

definition ClusterListT where
  "ClusterListT = structT
     (\<lambda>s. (mlmRemainingItemCount (mxlListMeta s), mxlItems s))
     (\<lambda>s :: MClusterList. (mxlTypeMeta s, mlmSelfLink (mxlListMeta s),
        mlmResourceVersion (mxlListMeta s), mlmContinue (mxlListMeta s)))
     (pairT (ptrT atInt64 leafT) (sliceT atClusterArr ClusterT))"

definition VolumePlacementStrategyListT where
  "VolumePlacementStrategyListT = structT
     (\<lambda>s. (mlmRemainingItemCount (mylListMeta s), mylItems s))
     (\<lambda>s :: MVolumePlacementStrategyList. (mylTypeMeta s, mlmSelfLink (mylListMeta s),
        mlmResourceVersion (mylListMeta s), mlmContinue (mylListMeta s)))
     (pairT (ptrT atInt64 leafT) (sliceT atVolumePlacementStrategyArr VolumePlacementStrategyT))"

definition VolumePlacementStrategyList2T where
  "VolumePlacementStrategyList2T = structT
     (\<lambda>s. (mlmRemainingItemCount (mzlListMeta s), mzlItems s))
     (\<lambda>s :: MVolumePlacementStrategyList2. (mzlTypeMeta s, mlmSelfLink (mzlListMeta s),
        mlmResourceVersion (mzlListMeta s), mlmContinue (mzlListMeta s)))
     (pairT (ptrT atInt64 leafT) (sliceT atVolumePlacementStrategy2Arr VolumePlacementStrategy2T))"

section \<open>The copies are deep\<close>

lemma leaf_copies_deep [deep_copy_intro]:
  "deep_copier leafT NodeNetwork_DeepCopyInto" "deep_copier leafT StatusInfo_DeepCopyInto"
  "deep_copier leafT NodeStatus_DeepCopyInto"
proof -
  have "NodeNetwork_DeepCopyInto = returnE" "StatusInfo_DeepCopyInto = returnE"
    "NodeStatus_DeepCopyInto = returnE"
    by (rule ext, simp add: NodeNetwork_DeepCopyInto_def StatusInfo_DeepCopyInto_def
          NodeStatus_DeepCopyInto_def)+
  then show "deep_copier leafT NodeNetwork_DeepCopyInto" "deep_copier leafT StatusInfo_DeepCopyInto"
    "deep_copier leafT NodeStatus_DeepCopyInto"
    using deep_copy_leaf by simp_all
qed

lemma KvdbSpec_deep [deep_copy_intro]: "deep_copier KvdbSpecT KvdbSpec_DeepCopyInto"
  unfolding KvdbSpecT_def
proof (rule deep_copier_structI)
  show "go_struct
     mkvEndpoints
     (\<lambda>f s. s\<lparr>mkvEndpoints := f\<rparr>)
     (\<lambda>s :: MKvdbSpec. (mkvBasicAuthSecret s, mkvCertificateSecret s, mkvACLTokenSecret
       s))"
    by unfold_locales (auto intro!: MKvdbSpec.equality)
  show "deep_copier
     (sliceT atStrings leafT)
     (copySlice CStrings atStrings returnE)"
    by (intro deep_copy_intro cell_views)
qed (rule ext, simp add: KvdbSpec_DeepCopyInto_def copyPair_def bindE_assoc)

lemma StorageSpec_deep [deep_copy_intro]: "deep_copier StorageSpecT StorageSpec_DeepCopyInto"
  unfolding StorageSpecT_def
proof (rule deep_copier_structI)
  show "go_struct
     mstDevices
     (\<lambda>f s. s\<lparr>mstDevices := f\<rparr>)
     (\<lambda>s :: MStorageSpec. (mstZeroStorage s, mstForce s, mstUseAll s,
       mstUseAllWithParitions s))"
    by unfold_locales (auto intro!: MStorageSpec.equality)
  show "deep_copier
     (sliceT atStrings leafT)
     (copySlice CStrings atStrings returnE)"
    by (intro deep_copy_intro cell_views)
qed (rule ext, simp add: StorageSpec_DeepCopyInto_def copyPair_def bindE_assoc)

lemma Placement_deep [deep_copy_intro]: "deep_copier PlacementT Placement_DeepCopyInto"
  unfolding PlacementT_def
proof (rule deep_copier_structI)
  show "go_struct
     (\<lambda>s. (mplNodeAffinity s, mplPodAffinity s, mplPodAntiAffinity s, mplTolerations s))
     (\<lambda>f s. s\<lparr>mplNodeAffinity := (fst f), mplPodAffinity := (fst (snd f)),
       mplPodAntiAffinity := (fst (snd (snd f))), mplTolerations := (snd (snd (snd f)))\<rparr>)
     (\<lambda>s :: MPlacement. (mplTypeMeta s))"
    by unfold_locales (auto intro!: MPlacement.equality)
  show "deep_copier
     (pairT (ptrT atNodeAffinity NodeAffinityT) (pairT (ptrT atPodAffinity PodAffinityT) (pairT
       (ptrT atPodAffinity PodAffinityT) (sliceT atTolerationArr TolerationT))))
     (copyPair (copyPtr CNodeAffinity atNodeAffinity NodeAffinity_DeepCopyInto) (copyPair
       (copyPtr CPodAffinity atPodAffinity PodAffinity_DeepCopyInto) (copyPair (copyPtr
       CPodAffinity atPodAffinity PodAffinity_DeepCopyInto) (copySlice CTolerationArr
       atTolerationArr Toleration_DeepCopyInto))))"
    by (intro deep_copy_intro cell_views)
qed (rule ext, simp add: Placement_DeepCopyInto_def copyPair_def bindE_assoc)

lemma PlacementSpec_deep [deep_copy_intro]: "deep_copier PlacementSpecT PlacementSpec_DeepCopyInto"
  unfolding PlacementSpecT_def
proof (rule deep_copier_structI)
  show "go_struct
     mpsPX
     (\<lambda>f s. s\<lparr>mpsPX := f\<rparr>)
     (\<lambda>s :: MPlacementSpec. (mpsTypeMeta s))"
    by unfold_locales (auto intro!: MPlacementSpec.equality)
  show "deep_copier
     PlacementT
     Placement_DeepCopyInto"
    by (intro deep_copy_intro cell_views)
qed (rule ext, simp add: PlacementSpec_DeepCopyInto_def copyPair_def bindE_assoc)

lemma ClusterSpec_deep [deep_copy_intro]: "deep_copier ClusterSpecT ClusterSpec_DeepCopyInto"
  unfolding ClusterSpecT_def
proof (rule deep_copier_structI)
  show "go_struct
     (\<lambda>s. (mcsKvdb s, mcsStorage s, mcsPlacement s, mcsEnv s))
     (\<lambda>f s. s\<lparr>mcsKvdb := (fst f), mcsStorage := (fst (snd f)), mcsPlacement :=
       (fst (snd (snd f))), mcsEnv := (snd (snd (snd f)))\<rparr>)
     (\<lambda>s :: MClusterSpec. (mcsPXImage s, mcsPXTag s, mcsOCIMonImage s, mcsOCIMonTag s,
       mcsNetwork s))"
    by unfold_locales (auto intro!: MClusterSpec.equality)
  show "deep_copier
     (pairT KvdbSpecT (pairT StorageSpecT (pairT PlacementSpecT (sliceT atEnvVarArr EnvVarT))))
     (copyPair KvdbSpec_DeepCopyInto (copyPair StorageSpec_DeepCopyInto (copyPair
       PlacementSpec_DeepCopyInto (copySlice CEnvVarArr atEnvVarArr EnvVar_DeepCopyInto))))"
    by (intro deep_copy_intro cell_views)
qed (rule ext, simp add: ClusterSpec_DeepCopyInto_def copyPair_def bindE_assoc)

lemma Cluster_deep [deep_copy_intro]: "deep_copier ClusterT Cluster_DeepCopyInto"
  unfolding ClusterT_def
proof (rule deep_copier_structI)
  show "go_struct
     (\<lambda>s. (mclObjectMeta s, mclSpec s))
     (\<lambda>f s. s\<lparr>mclObjectMeta := (fst f), mclSpec := (snd f)\<rparr>)
     (\<lambda>s :: MCluster. (mclTypeMeta s))"
    by unfold_locales (auto intro!: MCluster.equality)
  show "deep_copier
     (pairT ObjectMetaT ClusterSpecT)
     (copyPair ObjectMeta_DeepCopyInto ClusterSpec_DeepCopyInto)"
    by (intro deep_copy_intro cell_views)
qed (rule ext, simp add: Cluster_DeepCopyInto_def copyPair_def bindE_assoc)

lemma ClusterStatus_deep [deep_copy_intro]: "deep_copier ClusterStatusT ClusterStatus_DeepCopyInto"
  unfolding ClusterStatusT_def
proof (rule deep_copier_structI)
  show "go_struct
     mctNodeStatuses
     (\<lambda>f s. s\<lparr>mctNodeStatuses := f\<rparr>)
     (\<lambda>s :: MClusterStatus. (mctStatusInfo s, mctName s))"
    by unfold_locales (auto intro!: MClusterStatus.equality)
  show "deep_copier
     (sliceT atNodeStatuses leafT)
     (copySlice CNodeStatuses atNodeStatuses returnE)"
    by (intro deep_copy_intro cell_views)
qed (rule ext, simp add: ClusterStatus_DeepCopyInto_def copyPair_def bindE_assoc)

lemma LabelSelectorRequirement_deep [deep_copy_intro]: "deep_copier LabelSelectorRequirementT LabelSelectorRequirement_DeepCopyInto"
  unfolding LabelSelectorRequirementT_def
proof (rule deep_copier_structI)
  show "go_struct
     mlrValues
     (\<lambda>f s. s\<lparr>mlrValues := f\<rparr>)
     (\<lambda>s :: MLabelSelectorRequirement. (mlrKey s, mlrOperator s))"
    by unfold_locales (auto intro!: MLabelSelectorRequirement.equality)
  show "deep_copier
     (sliceT atStrings leafT)
     (copySlice CStrings atStrings returnE)"
    by (intro deep_copy_intro cell_views)
qed (rule ext, simp add: LabelSelectorRequirement_DeepCopyInto_def copyPair_def bindE_assoc)

lemma VolumePlacementRule_deep [deep_copy_intro]: "deep_copier VolumePlacementRuleT VolumePlacementRule_DeepCopyInto"
  unfolding VolumePlacementRuleT_def
proof (rule deep_copier_structI)
  show "go_struct
     mvrMatchExpressions
     (\<lambda>f s. s\<lparr>mvrMatchExpressions := f\<rparr>)
     (\<lambda>s :: MVolumePlacementRule. (mvrAffectedReplicas s, mvrWeight s, mvrEnforcement s,
       mvrType s))"
    by unfold_locales (auto intro!: MVolumePlacementRule.equality)
  show "deep_copier
     (sliceT atLabelSelectorRequirementPtrs (ptrT atLabelSelectorRequirement
       LabelSelectorRequirementT))
     (copySlice CLabelSelectorRequirementPtrs atLabelSelectorRequirementPtrs (copyPtr
       CLabelSelectorRequirement atLabelSelectorRequirement
       LabelSelectorRequirement_DeepCopyInto))"
    by (intro deep_copy_intro cell_views)
qed (rule ext, simp add: VolumePlacementRule_DeepCopyInto_def copyPair_def bindE_assoc)

lemma VolumePlacementSpec_deep [deep_copy_intro]: "deep_copier VolumePlacementSpecT VolumePlacementSpec_DeepCopyInto"
  unfolding VolumePlacementSpecT_def
proof (rule deep_copier_structI)
  show "go_struct
     mvsRules
     (\<lambda>f s. s\<lparr>mvsRules := f\<rparr>)
     (\<lambda>s :: MVolumePlacementSpec. ())"
    by unfold_locales (auto intro!: MVolumePlacementSpec.equality)
  show "deep_copier
     (sliceT atVolumePlacementRuleArr VolumePlacementRuleT)
     (copySlice CVolumePlacementRuleArr atVolumePlacementRuleArr
       VolumePlacementRule_DeepCopyInto)"
    by (intro deep_copy_intro cell_views)
qed (rule ext, simp add: VolumePlacementSpec_DeepCopyInto_def copyPair_def bindE_assoc)

lemma VolumePlacementStrategy_deep [deep_copy_intro]: "deep_copier VolumePlacementStrategyT VolumePlacementStrategy_DeepCopyInto"
  unfolding VolumePlacementStrategyT_def
proof (rule deep_copier_structI)
  show "go_struct
     (\<lambda>s. (mvpObjectMeta s, mvpSpec s))
     (\<lambda>f s. s\<lparr>mvpObjectMeta := (fst f), mvpSpec := (snd f)\<rparr>)
     (\<lambda>s :: MVolumePlacementStrategy. (mvpTypeMeta s))"
    by unfold_locales (auto intro!: MVolumePlacementStrategy.equality)
  show "deep_copier
     (pairT ObjectMetaT VolumePlacementSpecT)
     (copyPair ObjectMeta_DeepCopyInto VolumePlacementSpec_DeepCopyInto)"
    by (intro deep_copy_intro cell_views)
qed (rule ext, simp add: VolumePlacementStrategy_DeepCopyInto_def copyPair_def bindE_assoc)

lemma CommonPlacementSpec_deep [deep_copy_intro]: "deep_copier CommonPlacementSpecT CommonPlacementSpec_DeepCopyInto"
  unfolding CommonPlacementSpecT_def
proof (rule deep_copier_structI)
  show "go_struct
     mcpMatchExpressions
     (\<lambda>f s. s\<lparr>mcpMatchExpressions := f\<rparr>)
     (\<lambda>s :: MCommonPlacementSpec. (mcpWeight s, mcpEnforcement s, mcpTopologyKey s))"
    by unfold_locales (auto intro!: MCommonPlacementSpec.equality)
  show "deep_copier
     (sliceT atLabelSelectorRequirementPtrs (ptrT atLabelSelectorRequirement
       LabelSelectorRequirementT))
     (copySlice CLabelSelectorRequirementPtrs atLabelSelectorRequirementPtrs (copyPtr
       CLabelSelectorRequirement atLabelSelectorRequirement
       LabelSelectorRequirement_DeepCopyInto))"
    by (intro deep_copy_intro cell_views)
qed (rule ext, simp add: CommonPlacementSpec_DeepCopyInto_def copyPair_def bindE_assoc)

lemma ReplicaPlacementSpec_deep [deep_copy_intro]: "deep_copier ReplicaPlacementSpecT ReplicaPlacementSpec_DeepCopyInto"
  unfolding ReplicaPlacementSpecT_def
proof (rule deep_copier_structI)
  show "go_struct
     mrpCommonPlacementSpec
     (\<lambda>f s. s\<lparr>mrpCommonPlacementSpec := f\<rparr>)
     (\<lambda>s :: MReplicaPlacementSpec. (mrpAffectedReplicas s))"
    by unfold_locales (auto intro!: MReplicaPlacementSpec.equality)
  show "deep_copier
     CommonPlacementSpecT
     CommonPlacementSpec_DeepCopyInto"
    by (intro deep_copy_intro cell_views)
qed (rule ext, simp add: ReplicaPlacementSpec_DeepCopyInto_def copyPair_def bindE_assoc)

lemma VolumePlacementSpec2_deep [deep_copy_intro]: "deep_copier VolumePlacementSpec2T VolumePlacementSpec2_DeepCopyInto"
  unfolding VolumePlacementSpec2T_def
proof (rule deep_copier_structI)
  show "go_struct
     (\<lambda>s. (mv2ReplicaAffinity s, mv2ReplicaAntiAffinity s, mv2VolumeAffinity s,
       mv2VolumeAntiAffinity s))
     (\<lambda>f s. s\<lparr>mv2ReplicaAffinity := (fst f), mv2ReplicaAntiAffinity := (fst (snd
       f)), mv2VolumeAffinity := (fst (snd (snd f))), mv2VolumeAntiAffinity := (snd (snd (snd
       f)))\<rparr>)
     (\<lambda>s :: MVolumePlacementSpec2. ())"
    by unfold_locales (auto intro!: MVolumePlacementSpec2.equality)
  show "deep_copier
     (pairT (sliceT atReplicaPlacementSpecPtrs (ptrT atReplicaPlacementSpec
       ReplicaPlacementSpecT)) (pairT (sliceT atReplicaPlacementSpecPtrs (ptrT
       atReplicaPlacementSpec ReplicaPlacementSpecT)) (pairT (sliceT atCommonPlacementSpecPtrs
       (ptrT atCommonPlacementSpec CommonPlacementSpecT)) (sliceT atCommonPlacementSpecPtrs
       (ptrT atCommonPlacementSpec CommonPlacementSpecT)))))
     (copyPair (copySlice CReplicaPlacementSpecPtrs atReplicaPlacementSpecPtrs (copyPtr
       CReplicaPlacementSpec atReplicaPlacementSpec ReplicaPlacementSpec_DeepCopyInto))
       (copyPair (copySlice CReplicaPlacementSpecPtrs atReplicaPlacementSpecPtrs (copyPtr
       CReplicaPlacementSpec atReplicaPlacementSpec ReplicaPlacementSpec_DeepCopyInto))
       (copyPair (copySlice CCommonPlacementSpecPtrs atCommonPlacementSpecPtrs (copyPtr
       CCommonPlacementSpec atCommonPlacementSpec CommonPlacementSpec_DeepCopyInto)) (copySlice
       CCommonPlacementSpecPtrs atCommonPlacementSpecPtrs (copyPtr CCommonPlacementSpec
       atCommonPlacementSpec CommonPlacementSpec_DeepCopyInto)))))"
    by (intro deep_copy_intro cell_views)
qed (rule ext, simp add: VolumePlacementSpec2_DeepCopyInto_def copyPair_def bindE_assoc)

lemma VolumePlacementStrategy2_deep [deep_copy_intro]: "deep_copier VolumePlacementStrategy2T VolumePlacementStrategy2_DeepCopyInto"
  unfolding VolumePlacementStrategy2T_def
proof (rule deep_copier_structI)
  show "go_struct
     (\<lambda>s. (mw2ObjectMeta s, mw2Spec s))
     (\<lambda>f s. s\<lparr>mw2ObjectMeta := (fst f), mw2Spec := (snd f)\<rparr>)
     (\<lambda>s :: MVolumePlacementStrategy2. (mw2TypeMeta s))"
    by unfold_locales (auto intro!: MVolumePlacementStrategy2.equality)
  show "deep_copier
     (pairT ObjectMetaT VolumePlacementSpec2T)
     (copyPair ObjectMeta_DeepCopyInto VolumePlacementSpec2_DeepCopyInto)"
    by (intro deep_copy_intro cell_views)
qed (rule ext, simp add: VolumePlacementStrategy2_DeepCopyInto_def copyPair_def bindE_assoc)

lemma ClusterList_struct: "go_struct
     (\<lambda>s. (mlmRemainingItemCount (mxlListMeta s), mxlItems s))
     (\<lambda>f s. s\<lparr>mxlListMeta := mxlListMeta s\<lparr>mlmRemainingItemCount := fst f\<rparr>, mxlItems := snd f\<rparr>)
     (\<lambda>s :: MClusterList. (mxlTypeMeta s, mlmSelfLink (mxlListMeta s),
        mlmResourceVersion (mxlListMeta s), mlmContinue (mxlListMeta s)))"
  by unfold_locales (auto intro!: MClusterList.equality MListMeta.equality)

lemma VolumePlacementStrategyList_struct: "go_struct
     (\<lambda>s. (mlmRemainingItemCount (mylListMeta s), mylItems s))
     (\<lambda>f s. s\<lparr>mylListMeta := mylListMeta s\<lparr>mlmRemainingItemCount := fst f\<rparr>, mylItems := snd f\<rparr>)
     (\<lambda>s :: MVolumePlacementStrategyList. (mylTypeMeta s, mlmSelfLink (mylListMeta s),
        mlmResourceVersion (mylListMeta s), mlmContinue (mylListMeta s)))"
  by unfold_locales (auto intro!: MVolumePlacementStrategyList.equality MListMeta.equality)

lemma VolumePlacementStrategyList2_struct: "go_struct
     (\<lambda>s. (mlmRemainingItemCount (mzlListMeta s), mzlItems s))
     (\<lambda>f s. s\<lparr>mzlListMeta := mzlListMeta s\<lparr>mlmRemainingItemCount := fst f\<rparr>, mzlItems := snd f\<rparr>)
     (\<lambda>s :: MVolumePlacementStrategyList2. (mzlTypeMeta s, mlmSelfLink (mzlListMeta s),
        mlmResourceVersion (mzlListMeta s), mlmContinue (mzlListMeta s)))"
  by unfold_locales (auto intro!: MVolumePlacementStrategyList2.equality MListMeta.equality)

end
