(* ===== verification/DeepCopyProps.thy ===== *)
theory DeepCopyProps
  imports DeepCopy
begin

text \<open>
  What the deep copies of the custom resources guarantee: every \<open>DeepCopy\<close> yields an independent
  object that reads as the original, except that the copy of a list keeps the original's
  \<open>RemainingItemCount\<close> pointer; every \<open>DeepCopyObject\<close> keeps the dynamic type and maps a nil pointer
  to a nil interface.
\<close>

section \<open>The contract holds of the generated copies\<close>

interpretation cluster: deep_copier ClusterT Cluster_DeepCopyInto
  by (rule Cluster_deep)

interpretation clusterStatus: deep_copier ClusterStatusT ClusterStatus_DeepCopyInto
  by (rule ClusterStatus_deep)

interpretation placementSpec: deep_copier PlacementSpecT PlacementSpec_DeepCopyInto
  by (rule PlacementSpec_deep)

interpretation volumePlacementStrategy: deep_copier VolumePlacementStrategyT VolumePlacementStrategy_DeepCopyInto
  by (rule VolumePlacementStrategy_deep)

interpretation volumePlacementStrategy2: deep_copier VolumePlacementStrategy2T VolumePlacementStrategy2_DeepCopyInto
  by (rule VolumePlacementStrategy2_deep)

interpretation clusterList: go_struct
     "(\<lambda>s. (mlmRemainingItemCount (mxlListMeta s), mxlItems s))"
     "(\<lambda>f s. s\<lparr>mxlListMeta := mxlListMeta s\<lparr>mlmRemainingItemCount := fst f\<rparr>, mxlItems := snd f\<rparr>)"
     "(\<lambda>s :: MClusterList. (mxlTypeMeta s, mlmSelfLink (mxlListMeta s),
        mlmResourceVersion (mxlListMeta s), mlmContinue (mxlListMeta s)))"
  by (rule ClusterList_struct)

text \<open>The remaining item count of a list is read through a pointer.\<close>

interpretation remainingItemCount: readable "ptrT atInt64 leafT"
  by (intro readable_intro)

lemma v1beta1_copies_ok:
  "deep_copy_ok (ptrT atNodeNetwork leafT) NodeNetwork_DeepCopy"
  "deep_copy_ok (ptrT atStatusInfo leafT) StatusInfo_DeepCopy"
  "deep_copy_ok (ptrT atNodeStatus leafT) NodeStatus_DeepCopy"
  "deep_copy_ok (ptrT atKvdbSpec KvdbSpecT) KvdbSpec_DeepCopy"
  "deep_copy_ok (ptrT atStorageSpec StorageSpecT) StorageSpec_DeepCopy"
  "deep_copy_ok (ptrT atPlacement PlacementT) Placement_DeepCopy"
  "deep_copy_ok (ptrT atPlacementSpec PlacementSpecT) PlacementSpec_DeepCopy"
  "deep_copy_ok (ptrT atClusterSpec ClusterSpecT) ClusterSpec_DeepCopy"
  "deep_copy_ok (ptrT atCluster ClusterT) Cluster_DeepCopy"
  "deep_copy_ok (ptrT atClusterStatus ClusterStatusT) ClusterStatus_DeepCopy"
  "deep_copy_ok (ptrT atLabelSelectorRequirement LabelSelectorRequirementT) LabelSelectorRequirement_DeepCopy"
  "deep_copy_ok (ptrT atVolumePlacementRule VolumePlacementRuleT) VolumePlacementRule_DeepCopy"
  "deep_copy_ok (ptrT atVolumePlacementSpec VolumePlacementSpecT) VolumePlacementSpec_DeepCopy"
  "deep_copy_ok (ptrT atVolumePlacementStrategy VolumePlacementStrategyT) VolumePlacementStrategy_DeepCopy"
  unfolding NodeNetwork_DeepCopy_def
    StatusInfo_DeepCopy_def
    NodeStatus_DeepCopy_def
    KvdbSpec_DeepCopy_def
    StorageSpec_DeepCopy_def
    Placement_DeepCopy_def
    PlacementSpec_DeepCopy_def
    ClusterSpec_DeepCopy_def
    Cluster_DeepCopy_def
    ClusterStatus_DeepCopy_def
    LabelSelectorRequirement_DeepCopy_def
    VolumePlacementRule_DeepCopy_def
    VolumePlacementSpec_DeepCopy_def
    VolumePlacementStrategy_DeepCopy_def
  by (simp_all add: deep_copier.pointer_copy_ok deep_copy_intro)

lemma v1beta2_copies_ok:
  "deep_copy_ok (ptrT atCommonPlacementSpec CommonPlacementSpecT) CommonPlacementSpec_DeepCopy"
  "deep_copy_ok (ptrT atReplicaPlacementSpec ReplicaPlacementSpecT) ReplicaPlacementSpec_DeepCopy"
  "deep_copy_ok (ptrT atVolumePlacementSpec2 VolumePlacementSpec2T) VolumePlacementSpec2_DeepCopy"
  "deep_copy_ok (ptrT atVolumePlacementStrategy2 VolumePlacementStrategy2T) VolumePlacementStrategy2_DeepCopy"
  unfolding CommonPlacementSpec_DeepCopy_def
    ReplicaPlacementSpec_DeepCopy_def
    VolumePlacementSpec2_DeepCopy_def
    VolumePlacementStrategy2_DeepCopy_def
  by (simp_all add: deep_copier.pointer_copy_ok deep_copy_intro)

section \<open>Independence of the copies\<close>

text \<open>
  C27.  The copies of all types but the lists are deep.  \<open>DeepCopy\<close> of a nil pointer is nil.  From
  a pointer whose value can be read (every reference in it leads to a cell of its type) \<open>DeepCopy\<close>
  returns a pointer; nothing that was allocated before is changed; the copy reads as the original,
  nil and empty slices told apart; a write to any cell the copy depends on leaves what the original
  reads unchanged, and a write to any cell the original depends on leaves the copy unchanged.  In
  particular the labels, annotations, key-value store endpoints, devices, placement constraints,
  environment and rules of a copied object are its own.
\<close>

theorem deep_copies_independent:
  "deep_copy_ok (ptrT atNodeNetwork leafT) NodeNetwork_DeepCopy \<and>
   deep_copy_ok (ptrT atStatusInfo leafT) StatusInfo_DeepCopy \<and>
   deep_copy_ok (ptrT atNodeStatus leafT) NodeStatus_DeepCopy \<and>
   deep_copy_ok (ptrT atKvdbSpec KvdbSpecT) KvdbSpec_DeepCopy \<and>
   deep_copy_ok (ptrT atStorageSpec StorageSpecT) StorageSpec_DeepCopy \<and>
   deep_copy_ok (ptrT atPlacement PlacementT) Placement_DeepCopy \<and>
   deep_copy_ok (ptrT atPlacementSpec PlacementSpecT) PlacementSpec_DeepCopy \<and>
   deep_copy_ok (ptrT atClusterSpec ClusterSpecT) ClusterSpec_DeepCopy \<and>
   deep_copy_ok (ptrT atCluster ClusterT) Cluster_DeepCopy \<and>
   deep_copy_ok (ptrT atClusterStatus ClusterStatusT) ClusterStatus_DeepCopy \<and>
   deep_copy_ok (ptrT atLabelSelectorRequirement LabelSelectorRequirementT) LabelSelectorRequirement_DeepCopy \<and>
   deep_copy_ok (ptrT atVolumePlacementRule VolumePlacementRuleT) VolumePlacementRule_DeepCopy \<and>
   deep_copy_ok (ptrT atVolumePlacementSpec VolumePlacementSpecT) VolumePlacementSpec_DeepCopy \<and>
   deep_copy_ok (ptrT atVolumePlacementStrategy VolumePlacementStrategyT) VolumePlacementStrategy_DeepCopy \<and>
   deep_copy_ok (ptrT atCommonPlacementSpec CommonPlacementSpecT) CommonPlacementSpec_DeepCopy \<and>
   deep_copy_ok (ptrT atReplicaPlacementSpec ReplicaPlacementSpecT) ReplicaPlacementSpec_DeepCopy \<and>
   deep_copy_ok (ptrT atVolumePlacementSpec2 VolumePlacementSpec2T) VolumePlacementSpec2_DeepCopy \<and>
   deep_copy_ok (ptrT atVolumePlacementStrategy2 VolumePlacementStrategy2T) VolumePlacementStrategy2_DeepCopy"
  using v1beta1_copies_ok v1beta2_copies_ok by simp

text \<open>
  The contract at work: a cluster with labels, two endpoints that are a window of a larger array,
  and a toleration, all read through pointers.
\<close>

definition zeroObjectMeta :: MObjectMeta where
  "zeroObjectMeta =
     \<lparr>momName = [], momGenerateName = [], momNamespace = [], momSelfLink = [], momUID = [],
      momResourceVersion = [], momGeneration = 0, momCreationTimestamp = 0, momClusterName = [],
      momDeletionTimestamp = None, momDeletionGracePeriodSeconds = None, momLabels = None,
      momAnnotations = None, momOwnerReferences = SNil, momFinalizers = SNil,
      momManagedFields = SNil\<rparr>"

definition exampleCluster :: MCluster where
  "exampleCluster =
     \<lparr>mclTypeMeta = zeroTypeMeta,
      mclObjectMeta = zeroObjectMeta\<lparr>momName := ''c'', momLabels := Some 1\<rparr>,
      mclSpec =
        \<lparr>mcsPXImage = ''px'', mcsPXTag = ''2.0'', mcsOCIMonImage = [], mcsOCIMonTag = [],
         mcsNetwork = \<lparr>netData = ''eth0'', netMgmt = ''eth1''\<rparr>,
         mcsKvdb = \<lparr>mkvBasicAuthSecret = [], mkvCertificateSecret = [], mkvACLTokenSecret = [],
                    mkvEndpoints = Slice 2 1 2\<rparr>,
         mcsStorage = \<lparr>mstZeroStorage = False, mstForce = False, mstUseAll = True,
                       mstUseAllWithParitions = False, mstDevices = SNil\<rparr>,
         mcsPlacement =
           \<lparr>mpsTypeMeta = zeroTypeMeta,
            mpsPX = \<lparr>mplTypeMeta = zeroTypeMeta, mplNodeAffinity = None, mplPodAffinity = None,
                     mplPodAntiAffinity = None, mplTolerations = Slice 3 0 1\<rparr>\<rparr>,
         mcsEnv = SNil\<rparr>\<rparr>"

definition exampleHeap :: gheap where
  "exampleHeap =
     \<lparr>lim = 5,
      cells = [0 \<mapsto> CCluster exampleCluster,
               1 \<mapsto> CStrMap [''app'' \<mapsto> ''px''],
               2 \<mapsto> CStrings [''a'', ''b'', ''c''],
               3 \<mapsto> CTolerationArr [\<lparr>mtoKey = ''k'', mtoOperator = [], mtoValue = [], mtoEffect = [],
                                      mtoTolerationSeconds = Some 4\<rparr>],
               4 \<mapsto> CInt64 30]\<rparr>"

lemmas read_types = structT_def pairT_def ptrT_def sliceT_def leafT_def window_def fetch_def

lemma example_readable:
  "heapOk exampleHeap"
  "readT (ptrT atCluster ClusterT) exampleHeap (Some 0) \<noteq> None"
  by (simp add: heapOk_def exampleHeap_def)
     (simp add: exampleHeap_def exampleCluster_def zeroObjectMeta_def read_types ClusterT_def
        ObjectMetaT_def ClusterSpecT_def KvdbSpecT_def StorageSpecT_def PlacementSpecT_def PlacementT_def
        TolerationT_def)

lemma example_copy:
  "\<exists>q h'. Cluster_DeepCopy (Some 0) exampleHeap = (Ok (Some q), h') \<and>
     readT (ptrT atCluster ClusterT) h' (Some q) = readT (ptrT atCluster ClusterT) exampleHeap (Some 0)"
proof -
  obtain v where v: "readT (ptrT atCluster ClusterT) exampleHeap (Some 0) = Some v"
    using example_readable(2) by blast
  then show ?thesis
    using v1beta1_copies_ok(9) example_readable(1) unfolding deep_copy_ok_def by fastforce
qed

section \<open>Lists\<close>

text \<open>
  The copy of a list, given how the list type is read (\<open>T\<close>), where its remaining item count is
  (\<open>ric\<close>) and how its items are read (\<open>Q\<close>, \<open>items\<close>): it reads as the original and its items lie
  in fresh cells, but its remaining item count is the pointer of the original, so that a count
  written through the copy is what the original reads afterwards.
\<close>

definition list_copy_shares :: "(cell \<Rightarrow> 'l option) \<Rightarrow> (cell, 'l, 'v) gotype \<Rightarrow> ('l \<Rightarrow> addr option) \<Rightarrow>
    (cell, slice, 'w) gotype \<Rightarrow> ('l \<Rightarrow> slice) \<Rightarrow> (addr option \<Rightarrow> (gheap, addr option) go) \<Rightarrow> bool" where
  "list_copy_shares prj T ric Q items dc \<longleftrightarrow>
     (\<forall>h p l v. heapOk h \<longrightarrow> fetch prj h p = Some l \<longrightarrow> readT T h l = Some v \<longrightarrow>
        (\<exists>h' l'. dc (Some p) h = (Ok (Some (lim h)), h') \<and> grows h h' \<and>
           fetch prj h' (lim h) = Some l' \<and> readT T h' l' = Some v \<and>
           (\<forall>a \<in> set (footT Q h' (items l')). lim h < a) \<and>
           ric l' = ric l \<and>
           (\<forall>a n. ric l = Some a \<longrightarrow>
              readT (ptrT atInt64 leafT) (writeTo h' a (CInt64 n)) (ric l) = Some (Some n))))"

lemma list_copy_sharesI:
  assumes S: "go_struct (\<lambda>l. (ric l, items l)) put scal" and Q: "deep_copier Q cq"
    and prj: "\<And>m. prj (emb m) = Some m"
    and cp: "cp = (\<lambda>s. bindE (cq (items s)) (\<lambda>q. returnE (put (ric s, q) s)))"
  shows "list_copy_shares prj (structT (\<lambda>l. (ric l, items l)) scal (pairT (ptrT atInt64 leafT) Q))
    ric Q items (copyPtr emb prj cp)"
proof -
  have cp': "cp = (\<lambda>s. bindE (cq (snd (ric s, items s))) (\<lambda>q. returnE (put (fst (ric s, items s), q) s)))"
    by (simp add: cp)
  have w: "readT (ptrT atInt64 leafT) (writeTo h' a (CInt64 n)) (Some a) = Some (Some n)"
    for h' :: gheap and a n by (simp add: ptrT_def leafT_def fetch_def)
  show ?thesis unfolding list_copy_shares_def
  proof (intro allI impI)
    fix h :: gheap and p l v
    assume "heapOk h" "fetch prj h p = Some l"
      "readT (structT (\<lambda>l. (ric l, items l)) scal (pairT (ptrT atInt64 leafT) Q)) h l = Some v"
    from sharing_copy [OF S remainingItemCount.readable_axioms Q prj cp' this]
    show "\<exists>h' l'. copyPtr emb prj cp (Some p) h = (Ok (Some (lim h)), h') \<and> grows h h' \<and>
        fetch prj h' (lim h) = Some l' \<and>
        readT (structT (\<lambda>l. (ric l, items l)) scal (pairT (ptrT atInt64 leafT) Q)) h' l' = Some v \<and>
        (\<forall>a \<in> set (footT Q h' (items l')). lim h < a) \<and> ric l' = ric l \<and>
        (\<forall>a n. ric l = Some a \<longrightarrow>
           readT (ptrT atInt64 leafT) (writeTo h' a (CInt64 n)) (ric l) = Some (Some n))"
      using w by auto
  qed
qed

lemma list_copies:
  "list_copy_shares atClusterList ClusterListT (\<lambda>l. mlmRemainingItemCount (mxlListMeta l))
     (sliceT atClusterArr ClusterT) mxlItems ClusterList_DeepCopy"
  "list_copy_shares atVolumePlacementStrategyList VolumePlacementStrategyListT (\<lambda>l. mlmRemainingItemCount (mylListMeta l))
     (sliceT atVolumePlacementStrategyArr VolumePlacementStrategyT) mylItems VolumePlacementStrategyList_DeepCopy"
  "list_copy_shares atVolumePlacementStrategyList2 VolumePlacementStrategyList2T (\<lambda>l. mlmRemainingItemCount (mzlListMeta l))
     (sliceT atVolumePlacementStrategy2Arr VolumePlacementStrategy2T) mzlItems VolumePlacementStrategyList2_DeepCopy"
proof -
  show "list_copy_shares atClusterList ClusterListT (\<lambda>l. mlmRemainingItemCount (mxlListMeta l))
     (sliceT atClusterArr ClusterT) mxlItems ClusterList_DeepCopy"
    unfolding ClusterListT_def ClusterList_DeepCopy_def
    by (rule list_copy_sharesI [OF ClusterList_struct, where cq = "copySlice CClusterArr atClusterArr Cluster_DeepCopyInto"])
       (intro deep_copy_intro cell_views, simp_all add: fun_eq_iff ClusterList_DeepCopyInto_def)
  show "list_copy_shares atVolumePlacementStrategyList VolumePlacementStrategyListT (\<lambda>l. mlmRemainingItemCount (mylListMeta l))
     (sliceT atVolumePlacementStrategyArr VolumePlacementStrategyT) mylItems VolumePlacementStrategyList_DeepCopy"
    unfolding VolumePlacementStrategyListT_def VolumePlacementStrategyList_DeepCopy_def
    by (rule list_copy_sharesI [OF VolumePlacementStrategyList_struct, where cq = "copySlice CVolumePlacementStrategyArr atVolumePlacementStrategyArr VolumePlacementStrategy_DeepCopyInto"])
       (intro deep_copy_intro cell_views, simp_all add: fun_eq_iff VolumePlacementStrategyList_DeepCopyInto_def)
  show "list_copy_shares atVolumePlacementStrategyList2 VolumePlacementStrategyList2T (\<lambda>l. mlmRemainingItemCount (mzlListMeta l))
     (sliceT atVolumePlacementStrategy2Arr VolumePlacementStrategy2T) mzlItems VolumePlacementStrategyList2_DeepCopy"
    unfolding VolumePlacementStrategyList2T_def VolumePlacementStrategyList2_DeepCopy_def
    by (rule list_copy_sharesI [OF VolumePlacementStrategyList2_struct, where cq = "copySlice CVolumePlacementStrategy2Arr atVolumePlacementStrategy2Arr VolumePlacementStrategy2_DeepCopyInto"])
       (intro deep_copy_intro cell_views, simp_all add: fun_eq_iff VolumePlacementStrategyList2_DeepCopyInto_def)
qed

text \<open>
  C31.  Copying a list (clusters, strategies of both versions) copies the items deeply, and the copy
  reads as the original; but \<^verbatim>\<open>out.ListMeta = in.ListMeta\<close> copies the pointer
  \<open>RemainingItemCount\<close>, not what it points to: a count stored through the copy is what the original
  list reads afterwards.
\<close>

theorem list_copies_share_count:
  "list_copy_shares atClusterList ClusterListT (\<lambda>l. mlmRemainingItemCount (mxlListMeta l))
     (sliceT atClusterArr ClusterT) mxlItems ClusterList_DeepCopy \<and>
   list_copy_shares atVolumePlacementStrategyList VolumePlacementStrategyListT (\<lambda>l. mlmRemainingItemCount (mylListMeta l))
     (sliceT atVolumePlacementStrategyArr VolumePlacementStrategyT) mylItems VolumePlacementStrategyList_DeepCopy \<and>
   list_copy_shares atVolumePlacementStrategyList2 VolumePlacementStrategyList2T (\<lambda>l. mlmRemainingItemCount (mzlListMeta l))
     (sliceT atVolumePlacementStrategy2Arr VolumePlacementStrategy2T) mzlItems VolumePlacementStrategyList2_DeepCopy"
  using list_copies by simp

text \<open>The sharing on a concrete list: writing 7 through the copy turns the original's 3 into 7.\<close>

definition exampleList :: MClusterList where
  "exampleList = \<lparr>mxlTypeMeta = zeroTypeMeta,
     mxlListMeta = \<lparr>mlmSelfLink = [], mlmResourceVersion = ''9'', mlmContinue = ''t'',
                    mlmRemainingItemCount = Some 1\<rparr>,
     mxlItems = SNil\<rparr>"

definition exampleListHeap :: gheap where
  "exampleListHeap = \<lparr>lim = 2, cells = [0 \<mapsto> CClusterList exampleList, 1 \<mapsto> CInt64 3]\<rparr>"

lemma example_list_shared:
  "\<exists>h' l'. ClusterList_DeepCopy (Some 0) exampleListHeap = (Ok (Some 2), h') \<and>
     fetch atClusterList h' 2 = Some l' \<and>
     mlmRemainingItemCount (mxlListMeta l') = Some 1 \<and>
     fetch atClusterList h' 0 = Some exampleList \<and>
     fetch atInt64 (writeTo h' 1 (CInt64 7)) 1 = Some 7"
  by (simp add: ClusterList_DeepCopy_def copyPtr_def ClusterList_DeepCopyInto_def copySlice_def
        bindE_def allocE_def loadE_def storeE_def returnE_def fetch_def exampleListHeap_def
        exampleList_def)

section \<open>Copies as runtime objects\<close>

text \<open>
  A \<open>DeepCopyObject\<close> for a type with cell constructor \<open>emb\<close> and interface constructor \<open>ifc\<close>: from nil
  the nil interface and no allocation; from a pointer an interface of the same dynamic type around
  a fresh, non-nil pointer to a value of that type.
\<close>

definition keeps_type :: "('m \<Rightarrow> cell) \<Rightarrow> (addr option \<Rightarrow> robject) \<Rightarrow> (cell, addr option, 'v) gotype \<Rightarrow>
    (addr option \<Rightarrow> (gheap, robject option) go) \<Rightarrow> bool" where
  "keeps_type emb ifc T dco \<longleftrightarrow>
     (\<forall>h. dco None h = (Ok None, h)) \<and>
     (\<forall>h p v. heapOk h \<longrightarrow> readT T h (Some p) = Some v \<longrightarrow>
        (\<exists>h' m. dco (Some p) h = (Ok (Some (ifc (Some (lim h)))), h') \<and>
           cells h' (lim h) = Some (emb m) \<and> readT T h' (Some (lim h)) = Some v))"

lemma copyPtr_result:
  "copyPtr emb prj cp (Some p) h = (Ok x, h') \<Longrightarrow>
     x = Some (lim h) \<and> (\<exists>m. cells h' (lim h) = Some (emb m))"
  by (auto simp: copyPtr_def bindE_Ok_iff returnE_def allocE_def storeE_def)

lemma keeps_typeI:
  assumes "\<And>p. dco p = bindE (copyPtr emb prj cp p) (\<lambda>c.
      if c \<noteq> None then returnE (Some (ifc c)) else returnE None)"
    and "\<And>h p v. heapOk h \<Longrightarrow> readT T h (Some p) = Some v \<Longrightarrow>
      \<exists>x h'. copyPtr emb prj cp (Some p) h = (Ok x, h') \<and> readT T h' x = Some v"
  shows "keeps_type emb ifc T dco"
proof -
  have "\<exists>h' m. dco (Some p) h = (Ok (Some (ifc (Some (lim h)))), h') \<and>
      cells h' (lim h) = Some (emb m) \<and> readT T h' (Some (lim h)) = Some v"
    if hv: "heapOk h" "readT T h (Some p) = Some v" for h p v
  proof -
    obtain x h' where x: "copyPtr emb prj cp (Some p) h = (Ok x, h')" "readT T h' x = Some v"
      using assms(2) [OF hv] by blast
    with copyPtr_result [OF x(1)] show ?thesis by (auto simp: assms(1) bindE_def returnE_def)
  qed
  then show ?thesis unfolding keeps_type_def by (auto simp: assms(1) copyPtr_def returnE_def)
qed

lemma keeps_type_deep:
  assumes "deep_copy_ok (ptrT prj T) (copyPtr emb prj cp)"
    "\<And>p. dco p = bindE (copyPtr emb prj cp p) (\<lambda>c.
      if c \<noteq> None then returnE (Some (ifc c)) else returnE None)"
  shows "keeps_type emb ifc (ptrT prj T) dco"
  by (rule keeps_typeI [OF assms(2)]) (use assms(1) in \<open>unfold deep_copy_ok_def, blast\<close>)

lemma keeps_type_list:
  assumes "list_copy_shares prj T ric Q items (copyPtr emb prj cp)"
    "\<And>p. dco p = bindE (copyPtr emb prj cp p) (\<lambda>c.
      if c \<noteq> None then returnE (Some (ifc c)) else returnE None)"
  shows "keeps_type emb ifc (ptrT prj T) dco"
proof (rule keeps_typeI [OF assms(2)])
  fix h :: gheap and p v
  assume h: "heapOk h" and "readT (ptrT prj T) h (Some p) = Some v"
  then obtain l w where "fetch prj h p = Some l" "readT T h l = Some w" "v = Some w"
    by (auto simp: ptrT_def bind_eq_Some_conv)
  then show "\<exists>x h'. copyPtr emb prj cp (Some p) h = (Ok x, h') \<and> readT (ptrT prj T) h' x = Some v"
    using assms(1) h unfolding list_copy_shares_def by (fastforce simp: ptrT_def)
qed

text \<open>
  C38.  \<open>DeepCopyObject\<close> keeps the dynamic type of its receiver: a pointer to a readable value of a
  registered type gives a runtime object of that type around a fresh pointer to a cell of that
  type, which reads as the original; a nil pointer gives the nil interface, never an interface that
  holds a typed nil pointer.
\<close>

theorem deep_copy_object_keeps_type:
  "keeps_type CCluster RCluster (ptrT atCluster ClusterT) Cluster_DeepCopyObject \<and>
   keeps_type CClusterList RClusterList (ptrT atClusterList ClusterListT) ClusterList_DeepCopyObject \<and>
   keeps_type CPlacement RPlacement (ptrT atPlacement PlacementT) Placement_DeepCopyObject \<and>
   keeps_type CPlacementSpec RPlacementSpec (ptrT atPlacementSpec PlacementSpecT) PlacementSpec_DeepCopyObject \<and>
   keeps_type CVolumePlacementStrategy RVolumePlacementStrategy (ptrT atVolumePlacementStrategy VolumePlacementStrategyT) VolumePlacementStrategy_DeepCopyObject \<and>
   keeps_type CVolumePlacementStrategyList RVolumePlacementStrategyList (ptrT atVolumePlacementStrategyList VolumePlacementStrategyListT) VolumePlacementStrategyList_DeepCopyObject \<and>
   keeps_type CVolumePlacementStrategy2 RVolumePlacementStrategy2 (ptrT atVolumePlacementStrategy2 VolumePlacementStrategy2T) VolumePlacementStrategy2_DeepCopyObject \<and>
   keeps_type CVolumePlacementStrategyList2 RVolumePlacementStrategyList2 (ptrT atVolumePlacementStrategyList2 VolumePlacementStrategyList2T) VolumePlacementStrategyList2_DeepCopyObject"
proof (intro conjI)
  show "keeps_type CCluster RCluster (ptrT atCluster ClusterT) Cluster_DeepCopyObject"
    by (rule keeps_type_deep [OF v1beta1_copies_ok(9) [unfolded Cluster_DeepCopy_def]])
       (simp add: Cluster_DeepCopyObject_def Cluster_DeepCopy_def)
  show "keeps_type CClusterList RClusterList (ptrT atClusterList ClusterListT) ClusterList_DeepCopyObject"
    by (rule keeps_type_list [OF list_copies(1) [unfolded ClusterList_DeepCopy_def]])
       (simp add: ClusterList_DeepCopyObject_def ClusterList_DeepCopy_def)
  show "keeps_type CPlacement RPlacement (ptrT atPlacement PlacementT) Placement_DeepCopyObject"
    by (rule keeps_type_deep [OF v1beta1_copies_ok(6) [unfolded Placement_DeepCopy_def]])
       (simp add: Placement_DeepCopyObject_def Placement_DeepCopy_def)
  show "keeps_type CPlacementSpec RPlacementSpec (ptrT atPlacementSpec PlacementSpecT) PlacementSpec_DeepCopyObject"
    by (rule keeps_type_deep [OF v1beta1_copies_ok(7) [unfolded PlacementSpec_DeepCopy_def]])
       (simp add: PlacementSpec_DeepCopyObject_def PlacementSpec_DeepCopy_def)
  show "keeps_type CVolumePlacementStrategy RVolumePlacementStrategy (ptrT atVolumePlacementStrategy VolumePlacementStrategyT) VolumePlacementStrategy_DeepCopyObject"
    by (rule keeps_type_deep [OF v1beta1_copies_ok(14) [unfolded VolumePlacementStrategy_DeepCopy_def]])
       (simp add: VolumePlacementStrategy_DeepCopyObject_def VolumePlacementStrategy_DeepCopy_def)
  show "keeps_type CVolumePlacementStrategyList RVolumePlacementStrategyList (ptrT atVolumePlacementStrategyList VolumePlacementStrategyListT) VolumePlacementStrategyList_DeepCopyObject"
    by (rule keeps_type_list [OF list_copies(2) [unfolded VolumePlacementStrategyList_DeepCopy_def]])
       (simp add: VolumePlacementStrategyList_DeepCopyObject_def VolumePlacementStrategyList_DeepCopy_def)
  show "keeps_type CVolumePlacementStrategy2 RVolumePlacementStrategy2 (ptrT atVolumePlacementStrategy2 VolumePlacementStrategy2T) VolumePlacementStrategy2_DeepCopyObject"
    by (rule keeps_type_deep [OF v1beta2_copies_ok(4) [unfolded VolumePlacementStrategy2_DeepCopy_def]])
       (simp add: VolumePlacementStrategy2_DeepCopyObject_def VolumePlacementStrategy2_DeepCopy_def)
  show "keeps_type CVolumePlacementStrategyList2 RVolumePlacementStrategyList2 (ptrT atVolumePlacementStrategyList2 VolumePlacementStrategyList2T) VolumePlacementStrategyList2_DeepCopyObject"
    by (rule keeps_type_list [OF list_copies(3) [unfolded VolumePlacementStrategyList2_DeepCopy_def]])
       (simp add: VolumePlacementStrategyList2_DeepCopyObject_def VolumePlacementStrategyList2_DeepCopy_def)
qed

end
