(* ===== verification/TrackerHeap.thy ===== *)
theory TrackerHeap
  imports DeepCopyProps FakeClients
begin

text \<open>
  The object tracker behind the fake clientset, in memory.  \<open>FakeClients\<close> gives the tracker values, which
  nobody can change; the code gives it pointers into memory that the caller goes on writing to.  Here the
  tracker of \<open>client-go/testing\<close> (vendored) runs on the heap with the deep copies of the custom
  resources, next to a client that writes to every address it knows, and a map of values is shown to be
  all there is to it.  No watcher is open: an event carries the stored pointer itself.
\<close>

section \<open>Objects\<close>

text \<open>A runtime object of one of the three resource types, read; nil pointers are no objects.\<close>

datatype ('c, 's, 't) objValue = VCluster 'c | VStrategy 's | VStrategy2 't

definition readObject where
  "readObject h r =
     (case r of
        RCluster p \<Rightarrow> Option.bind (readT (ptrT atCluster ClusterT) h p) (map_option VCluster)
      | RVolumePlacementStrategy p \<Rightarrow>
          Option.bind (readT (ptrT atVolumePlacementStrategy VolumePlacementStrategyT) h p)
            (map_option VStrategy)
      | RVolumePlacementStrategy2 p \<Rightarrow>
          Option.bind (readT (ptrT atVolumePlacementStrategy2 VolumePlacementStrategy2T) h p)
            (map_option VStrategy2)
      | _ \<Rightarrow> None)"

definition objectFoot :: "gheap \<Rightarrow> robject \<Rightarrow> addr list" where
  "objectFoot h r =
     (case r of
        RCluster p \<Rightarrow> footT (ptrT atCluster ClusterT) h p
      | RVolumePlacementStrategy p \<Rightarrow>
          footT (ptrT atVolumePlacementStrategy VolumePlacementStrategyT) h p
      | RVolumePlacementStrategy2 p \<Rightarrow>
          footT (ptrT atVolumePlacementStrategy2 VolumePlacementStrategy2T) h p
      | _ \<Rightarrow> [])"

text \<open>\<open>obj.DeepCopyObject()\<close>: the method of the dynamic type.\<close>

definition DeepCopyObject :: "robject \<Rightarrow> (gheap, robject option) go" where
  "DeepCopyObject r =
     (case r of
        RCluster p \<Rightarrow> Cluster_DeepCopyObject p
      | RClusterList p \<Rightarrow> ClusterList_DeepCopyObject p
      | RPlacement p \<Rightarrow> Placement_DeepCopyObject p
      | RPlacementSpec p \<Rightarrow> PlacementSpec_DeepCopyObject p
      | RVolumePlacementStrategy p \<Rightarrow> VolumePlacementStrategy_DeepCopyObject p
      | RVolumePlacementStrategyList p \<Rightarrow> VolumePlacementStrategyList_DeepCopyObject p
      | RVolumePlacementStrategy2 p \<Rightarrow> VolumePlacementStrategy2_DeepCopyObject p
      | RVolumePlacementStrategyList2 p \<Rightarrow> VolumePlacementStrategyList2_DeepCopyObject p)"

text \<open>
  \<open>meta.Accessor\<close> with \<open>GetNamespace\<close> and \<open>GetName\<close>, and \<open>SetNamespace\<close>: the metadata inside the struct
  that the object points to; they panic on a typed nil pointer.
\<close>

definition derefE :: "(cell \<Rightarrow> 'm option) \<Rightarrow> addr option \<Rightarrow> (gheap, 'm) go" where
  "derefE prj p =
     (case p of
        None \<Rightarrow> panicE ''invalid memory address or nil pointer dereference''
      | Some a \<Rightarrow> loadE prj a)"

definition assignE :: "addr option \<Rightarrow> cell \<Rightarrow> (gheap, unit) go" where
  "assignE p c =
     (case p of
        None \<Rightarrow> panicE ''invalid memory address or nil pointer dereference''
      | Some a \<Rightarrow> storeE a c)"

definition accessor :: "robject option \<Rightarrow> (gheap, MObjectMeta) go" where
  "accessor r =
     (case r of
        Some (RCluster p) \<Rightarrow> bindE (derefE atCluster p) (\<lambda>c. returnE (mclObjectMeta c))
      | Some (RVolumePlacementStrategy p) \<Rightarrow>
          bindE (derefE atVolumePlacementStrategy p) (\<lambda>c. returnE (mvpObjectMeta c))
      | Some (RVolumePlacementStrategy2 p) \<Rightarrow>
          bindE (derefE atVolumePlacementStrategy2 p) (\<lambda>c. returnE (mw2ObjectMeta c))
      | _ \<Rightarrow> raiseE (ErrorString ''object does not implement the Object interfaces''))"

definition setNamespace :: "string \<Rightarrow> robject option \<Rightarrow> (gheap, unit) go" where
  "setNamespace ns r =
     (case r of
        Some (RCluster p) \<Rightarrow>
          bindE (derefE atCluster p) (\<lambda>c.
            assignE p (CCluster (c\<lparr>mclObjectMeta := (mclObjectMeta c)\<lparr>momNamespace := ns\<rparr>\<rparr>)))
      | Some (RVolumePlacementStrategy p) \<Rightarrow>
          bindE (derefE atVolumePlacementStrategy p) (\<lambda>c.
            assignE p (CVolumePlacementStrategy (c\<lparr>mvpObjectMeta := (mvpObjectMeta c)\<lparr>momNamespace := ns\<rparr>\<rparr>)))
      | Some (RVolumePlacementStrategy2 p) \<Rightarrow>
          bindE (derefE atVolumePlacementStrategy2 p) (\<lambda>c.
            assignE p (CVolumePlacementStrategy2 (c\<lparr>mw2ObjectMeta := (mw2ObjectMeta c)\<lparr>momNamespace := ns\<rparr>\<rparr>)))
      | _ \<Rightarrow> returnE ())"

section \<open>The tracker\<close>

record heapTracker =
  trHeap :: gheap
  trObjects :: "objKey \<rightharpoonup> robject"

definition onHeap :: "(gheap, 'a) go \<Rightarrow> (heapTracker, 'a) go" where
  "onHeap m t = (case m (trHeap t) of (r, h') \<Rightarrow> (r, t\<lparr>trHeap := h'\<rparr>))"

definition heapAdd :: "groupVersionResource \<Rightarrow> robject \<Rightarrow> string \<Rightarrow> bool \<Rightarrow> (heapTracker, unit) go" where
  "heapAdd gvr obj ns replaceExisting =
     bindE (onHeap (DeepCopyObject obj)) (\<lambda>copied.
     bindE (onHeap (accessor copied)) (\<lambda>newMeta.
     bindE (if momNamespace newMeta = [] then onHeap (setNamespace ns copied) else returnE ()) (\<lambda>_.
     bindE (onHeap (accessor copied)) (\<lambda>m.
       if ns \<noteq> momNamespace m
       then raiseE (namespaceMismatch ns (momNamespace m))
       else
         let key = (gvr, momNamespace m, momName m) in
         bindE (readE (\<lambda>t. trObjects t key)) (\<lambda>old.
           case old of
             Some _ \<Rightarrow>
               if replaceExisting then modifyE (\<lambda>t. t\<lparr>trObjects := (trObjects t)(key := copied)\<rparr>)
               else raiseE (trkExists gvr (momName m))
           | None \<Rightarrow>
               if replaceExisting then raiseE (trkNotFound gvr (momName m))
               else modifyE (\<lambda>t. t\<lparr>trObjects := (trObjects t)(key := copied)\<rparr>))))))"

definition heapGet :: "groupVersionResource \<Rightarrow> string \<Rightarrow> string \<Rightarrow> (heapTracker, robject option) go" where
  "heapGet gvr ns name =
     bindE (readE (\<lambda>t. trObjects t (gvr, ns, name))) (\<lambda>found.
       case found of
         None \<Rightarrow> raiseE (trkNotFound gvr name)
       | Some obj \<Rightarrow> onHeap (DeepCopyObject obj))"

definition heapDelete :: "groupVersionResource \<Rightarrow> string \<Rightarrow> string \<Rightarrow> (heapTracker, unit) go" where
  "heapDelete gvr ns name =
     bindE (readE (\<lambda>t. trObjects t (gvr, ns, name))) (\<lambda>found.
       case found of
         None \<Rightarrow> raiseE (trkNotFound gvr name)
       | Some obj \<Rightarrow> modifyE (\<lambda>t. t\<lparr>trObjects := (trObjects t)((gvr, ns, name) := None)\<rparr>))"

section \<open>The store of values it stands for\<close>

fun metaNames where
  "metaNames ((name, generateName, ns, rest), refs) = (ns :: string, name :: string)"

fun metaInNamespace where
  "metaInNamespace n ((name, generateName, ns, rest), refs) = ((name, generateName, n, rest), refs)"

fun valueNames where
  "valueNames (VCluster (tm, om, spec)) = metaNames om"
| "valueNames (VStrategy (tm, om, spec)) = metaNames om"
| "valueNames (VStrategy2 (tm, om, spec)) = metaNames om"

fun valueInNamespace where
  "valueInNamespace n (VCluster (tm, om, spec)) = VCluster (tm, metaInNamespace n om, spec)"
| "valueInNamespace n (VStrategy (tm, om, spec)) = VStrategy (tm, metaInNamespace n om, spec)"
| "valueInNamespace n (VStrategy2 (tm, om, spec)) = VStrategy2 (tm, metaInNamespace n om, spec)"

definition storeAdd where
  "storeAdd gvr v ns replaceExisting s =
     (let (ns0, name) = valueNames v;
          n = (if ns0 = [] then ns else ns0);
          key = (gvr, n, name) in
      if ns \<noteq> n
      then (Err (namespaceMismatch ns n), s)
      else case s key of
        Some _ \<Rightarrow>
          if replaceExisting then (Ok (), s(key \<mapsto> valueInNamespace n v))
          else (Err (trkExists gvr name), s)
      | None \<Rightarrow>
          if replaceExisting then (Err (trkNotFound gvr name), s)
          else (Ok (), s(key \<mapsto> valueInNamespace n v)))"

definition storeDelete where
  "storeDelete gvr ns name s =
     (case s (gvr, ns, name) of
        None \<Rightarrow> (Err (trkNotFound gvr name), s)
      | Some _ \<Rightarrow> (Ok (), s((gvr, ns, name) := None)))"

section \<open>What the tracker relies on of a resource type\<close>

text \<open>
  One of the three resource types: its struct \<open>'m\<close> with a deep copy, the cell, interface and value
  constructors, and the metadata inside the struct.
\<close>

locale tracked = deep_copier T cp
  for T :: "(cell, 'm, 'w) gotype" and cp :: "'m \<Rightarrow> (gheap, 'm) go" +
  fixes emb :: "'m \<Rightarrow> cell" and prj :: "cell \<Rightarrow> 'm option" and ifc :: "addr option \<Rightarrow> robject"
    and val and meta :: "'m \<Rightarrow> MObjectMeta" and inNs :: "string \<Rightarrow> 'm \<Rightarrow> 'm"
  assumes prj_emb: "prj (emb m) = Some m"
    and copy_object: "DeepCopyObject (ifc p) = bindE (copyPtr emb prj cp p) (\<lambda>c.
        if c \<noteq> None then returnE (Some (ifc c)) else returnE None)"
    and read_object: "readObject h (ifc p) = Option.bind (readT (ptrT prj T) h p) (map_option val)"
    and foot_object: "objectFoot h (ifc p) = footT (ptrT prj T) h p"
    and get_meta: "accessor (Some (ifc (Some a))) = bindE (loadE prj a) (\<lambda>c. returnE (meta c))"
    and set_meta: "setNamespace ns (Some (ifc (Some a))) =
        bindE (loadE prj a) (\<lambda>c. storeE a (emb (inNs ns c)))"
    and names: "readT T h c = Some w \<Longrightarrow> valueNames (val w) = (momNamespace (meta c), momName (meta c))"
    and meta_inNs: "meta (inNs ns c) = (meta c)\<lparr>momNamespace := ns\<rparr>"
    and read_inNs: "readT T h c = Some w \<Longrightarrow>
        \<exists>w'. readT T h (inNs ns c) = Some w' \<and> val w' = valueInNamespace ns (val w)"
    and foot_inNs: "footT T h (inNs ns c) = footT T h c"
begin

lemma object_frame:
  assumes "readObject h (ifc p) = Some v" "\<And>a. a \<in> set (objectFoot h (ifc p)) \<Longrightarrow> cells h' a = cells h a"
  shows "readObject h' (ifc p) = Some v \<and> objectFoot h' (ifc p) = objectFoot h (ifc p)"
proof -
  from assms(1) obtain x where x: "readT (ptrT prj T) h p = Some x" "map_option val x = Some v"
    by (auto simp: read_object bind_eq_Some_conv)
  have "readT (ptrT prj T) h' p = Some x \<and> footT (ptrT prj T) h' p = footT (ptrT prj T) h p"
    by (rule readable.frame [OF readable_ptr [OF readable_axioms] x(1)]) (use assms(2) in \<open>simp add: foot_object\<close>)
  with x(2) show ?thesis by (simp add: read_object foot_object)
qed

lemma object_live:
  assumes "heapOk h" "readObject h (ifc p) = Some v" "a \<in> set (objectFoot h (ifc p))"
  shows "a < lim h"
  using assms readable.foot_live [OF readable_ptr [OF readable_axioms] assms(1), of prj p _ a]
  by (auto simp: read_object foot_object bind_eq_Some_conv)

lemma object_cell:
  assumes "cells h a = Some (emb c)" "readT T h c = Some w"
  shows "readObject h (ifc (Some a)) = Some (val w)"
    and "objectFoot h (ifc (Some a)) = a # footT T h c"
    and "accessor (Some (ifc (Some a))) h = (Ok (meta c), h)"
    and "setNamespace ns (Some (ifc (Some a))) h = (Ok (), writeTo h a (emb (inNs ns c)))"
  using assms
  by (simp_all add: read_object foot_object get_meta set_meta ptrT_def fetch_def prj_emb loadE_def bindE_def
      returnE_def storeE_def)

lemma object_copied:
  assumes "heapOk h" "readObject h (ifc p) = Some v"
  shows "\<exists>c w h'. DeepCopyObject (ifc p) h = (Ok (Some (ifc (Some (lim h)))), h') \<and> grows h h' \<and>
    lim h < lim h' \<and> cells h' (lim h) = Some (emb c) \<and> readT T h' c = Some w \<and> val w = v \<and>
    (\<forall>b \<in> set (footT T h' c). lim h < b \<and> b < lim h')"
proof -
  from assms(2) obtain a m w where a: "p = Some a" "fetch prj h a = Some m" "readT T h m = Some w" "val w = v"
    by (cases p) (auto simp: read_object bind_eq_Some_conv ptrT_def)
  obtain c h' where c: "copyPtr emb prj cp (Some a) h = (Ok (Some (lim h)), h')" "grows h h'" "lim h < lim h'"
    "cells h' (lim h) = Some (emb c)" "readT T h' c = Some w"
    "\<forall>b \<in> set (footT T h' c). lim h < b \<and> b < lim h'"
    using copyPtr_target [OF deep_copier_axioms prj_emb assms(1) a(2,3)] by blast
  then have "DeepCopyObject (ifc p) h = (Ok (Some (ifc (Some (lim h)))), h')"
    using a(1) by (simp add: copy_object bindE_def returnE_def)
  with c a(4) show ?thesis by blast
qed

lemma object_fresh:
  assumes "heapOk h" "readObject h (ifc p) = Some v"
  shows "\<exists>ob h'. DeepCopyObject (ifc p) h = (Ok (Some ob), h') \<and> grows h h' \<and> readObject h' ob = Some v \<and>
    (\<forall>a \<in> set (objectFoot h' ob). lim h \<le> a \<and> a < lim h')"
proof -
  obtain c w h' where 1: "DeepCopyObject (ifc p) h = (Ok (Some (ifc (Some (lim h)))), h')" "grows h h'"
    "lim h < lim h'" "cells h' (lim h) = Some (emb c)" "readT T h' c = Some w" "val w = v"
    "\<forall>b \<in> set (footT T h' c). lim h < b \<and> b < lim h'"
    using object_copied [OF assms] by blast
  have "\<forall>a \<in> set (objectFoot h' (ifc (Some (lim h)))). lim h \<le> a \<and> a < lim h'"
    using 1(3,7) object_cell(2) [OF 1(4,5)] by auto
  with 1(1,2,6) object_cell(1) [OF 1(4,5)] show ?thesis by blast
qed

lemma object_prepared:
  assumes "heapOk h" "readObject h (ifc p) = Some v" "valueNames v = (ns0, name)"
  shows "\<exists>ob h1 m0 h2 m. DeepCopyObject (ifc p) h = (Ok (Some ob), h1) \<and>
    accessor (Some ob) h1 = (Ok m0, h1) \<and> momNamespace m0 = ns0 \<and>
    (if ns0 = [] then setNamespace ns (Some ob) h1 = (Ok (), h2) else h2 = h1) \<and>
    accessor (Some ob) h2 = (Ok m, h2) \<and> momNamespace m = (if ns0 = [] then ns else ns0) \<and> momName m = name \<and>
    grows h h2 \<and> readObject h2 ob = Some (if ns0 = [] then valueInNamespace ns v else v) \<and>
    (\<forall>a \<in> set (objectFoot h2 ob). lim h \<le> a \<and> a < lim h2)"
proof -
  obtain c w h1 where 1: "DeepCopyObject (ifc p) h = (Ok (Some (ifc (Some (lim h)))), h1)" "grows h h1"
    "lim h < lim h1" "cells h1 (lim h) = Some (emb c)" "readT T h1 c = Some w" "val w = v"
    "\<forall>b \<in> set (footT T h1 c). lim h < b \<and> b < lim h1"
    using object_copied [OF assms(1,2)] by blast
  note c1 = object_cell [OF 1(4,5)]
  have nm: "momNamespace (meta c) = ns0" "momName (meta c) = name"
    using names [OF 1(5)] 1(6) assms(3) by simp_all
  show ?thesis
  proof (cases "ns0 = []")
    case False
    have "\<forall>a \<in> set (objectFoot h1 (ifc (Some (lim h)))). lim h \<le> a \<and> a < lim h1"
      using 1(3,7) c1(2) by auto
    with False 1 c1 nm show ?thesis by auto
  next
    case True
    let ?h2 = "writeTo h1 (lim h) (emb (inNs ns c))"
    have n: "lim h \<notin> set (footT T h1 c)" using 1(7) by blast
    obtain w' where w': "readT T h1 (inNs ns c) = Some w'" "val w' = valueInNamespace ns v"
      using read_inNs [OF 1(5)] 1(6) by blast
    have f: "readT T ?h2 (inNs ns c) = Some w' \<and> footT T ?h2 (inNs ns c) = footT T h1 (inNs ns c)"
      by (rule frame [OF w'(1)]) (use n in \<open>auto simp: foot_inNs\<close>)
    have c2: "cells ?h2 (lim h) = Some (emb (inNs ns c))" by simp
    note o2 = object_cell [OF c2 conjunct1 [OF f]]
    have g: "grows h ?h2" by (rule grows_store [OF 1(2)]) (use 1(3) in simp_all)
    have "\<forall>a \<in> set (objectFoot ?h2 (ifc (Some (lim h)))). lim h \<le> a \<and> a < lim ?h2"
      using 1(3,7) o2(2) f by (auto simp: foot_inNs)
    with True 1(1) c1(3,4) o2(1,3) nm w'(2) g show ?thesis
      by (intro exI [of _ "ifc (Some (lim h))"] exI [of _ h1] exI [of _ "meta c"] exI [of _ ?h2]
          exI [of _ "meta (inNs ns c)"]) (simp add: meta_inNs)
  qed
qed

end

text \<open>The three resource types.\<close>

lemmas tracked_defs = readObject_def objectFoot_def DeepCopyObject_def accessor_def setNamespace_def
  derefE_def assignE_def

interpretation trackedCluster: tracked ClusterT Cluster_DeepCopyInto CCluster atCluster RCluster VCluster
    mclObjectMeta "\<lambda>ns c. c\<lparr>mclObjectMeta := (mclObjectMeta c)\<lparr>momNamespace := ns\<rparr>\<rparr>"
  by unfold_locales
     (auto simp: tracked_defs Cluster_DeepCopyObject_def Cluster_DeepCopy_def ClusterT_def
       ObjectMetaT_def structT_def pairT_def bind_eq_Some_conv)

interpretation trackedStrategy: tracked VolumePlacementStrategyT VolumePlacementStrategy_DeepCopyInto
    CVolumePlacementStrategy atVolumePlacementStrategy RVolumePlacementStrategy VStrategy
    mvpObjectMeta "\<lambda>ns c. c\<lparr>mvpObjectMeta := (mvpObjectMeta c)\<lparr>momNamespace := ns\<rparr>\<rparr>"
  by unfold_locales
     (auto simp: tracked_defs VolumePlacementStrategy_DeepCopyObject_def VolumePlacementStrategy_DeepCopy_def
       VolumePlacementStrategyT_def ObjectMetaT_def structT_def pairT_def bind_eq_Some_conv)

interpretation trackedStrategy2: tracked VolumePlacementStrategy2T VolumePlacementStrategy2_DeepCopyInto
    CVolumePlacementStrategy2 atVolumePlacementStrategy2 RVolumePlacementStrategy2 VStrategy2
    mw2ObjectMeta "\<lambda>ns c. c\<lparr>mw2ObjectMeta := (mw2ObjectMeta c)\<lparr>momNamespace := ns\<rparr>\<rparr>"
  by unfold_locales
     (auto simp: tracked_defs VolumePlacementStrategy2_DeepCopyObject_def VolumePlacementStrategy2_DeepCopy_def
       VolumePlacementStrategy2T_def ObjectMetaT_def structT_def pairT_def bind_eq_Some_conv)

text \<open>What holds of the three types holds of every object that can be read.\<close>

lemma readObject_cases:
  assumes "readObject h r = Some v"
  obtains p where "r = RCluster p" | p where "r = RVolumePlacementStrategy p"
    | p where "r = RVolumePlacementStrategy2 p"
  using assms by (cases r) (auto simp: readObject_def)

lemma tracked_frame:
  assumes "readObject h r = Some v" "\<And>a. a \<in> set (objectFoot h r) \<Longrightarrow> cells h' a = cells h a"
  shows "readObject h' r = Some v \<and> objectFoot h' r = objectFoot h r"
  using assms
  by (cases rule: readObject_cases [OF assms(1)])
     (auto intro!: trackedCluster.object_frame trackedStrategy.object_frame trackedStrategy2.object_frame)

lemma tracked_live:
  assumes "heapOk h" "readObject h r = Some v" "a \<in> set (objectFoot h r)"
  shows "a < lim h"
  using assms
  by (cases rule: readObject_cases [OF assms(2)])
     (auto intro: trackedCluster.object_live trackedStrategy.object_live trackedStrategy2.object_live)

lemma tracked_prepared:
  assumes "heapOk h" "readObject h r = Some v" "valueNames v = (ns0, name)"
  shows "\<exists>ob h1 m0 h2 m. DeepCopyObject r h = (Ok (Some ob), h1) \<and>
    accessor (Some ob) h1 = (Ok m0, h1) \<and> momNamespace m0 = ns0 \<and>
    (if ns0 = [] then setNamespace ns (Some ob) h1 = (Ok (), h2) else h2 = h1) \<and>
    accessor (Some ob) h2 = (Ok m, h2) \<and> momNamespace m = (if ns0 = [] then ns else ns0) \<and> momName m = name \<and>
    grows h h2 \<and> readObject h2 ob = Some (if ns0 = [] then valueInNamespace ns v else v) \<and>
    (\<forall>a \<in> set (objectFoot h2 ob). lim h \<le> a \<and> a < lim h2)"
proof (cases rule: readObject_cases [OF assms(2)])
  case (1 p)
  then show ?thesis using trackedCluster.object_prepared [OF assms(1) _ assms(3)] assms(2) by simp
next
  case (2 p)
  then show ?thesis using trackedStrategy.object_prepared [OF assms(1) _ assms(3)] assms(2) by simp
next
  case (3 p)
  then show ?thesis using trackedStrategy2.object_prepared [OF assms(1) _ assms(3)] assms(2) by simp
qed

lemma valueInNamespace_same: "valueNames v = (ns, name) \<Longrightarrow> valueInNamespace ns v = v"
  by (cases v rule: valueNames.cases) (auto elim!: metaNames.elims)

section \<open>The client and the tracker\<close>

definition content where
  "content t key = Option.bind (trObjects t key) (readObject (trHeap t))"

text \<open>The stored objects can be read, and the client knows no address they depend on.\<close>

definition trackerInv :: "heapTracker \<Rightarrow> addr set \<Rightarrow> bool" where
  "trackerInv t own \<longleftrightarrow> heapOk (trHeap t) \<and> own \<subseteq> {..<lim (trHeap t)} \<and>
     (\<forall>key r. trObjects t key = Some r \<longrightarrow>
        (\<exists>v. readObject (trHeap t) r = Some v) \<and> set (objectFoot (trHeap t) r) \<inter> own = {})"

lemma trackerInvD:
  assumes "trackerInv t own" "trObjects t key = Some r"
  obtains v where "readObject (trHeap t) r = Some v" "set (objectFoot (trHeap t) r) \<inter> own = {}"
  using assms unfolding trackerInv_def by blast

lemma content_eq:
  assumes "\<And>key r v. trObjects t key = Some r \<Longrightarrow> readObject (trHeap t) r = Some v \<Longrightarrow>
      readObject h' r = Some v \<and> objectFoot h' r = objectFoot (trHeap t) r"
    and "trackerInv t own" "heapOk h'" "own' \<subseteq> {..<lim h'}"
    and "\<And>key r. trObjects t key = Some r \<Longrightarrow> set (objectFoot (trHeap t) r) \<inter> own' = {}"
  shows "content (t\<lparr>trHeap := h'\<rparr>) = content t \<and> trackerInv (t\<lparr>trHeap := h'\<rparr>) own'"
proof
  show "content (t\<lparr>trHeap := h'\<rparr>) = content t"
    using assms(1,2) by (fastforce simp: content_def trackerInv_def fun_eq_iff bind_eq_Some_conv split: bind_split)
  show "trackerInv (t\<lparr>trHeap := h'\<rparr>) own'"
    using assms unfolding trackerInv_def by (simp) metis
qed

lemma inv_grows:
  assumes "trackerInv t own" "grows (trHeap t) h'"
  shows "content (t\<lparr>trHeap := h'\<rparr>) = content t \<and>
    trackerInv (t\<lparr>trHeap := h'\<rparr>) (own \<union> {lim (trHeap t)..<lim h'})"
proof (rule content_eq [OF _ assms(1)])
  have ok: "heapOk (trHeap t)" using assms(1) by (simp add: trackerInv_def)
  show "readObject h' r = Some v \<and> objectFoot h' r = objectFoot (trHeap t) r"
    if "readObject (trHeap t) r = Some v" for key r v
    by (rule tracked_frame [OF that]) (use tracked_live [OF ok that] assms(2) in \<open>auto simp: grows_def\<close>)
  show "set (objectFoot (trHeap t) r) \<inter> (own \<union> {lim (trHeap t)..<lim h'}) = {}"
    if key: "trObjects t key = Some r" for key r
  proof -
    obtain v where "readObject (trHeap t) r = Some v" "set (objectFoot (trHeap t) r) \<inter> own = {}"
      using trackerInvD [OF assms(1) key] by blast
    then show ?thesis using tracked_live [OF ok] by fastforce
  qed
qed (use assms in \<open>auto simp: trackerInv_def grows_def\<close>)

lemma inv_mono: "trackerInv t own \<Longrightarrow> own' \<subseteq> own \<Longrightarrow> trackerInv t own'"
  unfolding trackerInv_def by blast

lemma inv_write:
  assumes "trackerInv t own" "a \<in> own"
  shows "content (t\<lparr>trHeap := writeTo (trHeap t) a c\<rparr>) = content t \<and>
    trackerInv (t\<lparr>trHeap := writeTo (trHeap t) a c\<rparr>) own"
proof (rule content_eq [OF _ assms(1)])
  show "readObject (writeTo (trHeap t) a c) r = Some v \<and>
      objectFoot (writeTo (trHeap t) a c) r = objectFoot (trHeap t) r"
    if "trObjects t key = Some r" "readObject (trHeap t) r = Some v" for key r v
    by (rule tracked_frame [OF that(2)]) (use trackerInvD [OF assms(1) that(1)] assms(2) in auto)
  show "set (objectFoot (trHeap t) r) \<inter> own = {}" if "trObjects t key = Some r" for key r
    using trackerInvD [OF assms(1) that] by blast
qed (use assms in \<open>auto simp: trackerInv_def heapOk_def\<close>)

lemma inv_put:
  assumes "trackerInv t own" "readObject (trHeap t) ob = Some v" "set (objectFoot (trHeap t) ob) \<inter> own = {}"
  shows "content (t\<lparr>trObjects := (trObjects t)(key \<mapsto> ob)\<rparr>) = (content t)(key \<mapsto> v) \<and>
    trackerInv (t\<lparr>trObjects := (trObjects t)(key \<mapsto> ob)\<rparr>) own"
  using assms by (auto simp: content_def trackerInv_def fun_eq_iff)

lemma inv_drop:
  assumes "trackerInv t own"
  shows "content (t\<lparr>trObjects := (trObjects t)(key := None)\<rparr>) = (content t)(key := None) \<and>
    trackerInv (t\<lparr>trObjects := (trObjects t)(key := None)\<rparr>) own"
  using assms by (auto simp: content_def trackerInv_def fun_eq_iff)

lemma content_at:
  assumes "trackerInv t own"
  shows "trObjects t key = None \<longleftrightarrow> content t key = None"
    and "trObjects t key = Some r \<Longrightarrow> content t key = readObject (trHeap t) r"
proof -
  show "trObjects t key = None \<longleftrightarrow> content t key = None"
    by (cases "trObjects t key") (auto simp: content_def elim: trackerInvD [OF assms])
qed (simp add: content_def)

text \<open>The operations of the tracker are those of the store.\<close>

lemma heapAdd_refines:
  assumes inv: "trackerInv t own" and v: "readObject (trHeap t) r = Some v"
  shows "\<exists>res t'. heapAdd gvr r ns replaceExisting t = (res, t') \<and>
    (res, content t') = storeAdd gvr v ns replaceExisting (content t) \<and> trackerInv t' own"
proof -
  obtain ns0 name where nm: "valueNames v = (ns0, name)" by fastforce
  let ?n = "if ns0 = [] then ns else ns0" and ?h = "trHeap t"
  have ok: "heapOk ?h" using inv by (simp add: trackerInv_def)
  obtain ob h1 m0 h2 m where p: "DeepCopyObject r ?h = (Ok (Some ob), h1)" "accessor (Some ob) h1 = (Ok m0, h1)"
    "momNamespace m0 = ns0" "if ns0 = [] then setNamespace ns (Some ob) h1 = (Ok (), h2) else h2 = h1"
    "accessor (Some ob) h2 = (Ok m, h2)" "momNamespace m = ?n" "momName m = name" "grows ?h h2"
    "readObject h2 ob = Some (if ns0 = [] then valueInNamespace ns v else v)"
    "\<forall>a \<in> set (objectFoot h2 ob). lim ?h \<le> a \<and> a < lim h2"
    using tracked_prepared [OF ok v nm] by blast
  let ?t = "t\<lparr>trHeap := h2\<rparr>" and ?key = "(gvr, ?n, name)" and ?v = "valueInNamespace ?n v"
  have c: "content ?t = content t" and i: "trackerInv ?t own"
    using inv_grows [OF inv p(8)] inv_mono by blast+
  have rv: "readObject (trHeap ?t) ob = Some ?v" using p(9) valueInNamespace_same [OF nm] by simp
  have own: "set (objectFoot (trHeap ?t) ob) \<inter> own = {}" using p(10) inv by (fastforce simp: trackerInv_def)
  note put = inv_put [OF i rv own, of ?key]
  have run: "heapAdd gvr r ns replaceExisting t =
      (if ns \<noteq> ?n then (Err (namespaceMismatch ns ?n), ?t)
       else case trObjects t ?key of
         Some _ \<Rightarrow> if replaceExisting then (Ok (), ?t\<lparr>trObjects := (trObjects ?t)(?key \<mapsto> ob)\<rparr>)
                   else (Err (trkExists gvr name), ?t)
       | None \<Rightarrow> if replaceExisting then (Err (trkNotFound gvr name), ?t)
                 else (Ok (), ?t\<lparr>trObjects := (trObjects ?t)(?key \<mapsto> ob)\<rparr>))"
    using p(1-7)
    by (cases "ns0 = []")
       (simp_all add: heapAdd_def onHeap_def bindE_def raiseE_def readE_def modifyE_def Let_def returnE_def
         split: option.split)
  have k: "trObjects t ?key = None \<longleftrightarrow> content t ?key = None" by (rule content_at(1) [OF inv])
  show ?thesis
    unfolding run using c i put k
    by (auto simp: storeAdd_def nm Let_def split: option.split)
qed

lemma tracked_copied:
  assumes "heapOk h" "readObject h r = Some v"
  shows "\<exists>ob h'. DeepCopyObject r h = (Ok (Some ob), h') \<and> grows h h' \<and> readObject h' ob = Some v \<and>
    (\<forall>a \<in> set (objectFoot h' ob). lim h \<le> a \<and> a < lim h')"
proof (cases rule: readObject_cases [OF assms(2)])
  case (1 p)
  then show ?thesis using trackedCluster.object_fresh [OF assms(1)] assms(2) by simp
next
  case (2 p)
  then show ?thesis using trackedStrategy.object_fresh [OF assms(1)] assms(2) by simp
next
  case (3 p)
  then show ?thesis using trackedStrategy2.object_fresh [OF assms(1)] assms(2) by simp
qed

lemma heapGet_refines:
  assumes inv: "trackerInv t own"
  shows "case content t (gvr, ns, name) of
      None \<Rightarrow> heapGet gvr ns name t = (Err (trkNotFound gvr name), t)
    | Some v \<Rightarrow> \<exists>ob t'. heapGet gvr ns name t = (Ok (Some ob), t') \<and> readObject (trHeap t') ob = Some v \<and>
        (\<forall>a \<in> set (objectFoot (trHeap t') ob). lim (trHeap t) \<le> a \<and> a < lim (trHeap t')) \<and>
        content t' = content t \<and> trackerInv t' (own \<union> {lim (trHeap t)..<lim (trHeap t')})"
proof (cases "trObjects t (gvr, ns, name)")
  case None
  then show ?thesis using content_at(1) [OF inv, of "(gvr, ns, name)"]
    by (simp add: heapGet_def bindE_def readE_def raiseE_def)
next
  case (Some r)
  obtain v where v: "readObject (trHeap t) r = Some v" using trackerInvD [OF inv Some] by blast
  have ok: "heapOk (trHeap t)" using inv by (simp add: trackerInv_def)
  obtain ob h' where 1: "DeepCopyObject r (trHeap t) = (Ok (Some ob), h')" "grows (trHeap t) h'"
    "readObject h' ob = Some v" "\<forall>a \<in> set (objectFoot h' ob). lim (trHeap t) \<le> a \<and> a < lim h'"
    using tracked_copied [OF ok v] by blast
  have "heapGet gvr ns name t = (Ok (Some ob), t\<lparr>trHeap := h'\<rparr>)"
    using Some 1(1) by (simp add: heapGet_def bindE_def readE_def onHeap_def)
  then show ?thesis using 1(3,4) inv_grows [OF inv 1(2)] content_at(2) [OF inv Some] v by auto
qed

lemma heapDelete_refines:
  assumes inv: "trackerInv t own"
  shows "\<exists>res t'. heapDelete gvr ns name t = (res, t') \<and>
    (res, content t') = storeDelete gvr ns name (content t) \<and> trackerInv t' own"
  using inv_drop [OF inv, of "(gvr, ns, name)"] content_at [OF inv, of "(gvr, ns, name)"] inv
  by (cases "trObjects t (gvr, ns, name)"; cases "content t (gvr, ns, name)")
     (auto simp: heapDelete_def storeDelete_def bindE_def readE_def modifyE_def raiseE_def)

text \<open>
  A client that uses the tracker: it writes anything to the addresses it knows, allocates, and calls
  the tracker with any object it can read; what a call of \<open>Get\<close> allocates it knows from then on, and what
  \<open>Create\<close> and \<open>Update\<close> allocate it never learns.  The last argument is the map of values after the calls.
\<close>

inductive client_run where
  start: "heapOk h \<Longrightarrow> own \<subseteq> {..<lim h} \<Longrightarrow>
    client_run \<lparr>trHeap = h, trObjects = Map.empty\<rparr> own Map.empty"
| client_store: "client_run t own s \<Longrightarrow> a \<in> own \<Longrightarrow>
    client_run (t\<lparr>trHeap := writeTo (trHeap t) a c\<rparr>) own s"
| client_new: "client_run t own s \<Longrightarrow> allocE (trHeap t) = (Ok a, h') \<Longrightarrow>
    client_run (t\<lparr>trHeap := h'\<rparr>) (insert a own) s"
| client_add: "client_run t own s \<Longrightarrow> readObject (trHeap t) r = Some v \<Longrightarrow>
    heapAdd gvr r ns replaceExisting t = (res, t') \<Longrightarrow>
    client_run t' own (snd (storeAdd gvr v ns replaceExisting s))"
| client_get: "client_run t own s \<Longrightarrow> heapGet gvr ns name t = (res, t') \<Longrightarrow>
    client_run t' (own \<union> {lim (trHeap t)..<lim (trHeap t')}) s"
| client_delete: "client_run t own s \<Longrightarrow> heapDelete gvr ns name t = (res, t') \<Longrightarrow>
    client_run t' own (snd (storeDelete gvr ns name s))"

lemma client_run_inv: "client_run t own s \<Longrightarrow> content t = s \<and> trackerInv t own"
proof (induction rule: client_run.induct)
  case (start h own)
  then show ?case by (simp add: content_def trackerInv_def fun_eq_iff)
next
  case (client_store t own s a c)
  then show ?case using inv_write [of t own a c] by simp
next
  case (client_new t own s a h')
  then have "grows (trHeap t) h'" "lim h' = Suc a" "a = lim (trHeap t)"
    using grows_alloc [of "trHeap t"] by (auto simp: allocE_def trackerInv_def)
  then show ?case using inv_grows [of t own h'] client_new.IH by (simp add: atLeastLessThanSuc)
next
  case (client_add t own s r v gvr ns replaceExisting res t')
  then show ?case using heapAdd_refines [of t own r v gvr ns replaceExisting] by (metis Pair_inject snd_conv)
next
  case (client_get t own s gvr ns name res t')
  then show ?case using heapGet_refines [of t own gvr ns name] by (auto split: option.splits)
next
  case (client_delete t own s gvr ns name res t')
  then show ?case using heapDelete_refines [of t own gvr ns name] by (metis Pair_inject snd_conv)
qed


text \<open>A client adds a cluster and then clears the labels of its own object; the tracker keeps them.\<close>

lemma example_client:
  "\<exists>t v. client_run t {..<5} [(clustersResource, ''kube-system'', ''c'') \<mapsto> v]"
proof -
  let ?t = "\<lparr>trHeap = exampleHeap, trObjects = Map.empty\<rparr>"
  obtain w where w: "readT (ptrT atCluster ClusterT) exampleHeap (Some 0) = Some (Some w)"
    using example_readable(2) by (auto simp: ptrT_def fetch_def bind_eq_Some_conv exampleHeap_def)
  then have r: "readObject (trHeap ?t) (RCluster (Some 0)) = Some (VCluster w)" by (simp add: readObject_def)
  have n: "valueNames (VCluster w) = ([], ''c'')"
    using w by (auto simp: ptrT_def fetch_def bind_eq_Some_conv exampleHeap_def ClusterT_def ObjectMetaT_def
      structT_def pairT_def exampleCluster_def zeroObjectMeta_def)
  have c: "client_run ?t {..<5} Map.empty"
    by (rule client_run.start) (simp_all add: example_readable(1), simp add: exampleHeap_def)
  obtain res t' where "heapAdd clustersResource (RCluster (Some 0)) ''kube-system'' False ?t = (res, t')"
    by fastforce
  from client_run.client_add [OF c r this] show ?thesis by (auto simp: storeAdd_def n Let_def)
qed


end
