(* ===== verification/LogUtil.thy ===== *)
theory LogUtil
  imports Prelude
begin

text \<open>
  \<open>pkg/k8sutils/logutil.go\<close>: dumping an object as JSON into the log.  The logger has a level and its
  output; \<open>json.Marshal\<close>, the \<open>%T\<close> of a value and \<open>fmt.Sprintf\<close> are arguments.
\<close>

section \<open>The logger\<close>

datatype level = ErrorLevel | WarnLevel | InfoLevel | DebugLevel | TraceLevel

fun rank :: "level \<Rightarrow> nat" where
  "rank ErrorLevel = 2"
| "rank WarnLevel = 3"
| "rank InfoLevel = 4"
| "rank DebugLevel = 5"
| "rank TraceLevel = 6"

text \<open>An entry written by the logger, or a line printed to its output directly.\<close>

datatype logItem = Entry level string | Line string

record logger =
  logLevel :: level
  logOut :: "logItem list"

definition IsLevelEnabled :: "level \<Rightarrow> logger \<Rightarrow> bool" where
  "IsLevelEnabled l lg \<longleftrightarrow> rank l \<le> rank (logLevel lg)"

definition logAt :: "level \<Rightarrow> string \<Rightarrow> (logger, unit) go" where
  "logAt l msg lg =
     (Ok (), if IsLevelEnabled l lg then lg\<lparr>logOut := logOut lg @ [Entry l msg]\<rparr> else lg)"

definition printLine :: "string \<Rightarrow> (logger, unit) go" where
  "printLine s lg = (Ok (), lg\<lparr>logOut := logOut lg @ [Line s]\<rparr>)"

section \<open>The dumps\<close>

text \<open>A value of type \<open>interface{}\<close> among the arguments: a string, or a value of another type.\<close>

datatype arg = StringArg string | OtherArg string

record 'o fmtLib =
  marshal :: "'o \<Rightarrow> goerror + string"
  typeOf :: "'o \<Rightarrow> string"
  sprintf :: "string \<Rightarrow> arg list \<Rightarrow> string"

definition typeName :: "'o fmtLib \<Rightarrow> 'o option \<Rightarrow> string" where
  "typeName lib obj = (case obj of None \<Rightarrow> ''<nil>'' | Some x \<Rightarrow> typeOf lib x)"

text \<open>
  The message: a single argument that is not a string is reported with the type of \<open>msg\<close>, the
  variable, which is \<open>string\<close>; a first argument of several that is not a string panics.
\<close>

fun dumpMessage :: "'o fmtLib \<Rightarrow> 'o option \<Rightarrow> arg list \<Rightarrow> (logger, string option) go" where
  "dumpMessage lib obj [] = returnE (Some (typeName lib obj @ '' =''))"
| "dumpMessage lib obj [StringArg s] = returnE (Some s)"
| "dumpMessage lib obj [OtherArg t] =
     bindE (logAt ErrorLevel ''log(invalid argument type string)'') (\<lambda>_. returnE None)"
| "dumpMessage lib obj (StringArg f # a # as) = returnE (Some (sprintf lib f (a # as)))"
| "dumpMessage lib obj (OtherArg t # a # as) =
     panicE (''interface conversion: interface {} is '' @ t @ '', not string'')"

definition dumpObjectJS :: "'o fmtLib \<Rightarrow> level \<Rightarrow> 'o option \<Rightarrow> arg list \<Rightarrow> (logger, unit) go" where
  "dumpObjectJS lib lvl obj args =
     (case (case obj of None \<Rightarrow> Inr ''<nil>'' | Some x \<Rightarrow> marshal lib x) of
        Inl e \<Rightarrow> logAt ErrorLevel
                  (''log(error marshaling object '' @ typeName lib obj @ ''): '' @ errorText e)
      | Inr js \<Rightarrow>
          bindE (dumpMessage lib obj args) (\<lambda>msg.
            case msg of
              None \<Rightarrow> returnE ()
            | Some m \<Rightarrow>
                bindE (logAt lvl ''|/_  (cont below)'') (\<lambda>_. printLine (''>> '' @ m @ '' '' @ js))))"

definition DebugDumpObjectJS :: "'o fmtLib \<Rightarrow> 'o option \<Rightarrow> arg list \<Rightarrow> (logger, unit) go" where
  "DebugDumpObjectJS lib obj args lg =
     (if \<not> IsLevelEnabled DebugLevel lg then (Ok (), lg) else dumpObjectJS lib DebugLevel obj args lg)"

definition TraceDumpObjectJS :: "'o fmtLib \<Rightarrow> 'o option \<Rightarrow> arg list \<Rightarrow> (logger, unit) go" where
  "TraceDumpObjectJS lib obj args lg =
     (if \<not> IsLevelEnabled TraceLevel lg then (Ok (), lg) else dumpObjectJS lib TraceLevel obj args lg)"

section \<open>What the dumps do\<close>

lemmas dump_run = bindE_def returnE_def logAt_def printLine_def panicE_def

lemma logAt_state: "logAt l m lg = (r, lg') \<Longrightarrow> logLevel lg' = logLevel lg \<and> r = Ok ()"
  by (auto simp: logAt_def split: if_splits)

text \<open>The logger's level is never changed, and what was written stays.\<close>

lemma dumpMessage_appends:
  "\<exists>es. logOut (snd (dumpMessage lib obj args lg)) = logOut lg @ es \<and>
        logLevel (snd (dumpMessage lib obj args lg)) = logLevel lg"
  by (cases "(lib, obj, args)" rule: dumpMessage.cases) (simp_all add: dump_run)

lemma dump_appends:
  "\<exists>es. logOut (snd (dumpObjectJS lib lvl obj args lg)) = logOut lg @ es \<and>
        logLevel (snd (dumpObjectJS lib lvl obj args lg)) = logLevel lg"
  using dumpMessage_appends [of lib obj args lg]
  by (auto simp: dumpObjectJS_def dump_run split: sum.split option.split prod.split outcome.split)

text \<open>
  Below the level nothing is written and nothing can go wrong; at the level a value that can be
  marshalled and a message that is a string give the entry and the line.
\<close>

lemma debug_dump_disabled:
  "\<not> IsLevelEnabled DebugLevel lg \<Longrightarrow> DebugDumpObjectJS lib obj args lg = (Ok (), lg)"
  by (simp add: DebugDumpObjectJS_def)

lemma trace_dump_disabled:
  "\<not> IsLevelEnabled TraceLevel lg \<Longrightarrow> TraceDumpObjectJS lib obj args lg = (Ok (), lg)"
  by (simp add: TraceDumpObjectJS_def)

lemma trace_dump_enabled:
  assumes "IsLevelEnabled TraceLevel lg" "marshal lib x = Inr js"
  shows "TraceDumpObjectJS lib (Some x) [StringArg m] lg =
    (Ok (), lg\<lparr>logOut := logOut lg @ [Entry TraceLevel ''|/_  (cont below)'', Line (''>> '' @ m @ '' '' @ js)]\<rparr>)"
  using assms by (simp add: TraceDumpObjectJS_def dumpObjectJS_def dump_run)

text \<open>A dump panics exactly if it is enabled, the value can be marshalled, and the first of several
  arguments is not a string.\<close>

lemma dump_panics_iff:
  "(\<exists>p lg'. dumpObjectJS lib lvl obj args lg = (Panic p, lg')) \<longleftrightarrow>
     (\<forall>x e. obj = Some x \<longrightarrow> marshal lib x \<noteq> Inl e) \<and> (\<exists>t a as. args = OtherArg t # a # as)"
  by (cases "(lib, obj, args)" rule: dumpMessage.cases)
     (auto simp: dumpObjectJS_def dump_run split: sum.splits option.splits)

text \<open>The report of an invalid argument names the type \<open>string\<close>, whatever the argument is.\<close>

lemma invalid_argument_report:
  assumes "marshal lib x = Inr js" "IsLevelEnabled ErrorLevel lg"
  shows "dumpObjectJS lib lvl (Some x) [OtherArg t] lg =
    (Ok (), lg\<lparr>logOut := logOut lg @ [Entry ErrorLevel ''log(invalid argument type string)'']\<rparr>)"
  using assms by (simp add: dumpObjectJS_def dump_run)

end
