(* ===== verification/LogSetup.thy ===== *)
theory LogSetup
  imports LogUtil Talisman
begin

text \<open>
  How \<open>main\<close> of \<open>cmd/talisman/talisman.go\<close> sets up logging before it dispatches to an operation: the log
  file (\<open>setLogfile\<close>) and the level.  The state is what logging is about: the files, the two standard
  streams of the process, where \<open>os.Stdout\<close>, \<open>os.Stderr\<close> and the logger's output point to, and the level.
  Whether the operating system lets a file be opened is an argument.
\<close>

section \<open>Files and streams\<close>

datatype handle = Terminal1 | Terminal2 | LogFile string

record process =
  files :: "string \<rightharpoonup> logItem list"
  terminal1 :: "logItem list"
  terminal2 :: "logItem list"
  osStdout :: handle
  osStderr :: handle
  logTo :: handle
  atLevel :: level

definition startProcess :: "(string \<rightharpoonup> logItem list) \<Rightarrow> process" where
  "startProcess fs =
     \<lparr>files = fs, terminal1 = [], terminal2 = [], osStdout = Terminal1, osStderr = Terminal2,
      logTo = Terminal2, atLevel = InfoLevel\<rparr>"

text \<open>\<open>os.OpenFile\<close> with \<open>O_CREATE\<close>, \<open>O_APPEND\<close> and \<open>O_WRONLY\<close>: what a file holds stays.\<close>

definition OpenFile :: "(string \<Rightarrow> goerror option) \<Rightarrow> string \<Rightarrow> (process, handle) go" where
  "OpenFile refuses fname p =
     (case refuses fname of
        Some e \<Rightarrow> (Err e, p)
      | None \<Rightarrow>
          (Ok (LogFile fname),
           if files p fname = None then p\<lparr>files := (files p)(fname \<mapsto> [])\<rparr> else p))"

fun writeTo :: "handle \<Rightarrow> logItem \<Rightarrow> process \<Rightarrow> process" where
  "writeTo Terminal1 x p = p\<lparr>terminal1 := terminal1 p @ [x]\<rparr>"
| "writeTo Terminal2 x p = p\<lparr>terminal2 := terminal2 p @ [x]\<rparr>"
| "writeTo (LogFile f) x p =
     p\<lparr>files := (files p)(f \<mapsto> (case files p f of Some l \<Rightarrow> l | None \<Rightarrow> []) @ [x])\<rparr>"

definition Fprintln :: "handle \<Rightarrow> string \<Rightarrow> (process, unit) go" where
  "Fprintln h s p = (Ok (), writeTo h (Line s) p)"

text \<open>A call of the standard logger.\<close>

definition logrus :: "level \<Rightarrow> string \<Rightarrow> (process, unit) go" where
  "logrus l msg p = (Ok (), if rank l \<le> rank (atLevel p) then writeTo (logTo p) (Entry l msg) p else p)"

definition updateProcess :: "(process \<Rightarrow> process) \<Rightarrow> (process, unit) go" where
  "updateProcess f p = (Ok (), f p)"

section \<open>The set-up\<close>

definition logRuler :: string where
  "logRuler = ''------------------------------------------------------------------------------''"

definition setLogfile :: "(string \<Rightarrow> goerror option) \<Rightarrow> string \<Rightarrow> (process, unit) go" where
  "setLogfile refuses fname =
     bindE (OpenFile refuses fname) (\<lambda>f.
     bindE (logrus InfoLevel (''Redirecting all output to '' @ fname)) (\<lambda>_.
     bindE (Fprintln f logRuler) (\<lambda>_.
     bindE (updateProcess (\<lambda>p. p\<lparr>osStdout := f, osStderr := f\<rparr>)) (\<lambda>_.
     bindE (updateProcess (\<lambda>p. p\<lparr>logTo := f\<rparr>)) (\<lambda>_.
     logrus InfoLevel (''Started logging into '' @ fname))))))"

text \<open>
  The part of \<open>main\<close> between the check of \<open>-operation\<close> and the switch.  The error itself, a field of the
  warning, is left out of its text.
\<close>

definition setupLogging :: "(string \<Rightarrow> goerror option) \<Rightarrow> flagVars \<Rightarrow> (process, unit) go" where
  "setupLogging refuses fl =
     bindE (if logFile fl \<noteq> [] then
              bindE (tryE (setLogfile refuses (logFile fl))) (\<lambda>r. case r of
                 Inl err \<Rightarrow> logrus WarnLevel (''Error setting logging to '' @ logFile fl @ '' file'')
               | Inr _ \<Rightarrow> returnE ())
            else returnE ()) (\<lambda>_.
     if logLevelTrace fl then updateProcess (\<lambda>p. p\<lparr>atLevel := TraceLevel\<rparr>)
     else if logLevelDebug fl then updateProcess (\<lambda>p. p\<lparr>atLevel := DebugLevel\<rparr>)
     else returnE ())"

section \<open>What it does\<close>

lemmas process_run =
  bindE_def tryE_def returnE_def OpenFile_def Fprintln_def logrus_def updateProcess_def setLogfile_def

lemma writeTo_outputs [simp]:
  "osStdout (writeTo h x p) = osStdout p" "osStderr (writeTo h x p) = osStderr p"
  "logTo (writeTo h x p) = logTo p" "atLevel (writeTo h x p) = atLevel p"
  by (cases h; simp)+

text \<open>\<open>onto fs fs'\<close>: no file is lost, and what a file held is the beginning of what it holds.\<close>

definition onto :: "(string \<rightharpoonup> logItem list) \<Rightarrow> (string \<rightharpoonup> logItem list) \<Rightarrow> bool" where
  "onto fs fs' \<longleftrightarrow> (\<forall>f l. fs f = Some l \<longrightarrow> (\<exists>es. fs' f = Some (l @ es)))"

lemma onto_refl: "onto fs fs"
  by (simp add: onto_def)

lemma onto_trans: "onto fs fs1 \<Longrightarrow> onto fs1 fs2 \<Longrightarrow> onto fs fs2"
  unfolding onto_def by (metis append.assoc)

lemma onto_writeTo: "onto (files p) (files (writeTo h x p))"
  by (cases h) (auto simp: onto_def)

lemma onto_logrus: "onto (files p) (files (snd (logrus l msg p)))"
  by (simp add: logrus_def onto_writeTo onto_refl)

lemma onto_OpenFile: "onto (files p) (files (snd (OpenFile refuses fname p)))"
  by (auto simp: OpenFile_def onto_def split: option.split)

text \<open>A refused file changes nothing at all.\<close>

lemma setLogfile_refused: "refuses fname = Some e \<Longrightarrow> setLogfile refuses fname p = (Err e, p)"
  by (simp add: process_run)

text \<open>Otherwise all three outputs are the file, which begins with what it held.\<close>

lemma setLogfile_opened:
  assumes "refuses fname = None"
  shows "\<exists>p'. setLogfile refuses fname p = (Ok (), p') \<and> osStdout p' = LogFile fname \<and>
    osStderr p' = LogFile fname \<and> logTo p' = LogFile fname \<and> atLevel p' = atLevel p \<and> onto (files p) (files p')"
proof -
  let ?q = "snd (OpenFile refuses fname p)"
  let ?q1 = "snd (logrus InfoLevel (''Redirecting all output to '' @ fname) ?q)"
  let ?q2 = "(writeTo (LogFile fname) (Line logRuler) ?q1)\<lparr>osStdout := LogFile fname, osStderr := LogFile fname,
    logTo := LogFile fname\<rparr>"
  let ?q3 = "snd (logrus InfoLevel (''Started logging into '' @ fname) ?q2)"
  have run: "setLogfile refuses fname p = (Ok (), ?q3)" using assms by (simp add: process_run)
  have "onto (files ?q1) (files ?q2)" using onto_writeTo [of ?q1 "LogFile fname"] by simp
  then have "onto (files p) (files ?q3)"
    by (rule onto_trans [OF onto_trans [OF onto_OpenFile onto_logrus] onto_trans [OF _ onto_logrus]])
  moreover have "atLevel ?q = atLevel p" using assms by (simp add: OpenFile_def)
  ultimately show ?thesis using run by (simp add: logrus_def)
qed

text \<open>The set-up of the log file cannot fail: at most it leaves a warning where the log was before.\<close>

lemma setupLogging_run:
  "\<exists>p'. setupLogging refuses fl p = (Ok (), p') \<and> onto (files p) (files p') \<and>
    logTo p' = (if logFile fl \<noteq> [] \<and> refuses (logFile fl) = None then LogFile (logFile fl) else logTo p) \<and>
    atLevel p' = (if logLevelTrace fl then TraceLevel else if logLevelDebug fl then DebugLevel else atLevel p)"
proof (cases "refuses (logFile fl)")
  case None
  obtain p' where "setLogfile refuses (logFile fl) p = (Ok (), p')" "logTo p' = LogFile (logFile fl)"
    "atLevel p' = atLevel p" "onto (files p) (files p')"
    using setLogfile_opened [of refuses "logFile fl" p, OF None] by blast
  with None show ?thesis
    by (auto simp: setupLogging_def bindE_def tryE_def returnE_def updateProcess_def onto_refl)
next
  case (Some e)
  then show ?thesis
    using onto_logrus [of p WarnLevel "''Error setting logging to '' @ logFile fl @ '' file''"]
    by (auto simp: setupLogging_def setLogfile_refused bindE_def tryE_def returnE_def updateProcess_def
        onto_refl logrus_def)
qed

text \<open>
  In a process that starts at the info level, the debug level is enabled afterwards exactly if \<open>-debug\<close> or
  \<open>-trace\<close> was given: this is the \<open>debugLevel\<close> with which \<open>dispatch\<close> runs the operations.
\<close>

lemma setupLogging_debug:
  "\<exists>p'. setupLogging refuses fl (startProcess fs) = (Ok (), p') \<and>
    (rank DebugLevel \<le> rank (atLevel p') \<longleftrightarrow> logLevelTrace fl \<or> logLevelDebug fl)"
  using setupLogging_run [of refuses fl "startProcess fs"] by (auto simp: startProcess_def split: if_splits)

end
