(* ===== verification/Spec2Isabelle.thy ===== *)
theory Spec2Isabelle
  imports UpgradeMain RetryProps Crd FakeProps InformerProps InformerAccess ClientsetProps
    FakeClientset DeepCopyProps TrackerHeap LogSetup
begin

text \<open>
  \<^bold>\<open>Talisman: upgrading and removing a Portworx installation.\<close>

  The program is a command-line tool.  It finds the Portworx daemon sets of a Kubernetes cluster and
  either upgrades them (after checks, with an optional scale-down of the applications on shared
  volumes, which are restored at the end), or restores applications an earlier run left scaled down, or
  removes the installation, on request with its data.  Apart from two variables it has no state of its
  own: everything it does is a sequence of requests to the Kubernetes API server, to the Portworx REST
  service and to a key-value store.

  \<^bold>\<open>How it is modelled.\<close>  A piece of Go code is a function from a world to an outcome and a world
  (\<open>Prelude\<close>: \<open>go\<close>, with the combinators \<open>bindE\<close>, \<open>tryE\<close>, \<open>deferE\<close>, \<open>forE\<close>, \<open>collectE\<close>, \<open>anyE\<close>).  An outcome
  is a value, an error, a panic, or a crash, which is a panic in a goroutine of the retry loop: it ends
  the process without running deferred calls.  A world (\<open>World\<close>) holds the state of the services, the
  clock, the log of all requests, and the two variables.  The services are a parameter \<open>env\<close>: a function
  that answers requests.  Statements are of two sorts.  Those over an arbitrary \<open>env\<close> hold whatever the
  services answer, including errors and other clients' changes; they say which requests are sent and in
  which order (\<open>issues\<close>, \<open>trace\<close>, \<open>performs\<close>).  Those over a store hold for an API server that keeps what it is
  given: its laws are the locale \<open>object_server\<close>, and the client-go object tracker satisfies them
  (\<open>Tracker\<close>), and so does a tracker with a controller that observes every update of a daemon set:
  the status of a daemon set belongs to the controller, so the laws leave it open.

  \<^bold>\<open>The theories and the code.\<close>

  \<^item> \<open>Prelude\<close>, \<open>GoStrings\<close>, \<open>GoFlags\<close>: Go itself.  Outcomes and combinators; the functions of \<open>strings\<close>,
    \<open>strconv\<close>, \<open>regexp\<close>, \<open>encoding/csv\<close> and \<open>flag\<close> the code uses, over byte strings.  The termination of the
    CSV reader is proved, and round trips of printed numbers, split strings and CSV lists.
  \<^item> \<open>KubeTypes\<close>, \<open>ApiTypes\<close>: the Kubernetes objects with the fields the program reads or writes, and the
    custom resources of \<open>pkg/apis/portworx\<close>.  A 32-bit or 64-bit integer is a word.
  \<^item> \<open>GoMemory\<close>: Go's memory, for code about aliasing: a heap with an allocation limit, nullable addresses,
    slices as windows of arrays; how a value is read through its references and which addresses that
    takes (\<open>gotype\<close>, the locale \<open>readable\<close>); the contract of a deep copy (the locale \<open>deep_copier\<close>) and the
    rules that pointers, slices and structs (the locale \<open>go_struct\<close>) copied in the generated way meet it.
  \<^item> \<open>MemTypes\<close>, \<open>KubeCopies\<close>, \<open>DeepCopy\<close>: the custom resources and the Kubernetes structs inside them as they
    lie in memory, the deep copies of the latter (vendored), and \<open>zz_generated.deepcopy.go\<close> of both
    versions; \<open>DeepCopyProps\<close> interprets the contract on them.  \<open>TrackerHeap\<close>: the object tracker with the
    pointers it works with, and the deep copies; what it relies on of a resource type is the locale
    \<open>tracked\<close>.
  \<^item> \<open>World\<close>: requests, replies, the environment, the request log, and the rules for \<open>issues\<close>.
  \<^item> \<open>Retry\<close>: \<open>task.DoRetryWithTimeout\<close> of the vendored sched-ops.  The loop terminates because the clock
    moves on between two attempts; the contract between the loop and a task is the locale \<open>retry_task\<close>.
  \<^item> \<open>SchedOps\<close>: the operations of sched-ops that do more than pass a request on, up to \<open>ValidateDaemonSet\<close>.
  \<^item> \<open>LogUtil\<close>: \<open>pkg/k8sutils/logutil.go\<close>, on a logger of its own.  \<open>LogSetup\<close>: the log file and the level, on the
    files and streams of the process.
  \<^item> \<open>K8sUtils\<close>: \<open>pkg/k8sutils/k8sutils.go\<close>.  \<open>Server\<close> and \<open>AppScaling\<close> hold the laws of a store and what the
    scale-down and the restore do to it.
  \<^item> \<open>PxConfig\<close>, \<open>PxUpgrade\<close>, \<open>PxDelete\<close>: \<open>pkg/cluster/px/px.go\<close>, in this order the provider and the
    configuration read from a daemon set with the key-value store's client; \<open>Upgrade\<close>; \<open>Delete\<close> with the
    node wiper.  \<open>DeleteStore\<close>, \<open>ProviderStore\<close> and \<open>UpgradeStore\<close> say what they do to a store, the last with
    rules in the style of Hoare for what holds of the store after each step, errors included.
  \<^item> \<open>Crd\<close>: \<open>pkg/crd/crd.go\<close> with \<open>wait.Poll\<close>; the contract of a polled condition is the locale
    \<open>poll_condition\<close>.
  \<^item> \<open>Talisman\<close>: \<open>cmd/talisman/talisman.go\<close>: flags, the three operations, the exit status.
    \<open>UpgradeMain\<close>: the upgrade from the command line to the store.
  \<^item> \<open>RestClient\<close>: the request builder of the vendored \<open>client-go/rest\<close>: paths, refused names, the preflight
    check; what happens after a request is sent is a parameter, the transport.
  \<^item> \<open>Clients\<close>, \<open>FakeClients\<close>: \<open>pkg/client/clientset/versioned\<close>, the generated typed clients as chains of
    builder calls, and their fakes on the tracker of \<open>client-go/testing\<close> with its watchers.  The contract
    of a typed client is the locale \<open>typed_client\<close> in \<open>ClientProps\<close>.  \<open>Clientsets\<close>: the constructors and
    accessors of \<open>clientset.go\<close> and \<open>portworx_client.go\<close> with the rate limiters, which are the state there;
    \<open>ClientsetProps\<close> shows that, limiters aside, they are those of \<open>Clients\<close>.  \<open>FakeClientset\<close>: the accessors of
    the fake, which all lead to its one \<open>testing.Fake\<close>.
  \<^item> \<open>Informers\<close>: \<open>pkg/client/informers/externalversions\<close> and \<open>pkg/client/listers\<close>, the shared informer
    factory as a state changed under its lock, and the listers on an indexer.  In \<open>InformerProps\<close> the
    locale \<open>informer_source\<close> is what the factory relies on of a function that makes informers.
    \<open>InformerAccess\<close>: the accessors from the factory to informers and listers, and that they all lead to
    the shared informer of \<open>Informers\<close>.
  \<^item> \<open>ScalingProps\<close>, \<open>ConfigProps\<close>, \<open>UpgradeProps\<close>, \<open>RolloutProps\<close>, \<open>DeleteProps\<close>, \<open>RetryProps\<close>,
    \<open>ClientProps\<close>, \<open>ClientsetProps\<close>, \<open>FakeProps\<close>, \<open>InformerProps\<close>, \<open>DeepCopyProps\<close>, and the ends of \<open>Crd\<close> and
    \<open>Talisman\<close>: the properties of one component each; this theory: those that span components.

  \<^bold>\<open>What is shown.\<close>

  \<^item> Scaling (C1, C2, C5, C6): scaling down and restoring gives back every object as it was; what is
    written in between; what a second scale-down does; and the crash on nil annotations.
  \<^item> Configuration (C7 to C9, C11): arguments and endpoints are read back; when the argument loop panics;
    what the rewriting of endpoints keeps; what a wipe of the key-value store may touch.
  \<^item> Upgrade (C12 to C21): nothing changes before all checks have passed; what is written at all; the
    restore is the last thing that happens, unless the process crashes; no daemon set is touched before
    the volumes are detached; what the update of a daemon set changes; the one-node timeout; service
    ports; and the same end to end on a store (C19): nothing but the upgrade's objects has changed, the
    applications are as they were, also after an error, and after success the new image is in place.
  \<^item> Removal (C23 to C26, C28, C37): the deletions in order, as a prefix of a plan; that exactly the objects of the
    installation disappear; that nothing is wiped unless asked for, nor after an error; that the node
    wiper removes itself; and the same end to end from the command line.
  \<^item> Custom resource definitions (C29), the command line (C32, C34, C35), timeouts in 64-bit arithmetic
    (C40); the bound on the attempts of the retry loop and the language of the version parser are lemmas
    of \<open>RetryProps\<close>, and that setting up the log never fails or loses a line is one of \<open>LogSetup\<close>.
  \<^item> Deep copies (C27, C31, C38): a copy reads as the original and shares no memory with it, except that a
    list shares its remaining item count; dynamic types are kept and nil stays nil.
    Thanks to the copies the fakes' tracker stands for a map of values, whatever its client writes (C33).
  \<^item> Generated clients (C4, C10, C22, C30, C39): which clients share a rate limiter; a call is refused or sends one request that means it, so a
    call for one object never reaches a collection; the fakes record the same actions; they refine a map
    from keys to objects; a list of clusters is what is stored.  Lemmas of \<open>FakeClientset\<close> show what is found
    through which client.
  \<^item> Informers and listers (C3, C36): no informer runs twice, one informer per type is shared, and the
    lister finds what the indexer holds, with or without the namespace index.

  \<^bold>\<open>Bounds.\<close>  There is no fuel.  The retry loop is total; polling with timeout zero may wait forever, so it
  is a partial function whose result is an option, and C29 shows that it returns otherwise.  Durations
  are integers; where the code multiplies them in 64 bits (\<open>readyTimeout\<close>) the model does so too.

  \<^bold>\<open>Not modelled.\<close>  The log calls in the components; error texts are shortened where they
  print whole objects.  Outside \<open>GoMemory\<close> and the theories on it, values have no sharing.  In the heap the
  zero value of a fresh cell is not represented, as it is always overwritten before it is read, and a
  \<open>DeepCopyInto\<close> onto its own receiver, which the code never does, is left out.  What discovery does with
  its client, the timeouts of HTTP clients, and headers other than the content type.  The libraries behind the requests
  (client-go, kvdb, openstorage), which are the parameter \<open>env\<close>.  The failure of a client's lazy
  initialisation inside sched-ops.  The delay between the end of a retried task and its caller.  The
  shell scripts and images.
\<close>

section \<open>No data is wiped without the flag\<close>

fun keepsData :: "request \<Rightarrow> bool" where
  "keepsData (ReqKvdbDeleteTree t) = False"
| "keepsData (ReqCreate ob) = (keyOf ob \<noteq> wiperKey)"
| "keepsData q = True"

lemma keepsData_read: "isRead q \<Longrightarrow> keepsData q"
  by (cases q) simp_all

lemma keepsData_delete: "deleteRequest False q \<Longrightarrow> keepsData q"
  by (cases q) simp_all

lemma keepsData_app: "appRequest q \<Longrightarrow> keepsData q"
  by (cases q) simp_all

lemma keepsData_upgrade: "upgradeRequest img nss q \<Longrightarrow> keepsData q"
  by (cases q rule: keepsData.cases; (erule upgradeRequest.elims)?)
     (auto simp: keyOf_def wiperKey_def apiDaemonSet_def metaNamed_def go_consts)

lemma keepsData_Upgrade: "issues keepsData (Upgrade env ops newSpec opts)"
  unfolding Upgrade_def
  by (intro issues_intro issues_mono [OF issues_upgradeSteps] issues_mono [OF issues_upgradeChecks])
     (auto intro: keepsData_read keepsData_app keepsData_upgrade)

lemma keepsData_Delete: "\<not> wantsWipe opts \<Longrightarrow> issues keepsData (Delete env ops opts)"
  unfolding Delete_with
  by (intro issues_bindE issues_mono [OF issues_deleteWith] issues_mono [OF issues_config_read])
     (auto intro: keepsData_read keepsData_delete)

lemma keepsData_dispatch: "\<not> wipeCluster fl \<Longrightarrow> issues keepsData (dispatch env fl)"
  unfolding dispatch_def doUpgrade_def doRestoreSharedApps_def doDelete_def Fatalf_def Let_def New_def
  by (intro issues_intro keepsData_Upgrade keepsData_Delete issues_mono [OF issues_NewPXClusterProvider]
        issues_mono [OF issues_RestoreScaledAppsReplicas])
     (auto simp: wantsWipe_def intro: keepsData_read keepsData_app)

text \<open>
  C35.  Without \<open>-wipecluster\<close> no run of the program wipes data: whatever the other flags and whatever the
  services answer, it neither creates the node wiper's daemon set nor removes a tree of a key-value
  store.
\<close>

theorem no_wipe_without_flag:
  assumes "parseFlags (map_of flagTable) args defaultFlags = Parsed fl" and "\<not> wipeCluster fl"
    and "talismanMain env args w = (status, w')"
  shows "\<exists>l. reqs w' = reqs w @ l \<and> list_all keepsData l"
proof -
  have "w' = snd (dispatch env fl w)" using assms(1,3) by (auto simp: talismanMain_def split: prod.splits)
  with keepsData_dispatch [OF assms(2), of env] show ?thesis unfolding issuesOn_def by blast
qed

theorem no_wipe_without_flag_witness:
  "\<exists>l w'. snd (talismanMain exEnv [''-operation=delete''] exStart) = w' \<and> reqs w' = reqs exStart @ l \<and>
     list_all keepsData l"
proof -
  let ?fl = "defaultFlags\<lparr>operation := ''delete''\<rparr>"
  have parse: "parseFlags (map_of flagTable) [''-operation=delete''] defaultFlags = Parsed ?fl"
    by (simp add: flagText_def badName_def splitValue_def flagTable_def)
  obtain status w' where "talismanMain exEnv [''-operation=delete''] exStart = (status, w')"
    by (metis surj_pair)
  with no_wipe_without_flag [OF parse _ this] show ?thesis by (auto simp: defaultFlags_def)
qed

section \<open>The provider and the removal, end to end\<close>

text \<open>
  The provider finds the installation: on an API server that stores what it is given (the
  client-go tracker), once the client is set up, \<open>NewPXClusterProvider\<close> changes nothing and returns
  exactly the namespaces that have a Portworx daemon set, each once, or the error that there is none.
\<close>

lemma provider_namespaces:
  assumes "trackerGood (srv w)" and "New (trackerEnv other) kubeconfig w = (Ok (), w0)"
    and "lookupOb (srv w) (NamespaceKind, [], []) = None"
  shows "\<exists>r w'. NewPXClusterProvider (trackerEnv other) secret kubeconfig w = (r, w') \<and>
    lookupOb (srv w') = lookupOb (srv w) \<and>
    (if pxNamespaces (lookupOb (srv w)) = {} then r = Err ErrNoPXDaemonset
     else \<exists>inst. r = Ok inst \<and> distinct (installedNamespaces inst) \<and>
       set (installedNamespaces inst) = pxNamespaces (lookupOb (srv w)))"
  using tracker.provider_run [of w other kubeconfig w0 secret] assms
  by (fastforce simp: tracker.sound_def tracker.view_def split: if_splits)

lemma provider_namespaces_witness:
  "\<exists>r w'. NewPXClusterProvider (trackerEnv exServices) [] [] exStart = (r, w') \<and>
     lookupOb (srv w') = lookupOb (srv exStart)"
proof -
  have "trackerGood (srv exStart)" by code_simp
  moreover have "okAnd (\<lambda>_ _. True) (New (trackerEnv exServices) [] exStart)" by code_simp
  then obtain w0 where "New (trackerEnv exServices) [] exStart = (Ok (), w0)" by (auto simp: okAnd_iff)
  moreover have "lookupOb (srv exStart) (NamespaceKind, [], []) = None" by code_simp
  ultimately show ?thesis using provider_namespaces [of exStart exServices "[]" w0 "[]"] by blast
qed



end
